(* ===== verification/Prelude.thy ===== *)
theory Prelude
  imports Main "HOL-Library.Char_ord" "HOL-Library.List_Lexorder" "HOL-Library.Sublist"
begin

text \<open>
  The part of the Go language and of its standard library that the operator uses: strings as
  byte sequences with the functions of package strings, decimal conversion of package strconv,
  signed 32-bit arithmetic, and the generic lemmas on lists that several components share.
  A Go string is a list of bytes, so \<^typ>\<open>string\<close> (a list of 8-bit characters) has the same
  length and the same byte-wise order as in the program.
\<close>

named_theorems go_string \<open>equations of the string library\<close>
named_theorems vdb_simps \<open>facts about the accessors of a VerticaDB\<close>

type_synonym label_map = "string \<rightharpoonup> string"

section \<open>Package strings\<close>

definition strings_HasPrefix :: "string \<Rightarrow> string \<Rightarrow> bool" where
  "strings_HasPrefix s p \<longleftrightarrow> take (length p) s = p"

definition strings_HasSuffix :: "string \<Rightarrow> string \<Rightarrow> bool" where
  "strings_HasSuffix s p \<longleftrightarrow> strings_HasPrefix (rev s) (rev p)"

fun strings_Contains :: "string \<Rightarrow> string \<Rightarrow> bool" where
  "strings_Contains [] p \<longleftrightarrow> p = []"
| "strings_Contains (c # s) p \<longleftrightarrow> strings_HasPrefix (c # s) p \<or> strings_Contains s p"

text \<open>\<open>strings.Split\<close> with a separator of one byte: always at least one part.\<close>

fun strings_Split :: "string \<Rightarrow> char \<Rightarrow> string list" where
  "strings_Split [] sep = [[]]"
| "strings_Split (c # s) sep =
     (if c = sep then [] # strings_Split s sep
      else (case strings_Split s sep of
              [] \<Rightarrow> [[c]]
            | part # parts \<Rightarrow> (c # part) # parts))"

fun strings_Join :: "string list \<Rightarrow> string \<Rightarrow> string" where
  "strings_Join [] sep = []"
| "strings_Join [x] sep = x"
| "strings_Join (x # y # xs) sep = x @ sep @ strings_Join (y # xs) sep"

definition strings_Trim :: "string \<Rightarrow> char \<Rightarrow> string" where
  "strings_Trim s c = rev (dropWhile (\<lambda>x. x = c) (rev (dropWhile (\<lambda>x. x = c) s)))"

definition strings_TrimSuffix :: "string \<Rightarrow> string \<Rightarrow> string" where
  "strings_TrimSuffix s p =
     (if strings_HasSuffix s p then take (length s - length p) s else s)"

definition char_ToLower :: "char \<Rightarrow> char" where
  "char_ToLower c =
     (if 65 \<le> (of_char c :: nat) \<and> (of_char c :: nat) \<le> 90
      then char_of ((of_char c :: nat) + 32) else c)"

definition strings_ToLower :: "string \<Rightarrow> string" where
  "strings_ToLower = map char_ToLower"

definition newline :: char where
  "newline = CHR 0x0A"

definition isDigit :: "char \<Rightarrow> bool" where
  "isDigit c \<longleftrightarrow> 48 \<le> (of_char c :: nat) \<and> (of_char c :: nat) \<le> 57"

section \<open>Package strconv\<close>

definition digitChar :: "nat \<Rightarrow> char" where
  "digitChar d = char_of (48 + d)"

definition digitVal :: "char \<Rightarrow> nat" where
  "digitVal c = of_char c - 48"

fun natToString :: "nat \<Rightarrow> string" where
  "natToString n =
     (if n < 10 then [digitChar n] else natToString (n div 10) @ [digitChar (n mod 10)])"

declare natToString.simps [simp del]

definition strconv_Itoa :: "int \<Rightarrow> string" where
  "strconv_Itoa i = (if i < 0 then ''-'' @ natToString (nat (- i)) else natToString (nat i))"

definition digitsToNat :: "string \<Rightarrow> nat" where
  "digitsToNat ds = foldl (\<lambda>acc c. 10 * acc + digitVal c) 0 ds"

definition maxInt64 :: int where
  "maxInt64 = 2 ^ 63 - 1"

definition minInt64 :: int where
  "minInt64 = - (2 ^ 63)"

text \<open>
  \<open>strconv.Atoi\<close>: an optional sign, then decimal digits only, and the value has to fit an
  \<open>int\<close>, which is 64 bits wide on the platforms the operator is built for. \<^const>\<open>None\<close> is
  the error.
\<close>

definition strconv_Atoi :: "string \<Rightarrow> int option" where
  "strconv_Atoi s =
     (let (neg, ds) = (case s of
             [] \<Rightarrow> (False, [])
           | c # r \<Rightarrow> if c = CHR ''-'' then (True, r)
                      else if c = CHR ''+'' then (False, r) else (False, c # r))
      in if ds = [] \<or> \<not> list_all isDigit ds then None
         else let v = (if neg then - int (digitsToNat ds) else int (digitsToNat ds))
              in if minInt64 \<le> v \<and> v \<le> maxInt64 then Some v else None)"

definition strconv_FormatBool :: "bool \<Rightarrow> string" where
  "strconv_FormatBool b = (if b then ''true'' else ''false'')"

definition strconv_ParseBool :: "string \<Rightarrow> bool option" where
  "strconv_ParseBool s =
     (if s \<in> {''1'', ''t'', ''T'', ''TRUE'', ''true'', ''True''} then Some True
      else if s \<in> {''0'', ''f'', ''F'', ''FALSE'', ''false'', ''False''} then Some False
      else None)"

section \<open>Signed 32-bit integers\<close>

text \<open>The value of an \<open>int32\<close> after an arithmetic operation: two's complement wrap-around.\<close>

definition wrap32 :: "int \<Rightarrow> int" where
  "wrap32 x = (x + 2 ^ 31) mod 2 ^ 32 - 2 ^ 31"

definition int32 :: "int \<Rightarrow> bool" where
  "int32 x \<longleftrightarrow> - (2 ^ 31) \<le> x \<and> x < 2 ^ 31"

text \<open>The indices \<open>lo, lo + 1, \<dots>, hi - 1\<close> of a counting loop.\<close>

definition indices :: "int \<Rightarrow> int \<Rightarrow> int list" where
  "indices lo hi = map (\<lambda>k. lo + int k) [0..<nat (hi - lo)]"

section \<open>Lemmas on the string library\<close>

lemma HasPrefix_iff_prefix: "strings_HasPrefix s p \<longleftrightarrow> prefix p s"
  unfolding strings_HasPrefix_def
  by (metis append_take_drop_id append_eq_conv_conj prefix_def)

lemma HasPrefix_append [simp]: "strings_HasPrefix (p @ s) p"
  by (simp add: HasPrefix_iff_prefix)

lemma HasSuffix_append [simp]: "strings_HasSuffix (s @ p) p"
  by (simp add: strings_HasSuffix_def)

lemma Contains_iff_sublist: "strings_Contains s p \<longleftrightarrow> sublist p s"
  by (induction s) (auto simp: HasPrefix_iff_prefix sublist_Cons_right)

lemma TrimSuffix_append [simp]: "strings_TrimSuffix (s @ p) p = s"
  by (simp add: strings_TrimSuffix_def)

lemma TrimSuffix_append_single [simp]: "strings_TrimSuffix (s @ [c]) [c] = s"
  by (rule TrimSuffix_append)

lemma Split_nonempty [simp]: "strings_Split s sep \<noteq> []"
  by (induction s) (auto split: list.splits)

lemma Split_no_sep: "sep \<notin> set s \<Longrightarrow> strings_Split s sep = [s]"
  by (induction s) auto

lemma Split_append_sep:
  "sep \<notin> set s \<Longrightarrow> strings_Split (s @ sep # t) sep = s # strings_Split t sep"
  by (induction s) (auto split: list.splits)

lemma Split_parts_no_sep: "part \<in> set (strings_Split s sep) \<Longrightarrow> sep \<notin> set part"
  by (induction s arbitrary: part) (auto split: list.splits if_splits)

text \<open>Splitting on a byte undoes joining with it, when no part holds the byte.\<close>

lemma Split_Join:
  "xs \<noteq> [] \<Longrightarrow> \<forall>x \<in> set xs. sep \<notin> set x \<Longrightarrow> strings_Split (strings_Join xs [sep]) sep = xs"
proof (induction xs rule: induct_list012)
  case (3 x y zs)
  then show ?case by (simp add: Split_append_sep)
qed (auto simp: Split_no_sep)

lemma dropWhile_no_char: "c \<notin> set s \<Longrightarrow> dropWhile (\<lambda>x. x = c) s = s"
  by (cases s) auto

lemma Trim_no_char: "c \<notin> set s \<Longrightarrow> strings_Trim s c = s"
  by (simp add: strings_Trim_def dropWhile_no_char)

section \<open>Lemmas on decimal conversion\<close>

lemma of_char_digitChar: "d < 10 \<Longrightarrow> (of_char (digitChar d) :: nat) = 48 + d"
  by (simp add: digitChar_def)

lemma digitVal_digitChar [simp]: "d < 10 \<Longrightarrow> digitVal (digitChar d) = d"
  by (simp add: digitVal_def of_char_digitChar)

lemma isDigit_digitChar [simp]: "d < 10 \<Longrightarrow> isDigit (digitChar d)"
  by (simp add: isDigit_def of_char_digitChar)

lemma natToString_nonempty [simp]: "natToString n \<noteq> []"
  by (subst natToString.simps) simp

lemma natToString_digits: "list_all isDigit (natToString n)"
proof (induction n rule: natToString.induct)
  case (1 n)
  then show ?case by (subst natToString.simps) auto
qed

lemma natToString_isDigit: "c \<in> set (natToString n) \<Longrightarrow> isDigit c"
  using natToString_digits by (auto simp: list_all_iff)

lemma digitsToNat_snoc [simp]: "digitsToNat (ds @ [c]) = 10 * digitsToNat ds + digitVal c"
  by (simp add: digitsToNat_def)

lemma digitsToNat_natToString [simp]: "digitsToNat (natToString n) = n"
proof (induction n rule: natToString.induct)
  case (1 n)
  show ?case
  proof (cases "n < 10")
    case True
    then show ?thesis by (subst natToString.simps) (simp add: digitsToNat_def)
  next
    case False
    then have "digitsToNat (natToString n) = 10 * digitsToNat (natToString (n div 10)) + n mod 10"
      by (subst natToString.simps) simp
    with "1" False show ?thesis by simp
  qed
qed

lemma natToString_inj: "natToString m = natToString n \<Longrightarrow> m = n"
  by (metis digitsToNat_natToString)

lemma hd_natToString_digit: "natToString n = c # r \<Longrightarrow> isDigit c"
  by (rule natToString_isDigit [of c n]) simp

lemma not_isDigit_sign [simp]: "\<not> isDigit CHR ''-''" "\<not> isDigit CHR ''+''"
  by (simp_all add: isDigit_def)

text \<open>\<open>Atoi\<close> reads back what \<open>Itoa\<close> prints, over the whole range of an \<open>int\<close>.\<close>

lemma Atoi_Itoa:
  assumes "minInt64 \<le> i" and "i \<le> maxInt64"
  shows "strconv_Atoi (strconv_Itoa i) = Some i"
proof (cases "i < 0")
  case True
  then show ?thesis
    using assms natToString_digits by (simp add: strconv_Atoi_def strconv_Itoa_def)
next
  case False
  obtain c r where cr: "natToString (nat i) = c # r"
    by (cases "natToString (nat i)") auto
  then have c: "isDigit c" by (rule hd_natToString_digit)
  then have "c \<noteq> CHR ''-''" and "c \<noteq> CHR ''+''"
    by (auto simp del: not_isDigit_sign simp: isDigit_def)
  with False assms cr natToString_digits [of "nat i"] digitsToNat_natToString [of "nat i"]
  show ?thesis
    by (simp add: strconv_Atoi_def strconv_Itoa_def)
qed

lemma ParseBool_FormatBool [simp]: "strconv_ParseBool (strconv_FormatBool b) = Some b"
  by (simp add: strconv_ParseBool_def strconv_FormatBool_def)

section \<open>Lemmas on 32-bit integers and counting loops\<close>

lemma wrap32_id [simp]: "int32 x \<Longrightarrow> wrap32 x = x"
  by (simp add: wrap32_def int32_def)

lemma int32_wrap32 [simp]: "int32 (wrap32 x)"
proof -
  have "0 \<le> (x + 2 ^ 31) mod 2 ^ 32" and "(x + 2 ^ 31) mod 2 ^ 32 < (2 ^ 32 :: int)"
    by (rule pos_mod_sign, simp, rule pos_mod_bound, simp)
  then show ?thesis by (simp add: wrap32_def int32_def)
qed

lemma wrap32_add: "wrap32 (wrap32 x + y) = wrap32 (x + y)"
proof -
  have "((x + 2 ^ 31) mod 2 ^ 32 - 2 ^ 31 + y + 2 ^ 31) mod 2 ^ 32 = (x + y + 2 ^ 31) mod (2 ^ 32 :: int)"
    by (simp add: mod_simps algebra_simps)
  then show ?thesis by (simp add: wrap32_def)
qed

lemma set_indices [simp]: "i \<in> set (indices lo hi) \<longleftrightarrow> lo \<le> i \<and> i < hi"
proof
  assume "lo \<le> i \<and> i < hi"
  then have "i = lo + int (nat (i - lo))" and "nat (i - lo) < nat (hi - lo)" by auto
  then show "i \<in> set (indices lo hi)"
    unfolding indices_def by (metis atLeast0LessThan atLeastLessThan_upt image_eqI lessThan_iff list.set_map)
qed (auto simp: indices_def)

lemma length_indices [simp]: "length (indices lo hi) = nat (hi - lo)"
  by (simp add: indices_def)

lemma distinct_indices [simp]: "distinct (indices lo hi)"
  by (simp add: indices_def distinct_map inj_on_def)

lemma indices_empty [simp]: "hi \<le> lo \<Longrightarrow> indices lo hi = []"
  by (simp add: indices_def)

lemma indices_Cons: "lo < hi \<Longrightarrow> indices lo hi = lo # indices (lo + 1) hi"
proof -
  assume "lo < hi"
  then have "nat (hi - lo) = Suc (nat (hi - (lo + 1)))" by simp
  then show ?thesis
    by (simp add: indices_def upt_conv_Cons map_Suc_upt [symmetric] del: upt_Suc)
qed

lemma indices_snoc: "lo \<le> hi \<Longrightarrow> indices lo (hi + 1) = indices lo hi @ [hi]"
proof -
  assume "lo \<le> hi"
  then have "nat (hi + 1 - lo) = Suc (nat (hi - lo))" by simp
  with \<open>lo \<le> hi\<close> show ?thesis by (simp add: indices_def)
qed

section \<open>Lemmas on lists\<close>

lemma filter_mono_length: "(\<And>x. P x \<Longrightarrow> Q x) \<Longrightarrow> length (filter P xs) \<le> length (filter Q xs)"
  by (induction xs) auto

lemma find_Some_iff_filter: "List.find P xs = Some x \<Longrightarrow> x \<in> set xs \<and> P x"
  by (induction xs) (auto split: if_splits)

lemma find_None_iff': "List.find P xs = None \<longleftrightarrow> (\<forall>x \<in> set xs. \<not> P x)"
  by (induction xs) auto

lemma find_exists:
  assumes "x \<in> set xs" "P x"
  obtains y where "List.find P xs = Some y" "y \<in> set xs" "P y"
proof (cases "List.find P xs")
  case None
  with assms show thesis by (simp add: find_None_iff')
next
  case (Some y)
  from that [OF Some] find_Some_iff_filter [OF Some] show thesis by simp
qed

lemma digit_chars:
  "char_of (48 :: nat) = CHR ''0''" "char_of (49 :: nat) = CHR ''1''" "char_of (50 :: nat) = CHR ''2''"
  "char_of (51 :: nat) = CHR ''3''" "char_of (52 :: nat) = CHR ''4''"
  using char_of_char [of "CHR ''0''", where 'a = nat] char_of_char [of "CHR ''1''", where 'a = nat]
    char_of_char [of "CHR ''2''", where 'a = nat] char_of_char [of "CHR ''3''", where 'a = nat]
    char_of_char [of "CHR ''4''", where 'a = nat] by simp_all

end
