(* ===== verification/Regex.thy ===== *)
theory Regex
  imports Prelude
begin

text \<open>
  The subset of package regexp that the operator's expressions use: literal text, a byte class
  repeated within bounds, capture groups, optional parts, alternatives and the anchors. Matching follows the
  leftmost-first rule of Go: every way to match at a position is listed in order of priority
  (a greedy repetition tries its longest extent first) and the first one at the leftmost position
  is the match.
\<close>

datatype re =
    Lit string
  | Rep "char \<Rightarrow> bool" nat "nat option"
  | Cap re
  | Seq re re
  | Opt re
  | Alt re re
  | Eot

text \<open>A way to match: the text matched, the texts of the capture groups, the rest of the input.\<close>

type_synonym re_match = "string \<times> string list \<times> string"

fun re_matches :: "re \<Rightarrow> string \<Rightarrow> re_match list" where
  "re_matches (Lit l) s = (if strings_HasPrefix s l then [(l, [], drop (length l) s)] else [])"
| "re_matches (Rep p lo hi) s =
     (let n = length (takeWhile p s);
          m = (case hi of None \<Rightarrow> n | Some h \<Rightarrow> min h n)
      in map (\<lambda>k. (take k s, [], drop k s)) (rev [lo..<Suc m]))"
| "re_matches (Cap r) s = map (\<lambda>(t, cs, rest). (t, t # cs, rest)) (re_matches r s)"
| "re_matches (Seq r q) s =
     concat (map (\<lambda>(t, cs, rest).
        map (\<lambda>(t', cs', rest'). (t @ t', cs @ cs', rest')) (re_matches q rest)) (re_matches r s))"
| "re_matches (Opt r) s = re_matches r s @ [([], [], s)]"
| "re_matches (Alt r q) s = re_matches r s @ re_matches q s"
| "re_matches Eot s = (if s = [] then [([], [], [])] else [])"

definition re_matchAt :: "re \<Rightarrow> string \<Rightarrow> (string \<times> string list) option" where
  "re_matchAt r s = (case re_matches r s of [] \<Rightarrow> None | (t, cs, _) # _ \<Rightarrow> Some (t, cs))"

text \<open>The leftmost match, for an expression that is not anchored at the start.\<close>

fun re_find :: "re \<Rightarrow> string \<Rightarrow> (string \<times> string list) option" where
  "re_find r [] = re_matchAt r []"
| "re_find r (c # s) = (case re_matchAt r (c # s) of Some m \<Rightarrow> Some m | None \<Rightarrow> re_find r s)"

definition re_seq :: "re list \<Rightarrow> re" where
  "re_seq rs = foldr Seq rs (Lit [])"

section \<open>Byte classes\<close>

definition isLower :: "char \<Rightarrow> bool" where
  "isLower c \<longleftrightarrow> 97 \<le> (of_char c :: nat) \<and> (of_char c :: nat) \<le> 122"

definition isUpper :: "char \<Rightarrow> bool" where
  "isUpper c \<longleftrightarrow> 65 \<le> (of_char c :: nat) \<and> (of_char c :: nat) \<le> 90"

definition isHexLetter :: "char \<Rightarrow> bool" where
  "isHexLetter c \<longleftrightarrow> 97 \<le> (of_char c :: nat) \<and> (of_char c :: nat) \<le> 102
                  \<or> 65 \<le> (of_char c :: nat) \<and> (of_char c :: nat) \<le> 70"

text \<open>The dot of an expression: any byte but a newline.\<close>

definition isDot :: "char \<Rightarrow> bool" where
  "isDot c \<longleftrightarrow> c \<noteq> newline"

section \<open>Lemmas\<close>

text \<open>Every way to match splits the input: the text matched and the rest make it up.\<close>

lemma re_matches_split: "(t, cs, rest) \<in> set (re_matches r s) \<Longrightarrow> s = t @ rest"
proof (induction r arbitrary: s t cs rest)
  case (Lit l)
  then show ?case
    by (auto simp: strings_HasPrefix_def split: if_splits) (metis append_take_drop_id)
next
  case (Seq r q)
  then show ?case by fastforce
qed (auto simp: Let_def split: option.splits if_splits)

lemma re_matchAt_prefix: "re_matchAt r s = Some (t, cs) \<Longrightarrow> prefix t s"
  unfolding re_matchAt_def
  by (auto split: list.splits) (metis list.set_intros(1) re_matches_split prefixI)

text \<open>A match found anywhere is a contiguous part of the text.\<close>

lemma re_find_sublist: "re_find r s = Some (t, cs) \<Longrightarrow> sublist t s"
  by (induction s) (auto split: option.splits dest: re_matchAt_prefix intro: sublist_Cons_right[THEN iffD2])

lemma takeWhile_all_stop: "list_all p ds \<Longrightarrow> \<not> p c \<Longrightarrow> takeWhile p (ds @ c # s) = ds"
  by (induction ds) auto

lemma takeWhile_list_all: "list_all p ds \<Longrightarrow> takeWhile p ds = ds"
  by (induction ds) auto

text \<open>
  A repetition followed by a literal that starts outside its class can only take the longest
  extent, so the sequence has at most one match.
\<close>

lemma rev_upt_Cons: "lo \<le> m \<Longrightarrow> rev [lo..<Suc m] = m # rev [lo..<m]"
  by simp

lemma Rep_then_Lit:
  assumes "list_all p ds" and "\<not> p c" and "lo \<le> length ds"
  shows "concat (map (\<lambda>(t, cs, rest). map (\<lambda>(t', cs', rest'). (f t @ t', g t cs @ cs', rest'))
            (re_matches (Seq (Lit (c # l)) q) rest)) (re_matches (Rep p lo None) (ds @ c # s)))
       = map (\<lambda>(t', cs', rest'). (f ds @ t', g ds [] @ cs', rest')) (re_matches (Seq (Lit (c # l)) q) (c # s))"
proof -
  have short: "re_matches (Seq (Lit (c # l)) q) (drop k (ds @ c # s)) = []" if "k < length ds" for k
  proof -
    have "drop k (ds @ c # s) = ds ! k # drop (Suc k) ds @ c # s"
      using that by (simp add: Cons_nth_drop_Suc [symmetric])
    moreover have "ds ! k \<noteq> c"
      using that assms(1,2) by (auto simp: list_all_length)
    ultimately show ?thesis by (simp add: strings_HasPrefix_def)
  qed
  have "re_matches (Rep p lo None) (ds @ c # s)
      = (ds, [], c # s) # map (\<lambda>k. (take k (ds @ c # s), [], drop k (ds @ c # s))) (rev [lo..<length ds])"
    using assms by (simp add: takeWhile_all_stop rev_upt_Cons Let_def del: upt_Suc)
  moreover have "concat (map (\<lambda>(t, cs, rest). map (\<lambda>(t', cs', rest'). (f t @ t', g t cs @ cs', rest'))
       (re_matches (Seq (Lit (c # l)) q) rest))
       (map (\<lambda>k. (take k (ds @ c # s), [], drop k (ds @ c # s))) (rev [lo..<length ds]))) = []"
    using short by (auto simp del: re_matches.simps)
  ultimately show ?thesis by (simp del: re_matches.simps)
qed

text \<open>
  What a match can leave of the input, for expressions of which only the existence of a match
  matters.
\<close>

definition re_rests :: "re \<Rightarrow> string \<Rightarrow> string set" where
  "re_rests r s = (\<lambda>(t, cs, rest). rest) ` set (re_matches r s)"

lemma re_rests_Seq: "re_rests (Seq r q) s = (\<Union>rest \<in> re_rests r s. re_rests q rest)"
  unfolding re_rests_def by force

lemma re_rests_Opt: "re_rests (Opt r) s = insert s (re_rests r s)"
  unfolding re_rests_def by auto

lemma re_rests_Eot: "re_rests Eot s = (if s = [] then {[]} else {})"
  unfolding re_rests_def by auto

lemma re_rests_Lit_Nil: "re_rests (Lit []) s = {s}"
  unfolding re_rests_def by (simp add: strings_HasPrefix_def)

lemma le_takeWhile_iff: "k \<le> length (takeWhile p s) \<longleftrightarrow> k \<le> length s \<and> list_all p (take k s)"
proof (induction s arbitrary: k)
  case (Cons c s)
  then show ?case by (cases k) auto
qed simp

lemma re_rests_Rep:
  "rest \<in> re_rests (Rep p lo (Some hi)) s \<longleftrightarrow>
     (\<exists>t. s = t @ rest \<and> list_all p t \<and> lo \<le> length t \<and> length t \<le> hi)"
proof -
  have "rest \<in> re_rests (Rep p lo (Some hi)) s \<longleftrightarrow>
          (\<exists>k. lo \<le> k \<and> k \<le> hi \<and> k \<le> length (takeWhile p s) \<and> rest = drop k s)"
    unfolding re_rests_def by (auto simp: image_iff Let_def less_Suc_eq_le simp del: upt_Suc)
  also have "\<dots> \<longleftrightarrow> (\<exists>t. s = t @ rest \<and> list_all p t \<and> lo \<le> length t \<and> length t \<le> hi)"
    (is "?L \<longleftrightarrow> ?R")
  proof
    assume ?L
    then obtain k where "lo \<le> k" "k \<le> hi" "k \<le> length s" "list_all p (take k s)" "rest = drop k s"
      by (auto simp: le_takeWhile_iff)
    then show ?R by (intro exI [of _ "take k s"]) simp
  next
    assume ?R
    then obtain t where "s = t @ rest" "list_all p t" "lo \<le> length t" "length t \<le> hi" by blast
    then show ?L unfolding le_takeWhile_iff by (intro exI [of _ "length t"]) simp
  qed
  finally show ?thesis .
qed

lemma re_rests_single:
  "re_rests (Rep p (Suc 0) (Some (Suc 0))) s = (case s of [] \<Rightarrow> {} | c # r \<Rightarrow> if p c then {r} else {})"
proof -
  have "rest \<in> re_rests (Rep p (Suc 0) (Some (Suc 0))) s \<longleftrightarrow> (\<exists>c. s = c # rest \<and> p c)" for rest
    unfolding re_rests_Rep by (auto simp: le_Suc_eq length_Suc_conv Suc_le_eq)
  then show ?thesis by (auto split: list.split if_splits)
qed

lemma re_matchAt_iff_rests: "re_matchAt r s \<noteq> None \<longleftrightarrow> re_rests r s \<noteq> {}"
  unfolding re_matchAt_def re_rests_def by (cases "re_matches r s") auto

end
