(* ===== verification/Vapi.thy ===== *)
theory Vapi
  imports Regex
begin

text \<open>
  The custom resource, api/v1beta1/verticadb_types.go: the structs as records with one field per
  field of the source, the string-valued enumerations as strings (the webhook is what rejects
  other values), and the methods of VerticaDB and Subcluster. A value of a Kubernetes type that
  the operator only copies or compares (affinity, tolerations, resources, containers) is kept as
  its serialised text. A slice or map that the code compares with reflect.DeepEqual is an option,
  because a nil value and an empty one differ there. The size requested for local data is the value
  of the quantity in its smallest unit, and a time is the number of seconds since January 1 of
  year 1, which is Go's zero time.
\<close>

section \<open>Constants\<close>

definition CommunalInitPolicyCreate :: string where
  "CommunalInitPolicyCreate = ''Create''"
definition CommunalInitPolicyRevive :: string where
  "CommunalInitPolicyRevive = ''Revive''"
definition CommunalInitPolicyScheduleOnly :: string where
  "CommunalInitPolicyScheduleOnly = ''ScheduleOnly''"

definition URTime :: int where
  "URTime = 30"

definition EncryptSpreadCommWithVertica :: string where
  "EncryptSpreadCommWithVertica = ''vertica''"

definition KSafety0 :: string where
  "KSafety0 = ''0''"
definition KSafety1 :: string where
  "KSafety1 = ''1''"

definition OfflineUpgrade :: string where
  "OfflineUpgrade = ''Offline''"
definition OnlineUpgrade :: string where
  "OnlineUpgrade = ''Online''"
definition AutoUpgrade :: string where
  "AutoUpgrade = ''Auto''"

lemmas policy_defs = CommunalInitPolicyCreate_def CommunalInitPolicyRevive_def
  CommunalInitPolicyScheduleOnly_def KSafety0_def KSafety1_def OfflineUpgrade_def
  OnlineUpgrade_def AutoUpgrade_def EncryptSpreadCommWithVertica_def

section \<open>The resource's types\<close>

record Subcluster =
  sc_Name :: string
  sc_Size :: int
  sc_IsPrimary :: bool
  sc_IsTransient :: bool
  sc_ImageOverride :: string
  sc_NodeSelector :: "label_map option"
  sc_Affinity :: string
  sc_PriorityClassName :: string
  sc_Tolerations :: string
  sc_Resources :: string
  sc_ServiceType :: string
  sc_ServiceName :: string
  sc_NodePort :: int
  sc_ExternalIPs :: "string list option"
  sc_LoadBalancerIP :: string
  sc_ServiceAnnotations :: "label_map option"

record SubclusterSelection =
  sel_Names :: "string list option"
  sel_Template :: Subcluster

record SubclusterPodCount =
  spc_SubclusterIndex :: int
  spc_PodCount :: int

record CommunalStorage =
  com_Path :: string
  com_IncludeUIDInPath :: bool
  com_Endpoint :: string
  com_CredentialSecret :: string
  com_CaFile :: string
  com_Region :: string
  com_HadoopConfig :: string
  com_KerberosServiceName :: string
  com_KerberosRealm :: string

record LocalStorage =
  loc_StorageClass :: string
  loc_RequestSize :: int
  loc_DataPath :: string
  loc_DepotPath :: string

text \<open>
  The parts of the Kubernetes types that the operator builds or looks into. Text the operator only
  passes on, such as resources, is kept as one string. A container's environment variable has a
  value or the path of a field it is taken from.
\<close>

datatype DownwardSource =
    ResourceFieldRef string string
  | FieldRef string

datatype VolumeProjection =
    DownwardAPIProjection "(string \<times> DownwardSource) list"
  | ConfigMapProjection string "(string \<times> string) list"
  | SecretProjection "(string \<times> (string \<times> string) list) option"

datatype VolumeSource =
    SecretVolumeSource string
  | ConfigMapVolumeSource string
  | ProjectedVolumeSource "VolumeProjection list"
  | OtherVolumeSource string

record Volume =
  vol_Name :: string
  vol_Source :: VolumeSource

record VolumeMount =
  vm_Name :: string
  vm_MountPath :: string
  vm_SubPath :: string

record EnvVar =
  ev_Name :: string
  ev_Value :: string
  ev_FieldPath :: string

record Capabilities =
  cap_Add :: "string list"
  cap_Drop :: "string list"

record SecurityContext =
  secc_Capabilities :: "Capabilities option"
  secc_Rest :: string

record Container =
  cnt_Name :: string
  cnt_Image :: string
  cnt_ImagePullPolicy :: string
  cnt_Resources :: string
  cnt_Ports :: "(int \<times> string) list"
  cnt_ReadinessProbe :: "string list"
  cnt_SecurityContext :: "SecurityContext option"
  cnt_Env :: "EnvVar list"
  cnt_VolumeMounts :: "VolumeMount list"
  cnt_Rest :: string

record VerticaDBSpec =
  spec_ImagePullPolicy :: string
  spec_ImagePullSecrets :: "string list"
  spec_Image :: string
  spec_Labels :: label_map
  spec_Annotations :: label_map
  spec_AutoRestartVertica :: bool
  spec_DBName :: string
  spec_ShardCount :: int
  spec_SuperuserPasswordSecret :: string
  spec_LicenseSecret :: string
  spec_IgnoreClusterLease :: bool
  spec_InitPolicy :: string
  spec_UpgradePolicy :: string
  spec_IgnoreUpgradePath :: bool
  spec_ReviveOrder :: "SubclusterPodCount list"
  spec_RestartTimeout :: int
  spec_Communal :: CommunalStorage
  spec_Local :: LocalStorage
  spec_Subclusters :: "Subcluster list"
  spec_TemporarySubclusterRouting :: SubclusterSelection
  spec_KSafety :: string
  spec_RequeueTime :: int
  spec_UpgradeRequeueTime :: int
  spec_Sidecars :: "Container list"
  spec_Volumes :: "Volume list"
  spec_VolumeMounts :: "VolumeMount list"
  spec_CertSecrets :: "string list"
  spec_KerberosSecret :: string
  spec_SSHSecret :: string
  spec_EncryptSpreadComm :: string
  spec_SecurityContext :: "SecurityContext option"

record VerticaDBPodStatus =
  ps_Installed :: bool
  ps_AddedToDB :: bool
  ps_VNodeName :: string
  ps_UpNode :: bool
  ps_ReadOnly :: bool

record SubclusterStatus =
  ss_Name :: string
  ss_InstallCount :: int
  ss_AddedToDBCount :: int
  ss_UpNodeCount :: int
  ss_ReadOnlyCount :: int
  ss_Detail :: "VerticaDBPodStatus list"

record VerticaDBCondition =
  cond_Type :: string
  cond_Status :: string
  cond_LastTransitionTime :: int

record VerticaDBStatus =
  stat_InstallCount :: int
  stat_AddedToDBCount :: int
  stat_UpNodeCount :: int
  stat_SubclusterCount :: int
  stat_Subclusters :: "SubclusterStatus list"
  stat_Conditions :: "VerticaDBCondition list"
  stat_UpgradeStatus :: string

text \<open>
  A VerticaDB with the object metadata the operator reads. Reading a nil annotation map gives no
  entry, like reading an empty one, so the annotations are a plain map.
\<close>

record VerticaDB =
  vdb_Name :: string
  vdb_Namespace :: string
  vdb_UID :: string
  vdb_Annotations :: label_map
  vdb_Spec :: VerticaDBSpec
  vdb_Status :: VerticaDBStatus

record NamespacedName =
  nn_Namespace :: string
  nn_Name :: string

definition slice :: "'a list option \<Rightarrow> 'a list" where
  "slice xs = (case xs of None \<Rightarrow> [] | Some ys \<Rightarrow> ys)"

abbreviation vdb_Subclusters :: "VerticaDB \<Rightarrow> Subcluster list" where
  "vdb_Subclusters v \<equiv> spec_Subclusters (vdb_Spec v)"

abbreviation vdb_Conditions :: "VerticaDB \<Rightarrow> VerticaDBCondition list" where
  "vdb_Conditions v \<equiv> stat_Conditions (vdb_Status v)"

abbreviation vdb_Template :: "VerticaDB \<Rightarrow> Subcluster" where
  "vdb_Template v \<equiv> sel_Template (spec_TemporarySubclusterRouting (vdb_Spec v))"

text \<open>The zero values Go gives to omitted fields.\<close>

definition zeroSubcluster :: Subcluster where
  "zeroSubcluster = \<lparr>sc_Name = [], sc_Size = 0, sc_IsPrimary = False, sc_IsTransient = False,
     sc_ImageOverride = [], sc_NodeSelector = None, sc_Affinity = [], sc_PriorityClassName = [],
     sc_Tolerations = [], sc_Resources = [], sc_ServiceType = [], sc_ServiceName = [],
     sc_NodePort = 0, sc_ExternalIPs = None, sc_LoadBalancerIP = [], sc_ServiceAnnotations = None\<rparr>"

definition zeroPodStatus :: VerticaDBPodStatus where
  "zeroPodStatus = \<lparr>ps_Installed = False, ps_AddedToDB = False, ps_VNodeName = [],
     ps_UpNode = False, ps_ReadOnly = False\<rparr>"

definition zeroSubclusterStatus :: SubclusterStatus where
  "zeroSubclusterStatus = \<lparr>ss_Name = [], ss_InstallCount = 0, ss_AddedToDBCount = 0,
     ss_UpNodeCount = 0, ss_ReadOnlyCount = 0, ss_Detail = []\<rparr>"

definition zeroVerticaDBStatus :: VerticaDBStatus where
  "zeroVerticaDBStatus = \<lparr>stat_InstallCount = 0, stat_AddedToDBCount = 0, stat_UpNodeCount = 0,
     stat_SubclusterCount = 0, stat_Subclusters = [], stat_Conditions = [], stat_UpgradeStatus = []\<rparr>"

definition zeroVerticaDBSpec :: VerticaDBSpec where
  "zeroVerticaDBSpec = \<lparr>spec_ImagePullPolicy = [], spec_ImagePullSecrets = [], spec_Image = [],
     spec_Labels = Map.empty, spec_Annotations = Map.empty, spec_AutoRestartVertica = False,
     spec_DBName = [], spec_ShardCount = 0, spec_SuperuserPasswordSecret = [],
     spec_LicenseSecret = [], spec_IgnoreClusterLease = False, spec_InitPolicy = [],
     spec_UpgradePolicy = [], spec_IgnoreUpgradePath = False, spec_ReviveOrder = [],
     spec_RestartTimeout = 0,
     spec_Communal = \<lparr>com_Path = [], com_IncludeUIDInPath = False, com_Endpoint = [],
        com_CredentialSecret = [], com_CaFile = [], com_Region = [], com_HadoopConfig = [],
        com_KerberosServiceName = [], com_KerberosRealm = []\<rparr>,
     spec_Local = \<lparr>loc_StorageClass = [], loc_RequestSize = 0, loc_DataPath = [],
        loc_DepotPath = []\<rparr>,
     spec_Subclusters = [],
     spec_TemporarySubclusterRouting = \<lparr>sel_Names = None, sel_Template = zeroSubcluster\<rparr>,
     spec_KSafety = [], spec_RequeueTime = 0, spec_UpgradeRequeueTime = 0, spec_Sidecars = [],
     spec_Volumes = [], spec_VolumeMounts = [], spec_CertSecrets = [], spec_KerberosSecret = [],
     spec_SSHSecret = [], spec_EncryptSpreadComm = [], spec_SecurityContext = None\<rparr>"

section \<open>Conditions\<close>

definition AutoRestartVertica :: string where
  "AutoRestartVertica = ''AutoRestartVertica''"
definition DBInitialized :: string where
  "DBInitialized = ''DBInitialized''"
definition ImageChangeInProgress :: string where
  "ImageChangeInProgress = ''ImageChangeInProgress''"
definition OfflineUpgradeInProgress :: string where
  "OfflineUpgradeInProgress = ''OfflineUpgradeInProgress''"
definition OnlineUpgradeInProgress :: string where
  "OnlineUpgradeInProgress = ''OnlineUpgradeInProgress''"
definition VerticaRestartNeeded :: string where
  "VerticaRestartNeeded = ''VerticaRestartNeeded''"

lemmas condition_type_defs = AutoRestartVertica_def DBInitialized_def ImageChangeInProgress_def
  OfflineUpgradeInProgress_def OnlineUpgradeInProgress_def VerticaRestartNeeded_def

definition ImageChangeInProgressIndex :: nat where
  "ImageChangeInProgressIndex = 2"
definition OnlineUpgradeInProgressIndex :: nat where
  "OnlineUpgradeInProgressIndex = 4"

definition VerticaDBConditionIndexMap :: "string \<rightharpoonup> nat" where
  "VerticaDBConditionIndexMap =
     [AutoRestartVertica \<mapsto> 0, DBInitialized \<mapsto> 1, ImageChangeInProgress \<mapsto> 2,
      OfflineUpgradeInProgress \<mapsto> 3, OnlineUpgradeInProgress \<mapsto> 4, VerticaRestartNeeded \<mapsto> 5]"

text \<open>Reading the Go map at an index it does not hold gives the empty name.\<close>

definition VerticaDBConditionNameMap :: "nat \<Rightarrow> string" where
  "VerticaDBConditionNameMap i =
     (if i = 0 then AutoRestartVertica else if i = 1 then DBInitialized
      else if i = 2 then ImageChangeInProgress else if i = 3 then OfflineUpgradeInProgress
      else if i = 4 then OnlineUpgradeInProgress else if i = 5 then VerticaRestartNeeded else [])"

definition ConditionTrue :: string where
  "ConditionTrue = ''True''"
definition ConditionFalse :: string where
  "ConditionFalse = ''False''"

definition isConditionIndexSet :: "VerticaDB \<Rightarrow> nat \<Rightarrow> bool" where
  "isConditionIndexSet v inx \<longleftrightarrow>
     inx < length (vdb_Conditions v) \<and> cond_Status (vdb_Conditions v ! inx) = ConditionTrue"

text \<open>\<^const>\<open>None\<close> is the error for a condition type that is not known.\<close>

definition IsConditionSet :: "VerticaDB \<Rightarrow> string \<Rightarrow> bool option" where
  "IsConditionSet v statusCondition =
     (case VerticaDBConditionIndexMap statusCondition of
        None \<Rightarrow> None
      | Some inx \<Rightarrow> Some (isConditionIndexSet v inx))"

definition IsOnlineUpgradeInProgress :: "VerticaDB \<Rightarrow> bool" where
  "IsOnlineUpgradeInProgress v = isConditionIndexSet v OnlineUpgradeInProgressIndex"

section \<open>Methods of VerticaDB and Subcluster\<close>

definition VersionAnnotation :: string where
  "VersionAnnotation = ''vertica.com/version''"
definition BuildDateAnnotation :: string where
  "BuildDateAnnotation = ''vertica.com/buildDate''"
definition BuildRefAnnotation :: string where
  "BuildRefAnnotation = ''vertica.com/buildRef''"

definition ExtractNamespacedName :: "VerticaDB \<Rightarrow> NamespacedName" where
  "ExtractNamespacedName v = \<lparr>nn_Namespace = vdb_Namespace v, nn_Name = vdb_Name v\<rparr>"

definition FindTransientSubcluster :: "VerticaDB \<Rightarrow> Subcluster option" where
  "FindTransientSubcluster v = List.find sc_IsTransient (vdb_Subclusters v)"

definition MakeVDB :: VerticaDB where
  "MakeVDB =
     \<lparr>vdb_Name = ''vertica-sample'', vdb_Namespace = ''default'', vdb_UID = ''abcdef-ghi'',
      vdb_Annotations = Map.empty,
      vdb_Spec = zeroVerticaDBSpec\<lparr>
        spec_AutoRestartVertica := True,
        spec_Labels := Map.empty,
        spec_Annotations := Map.empty,
        spec_Image := ''vertica-k8s:latest'',
        spec_InitPolicy := CommunalInitPolicyCreate,
        spec_Communal := \<lparr>com_Path = ''s3://nimbusdb/mspilchen'', com_IncludeUIDInPath = False,
           com_Endpoint = ''http://minio'', com_CredentialSecret = ''s3-auth'', com_CaFile = [],
           com_Region = [], com_HadoopConfig = [], com_KerberosServiceName = [],
           com_KerberosRealm = []\<rparr>,
        spec_Local := \<lparr>loc_StorageClass = [], loc_RequestSize = 0, loc_DataPath = ''/data'',
           loc_DepotPath = ''/depot''\<rparr>,
        spec_KSafety := KSafety1,
        spec_DBName := ''db'',
        spec_ShardCount := 12,
        spec_Subclusters := [zeroSubcluster\<lparr>sc_Name := ''defaultsubcluster'', sc_Size := 3,
           sc_ServiceType := ''ClusterIP'', sc_IsPrimary := True\<rparr>]\<rparr>,
      vdb_Status = zeroVerticaDBStatus\<rparr>"

definition GenSubclusterMap :: "VerticaDB \<Rightarrow> (string \<rightharpoonup> Subcluster)" where
  "GenSubclusterMap v = foldl (\<lambda>scMap sc. scMap(sc_Name sc \<mapsto> sc)) Map.empty (vdb_Subclusters v)"

definition isScNameEnd :: "char \<Rightarrow> bool" where
  "isScNameEnd c \<longleftrightarrow> isLower c \<or> isDigit c"

definition isScNameMid :: "char \<Rightarrow> bool" where
  "isScNameMid c \<longleftrightarrow> isLower c \<or> isDigit c \<or> c = CHR ''-''"

definition IsValidSubclusterName :: "string \<Rightarrow> bool" where
  "IsValidSubclusterName scName \<longleftrightarrow>
     re_matchAt (re_seq [Rep isScNameEnd 1 (Some 1),
                         Opt (Seq (Rep isScNameMid 0 (Some 61)) (Rep isScNameEnd 1 (Some 1))),
                         Eot]) scName \<noteq> None"

definition GetVerticaVersion :: "VerticaDB \<Rightarrow> string option" where
  "GetVerticaVersion v = vdb_Annotations v VersionAnnotation"

definition InstallerIndicatorFile :: string where
  "InstallerIndicatorFile = ''/opt/vertica/config/update_vertica.called.for.uid.''"

definition GenInstallerIndicatorFileName :: "VerticaDB \<Rightarrow> string" where
  "GenInstallerIndicatorFileName v = InstallerIndicatorFile @ vdb_UID v"

definition GetPVSubPath :: "VerticaDB \<Rightarrow> string \<Rightarrow> string" where
  "GetPVSubPath v subPath = vdb_UID v @ ''/'' @ subPath"

definition GetDBDataPath :: "VerticaDB \<Rightarrow> string" where
  "GetDBDataPath v = loc_DataPath (spec_Local (vdb_Spec v)) @ ''/'' @ spec_DBName (vdb_Spec v)"

definition GetCommunalPath :: "VerticaDB \<Rightarrow> string" where
  "GetCommunalPath v =
     (if \<not> com_IncludeUIDInPath (spec_Communal (vdb_Spec v))
      then com_Path (spec_Communal (vdb_Spec v))
      else com_Path (spec_Communal (vdb_Spec v)) @ ''/'' @ vdb_UID v)"

definition GetDepotPath :: "VerticaDB \<Rightarrow> string" where
  "GetDepotPath v = loc_DepotPath (spec_Local (vdb_Spec v)) @ ''/'' @ spec_DBName (vdb_Spec v)"

definition PrimarySubclusterType :: string where
  "PrimarySubclusterType = ''primary''"
definition SecondarySubclusterType :: string where
  "SecondarySubclusterType = ''secondary''"

definition GetType :: "Subcluster \<Rightarrow> string" where
  "GetType s = (if sc_IsPrimary s then PrimarySubclusterType else SecondarySubclusterType)"

definition GetServiceName :: "Subcluster \<Rightarrow> string" where
  "GetServiceName s = (if sc_ServiceName s = [] then sc_Name s else sc_ServiceName s)"

text \<open>The total is an \<open>int32\<close> and wraps around.\<close>

definition FindSubclusterForServiceName :: "VerticaDB \<Rightarrow> string \<Rightarrow> Subcluster list \<times> int" where
  "FindSubclusterForServiceName v svcName =
     foldl (\<lambda>(scs, totalSize) sc.
              if GetServiceName sc = svcName
              then (scs @ [sc], wrap32 (totalSize + sc_Size sc)) else (scs, totalSize))
           ([], 0) (vdb_Subclusters v)"

definition RequiresTransientSubcluster :: "VerticaDB \<Rightarrow> bool" where
  "RequiresTransientSubcluster v \<longleftrightarrow>
     sc_Name (vdb_Template v) \<noteq> [] \<and> sc_Size (vdb_Template v) > 0"

text \<open>Durations are 64-bit counts of nanoseconds.\<close>

definition wrap64 :: "int \<Rightarrow> int" where
  "wrap64 x = (x + 2 ^ 63) mod 2 ^ 64 - 2 ^ 63"

definition time_Second :: int where
  "time_Second = 1000000000"

definition GetUpgradeRequeueTime :: "VerticaDB \<Rightarrow> int" where
  "GetUpgradeRequeueTime v =
     (if spec_UpgradeRequeueTime (vdb_Spec v) = 0 then wrap64 (time_Second * URTime)
      else wrap64 (time_Second * spec_UpgradeRequeueTime (vdb_Spec v)))"

definition BuildTransientSubcluster :: "VerticaDB \<Rightarrow> string \<Rightarrow> Subcluster" where
  "BuildTransientSubcluster v imageOverride =
     zeroSubcluster\<lparr>
       sc_Name := sc_Name (vdb_Template v),
       sc_Size := sc_Size (vdb_Template v),
       sc_IsTransient := True,
       sc_ImageOverride := imageOverride,
       sc_IsPrimary := False,
       sc_NodeSelector := sc_NodeSelector (vdb_Template v),
       sc_Affinity := sc_Affinity (vdb_Template v),
       sc_PriorityClassName := sc_PriorityClassName (vdb_Template v),
       sc_Tolerations := sc_Tolerations (vdb_Template v),
       sc_Resources := sc_Resources (vdb_Template v)\<rparr>"

definition FindSubclusterStatus :: "VerticaDB \<Rightarrow> string \<Rightarrow> SubclusterStatus option" where
  "FindSubclusterStatus v scName =
     List.find (\<lambda>ss. ss_Name ss = scName) (stat_Subclusters (vdb_Status v))"

section \<open>Lemmas\<close>

text \<open>The map of subclusters holds the last subcluster of each name.\<close>

lemma foldl_upd_map_of:
  "foldl (\<lambda>m sc. m(f sc \<mapsto> sc)) m0 scs = m0 ++ map_of (rev (map (\<lambda>sc. (f sc, sc)) scs))"
  by (induction scs arbitrary: m0) (auto simp: map_add_def fun_eq_iff split: option.splits)

lemma GenSubclusterMap_map_of:
  "GenSubclusterMap v = map_of (rev (map (\<lambda>sc. (sc_Name sc, sc)) (vdb_Subclusters v)))"
  by (simp add: GenSubclusterMap_def foldl_upd_map_of)

lemma dom_GenSubclusterMap [vdb_simps]:
  "dom (GenSubclusterMap v) = sc_Name ` set (vdb_Subclusters v)"
  by (simp add: GenSubclusterMap_map_of dom_map_of_conv_image_fst image_image)

lemma GenSubclusterMap_None_iff [vdb_simps]:
  "GenSubclusterMap v nm = None \<longleftrightarrow> nm \<notin> sc_Name ` set (vdb_Subclusters v)"
  using dom_GenSubclusterMap [of v] by (metis domIff)

lemma GenSubclusterMap_SomeD:
  "GenSubclusterMap v nm = Some sc \<Longrightarrow> sc \<in> set (vdb_Subclusters v) \<and> sc_Name sc = nm"
  unfolding GenSubclusterMap_map_of by (drule map_of_SomeD) auto

lemma GenSubclusterMap_distinct:
  "distinct (map sc_Name (vdb_Subclusters v)) \<Longrightarrow> sc \<in> set (vdb_Subclusters v) \<Longrightarrow>
   GenSubclusterMap v (sc_Name sc) = Some sc"
  by (auto simp: GenSubclusterMap_map_of o_def rev_map [symmetric] simp del: rev_map
      intro!: map_of_is_SomeI)

lemma FindTransientSubcluster_Some:
  "FindTransientSubcluster v = Some sc \<Longrightarrow> sc \<in> set (vdb_Subclusters v) \<and> sc_IsTransient sc"
  unfolding FindTransientSubcluster_def by (rule find_Some_iff_filter)

lemma FindTransientSubcluster_None:
  "FindTransientSubcluster v = None \<longleftrightarrow> (\<forall>sc \<in> set (vdb_Subclusters v). \<not> sc_IsTransient sc)"
  by (simp add: FindTransientSubcluster_def find_None_iff')

lemma FindSubclusterForServiceName_scs:
  "fst (FindSubclusterForServiceName v nm) = filter (\<lambda>sc. GetServiceName sc = nm) (vdb_Subclusters v)"
proof -
  have "fst (foldl (\<lambda>(scs, totalSize) sc. if GetServiceName sc = nm
           then (scs @ [sc], wrap32 (totalSize + sc_Size sc)) else (scs, totalSize)) (a, t) xs)
        = a @ filter (\<lambda>sc. GetServiceName sc = nm) xs" for a t xs
    by (induction xs arbitrary: a t) auto
  then show ?thesis by (simp add: FindSubclusterForServiceName_def)
qed

lemma FindSubclusterForServiceName_size:
  "snd (FindSubclusterForServiceName v nm) =
     wrap32 (sum_list (map sc_Size (fst (FindSubclusterForServiceName v nm))))"
proof -
  have "snd (foldl (\<lambda>(scs, totalSize) sc. if GetServiceName sc = nm
           then (scs @ [sc], wrap32 (totalSize + sc_Size sc)) else (scs, totalSize)) (a, wrap32 t) xs)
        = wrap32 (t + sum_list (map sc_Size (filter (\<lambda>sc. GetServiceName sc = nm) xs)))" for a t xs
    by (induction xs arbitrary: a t) (auto simp: wrap32_add algebra_simps)
  from this [of "[]" 0 "vdb_Subclusters v"] show ?thesis
    by (simp add: FindSubclusterForServiceName_scs)
       (simp add: FindSubclusterForServiceName_def int32_def)
qed

text \<open>The two condition tables are inverse to each other.\<close>

lemma ConditionIndexMap_NameMap:
  "VerticaDBConditionIndexMap ty = Some i \<Longrightarrow> VerticaDBConditionNameMap i = ty \<and> i < 6"
  by (auto simp: VerticaDBConditionIndexMap_def VerticaDBConditionNameMap_def split: if_splits)

lemma ConditionNameMap_IndexMap:
  "i < 6 \<Longrightarrow> VerticaDBConditionIndexMap (VerticaDBConditionNameMap i) = Some i"
proof -
  assume "i < 6"
  then have "i \<in> {0, 1, 2, 3, 4, 5}" by auto
  then show ?thesis
    by (auto simp: VerticaDBConditionIndexMap_def VerticaDBConditionNameMap_def condition_type_defs)
qed

text \<open>
  A valid subcluster name is a DNS label: at most 63 characters, all of them lower-case letters,
  digits or dashes, with no dash at either end.
\<close>

lemma isScNameEnd_Mid: "isScNameEnd c \<Longrightarrow> isScNameMid c"
  by (auto simp: isScNameEnd_def isScNameMid_def)

lemma re_rests_Eot_end: "re_rests (Seq r (Seq Eot (Lit []))) s = {} \<longleftrightarrow> [] \<notin> re_rests r s"
  by (auto simp: re_rests_Seq re_rests_Eot re_rests_Lit_Nil split: if_splits)

lemma re_rests_single_end: "[] \<in> re_rests (Rep p (Suc 0) (Some (Suc 0))) s \<longleftrightarrow> (\<exists>b. s = [b] \<and> p b)"
  by (cases s) (auto simp: re_rests_single)

lemma re_rests_body_end:
  "[] \<in> re_rests (Seq (Rep isScNameMid 0 (Some 61)) (Rep isScNameEnd (Suc 0) (Some (Suc 0)))) r \<longleftrightarrow>
     (\<exists>m b. r = m @ [b] \<and> isScNameEnd b \<and> list_all isScNameMid m \<and> length m \<le> 61)"
proof -
  have "x \<in> re_rests (Rep isScNameMid 0 (Some 61)) r \<longleftrightarrow>
          (\<exists>m. r = m @ x \<and> list_all isScNameMid m \<and> length m \<le> 61)" for x
    by (simp add: re_rests_Rep)
  then show ?thesis unfolding re_rests_Seq UN_iff re_rests_single_end Bex_def by blast
qed

lemma IsValidSubclusterName_Cons:
  "IsValidSubclusterName (a # r) \<longleftrightarrow> isScNameEnd a \<and>
     (r = [] \<or> (\<exists>m b. r = m @ [b] \<and> isScNameEnd b \<and> list_all isScNameMid m \<and> length m \<le> 61))"
  unfolding IsValidSubclusterName_def re_matchAt_iff_rests re_seq_def re_rests_body_end [symmetric]
  by (simp add: re_rests_Seq [of "Rep isScNameEnd (Suc 0) (Some (Suc 0))" "Seq (Opt R) Q" for R Q]
      re_rests_single re_rests_Eot_end re_rests_Opt eq_commute [of "[]" r])

lemma IsValidSubclusterName_Nil: "\<not> IsValidSubclusterName []"
  unfolding IsValidSubclusterName_def re_matchAt_iff_rests re_seq_def
  by (simp add: re_rests_Seq [of "Rep isScNameEnd (Suc 0) (Some (Suc 0))" "Seq (Opt R) Q" for R Q]
      re_rests_single)

lemma IsValidSubclusterName_iff:
  "IsValidSubclusterName s \<longleftrightarrow>
     s \<noteq> [] \<and> length s \<le> 63 \<and> list_all isScNameMid s \<and> isScNameEnd (hd s) \<and> isScNameEnd (last s)"
proof (cases s)
  case Nil
  then show ?thesis by (simp add: IsValidSubclusterName_Nil)
next
  case (Cons a r)
  show ?thesis
  proof (cases r rule: rev_cases)
    case Nil
    with Cons show ?thesis by (auto simp: IsValidSubclusterName_Cons isScNameEnd_Mid)
  next
    case (snoc m b)
    with Cons show ?thesis by (auto simp: IsValidSubclusterName_Cons isScNameEnd_Mid)
  qed
qed

end
