(* ===== verification/Webhook.thy ===== *)
theory Webhook
  imports Vapi
begin

text \<open>
  The admission webhook, api/v1beta1/verticadb_webhook.go: defaulting, validation on create and
  validation on update. A validation error is the field's path and its message; the rejected value
  that field.Invalid also stores is not kept. Every check takes the errors found so far and
  returns them with its own errors appended, as in the source. A nil error list is the empty one:
  the source tests its lists against nil only where it has made an empty list nil first.
\<close>

datatype path_elem = Child string | Index nat

record FieldError =
  fe_Path :: "path_elem list"
  fe_Detail :: string

definition field_Invalid :: "path_elem list \<Rightarrow> string \<Rightarrow> FieldError" where
  "field_Invalid p msg = \<lparr>fe_Path = p, fe_Detail = msg\<rparr>"

section \<open>Constants\<close>

definition invalidDBNameChars :: string where
  "invalidDBNameChars =
     ''$=<>'' @ [CHR 0x60, CHR 0x27] @ ''^'' @ [CHR 0x5C, CHR 0x22] @ ''.@*?#&/-:;{}()[] ''
     @ [CHR 0x5C] @ ''~!%+|,''"

definition dbNameLengthLimit :: nat where
  "dbNameLengthLimit = 30"
definition KSafety0MinHosts :: int where
  "KSafety0MinHosts = 1"
definition KSafety0MaxHosts :: int where
  "KSafety0MaxHosts = 3"
definition KSafety1MinHosts :: int where
  "KSafety1MinHosts = 3"
definition portLowerBound :: int where
  "portLowerBound = 30000"
definition portUpperBound :: int where
  "portUpperBound = 32767"

definition LocalDataPVC :: string where
  "LocalDataPVC = ''local-data''"
definition PodInfoMountName :: string where
  "PodInfoMountName = ''podinfo''"
definition LicensingMountName :: string where
  "LicensingMountName = ''licensing''"
definition HadoopConfigMountName :: string where
  "HadoopConfigMountName = ''hadoop-conf''"
definition Krb5SecretMountName :: string where
  "Krb5SecretMountName = ''krb5''"
definition SSHMountName :: string where
  "SSHMountName = ''ssh''"

definition S3Prefix :: string where
  "S3Prefix = ''s3://''"
definition GCloudPrefix :: string where
  "GCloudPrefix = ''gs://''"
definition AzurePrefix :: string where
  "AzurePrefix = ''azb://''"
definition hdfsPrefixes :: "string list" where
  "hdfsPrefixes = [''webhdfs://'', ''swebhdfs://'']"

definition DefaultS3Region :: string where
  "DefaultS3Region = ''us-east-1''"
definition DefaultGCloudRegion :: string where
  "DefaultGCloudRegion = ''US-EAST1''"
definition DefaultGCloudEndpoint :: string where
  "DefaultGCloudEndpoint = ''https://storage.googleapis.com''"

definition ServiceTypeLoadBalancer :: string where
  "ServiceTypeLoadBalancer = ''LoadBalancer''"
definition ServiceTypeNodePort :: string where
  "ServiceTypeNodePort = ''NodePort''"
definition ServiceTypeExternalName :: string where
  "ServiceTypeExternalName = ''ExternalName''"
definition ServiceTypeClusterIP :: string where
  "ServiceTypeClusterIP = ''ClusterIP''"

definition CertsRoot :: string where
  "CertsRoot = ''/certs''"

definition MountPaths :: "string list" where
  "MountPaths =
     [''/home/dbadmin/local-data'',
      ''/home/dbadmin/licensing/ce/vertica_community_edition.license.key'',
      ''/home/dbadmin/licensing/mnt'', ''/etc/hadoop'', ''/opt/vertica/config'',
      ''/opt/vertica/config/share'', ''/opt/vertica/config/logrotate'', ''/opt/vertica/log'',
      ''/etc/podinfo'', ''/opt/vertica/config/admintools.conf'',
      ''/home/dbadmin/auth_parms.conf'',
      ''/opt/vertica/config/d5415f948449e9d4c421b568f2411140.dat'',
      ''/opt/vertica/config/accept_eula.py'', CertsRoot, ''/etc/krb5.conf'',
      ''/etc/krb5/krb5.keytab'', ''/home/dbadmin/.ssh'']"

section \<open>The kind of communal storage\<close>

definition IsHDFS :: "VerticaDB \<Rightarrow> bool" where
  "IsHDFS v \<longleftrightarrow>
     list_ex (\<lambda>p. strings_HasPrefix (com_Path (spec_Communal (vdb_Spec v))) p) hdfsPrefixes"

definition IsS3 :: "VerticaDB \<Rightarrow> bool" where
  "IsS3 v \<longleftrightarrow> strings_HasPrefix (com_Path (spec_Communal (vdb_Spec v))) S3Prefix"

definition IsGCloud :: "VerticaDB \<Rightarrow> bool" where
  "IsGCloud v \<longleftrightarrow> strings_HasPrefix (com_Path (spec_Communal (vdb_Spec v))) GCloudPrefix"

definition IsAzure :: "VerticaDB \<Rightarrow> bool" where
  "IsAzure v \<longleftrightarrow> strings_HasPrefix (com_Path (spec_Communal (vdb_Spec v))) AzurePrefix"

definition HasKerberosConfig :: "VerticaDB \<Rightarrow> bool" where
  "HasKerberosConfig v \<longleftrightarrow> com_KerberosServiceName (spec_Communal (vdb_Spec v)) \<noteq> []"

section \<open>Defaulting\<close>

definition setDefaultServiceName :: "VerticaDB \<Rightarrow> VerticaDB" where
  "setDefaultServiceName v =
     v\<lparr>vdb_Spec := (vdb_Spec v)\<lparr>spec_Subclusters :=
        map (\<lambda>sc. if sc_ServiceName sc = [] then sc\<lparr>sc_ServiceName := GetServiceName sc\<rparr> else sc)
            (vdb_Subclusters v)\<rparr>\<rparr>"

definition updCommunal :: "(CommunalStorage \<Rightarrow> CommunalStorage) \<Rightarrow> VerticaDB \<Rightarrow> VerticaDB" where
  "updCommunal f v = v\<lparr>vdb_Spec := (vdb_Spec v)\<lparr>spec_Communal := f (spec_Communal (vdb_Spec v))\<rparr>\<rparr>"

definition VDB_Default :: "VerticaDB \<Rightarrow> VerticaDB" where
  "VDB_Default v =
     (let v1 = (if strings_HasSuffix (spec_Image (vdb_Spec v)) '':latest''
                then v\<lparr>vdb_Spec := (vdb_Spec v)\<lparr>spec_ImagePullPolicy := ''Always''\<rparr>\<rparr> else v);
          v2 = (if com_Region (spec_Communal (vdb_Spec v1)) = [] \<and> IsS3 v1
                then updCommunal (\<lambda>c. c\<lparr>com_Region := DefaultS3Region\<rparr>) v1 else v1);
          v3 = (if com_Region (spec_Communal (vdb_Spec v2)) = [] \<and> IsGCloud v2
                then updCommunal (\<lambda>c. c\<lparr>com_Region := DefaultGCloudRegion\<rparr>) v2 else v2);
          v4 = (if com_Endpoint (spec_Communal (vdb_Spec v3)) = [] \<and> IsGCloud v3
                then updCommunal (\<lambda>c. c\<lparr>com_Endpoint := DefaultGCloudEndpoint\<rparr>) v3 else v3);
          v5 = v4\<lparr>vdb_Spec := (vdb_Spec v4)\<lparr>spec_TemporarySubclusterRouting :=
                 (spec_TemporarySubclusterRouting (vdb_Spec v4))\<lparr>sel_Template :=
                   (vdb_Template v4)\<lparr>sc_IsPrimary := False\<rparr>\<rparr>\<rparr>\<rparr>
      in setDefaultServiceName v5)"

section \<open>Validation of the spec\<close>

definition hasAtLeastOneSC :: "VerticaDB \<Rightarrow> FieldError list \<Rightarrow> FieldError list" where
  "hasAtLeastOneSC v allErrs =
     (if vdb_Subclusters v = []
      then allErrs @ [field_Invalid [Child ''spec'', Child ''subclusters'']
                        ''there should be at least one subcluster defined'']
      else allErrs)"

definition hasValidInitPolicy :: "VerticaDB \<Rightarrow> FieldError list \<Rightarrow> FieldError list" where
  "hasValidInitPolicy v allErrs =
     (if spec_InitPolicy (vdb_Spec v) = CommunalInitPolicyCreate
         \<or> spec_InitPolicy (vdb_Spec v) = CommunalInitPolicyRevive
         \<or> spec_InitPolicy (vdb_Spec v) = CommunalInitPolicyScheduleOnly
      then allErrs
      else allErrs @ [field_Invalid [Child ''spec'', Child ''initPolicy'']
                        ''initPolicy should either be Create, Revive or ScheduleOnly.''])"

definition validateCommunalPath :: "VerticaDB \<Rightarrow> FieldError list \<Rightarrow> FieldError list" where
  "validateCommunalPath v allErrs =
     (if spec_InitPolicy (vdb_Spec v) = CommunalInitPolicyScheduleOnly then allErrs
      else if list_ex (\<lambda>pref. strings_HasPrefix (com_Path (spec_Communal (vdb_Spec v))) pref)
                ([S3Prefix, GCloudPrefix, AzurePrefix] @ hdfsPrefixes)
      then allErrs
      else allErrs @ [field_Invalid [Child ''spec'', Child ''communal'', Child ''path'']
                        ''communal.Path is not prefixed with an accepted type''])"

definition validateEndpoint :: "VerticaDB \<Rightarrow> FieldError list \<Rightarrow> FieldError list" where
  "validateEndpoint v allErrs =
     (if spec_InitPolicy (vdb_Spec v) = CommunalInitPolicyScheduleOnly then allErrs
      else if IsHDFS v \<or> IsAzure v then allErrs
      else if \<not> (strings_HasPrefix (com_Endpoint (spec_Communal (vdb_Spec v))) ''http://''
                 \<or> strings_HasPrefix (com_Endpoint (spec_Communal (vdb_Spec v))) ''https://'')
      then allErrs @ [field_Invalid [Child ''spec'', Child ''communal'', Child ''endpoint'']
             ''communal.endpoint must be prefaced with http:// or https:// to know what protocol to connect with'']
      else allErrs)"

definition credentialSecretExists :: "VerticaDB \<Rightarrow> FieldError list \<Rightarrow> FieldError list" where
  "credentialSecretExists v allErrs =
     (if spec_InitPolicy (vdb_Spec v) = CommunalInitPolicyScheduleOnly then allErrs
      else if IsHDFS v then allErrs
      else if com_CredentialSecret (spec_Communal (vdb_Spec v)) = []
      then allErrs @ [field_Invalid [Child ''spec'', Child ''communal'', Child ''credentialSecret'']
                        ''communal.credentialSecret must exist'']
      else allErrs)"

definition hasValidDBName :: "VerticaDB \<Rightarrow> FieldError list \<Rightarrow> FieldError list" where
  "hasValidDBName v allErrs =
     (let dbName = spec_DBName (vdb_Spec v);
          errs1 = (if length dbName > dbNameLengthLimit
                   then allErrs @ [field_Invalid [Child ''spec'', Child ''dbName'']
                                     ''dbName cannot exceed 30 characters'']
                   else allErrs)
      in foldl (\<lambda>errs c. if strings_Contains dbName [c]
                         then errs @ [field_Invalid [Child ''spec'', Child ''dbName'']
                                  (''dbName cannot have the '' @ [CHR 0x27, c, CHR 0x27] @ '' character'')]
                         else errs) errs1 invalidDBNameChars)"

definition hasPrimarySubcluster :: "VerticaDB \<Rightarrow> FieldError list \<Rightarrow> FieldError list" where
  "hasPrimarySubcluster v allErrs =
     (if list_ex sc_IsPrimary (vdb_Subclusters v) then allErrs
      else allErrs @ [field_Invalid [Child ''spec'', Child ''subclusters'']
                        ''there must be at least one primary subcluster''])"

definition getClusterSize :: "VerticaDB \<Rightarrow> int" where
  "getClusterSize v = foldl (\<lambda>sizeSum sc. sizeSum + sc_Size sc) 0 (vdb_Subclusters v)"

definition validateKsafety :: "VerticaDB \<Rightarrow> FieldError list \<Rightarrow> FieldError list" where
  "validateKsafety v allErrs =
     (if spec_InitPolicy (vdb_Spec v) = CommunalInitPolicyScheduleOnly then allErrs
      else let sizeSum = getClusterSize v in
      if spec_KSafety (vdb_Spec v) = KSafety0 then
        (if sizeSum < KSafety0MinHosts \<or> sizeSum > KSafety0MaxHosts
         then allErrs @ [field_Invalid [Child ''spec'', Child ''kSafety'']
            (''with kSafety 0, the total size of the cluster must have between ''
             @ strconv_Itoa KSafety0MinHosts @ '' and '' @ strconv_Itoa KSafety0MaxHosts @ '' hosts'')]
         else allErrs)
      else if spec_KSafety (vdb_Spec v) = KSafety1 then
        (if sizeSum < KSafety1MinHosts
         then allErrs @ [field_Invalid [Child ''spec'', Child ''kSafety'']
            (''with kSafety 1, the total size of the cluster must have at least ''
             @ strconv_Itoa KSafety1MinHosts @ '' hosts'')]
         else allErrs)
      else allErrs @ [field_Invalid [Child ''spec'', Child ''kSafety'']
              (''kSafety can only be '' @ KSafety0 @ '' or '' @ KSafety1)])"

definition hasValidDomainName :: "VerticaDB \<Rightarrow> FieldError list \<Rightarrow> FieldError list" where
  "hasValidDomainName v allErrs =
     foldl (\<lambda>errs (i, sc).
              if \<not> IsValidSubclusterName (sc_Name sc)
              then errs @ [field_Invalid [Child ''spec'', Child ''subcluster'', Index i, Child ''name'']
                             ''is not a valid domain name'']
              else errs) allErrs (enumerate 0 (vdb_Subclusters v))"

definition hasValidNodePort :: "VerticaDB \<Rightarrow> FieldError list \<Rightarrow> FieldError list" where
  "hasValidNodePort v allErrs =
     foldl (\<lambda>errs (i, sc).
              if sc_ServiceType sc = ServiceTypeNodePort
              then (if sc_NodePort sc \<noteq> 0
                       \<and> (sc_NodePort sc < portLowerBound \<or> sc_NodePort sc > portUpperBound)
                    then errs @ [field_Invalid [Child ''spec'', Child ''subclusters'', Index i, Child ''nodePort'']
                           (''nodePort must be 0 or in the range of '' @ strconv_Itoa portLowerBound
                            @ ''-'' @ strconv_Itoa portUpperBound)]
                    else errs)
              else errs) allErrs (enumerate 0 (vdb_Subclusters v))"

definition isNodePortProperlySpecified :: "VerticaDB \<Rightarrow> FieldError list \<Rightarrow> FieldError list" where
  "isNodePortProperlySpecified v allErrs =
     foldl (\<lambda>errs (i, sc).
              if sc_ServiceType sc \<noteq> ServiceTypeLoadBalancer \<and> sc_ServiceType sc \<noteq> ServiceTypeNodePort
              then (if sc_NodePort sc \<noteq> 0
                    then errs @ [field_Invalid [Child ''spec'', Child ''subclusters'', Index i, Child ''nodePort'']
                           (''nodePort can only be specified for service types ''
                            @ ServiceTypeLoadBalancer @ '' and '' @ ServiceTypeNodePort)]
                    else errs)
              else errs) allErrs (enumerate 0 (vdb_Subclusters v))"

definition isServiceTypeValid :: "VerticaDB \<Rightarrow> FieldError list \<Rightarrow> FieldError list" where
  "isServiceTypeValid v allErrs =
     foldl (\<lambda>errs (i, sc).
              if sc_ServiceType sc \<in> {ServiceTypeLoadBalancer, ServiceTypeNodePort,
                                      ServiceTypeExternalName, ServiceTypeClusterIP}
              then errs
              else errs @ [field_Invalid [Child ''spec'', Child ''subclusters'', Index i, Child ''serviceType'']
                             ''not a valid service type'']) allErrs (enumerate 0 (vdb_Subclusters v))"

text \<open>The pairs \<open>i < j\<close> of subclusters in the order of the source's two loops.\<close>

fun dupNamePairs :: "nat \<Rightarrow> Subcluster list \<Rightarrow> FieldError list" where
  "dupNamePairs i [] = []"
| "dupNamePairs i (sc1 # rest) =
     concat (map (\<lambda>(j, sc2).
        if sc_Name sc1 = sc_Name sc2
        then [field_Invalid [Child ''spec'', Child ''subclusters'', Index j, Child ''name'']
                (''duplicates the name of subcluster['' @ strconv_Itoa (int i) @ '']'')]
        else []) (enumerate (Suc i) rest))
     @ dupNamePairs (Suc i) rest"

definition hasDuplicateScName :: "VerticaDB \<Rightarrow> FieldError list \<Rightarrow> FieldError list" where
  "hasDuplicateScName v allErrs = allErrs @ dupNamePairs 0 (vdb_Subclusters v)"

definition hasValidVolumeName :: "VerticaDB \<Rightarrow> FieldError list \<Rightarrow> FieldError list" where
  "hasValidVolumeName v allErrs =
     foldl (\<lambda>errs (i, vol).
              if vol_Name vol = LocalDataPVC \<or> vol_Name vol = PodInfoMountName
                 \<or> vol_Name vol = LicensingMountName \<or> vol_Name vol = HadoopConfigMountName
              then errs @ [field_Invalid [Child ''spec'', Child ''volumes'', Index i, Child ''name'']
                     ''conflicts with the name of one of the internally generated volumes'']
              else errs) allErrs (enumerate 0 (spec_Volumes (vdb_Spec v)))"

definition hasValidVolumeMountName :: "VerticaDB \<Rightarrow> FieldError list \<Rightarrow> FieldError list" where
  "hasValidVolumeMountName v allErrs =
     (let invalidPaths = MountPaths @ [loc_DataPath (spec_Local (vdb_Spec v)),
                                       loc_DepotPath (spec_Local (vdb_Spec v))]
      in foldl (\<lambda>errs (i, volMnt).
           let errs1 = foldl (\<lambda>es p.
                 if vm_MountPath volMnt = p
                 then es @ [field_Invalid [Child ''spec'', Child ''volumeMounts'', Index i, Child ''mountPath'']
                        ''conflicts with the mount path of one of the internally generated paths'']
                 else es) errs invalidPaths
           in if strings_HasPrefix (vm_MountPath volMnt) CertsRoot
              then errs1 @ [field_Invalid [Child ''spec'', Child ''volumeMounts'', Index i, Child ''mountPath'']
                     (''cannot shared the same path prefix as the certs root '' @ [CHR 0x27] @ CertsRoot @ [CHR 0x27])]
              else errs1) allErrs (enumerate 0 (spec_VolumeMounts (vdb_Spec v))))"

definition hasValidKerberosSetup :: "VerticaDB \<Rightarrow> FieldError list \<Rightarrow> FieldError list" where
  "hasValidKerberosSetup v allErrs =
     (let realm = com_KerberosRealm (spec_Communal (vdb_Spec v));
          svc = com_KerberosServiceName (spec_Communal (vdb_Spec v));
          secret = spec_KerberosSecret (vdb_Spec v)
      in if (realm = [] \<and> svc = []) \<or> (realm \<noteq> [] \<and> svc \<noteq> [] \<and> secret \<noteq> []) then allErrs
         else allErrs
           @ (if realm = [] then [field_Invalid [Child ''spec'', Child ''communal'', Child ''kerberosRealm'']
                ''kerberosRealm must be set if setting up Kerberos''] else [])
           @ (if svc = [] then [field_Invalid [Child ''spec'', Child ''communal'', Child ''kerberosServiceName'']
                ''kerberosServiceName must be set if setting up Kerberos''] else [])
           @ (if secret = [] then [field_Invalid [Child ''spec'', Child ''kerberosSecret'']
                ''kerberosSecret must be set if setting up Kerberos''] else []))"

definition hasValidTemporarySubclusterRouting :: "VerticaDB \<Rightarrow> FieldError list \<Rightarrow> FieldError list" where
  "hasValidTemporarySubclusterRouting v allErrs =
     (let scMap = GenSubclusterMap v;
          pfx = [Child ''spec'', Child ''temporarySubclusterRouting''];
          tpl = vdb_Template v;
          names = slice (sel_Names (spec_TemporarySubclusterRouting (vdb_Spec v)));
          errs1 = (if sc_Name tpl \<noteq> [] then
             allErrs
             @ (if sc_IsPrimary tpl then [field_Invalid (pfx @ [Child ''template'', Child ''isPrimary''])
                  ''subcluster template must be a secondary subcluster''] else [])
             @ (if sc_Size tpl = 0 then [field_Invalid (pfx @ [Child ''template'', Child ''size''])
                  ''size of subcluster template must be greater than zero''] else [])
             @ (case scMap (sc_Name tpl) of
                  Some sc \<Rightarrow> if \<not> sc_IsTransient sc
                     then [field_Invalid (pfx @ [Child ''template'', Child ''name''])
                             ''cannot choose a name of an existing subcluster''] else []
                | None \<Rightarrow> [])
             else allErrs);
          errs2 = foldl (\<lambda>errs (i, nm).
                    if scMap nm = None
                    then errs @ [field_Invalid (pfx @ [Child ''names'', Index i])
                                   ''name must be an existing subcluster'']
                    else errs) errs1 (enumerate 0 names)
      in if names \<noteq> [] \<and> RequiresTransientSubcluster v
         then errs2 @ [field_Invalid pfx
                ''cannot use a template and a list of subcluster names at the same time'']
         else errs2)"

text \<open>The comparison of two subclusters, at \<open>i\<close> and \<open>j\<close>, that share a service name.\<close>

definition serviceNameMismatches :: "nat \<Rightarrow> nat \<Rightarrow> Subcluster \<Rightarrow> Subcluster \<Rightarrow> FieldError list" where
  "serviceNameMismatches i j sc osc =
     (let pfx = [Child ''spec'', Child ''subclusters'', Index j] in
      (if sc_ExternalIPs sc \<noteq> sc_ExternalIPs osc
       then [field_Invalid (pfx @ [Child ''externalIPs'', Index i])
               ''externalIPs don't match other subcluster(s) sharing the same serviceName''] else [])
      @ (if sc_LoadBalancerIP sc \<noteq> sc_LoadBalancerIP osc
       then [field_Invalid (pfx @ [Child ''loadBalancerIP'', Index i])
               ''loadBalancerIP doesn't match other subcluster(s) sharing the same serviceName''] else [])
      @ (if sc_ServiceAnnotations sc \<noteq> sc_ServiceAnnotations osc
       then [field_Invalid (pfx @ [Child ''serviceAnnotations'', Index i])
               ''serviceAnnotations don't match other subcluster(s) sharing the same serviceName''] else [])
      @ (if sc_NodePort sc \<noteq> sc_NodePort osc
       then [field_Invalid (pfx @ [Child ''nodePort'', Index i])
               ''nodePort doesn't match other subcluster(s) sharing the same serviceName''] else [])
      @ (if sc_ServiceType sc \<noteq> sc_ServiceType osc
       then [field_Invalid (pfx @ [Child ''serviceType'', Index i])
               ''serviceType doesn't match other subcluster(s) sharing the same serviceName''] else []))"

fun matchingServiceNames_from :: "nat \<Rightarrow> Subcluster list \<Rightarrow> string list \<Rightarrow> FieldError list" where
  "matchingServiceNames_from i [] processed = []"
| "matchingServiceNames_from i (sc # rest) processed =
     (if GetServiceName sc \<in> set processed then matchingServiceNames_from (Suc i) rest processed
      else concat (map (\<lambda>(j, osc).
              if GetServiceName sc = GetServiceName osc then serviceNameMismatches i j sc osc else [])
              (enumerate (Suc i) rest))
           @ matchingServiceNames_from (Suc i) rest (GetServiceName sc # processed))"

definition matchingServiceNamesAreConsistent :: "VerticaDB \<Rightarrow> FieldError list \<Rightarrow> FieldError list" where
  "matchingServiceNamesAreConsistent v allErrs =
     allErrs @ matchingServiceNames_from 0 (vdb_Subclusters v) []"

definition transientSubclusterMustMatchTemplate :: "VerticaDB \<Rightarrow> FieldError list \<Rightarrow> FieldError list" where
  "transientSubclusterMustMatchTemplate v allErrs =
     foldl (\<lambda>errs (i, sc).
              if \<not> sc_IsTransient sc then errs
              else if sc_Name sc \<noteq> sc_Name (vdb_Template v)
              then errs @ [field_Invalid [Child ''spec'', Child ''subclusters'', Index i, Child ''Name'', Index i]
                             ''Transient subcluster name doesn't match template'']
              else errs) allErrs (enumerate 0 (vdb_Subclusters v))"

definition validateRequeueTimes :: "VerticaDB \<Rightarrow> FieldError list \<Rightarrow> FieldError list" where
  "validateRequeueTimes v allErrs =
     allErrs
     @ (if spec_RequeueTime (vdb_Spec v) < 0
        then [field_Invalid [Child ''spec'', Child ''requeueTime''] ''requeueTime cannot be negative''] else [])
     @ (if spec_UpgradeRequeueTime (vdb_Spec v) < 0
        then [field_Invalid [Child ''spec'', Child ''upgradeRequeueTime''] ''upgradeRequeueTime cannot be negative''] else [])"

definition validateEncryptSpreadComm :: "VerticaDB \<Rightarrow> FieldError list \<Rightarrow> FieldError list" where
  "validateEncryptSpreadComm v allErrs =
     (if spec_EncryptSpreadComm (vdb_Spec v) \<noteq> []
         \<and> spec_EncryptSpreadComm (vdb_Spec v) \<noteq> EncryptSpreadCommWithVertica
      then allErrs @ [field_Invalid [Child ''spec'', Child ''encrpytSpreadComm'']
             (''encryptSpreadComm can either be an empty string or set to '' @ EncryptSpreadCommWithVertica)]
      else allErrs)"

definition validateVerticaDBSpec :: "VerticaDB \<Rightarrow> FieldError list" where
  "validateVerticaDBSpec v =
     (let allErrs = hasAtLeastOneSC v [];
          allErrs = hasValidInitPolicy v allErrs;
          allErrs = hasValidDBName v allErrs;
          allErrs = hasPrimarySubcluster v allErrs;
          allErrs = validateKsafety v allErrs;
          allErrs = validateCommunalPath v allErrs;
          allErrs = validateEndpoint v allErrs;
          allErrs = hasValidDomainName v allErrs;
          allErrs = credentialSecretExists v allErrs;
          allErrs = hasValidNodePort v allErrs;
          allErrs = isNodePortProperlySpecified v allErrs;
          allErrs = isServiceTypeValid v allErrs;
          allErrs = hasDuplicateScName v allErrs;
          allErrs = hasValidVolumeName v allErrs;
          allErrs = hasValidVolumeMountName v allErrs;
          allErrs = hasValidKerberosSetup v allErrs;
          allErrs = hasValidTemporarySubclusterRouting v allErrs;
          allErrs = matchingServiceNamesAreConsistent v allErrs;
          allErrs = transientSubclusterMustMatchTemplate v allErrs;
          allErrs = validateRequeueTimes v allErrs;
          allErrs = validateEncryptSpreadComm v allErrs
      in allErrs)"

section \<open>Validation of an update\<close>

definition isImageChangeInProgress :: "VerticaDB \<Rightarrow> bool" where
  "isImageChangeInProgress v = isConditionIndexSet v ImageChangeInProgressIndex"

text \<open>
  The names of the old subclusters whose entry in the status, at the same index, has a node in
  the database.
\<close>

definition namesAddedToDB :: "VerticaDB \<Rightarrow> string list" where
  "namesAddedToDB oldObj =
     concat (map (\<lambda>(i, sc).
        if length (stat_Subclusters (vdb_Status oldObj)) > i
        then (if ss_AddedToDBCount (stat_Subclusters (vdb_Status oldObj) ! i) > 0
              then [sc_Name sc] else [])
        else []) (enumerate 0 (vdb_Subclusters oldObj)))"

definition canUpdateScName :: "VerticaDB \<Rightarrow> VerticaDB \<Rightarrow> bool" where
  "canUpdateScName v oldObj =
     (if namesAddedToDB oldObj \<noteq> []
      then list_ex (\<lambda>scNew. sc_Name scNew \<in> set (namesAddedToDB oldObj)) (vdb_Subclusters v)
      else True)"

text \<open>The index of the first subcluster whose type changes.\<close>

definition isSubclusterTypeIsChanging :: "VerticaDB \<Rightarrow> VerticaDB \<Rightarrow> nat option" where
  "isSubclusterTypeIsChanging v oldObj =
     (let nameToPrimaryMap = foldl (\<lambda>m sc. m(sc_Name sc \<mapsto> sc_IsPrimary sc)) Map.empty (vdb_Subclusters oldObj)
      in map_option fst (List.find (\<lambda>(i, sc).
            case nameToPrimaryMap (sc_Name sc) of
              None \<Rightarrow> False
            | Some isPrimary \<Rightarrow> isPrimary \<noteq> sc_IsPrimary sc) (enumerate 0 (vdb_Subclusters v))))"

definition checkImmutableUpgradePolicy :: "VerticaDB \<Rightarrow> VerticaDB \<Rightarrow> FieldError list \<Rightarrow> FieldError list" where
  "checkImmutableUpgradePolicy v oldObj allErrs =
     (if spec_UpgradePolicy (vdb_Spec v) = spec_UpgradePolicy (vdb_Spec oldObj)
         \<or> \<not> isImageChangeInProgress oldObj
      then allErrs
      else allErrs @ [field_Invalid [Child ''spec'', Child ''upgradePolicy'']
             ''upgradePolicy cannot change because upgrade is in progress''])"

definition checkImmutableTemporarySubclusterRouting ::
    "VerticaDB \<Rightarrow> VerticaDB \<Rightarrow> FieldError list \<Rightarrow> FieldError list" where
  "checkImmutableTemporarySubclusterRouting v oldObj allErrs =
     (if \<not> isImageChangeInProgress oldObj then allErrs
      else let r = spec_TemporarySubclusterRouting (vdb_Spec v);
               ro = spec_TemporarySubclusterRouting (vdb_Spec oldObj)
      in allErrs
         @ (if sel_Names r \<noteq> sel_Names ro
            then [field_Invalid [Child ''spec'', Child ''temporarySubclusterRouting'', Child ''names'']
              ''subcluster names for temporasySubclusterRouting cannot change when an upgrade is in progress''] else [])
         @ (if sel_Template r \<noteq> sel_Template ro
            then [field_Invalid [Child ''spec'', Child ''temporarySubclusterRouting'', Child ''template'']
              ''template for temporasySubclusterRouting cannot change when an upgrade is in progress''] else []))"

definition checkImmutableEncryptSpreadComm :: "VerticaDB \<Rightarrow> VerticaDB \<Rightarrow> FieldError list \<Rightarrow> FieldError list" where
  "checkImmutableEncryptSpreadComm v oldObj allErrs =
     (if spec_EncryptSpreadComm (vdb_Spec v) \<noteq> spec_EncryptSpreadComm (vdb_Spec oldObj)
      then allErrs @ [field_Invalid [Child ''spec'', Child ''encryptSpreadComm'']
             ''encryptSpreadComm cannot change after creation'']
      else allErrs)"

text \<open>One of the comparisons of a field that cannot change after creation.\<close>

definition immutableField :: "bool \<Rightarrow> path_elem list \<Rightarrow> string \<Rightarrow> FieldError list" where
  "immutableField same p msg = (if same then [] else [field_Invalid p msg])"

definition validateImmutableFields :: "VerticaDB \<Rightarrow> VerticaDB \<Rightarrow> FieldError list" where
  "validateImmutableFields v oldObj =
     (let s = vdb_Spec v; t = vdb_Spec oldObj;
          allErrs =
            immutableField (spec_KSafety s = spec_KSafety t) [Child ''spec'', Child ''kSafety'']
              ''kSafety cannot change after creation.''
            @ immutableField (spec_InitPolicy s = spec_InitPolicy t) [Child ''spec'', Child ''initPolicy'']
              ''initPolicy cannot change after creation.''
            @ immutableField (spec_DBName s = spec_DBName t) [Child ''spec'', Child ''dbName'']
              ''dbName cannot change after creation.''
            @ immutableField (loc_DataPath (spec_Local s) = loc_DataPath (spec_Local t))
              [Child ''spec'', Child ''local'', Child ''dataPath''] ''dataPath cannot change after creation.''
            @ immutableField (loc_DepotPath (spec_Local s) = loc_DepotPath (spec_Local t))
              [Child ''spec'', Child ''local'', Child ''depotPath''] ''depotPath cannot change after creation.''
            @ immutableField (spec_ShardCount s = spec_ShardCount t) [Child ''spec'', Child ''shardCount'']
              ''shardCount cannot change after creation.''
            @ immutableField (com_Path (spec_Communal s) = com_Path (spec_Communal t))
              [Child ''spec'', Child ''communal'', Child ''path''] ''communal.path cannot change after creation''
            @ immutableField (com_Endpoint (spec_Communal s) = com_Endpoint (spec_Communal t))
              [Child ''spec'', Child ''communal'', Child ''endpoint''] ''communal.endpoint cannot change after creation''
            @ immutableField (loc_RequestSize (spec_Local s) = loc_RequestSize (spec_Local t))
              [Child ''spec'', Child ''local'', Child ''requestSize''] ''local.requestSize cannot change after creation''
            @ immutableField (loc_StorageClass (spec_Local s) = loc_StorageClass (spec_Local t))
              [Child ''spec'', Child ''local'', Child ''storageClass''] ''local.storageClass cannot change after creation''
            @ immutableField (canUpdateScName v oldObj) [Child ''spec'', Child ''subclusters'']
              ''at least one subcluster name should match its old name''
            @ (case isSubclusterTypeIsChanging v oldObj of
                 None \<Rightarrow> []
               | Some inx \<Rightarrow>
                   [field_Invalid [Child ''spec'', Child ''subclusters'', Child ''isPrimary'']
                     (''subcluster '' @ sc_Name (vdb_Subclusters v ! inx) @ '' cannot have its isPrimary type change'')]);
          allErrs = checkImmutableUpgradePolicy v oldObj allErrs;
          allErrs = checkImmutableTemporarySubclusterRouting v oldObj allErrs
      in checkImmutableEncryptSpreadComm v oldObj allErrs)"

section \<open>The webhook's entry points\<close>

text \<open>\<^const>\<open>None\<close> accepts; \<^const>\<open>Some\<close> is the Invalid error with its causes.\<close>

definition ValidateCreate :: "VerticaDB \<Rightarrow> FieldError list option" where
  "ValidateCreate v =
     (let allErrs = validateVerticaDBSpec v in if allErrs = [] then None else Some allErrs)"

definition ValidateUpdate :: "VerticaDB \<Rightarrow> VerticaDB \<Rightarrow> FieldError list option" where
  "ValidateUpdate v old =
     (let allErrs = validateImmutableFields v old @ validateVerticaDBSpec v
      in if allErrs = [] then None else Some allErrs)"

definition ValidateDelete :: "VerticaDB \<Rightarrow> FieldError list option" where
  "ValidateDelete v = None"

section \<open>What an accepted resource satisfies\<close>

text \<open>
  The contract of the webhook, stated without its loops and messages. \<open>wellFormedSpec\<close> is what a
  resource satisfies when it is accepted, \<open>immutablesKept\<close> what an accepted update leaves alone.
\<close>

definition communalOk :: "VerticaDB \<Rightarrow> bool" where
  "communalOk v \<longleftrightarrow>
     (IsS3 v \<or> IsGCloud v \<or> IsAzure v \<or> IsHDFS v)
     \<and> (\<not> IsHDFS v \<and> \<not> IsAzure v \<longrightarrow>
          prefix ''http://'' (com_Endpoint (spec_Communal (vdb_Spec v)))
          \<or> prefix ''https://'' (com_Endpoint (spec_Communal (vdb_Spec v))))
     \<and> (\<not> IsHDFS v \<longrightarrow> com_CredentialSecret (spec_Communal (vdb_Spec v)) \<noteq> [])"

definition ksafetyOk :: "VerticaDB \<Rightarrow> bool" where
  "ksafetyOk v \<longleftrightarrow>
     (let n = sum_list (map sc_Size (vdb_Subclusters v)) in
      spec_KSafety (vdb_Spec v) = ''0'' \<and> 1 \<le> n \<and> n \<le> 3
      \<or> spec_KSafety (vdb_Spec v) = ''1'' \<and> 3 \<le> n)"

definition subclusterOk :: "Subcluster \<Rightarrow> bool" where
  "subclusterOk sc \<longleftrightarrow>
     IsValidSubclusterName (sc_Name sc)
     \<and> sc_ServiceType sc \<in> {''LoadBalancer'', ''NodePort'', ''ExternalName'', ''ClusterIP''}
     \<and> (sc_NodePort sc \<noteq> 0 \<longrightarrow>
          sc_ServiceType sc = ''LoadBalancer''
          \<or> sc_ServiceType sc = ''NodePort'' \<and> 30000 \<le> sc_NodePort sc \<and> sc_NodePort sc \<le> 32767)"

text \<open>The settings that end up in the service object that subclusters with one service name share.\<close>

definition serviceSettings :: "Subcluster \<Rightarrow> string list option \<times> string \<times> label_map option \<times> int \<times> string" where
  "serviceSettings sc = (sc_ExternalIPs sc, sc_LoadBalancerIP sc, sc_ServiceAnnotations sc,
     sc_NodePort sc, sc_ServiceType sc)"

definition volumesOk :: "VerticaDB \<Rightarrow> bool" where
  "volumesOk v \<longleftrightarrow>
     (\<forall>vol \<in> set (spec_Volumes (vdb_Spec v)).
        vol_Name vol \<notin> {LocalDataPVC, PodInfoMountName, LicensingMountName, HadoopConfigMountName})
     \<and> (\<forall>m \<in> set (spec_VolumeMounts (vdb_Spec v)).
          vm_MountPath m \<notin> set MountPaths \<and> vm_MountPath m \<noteq> loc_DataPath (spec_Local (vdb_Spec v))
          \<and> vm_MountPath m \<noteq> loc_DepotPath (spec_Local (vdb_Spec v))
          \<and> \<not> prefix CertsRoot (vm_MountPath m))"

definition kerberosOk :: "VerticaDB \<Rightarrow> bool" where
  "kerberosOk v \<longleftrightarrow>
     (let realm = com_KerberosRealm (spec_Communal (vdb_Spec v));
          svc = com_KerberosServiceName (spec_Communal (vdb_Spec v))
      in (realm = [] \<longleftrightarrow> svc = []) \<and> (realm \<noteq> [] \<longrightarrow> spec_KerberosSecret (vdb_Spec v) \<noteq> []))"

definition routingOk :: "VerticaDB \<Rightarrow> bool" where
  "routingOk v \<longleftrightarrow>
     (let tpl = vdb_Template v; nms = slice (sel_Names (spec_TemporarySubclusterRouting (vdb_Spec v))) in
      (sc_Name tpl \<noteq> [] \<longrightarrow> \<not> sc_IsPrimary tpl \<and> sc_Size tpl \<noteq> 0
         \<and> (\<forall>sc. GenSubclusterMap v (sc_Name tpl) = Some sc \<longrightarrow> sc_IsTransient sc))
      \<and> set nms \<subseteq> sc_Name ` set (vdb_Subclusters v)
      \<and> (nms = [] \<or> \<not> RequiresTransientSubcluster v))"

definition wellFormedSpec :: "VerticaDB \<Rightarrow> bool" where
  "wellFormedSpec v \<longleftrightarrow>
     spec_InitPolicy (vdb_Spec v) \<in> {''Create'', ''Revive'', ''ScheduleOnly''}
     \<and> length (spec_DBName (vdb_Spec v)) \<le> 30
     \<and> set (spec_DBName (vdb_Spec v)) \<inter> set invalidDBNameChars = {}
     \<and> (\<exists>sc \<in> set (vdb_Subclusters v). sc_IsPrimary sc)
     \<and> (spec_InitPolicy (vdb_Spec v) \<noteq> ''ScheduleOnly'' \<longrightarrow> ksafetyOk v \<and> communalOk v)
     \<and> (\<forall>sc \<in> set (vdb_Subclusters v). subclusterOk sc)
     \<and> distinct (map sc_Name (vdb_Subclusters v))
     \<and> volumesOk v \<and> kerberosOk v \<and> routingOk v
     \<and> (\<forall>sc \<in> set (vdb_Subclusters v). \<forall>osc \<in> set (vdb_Subclusters v).
          GetServiceName sc = GetServiceName osc \<longrightarrow> serviceSettings sc = serviceSettings osc)
     \<and> (\<forall>sc \<in> set (vdb_Subclusters v). sc_IsTransient sc \<longrightarrow> sc_Name sc = sc_Name (vdb_Template v))
     \<and> 0 \<le> spec_RequeueTime (vdb_Spec v) \<and> 0 \<le> spec_UpgradeRequeueTime (vdb_Spec v)
     \<and> spec_EncryptSpreadComm (vdb_Spec v) \<in> {[], ''vertica''}"

section \<open>Lemmas\<close>

named_theorems err_free \<open>when a check adds no error\<close>

lemmas webhook_consts = ServiceTypeLoadBalancer_def ServiceTypeNodePort_def
  ServiceTypeExternalName_def ServiceTypeClusterIP_def KSafety0MinHosts_def KSafety0MaxHosts_def
  KSafety1MinHosts_def portLowerBound_def portUpperBound_def dbNameLengthLimit_def

lemma foldl_err_free:
  "(\<And>errs x. f errs x = [] \<longleftrightarrow> errs = [] \<and> P x) \<Longrightarrow>
   foldl f errs xs = [] \<longleftrightarrow> errs = [] \<and> (\<forall>x \<in> set xs. P x)"
  by (induction xs arbitrary: errs) auto

lemma ball_enumerate: "(\<forall>p \<in> set (enumerate n xs). P (snd p)) \<longleftrightarrow> (\<forall>x \<in> set xs. P x)"
  by (metis (no_types, lifting) image_eqI image_iff list.set_map map_snd_enumerate)

lemma foldl_enumerate_err_free:
  assumes "\<And>errs i x. f errs (i, x) = [] \<longleftrightarrow> errs = [] \<and> P x"
  shows "foldl f errs (enumerate n xs) = [] \<longleftrightarrow> errs = [] \<and> (\<forall>x \<in> set xs. P x)"
  using foldl_err_free [of f "\<lambda>p. P (snd p)"] assms by (simp add: split_paired_all ball_enumerate)

lemma concat_enumerate_err_free:
  "concat (map (\<lambda>(j, y). if P y then f j y else []) (enumerate n xs)) = [] \<longleftrightarrow>
     (\<forall>p \<in> set (enumerate n xs). P (snd p) \<longrightarrow> f (fst p) (snd p) = [])"
  by (auto simp: concat_eq_Nil_conv split: if_splits)

lemma hasAtLeastOneSC_free [err_free]:
  "hasAtLeastOneSC v errs = [] \<longleftrightarrow> errs = [] \<and> vdb_Subclusters v \<noteq> []"
  by (simp add: hasAtLeastOneSC_def)

lemma hasValidInitPolicy_free [err_free]:
  "hasValidInitPolicy v errs = [] \<longleftrightarrow>
     errs = [] \<and> spec_InitPolicy (vdb_Spec v) \<in> {''Create'', ''Revive'', ''ScheduleOnly''}"
  by (auto simp: hasValidInitPolicy_def policy_defs)

lemma sublist_single: "sublist [c] s \<longleftrightarrow> c \<in> set s"
  by (induction s) (auto simp: sublist_Cons_right)

lemma hasValidDBName_free [err_free]:
  "hasValidDBName v errs = [] \<longleftrightarrow>
     errs = [] \<and> length (spec_DBName (vdb_Spec v)) \<le> 30
     \<and> set (spec_DBName (vdb_Spec v)) \<inter> set invalidDBNameChars = {}"
  unfolding hasValidDBName_def Let_def
  by (subst foldl_err_free [where P = "\<lambda>c. c \<notin> set (spec_DBName (vdb_Spec v))"])
     (auto simp: Contains_iff_sublist sublist_single dbNameLengthLimit_def)

lemma hasPrimarySubcluster_free [err_free]:
  "hasPrimarySubcluster v errs = [] \<longleftrightarrow> errs = [] \<and> (\<exists>sc \<in> set (vdb_Subclusters v). sc_IsPrimary sc)"
  by (simp add: hasPrimarySubcluster_def list_ex_iff)

lemma getClusterSize_sum [simp]: "getClusterSize v = sum_list (map sc_Size (vdb_Subclusters v))"
proof -
  have "foldl (\<lambda>s sc. s + sc_Size sc) a xs = a + sum_list (map sc_Size xs)"
    for a and xs :: "Subcluster list"
    by (induction xs arbitrary: a) auto
  then show ?thesis by (simp add: getClusterSize_def)
qed

lemma validateKsafety_free [err_free]:
  "validateKsafety v errs = [] \<longleftrightarrow>
     errs = [] \<and> (spec_InitPolicy (vdb_Spec v) \<noteq> ''ScheduleOnly'' \<longrightarrow> ksafetyOk v)"
  by (auto simp: validateKsafety_def ksafetyOk_def policy_defs webhook_consts Let_def)

lemma validateCommunal_free [err_free]:
  "validateCommunalPath v errs = [] \<longleftrightarrow>
     errs = [] \<and> (spec_InitPolicy (vdb_Spec v) \<noteq> ''ScheduleOnly'' \<longrightarrow>
       IsS3 v \<or> IsGCloud v \<or> IsAzure v \<or> IsHDFS v)"
  "validateEndpoint v errs = [] \<longleftrightarrow>
     errs = [] \<and> (spec_InitPolicy (vdb_Spec v) \<noteq> ''ScheduleOnly'' \<longrightarrow> \<not> IsHDFS v \<and> \<not> IsAzure v \<longrightarrow>
       prefix ''http://'' (com_Endpoint (spec_Communal (vdb_Spec v)))
       \<or> prefix ''https://'' (com_Endpoint (spec_Communal (vdb_Spec v))))"
  "credentialSecretExists v errs = [] \<longleftrightarrow>
     errs = [] \<and> (spec_InitPolicy (vdb_Spec v) \<noteq> ''ScheduleOnly'' \<longrightarrow> \<not> IsHDFS v \<longrightarrow>
       com_CredentialSecret (spec_Communal (vdb_Spec v)) \<noteq> [])"
  by (auto simp: validateCommunalPath_def validateEndpoint_def credentialSecretExists_def
      policy_defs IsS3_def IsGCloud_def IsAzure_def IsHDFS_def HasPrefix_iff_prefix)

lemma subcluster_checks_free:
  "hasValidDomainName v errs = [] \<longleftrightarrow>
     errs = [] \<and> (\<forall>sc \<in> set (vdb_Subclusters v). IsValidSubclusterName (sc_Name sc))"
  "hasValidNodePort v errs = [] \<longleftrightarrow>
     errs = [] \<and> (\<forall>sc \<in> set (vdb_Subclusters v). sc_ServiceType sc = ''NodePort'' \<longrightarrow>
       sc_NodePort sc = 0 \<or> 30000 \<le> sc_NodePort sc \<and> sc_NodePort sc \<le> 32767)"
  "isNodePortProperlySpecified v errs = [] \<longleftrightarrow>
     errs = [] \<and> (\<forall>sc \<in> set (vdb_Subclusters v).
       sc_NodePort sc \<noteq> 0 \<longrightarrow> sc_ServiceType sc \<in> {''LoadBalancer'', ''NodePort''})"
  "isServiceTypeValid v errs = [] \<longleftrightarrow>
     errs = [] \<and> (\<forall>sc \<in> set (vdb_Subclusters v).
       sc_ServiceType sc \<in> {''LoadBalancer'', ''NodePort'', ''ExternalName'', ''ClusterIP''})"
  unfolding hasValidDomainName_def hasValidNodePort_def isNodePortProperlySpecified_def isServiceTypeValid_def
  by (intro foldl_enumerate_err_free; auto simp: webhook_consts)+

lemma dupNamePairs_free: "dupNamePairs i scs = [] \<longleftrightarrow> distinct (map sc_Name scs)"
proof (induction i scs rule: dupNamePairs.induct)
  case (2 i sc1 rest)
  have "concat (map (\<lambda>(j, sc2). if sc_Name sc1 = sc_Name sc2
          then [field_Invalid (p j) m] else []) (enumerate (Suc i) rest)) = []
        \<longleftrightarrow> sc_Name sc1 \<notin> sc_Name ` set rest" for p m
    unfolding concat_enumerate_err_free
    using ball_enumerate [of "Suc i" rest "\<lambda>y. sc_Name sc1 \<noteq> sc_Name y"] by auto
  with 2 show ?case by simp
qed simp

lemma hasDuplicateScName_free [err_free]:
  "hasDuplicateScName v errs = [] \<longleftrightarrow> errs = [] \<and> distinct (map sc_Name (vdb_Subclusters v))"
  by (simp add: hasDuplicateScName_def dupNamePairs_free)

lemma volumes_free:
  "hasValidVolumeName v errs = [] \<longleftrightarrow>
     errs = [] \<and> (\<forall>vol \<in> set (spec_Volumes (vdb_Spec v)).
        vol_Name vol \<notin> {LocalDataPVC, PodInfoMountName, LicensingMountName, HadoopConfigMountName})"
  "hasValidVolumeMountName v errs = [] \<longleftrightarrow>
     errs = [] \<and> (\<forall>m \<in> set (spec_VolumeMounts (vdb_Spec v)).
        vm_MountPath m \<notin> set MountPaths \<and> vm_MountPath m \<noteq> loc_DataPath (spec_Local (vdb_Spec v))
        \<and> vm_MountPath m \<noteq> loc_DepotPath (spec_Local (vdb_Spec v))
        \<and> \<not> prefix CertsRoot (vm_MountPath m))"
proof -
  show "hasValidVolumeName v errs = [] \<longleftrightarrow>
     errs = [] \<and> (\<forall>vol \<in> set (spec_Volumes (vdb_Spec v)).
        vol_Name vol \<notin> {LocalDataPVC, PodInfoMountName, LicensingMountName, HadoopConfigMountName})"
    unfolding hasValidVolumeName_def by (intro foldl_enumerate_err_free) auto
  have inner: "foldl (\<lambda>es p. if x = p then es @ [e] else es) errs ps = [] \<longleftrightarrow> errs = [] \<and> x \<notin> set ps"
    for x :: string and e :: FieldError and errs ps
    by (subst foldl_err_free [where P = "\<lambda>p. x \<noteq> p"]) auto
  show "hasValidVolumeMountName v errs = [] \<longleftrightarrow>
     errs = [] \<and> (\<forall>m \<in> set (spec_VolumeMounts (vdb_Spec v)).
        vm_MountPath m \<notin> set MountPaths \<and> vm_MountPath m \<noteq> loc_DataPath (spec_Local (vdb_Spec v))
        \<and> vm_MountPath m \<noteq> loc_DepotPath (spec_Local (vdb_Spec v))
        \<and> \<not> prefix CertsRoot (vm_MountPath m))"
    unfolding hasValidVolumeMountName_def Let_def
    by (intro foldl_enumerate_err_free) (auto simp: inner HasPrefix_iff_prefix simp del: foldl_append)
qed

lemma hasValidKerberosSetup_free [err_free]:
  "hasValidKerberosSetup v errs = [] \<longleftrightarrow> errs = [] \<and> kerberosOk v"
  by (auto simp: hasValidKerberosSetup_def kerberosOk_def Let_def)

lemma hasValidTemporarySubclusterRouting_free [err_free]:
  "hasValidTemporarySubclusterRouting v errs = [] \<longleftrightarrow> errs = [] \<and> routingOk v"
proof -
  have "foldl (\<lambda>errs (i, nm). if GenSubclusterMap v nm = None then errs @ [e i] else errs) a (enumerate 0 ns) = []
        \<longleftrightarrow> a = [] \<and> set ns \<subseteq> sc_Name ` set (vdb_Subclusters v)" for a ns and e :: "nat \<Rightarrow> FieldError"
    by (subst foldl_enumerate_err_free [where P = "\<lambda>nm. GenSubclusterMap v nm \<noteq> None"])
       (auto simp: vdb_simps)
  then show ?thesis
    by (auto simp: hasValidTemporarySubclusterRouting_def routingOk_def Let_def split: option.splits)
qed

lemma serviceNameMismatches_free:
  "serviceNameMismatches i j sc osc = [] \<longleftrightarrow> serviceSettings sc = serviceSettings osc"
  by (simp add: serviceNameMismatches_def serviceSettings_def Let_def)

text \<open>
  Only the first subcluster of each service name is compared with those after it; agreement with
  it is agreement of all of them.
\<close>

lemma head_agreement:
  assumes "g x \<notin> P"
  shows "(\<forall>y \<in> S. g x = g y \<longrightarrow> h x = h y)
         \<and> (\<forall>a \<in> S. \<forall>b \<in> S. g a = g b \<and> g a \<notin> insert (g x) P \<longrightarrow> h a = h b)
         \<longleftrightarrow> (\<forall>a \<in> insert x S. \<forall>b \<in> insert x S. g a = g b \<and> g a \<notin> P \<longrightarrow> h a = h b)"
    (is "?L \<longleftrightarrow> ?R")
proof
  assume L: ?L
  then have x: "y \<in> insert x S \<Longrightarrow> g x = g y \<Longrightarrow> h x = h y" for y by blast
  show ?R
  proof (intro ballI impI)
    fix a b
    assume ab: "a \<in> insert x S" "b \<in> insert x S" "g a = g b \<and> g a \<notin> P"
    show "h a = h b"
    proof (cases "g x = g a")
      case True
      with ab x [of a] x [of b] show ?thesis by simp
    next
      case False
      with ab have "a \<in> S" "b \<in> S" "g a \<notin> insert (g x) P" by auto
      with L ab show ?thesis by blast
    qed
  qed
next
  assume ?R
  then have R: "a \<in> insert x S \<Longrightarrow> b \<in> insert x S \<Longrightarrow> g a = g b \<Longrightarrow> g a \<notin> P \<Longrightarrow> h a = h b" for a b
    by blast
  show ?L by (intro conjI ballI impI; rule R) (use assms in auto)
qed

lemma skip_agreement:
  assumes "g x \<in> P"
  shows "(\<forall>a \<in> S. \<forall>b \<in> S. g a = g b \<and> g a \<notin> P \<longrightarrow> h a = h b)
         \<longleftrightarrow> (\<forall>a \<in> insert x S. \<forall>b \<in> insert x S. g a = g b \<and> g a \<notin> P \<longrightarrow> h a = h b)"
    (is "?L \<longleftrightarrow> ?R")
proof
  assume L: ?L
  show ?R
  proof (intro ballI impI)
    fix a b
    assume ab: "a \<in> insert x S" "b \<in> insert x S" "g a = g b \<and> g a \<notin> P"
    with assms have "a \<in> S" "b \<in> S" by auto
    with L ab show "h a = h b" by blast
  qed
qed blast

lemma matchingServiceNames_free:
  "matchingServiceNames_from i scs processed = [] \<longleftrightarrow>
     (\<forall>sc \<in> set scs. \<forall>osc \<in> set scs. GetServiceName sc = GetServiceName osc \<and>
        GetServiceName sc \<notin> set processed \<longrightarrow> serviceSettings sc = serviceSettings osc)"
proof (induction i scs processed rule: matchingServiceNames_from.induct)
  case (2 i sc rest processed)
  show ?case
  proof (cases "GetServiceName sc \<in> set processed")
    case True
    then have "matchingServiceNames_from i (sc # rest) processed = [] \<longleftrightarrow>
        matchingServiceNames_from (Suc i) rest processed = []"
      by (simp only: matchingServiceNames_from.simps if_True)
    also have "\<dots> \<longleftrightarrow> (\<forall>a \<in> insert sc (set rest). \<forall>b \<in> insert sc (set rest).
        GetServiceName a = GetServiceName b \<and> GetServiceName a \<notin> set processed
        \<longrightarrow> serviceSettings a = serviceSettings b)"
      unfolding 2(1) [OF True] by (rule skip_agreement) (rule True)
    finally show ?thesis unfolding list.set .
  next
    case False
    have "concat (map (\<lambda>(j, osc). if GetServiceName sc = GetServiceName osc
            then serviceNameMismatches i j sc osc else []) (enumerate (Suc i) rest)) = []
          \<longleftrightarrow> (\<forall>osc \<in> set rest. GetServiceName sc = GetServiceName osc \<longrightarrow> serviceSettings sc = serviceSettings osc)"
      unfolding concat_enumerate_err_free serviceNameMismatches_free
      by (rule ball_enumerate)
    then have "matchingServiceNames_from i (sc # rest) processed = [] \<longleftrightarrow>
        (\<forall>osc \<in> set rest. GetServiceName sc = GetServiceName osc \<longrightarrow> serviceSettings sc = serviceSettings osc)
        \<and> matchingServiceNames_from (Suc i) rest (GetServiceName sc # processed) = []"
      using False by (simp only: matchingServiceNames_from.simps if_False append_is_Nil_conv)
    also have "\<dots> \<longleftrightarrow> (\<forall>a \<in> insert sc (set rest). \<forall>b \<in> insert sc (set rest).
        GetServiceName a = GetServiceName b \<and> GetServiceName a \<notin> set processed
        \<longrightarrow> serviceSettings a = serviceSettings b)"
      unfolding 2(2) [OF False] list.set by (rule head_agreement) (rule False)
    finally show ?thesis unfolding list.set .
  qed
qed simp

lemma matchingServiceNamesAreConsistent_free [err_free]:
  "matchingServiceNamesAreConsistent v errs = [] \<longleftrightarrow>
     errs = [] \<and> (\<forall>sc \<in> set (vdb_Subclusters v). \<forall>osc \<in> set (vdb_Subclusters v).
       GetServiceName sc = GetServiceName osc \<longrightarrow> serviceSettings sc = serviceSettings osc)"
  by (simp add: matchingServiceNamesAreConsistent_def matchingServiceNames_free)

lemma transientSubclusterMustMatchTemplate_free [err_free]:
  "transientSubclusterMustMatchTemplate v errs = [] \<longleftrightarrow>
     errs = [] \<and> (\<forall>sc \<in> set (vdb_Subclusters v). sc_IsTransient sc \<longrightarrow> sc_Name sc = sc_Name (vdb_Template v))"
  unfolding transientSubclusterMustMatchTemplate_def by (intro foldl_enumerate_err_free) auto

lemma requeue_encrypt_free [err_free]:
  "validateRequeueTimes v errs = [] \<longleftrightarrow>
     errs = [] \<and> 0 \<le> spec_RequeueTime (vdb_Spec v) \<and> 0 \<le> spec_UpgradeRequeueTime (vdb_Spec v)"
  "validateEncryptSpreadComm v errs = [] \<longleftrightarrow>
     errs = [] \<and> spec_EncryptSpreadComm (vdb_Spec v) \<in> {[], ''vertica''}"
  by (auto simp: validateRequeueTimes_def validateEncryptSpreadComm_def policy_defs)

lemmas list_err_free = subcluster_checks_free volumes_free

lemma subclusterOk_split:
  "(\<forall>sc \<in> S. subclusterOk sc) \<longleftrightarrow>
     (\<forall>sc \<in> S. IsValidSubclusterName (sc_Name sc))
     \<and> (\<forall>sc \<in> S. sc_ServiceType sc = ''NodePort'' \<longrightarrow>
          sc_NodePort sc = 0 \<or> 30000 \<le> sc_NodePort sc \<and> sc_NodePort sc \<le> 32767)
     \<and> (\<forall>sc \<in> S. sc_NodePort sc \<noteq> 0 \<longrightarrow> sc_ServiceType sc \<in> {''LoadBalancer'', ''NodePort''})
     \<and> (\<forall>sc \<in> S. sc_ServiceType sc \<in> {''LoadBalancer'', ''NodePort'', ''ExternalName'', ''ClusterIP''})"
  unfolding subclusterOk_def by fastforce

lemma validateVerticaDBSpec_free: "validateVerticaDBSpec v = [] \<longleftrightarrow> wellFormedSpec v"
proof -
  have nonempty: "(\<exists>sc \<in> set (vdb_Subclusters v). sc_IsPrimary sc) \<Longrightarrow> vdb_Subclusters v \<noteq> []" by auto
  show ?thesis
    unfolding validateVerticaDBSpec_def Let_def err_free list_err_free wellFormedSpec_def
      subclusterOk_split communalOk_def volumesOk_def
    using nonempty by argo
qed

text \<open>What an update that is accepted leaves alone, the old names being distinct.\<close>

definition fixedFields :: "VerticaDB \<Rightarrow> string \<times> string \<times> string \<times> string \<times> string \<times> int \<times> string \<times> string \<times> int \<times> string \<times> string" where
  "fixedFields v =
     (let s = vdb_Spec v in
      (spec_KSafety s, spec_InitPolicy s, spec_DBName s, loc_DataPath (spec_Local s),
       loc_DepotPath (spec_Local s), spec_ShardCount s, com_Path (spec_Communal s),
       com_Endpoint (spec_Communal s), loc_RequestSize (spec_Local s), loc_StorageClass (spec_Local s),
       spec_EncryptSpreadComm s))"

definition immutablesKept :: "VerticaDB \<Rightarrow> VerticaDB \<Rightarrow> bool" where
  "immutablesKept v old \<longleftrightarrow>
     fixedFields v = fixedFields old
     \<and> (namesAddedToDB old = [] \<or> (\<exists>sc \<in> set (vdb_Subclusters v). sc_Name sc \<in> set (namesAddedToDB old)))
     \<and> (\<forall>sc \<in> set (vdb_Subclusters v). \<forall>osc \<in> set (vdb_Subclusters old).
          sc_Name sc = sc_Name osc \<longrightarrow> sc_IsPrimary sc = sc_IsPrimary osc)
     \<and> (isImageChangeInProgress old \<longrightarrow>
          spec_UpgradePolicy (vdb_Spec v) = spec_UpgradePolicy (vdb_Spec old)
          \<and> spec_TemporarySubclusterRouting (vdb_Spec v) = spec_TemporarySubclusterRouting (vdb_Spec old))"

text \<open>
  The resources the API server can hold, with the first version of each: the mutating webhook runs
  before the validating one on every create and update, and the status, a subresource, is written
  without either.
\<close>

inductive admitted :: "VerticaDB \<Rightarrow> VerticaDB \<Rightarrow> bool" where
  admitted_create: "ValidateCreate (VDB_Default v) = None \<Longrightarrow> admitted (VDB_Default v) (VDB_Default v)"
| admitted_update: "admitted v0 old \<Longrightarrow> ValidateUpdate (VDB_Default v) old = None \<Longrightarrow> admitted v0 (VDB_Default v)"
| admitted_status: "admitted v0 v \<Longrightarrow> admitted v0 (v\<lparr>vdb_Status := st\<rparr>)"

lemma foldl_upd_map_of_val:
  "foldl (\<lambda>m sc. m(k sc \<mapsto> f sc)) m0 scs = m0 ++ map_of (rev (map (\<lambda>sc. (k sc, f sc)) scs))"
  by (induction scs arbitrary: m0) (auto simp: map_add_def fun_eq_iff split: option.splits)

lemma isSubclusterTypeIsChanging_free:
  assumes "distinct (map sc_Name (vdb_Subclusters old))"
  shows "isSubclusterTypeIsChanging v old = None \<longleftrightarrow>
     (\<forall>sc \<in> set (vdb_Subclusters v). \<forall>osc \<in> set (vdb_Subclusters old).
        sc_Name sc = sc_Name osc \<longrightarrow> sc_IsPrimary sc = sc_IsPrimary osc)"
proof -
  let ?m = "map_of (rev (map (\<lambda>sc. (sc_Name sc, sc_IsPrimary sc)) (vdb_Subclusters old)))"
  have m: "?m nm = Some b \<longleftrightarrow> (\<exists>osc \<in> set (vdb_Subclusters old). sc_Name osc = nm \<and> sc_IsPrimary osc = b)" for nm b
  proof -
    have "distinct (map fst (rev (map (\<lambda>sc. (sc_Name sc, sc_IsPrimary sc)) (vdb_Subclusters old))))"
      using assms by (simp add: rev_map [symmetric] o_def)
    then show ?thesis by (subst map_of_eq_Some_iff) auto
  qed
  have "isSubclusterTypeIsChanging v old = None \<longleftrightarrow>
      (\<forall>p \<in> set (enumerate 0 (vdb_Subclusters v)).
         \<forall>b. ?m (sc_Name (snd p)) = Some b \<longrightarrow> b = sc_IsPrimary (snd p))"
    unfolding isSubclusterTypeIsChanging_def Let_def foldl_upd_map_of_val map_option_is_None find_None_iff'
    by (intro ball_cong refl) (auto split: option.splits)
  also have "\<dots> \<longleftrightarrow> (\<forall>sc \<in> set (vdb_Subclusters v). \<forall>b. ?m (sc_Name sc) = Some b \<longrightarrow> b = sc_IsPrimary sc)"
    by (rule ball_enumerate)
  finally show ?thesis unfolding m by (simp add: Ball_def) metis
qed

lemma routing_eq_iff:
  "(r :: SubclusterSelection) = ro \<longleftrightarrow> sel_Names r = sel_Names ro \<and> sel_Template r = sel_Template ro"
  by (cases r; cases ro) simp

lemma validateImmutableFields_free:
  assumes "distinct (map sc_Name (vdb_Subclusters old))"
  shows "validateImmutableFields v old = [] \<longleftrightarrow> immutablesKept v old"
proof -
  have sc: "canUpdateScName v old \<longleftrightarrow> namesAddedToDB old = []
      \<or> (\<exists>sc \<in> set (vdb_Subclusters v). sc_Name sc \<in> set (namesAddedToDB old))"
    by (auto simp: canUpdateScName_def list_ex_iff)
  have imm: "immutableField b p m = [] \<longleftrightarrow> b" for b p m
    by (simp add: immutableField_def)
  have ty: "(case isSubclusterTypeIsChanging v old of None \<Rightarrow> [] | Some i \<Rightarrow> [e i]) = []
      \<longleftrightarrow> isSubclusterTypeIsChanging v old = None" for e :: "nat \<Rightarrow> FieldError"
    by (simp split: option.split)
  have up: "checkImmutableUpgradePolicy v old errs = [] \<longleftrightarrow> errs = [] \<and> (isImageChangeInProgress old \<longrightarrow>
        spec_UpgradePolicy (vdb_Spec v) = spec_UpgradePolicy (vdb_Spec old))"
    and ro: "checkImmutableTemporarySubclusterRouting v old errs = [] \<longleftrightarrow> errs = [] \<and> (isImageChangeInProgress old \<longrightarrow>
        spec_TemporarySubclusterRouting (vdb_Spec v) = spec_TemporarySubclusterRouting (vdb_Spec old))"
    and en: "checkImmutableEncryptSpreadComm v old errs = [] \<longleftrightarrow> errs = [] \<and>
        spec_EncryptSpreadComm (vdb_Spec v) = spec_EncryptSpreadComm (vdb_Spec old)" for errs
    by (auto simp: checkImmutableUpgradePolicy_def checkImmutableTemporarySubclusterRouting_def
        checkImmutableEncryptSpreadComm_def Let_def routing_eq_iff)
  show ?thesis
    unfolding validateImmutableFields_def Let_def en ro up append_is_Nil_conv imm ty sc
      isSubclusterTypeIsChanging_free [OF assms] immutablesKept_def fixedFields_def prod.inject
    by argo
qed

lemma wellFormedSpec_distinct: "wellFormedSpec v \<Longrightarrow> distinct (map sc_Name (vdb_Subclusters v))"
  by (simp add: wellFormedSpec_def)

lemma ValidateCreate_None: "ValidateCreate v = None \<longleftrightarrow> wellFormedSpec v"
  by (simp add: ValidateCreate_def Let_def validateVerticaDBSpec_free)

lemma ValidateUpdate_None:
  "wellFormedSpec old \<Longrightarrow> ValidateUpdate v old = None \<longleftrightarrow> wellFormedSpec v \<and> immutablesKept v old"
  by (auto simp: ValidateUpdate_def Let_def validateVerticaDBSpec_free
      validateImmutableFields_free wellFormedSpec_distinct)

text \<open>None of the checks of the spec reads anything else.\<close>

lemma wellFormedSpec_status: "wellFormedSpec (v\<lparr>vdb_Status := st\<rparr>) \<longleftrightarrow> wellFormedSpec v"
  by (simp add: wellFormedSpec_def communalOk_def ksafetyOk_def volumesOk_def kerberosOk_def routingOk_def
      IsS3_def IsGCloud_def IsAzure_def IsHDFS_def GenSubclusterMap_def RequiresTransientSubcluster_def)

section \<open>Lemmas on defaulting\<close>

lemma GetServiceName_set [simp]:
  "GetServiceName (sc\<lparr>sc_ServiceName := GetServiceName sc\<rparr>) = GetServiceName sc"
  by (simp add: GetServiceName_def)

text \<open>The spec after defaulting, field by field.\<close>

definition defaultedSubcluster :: "Subcluster \<Rightarrow> Subcluster" where
  "defaultedSubcluster sc = sc\<lparr>sc_ServiceName := GetServiceName sc\<rparr>"

lemma defaultedSubcluster_cond:
  "(if sc_ServiceName sc = [] then sc\<lparr>sc_ServiceName := GetServiceName sc\<rparr> else sc) = defaultedSubcluster sc"
  by (simp add: defaultedSubcluster_def GetServiceName_def)

lemma defaultedSubcluster_simps [simp]:
  "sc_Name (defaultedSubcluster sc) = sc_Name sc"
  "sc_Size (defaultedSubcluster sc) = sc_Size sc"
  "sc_IsPrimary (defaultedSubcluster sc) = sc_IsPrimary sc"
  "sc_IsTransient (defaultedSubcluster sc) = sc_IsTransient sc"
  "GetServiceName (defaultedSubcluster sc) = GetServiceName sc"
  "subclusterOk (defaultedSubcluster sc) = subclusterOk sc"
  "serviceSettings (defaultedSubcluster sc) = serviceSettings sc"
  "defaultedSubcluster (defaultedSubcluster sc) = defaultedSubcluster sc"
  by (simp_all add: defaultedSubcluster_def GetServiceName_def subclusterOk_def serviceSettings_def)

definition defaultedCommunal :: "CommunalStorage \<Rightarrow> CommunalStorage" where
  "defaultedCommunal c =
     c\<lparr>com_Region := (if com_Region c \<noteq> [] then com_Region c
                      else if prefix S3Prefix (com_Path c) then DefaultS3Region
                      else if prefix GCloudPrefix (com_Path c) then DefaultGCloudRegion else []),
       com_Endpoint := (if com_Endpoint c = [] \<and> prefix GCloudPrefix (com_Path c)
                        then DefaultGCloudEndpoint else com_Endpoint c)\<rparr>"

definition defaultedSpec :: "VerticaDBSpec \<Rightarrow> VerticaDBSpec" where
  "defaultedSpec s =
     s\<lparr>spec_ImagePullPolicy := (if strings_HasSuffix (spec_Image s) '':latest'' then ''Always''
                                else spec_ImagePullPolicy s),
       spec_Communal := defaultedCommunal (spec_Communal s),
       spec_Subclusters := map defaultedSubcluster (spec_Subclusters s),
       spec_TemporarySubclusterRouting := (spec_TemporarySubclusterRouting s)\<lparr>
         sel_Template := (sel_Template (spec_TemporarySubclusterRouting s))\<lparr>sc_IsPrimary := False\<rparr>\<rparr>\<rparr>"

lemma updCommunal_cond:
  "(if P (spec_Communal (vdb_Spec v)) then updCommunal f v else v) = updCommunal (\<lambda>c. if P c then f c else c) v"
  by (simp add: updCommunal_def)

lemma updCommunal_comp: "updCommunal g (updCommunal f v) = updCommunal (g \<circ> f) v"
  by (simp add: updCommunal_def)

lemma defaultedCommunal_steps:
  "(\<lambda>c. if com_Endpoint c = [] \<and> prefix GCloudPrefix (com_Path c) then c\<lparr>com_Endpoint := DefaultGCloudEndpoint\<rparr> else c)
   \<circ> (\<lambda>c. if com_Region c = [] \<and> prefix GCloudPrefix (com_Path c) then c\<lparr>com_Region := DefaultGCloudRegion\<rparr> else c)
   \<circ> (\<lambda>c. if com_Region c = [] \<and> prefix S3Prefix (com_Path c) then c\<lparr>com_Region := DefaultS3Region\<rparr> else c)
   = defaultedCommunal"
  by (rule ext) (simp add: defaultedCommunal_def DefaultS3Region_def)

lemma VDB_Default_spec: "VDB_Default v = v\<lparr>vdb_Spec := defaultedSpec (vdb_Spec v)\<rparr>"
proof -
  let ?pull = "\<lambda>v. if strings_HasSuffix (spec_Image (vdb_Spec v)) '':latest''
                   then v\<lparr>vdb_Spec := (vdb_Spec v)\<lparr>spec_ImagePullPolicy := ''Always''\<rparr>\<rparr> else v"
  have "VDB_Default v = (let v4 = updCommunal defaultedCommunal (?pull v) in
      setDefaultServiceName (v4\<lparr>vdb_Spec := (vdb_Spec v4)\<lparr>spec_TemporarySubclusterRouting :=
        (spec_TemporarySubclusterRouting (vdb_Spec v4))\<lparr>sel_Template := (vdb_Template v4)\<lparr>sc_IsPrimary := False\<rparr>\<rparr>\<rparr>\<rparr>))"
    unfolding VDB_Default_def IsS3_def IsGCloud_def HasPrefix_iff_prefix Let_def
      updCommunal_cond [where P = "\<lambda>c. com_Region c = [] \<and> prefix S3Prefix (com_Path c)"]
      updCommunal_cond [where P = "\<lambda>c. com_Region c = [] \<and> prefix GCloudPrefix (com_Path c)"]
      updCommunal_cond [where P = "\<lambda>c. com_Endpoint c = [] \<and> prefix GCloudPrefix (com_Path c)"]
      updCommunal_comp defaultedCommunal_steps ..
  then show ?thesis
    by (simp add: Let_def defaultedSpec_def setDefaultServiceName_def defaultedSubcluster_cond updCommunal_def)
qed

lemma defaultedCommunal_idem: "defaultedCommunal (defaultedCommunal c) = defaultedCommunal c"
  by (simp add: defaultedCommunal_def DefaultS3Region_def DefaultGCloudRegion_def DefaultGCloudEndpoint_def)

lemma defaultedSpec_idem: "defaultedSpec (defaultedSpec s) = defaultedSpec s"
  by (simp add: defaultedSpec_def defaultedCommunal_idem o_def)

lemma find_defaulted:
  "GenSubclusterMap (VDB_Default v) nm = map_option defaultedSubcluster (GenSubclusterMap v nm)"
proof -
  have "map_of (map (\<lambda>sc. (sc_Name sc, sc)) (map defaultedSubcluster xs)) nm
        = map_option defaultedSubcluster (map_of (map (\<lambda>sc. (sc_Name sc, sc)) xs) nm)" for xs
    by (induction xs) auto
  from this [of "rev (vdb_Subclusters v)"] show ?thesis
    by (simp add: GenSubclusterMap_map_of VDB_Default_spec defaultedSpec_def rev_map o_def)
qed

lemma communalOk_default: "communalOk v \<Longrightarrow> communalOk (VDB_Default v)"
  by (auto simp: communalOk_def VDB_Default_spec defaultedSpec_def defaultedCommunal_def IsS3_def
      IsGCloud_def IsAzure_def IsHDFS_def DefaultGCloudEndpoint_def)

lemma routingOk_default: "routingOk v \<Longrightarrow> routingOk (VDB_Default v)"
  unfolding routingOk_def Let_def find_defaulted
  by (auto simp: VDB_Default_spec defaultedSpec_def RequiresTransientSubcluster_def image_image)

lemma wellFormedSpec_default: "wellFormedSpec v \<Longrightarrow> wellFormedSpec (VDB_Default v)"
proof -
  assume w: "wellFormedSpec v"
  have same: "volumesOk (VDB_Default v) = volumesOk v" "kerberosOk (VDB_Default v) = kerberosOk v"
    "ksafetyOk (VDB_Default v) = ksafetyOk v"
    by (simp_all add: volumesOk_def kerberosOk_def ksafetyOk_def VDB_Default_spec defaultedSpec_def
        defaultedCommunal_def o_def)
  have fields: "spec_InitPolicy (vdb_Spec (VDB_Default v)) = spec_InitPolicy (vdb_Spec v)"
    "spec_DBName (vdb_Spec (VDB_Default v)) = spec_DBName (vdb_Spec v)"
    "spec_RequeueTime (vdb_Spec (VDB_Default v)) = spec_RequeueTime (vdb_Spec v)"
    "spec_UpgradeRequeueTime (vdb_Spec (VDB_Default v)) = spec_UpgradeRequeueTime (vdb_Spec v)"
    "spec_EncryptSpreadComm (vdb_Spec (VDB_Default v)) = spec_EncryptSpreadComm (vdb_Spec v)"
    "sc_Name (vdb_Template (VDB_Default v)) = sc_Name (vdb_Template v)"
    "vdb_Subclusters (VDB_Default v) = map defaultedSubcluster (vdb_Subclusters v)"
    by (simp_all add: VDB_Default_spec defaultedSpec_def)
  have "map sc_Name (map defaultedSubcluster xs) = map sc_Name xs" for xs by simp
  note rules = this same fields
  show ?thesis
    using w communalOk_default [of v] routingOk_default [of v]
    unfolding wellFormedSpec_def rules list.set_map ball_simps bex_simps defaultedSubcluster_simps
    by satx
qed

text \<open>The resource of MakeVDB is accepted, with or without defaulting.\<close>

lemma MakeVDB_wellFormed: "wellFormedSpec MakeVDB"
proof -
  have "IsValidSubclusterName ''defaultsubcluster''"
    by (simp add: IsValidSubclusterName_iff isScNameEnd_def isScNameMid_def isLower_def)
  then show ?thesis
    by (simp add: wellFormedSpec_def MakeVDB_def zeroVerticaDBSpec_def zeroSubcluster_def policy_defs
        ksafetyOk_def communalOk_def volumesOk_def kerberosOk_def routingOk_def subclusterOk_def
        RequiresTransientSubcluster_def IsS3_def IsHDFS_def S3Prefix_def hdfsPrefixes_def
        HasPrefix_iff_prefix invalidDBNameChars_def slice_def)
qed

section \<open>Properties\<close>

text \<open>
  C1: the webhook accepts a new resource exactly when its spec is well formed: a known init
  policy, a database name of legal characters, a primary subcluster, a size that fits the
  k-safety, a usable communal location, subclusters with distinct DNS names and consistent
  services, no clash with the operator's own volumes, complete Kerberos settings, a sound
  temporary routing and non-negative requeue times.
\<close>

theorem ValidateCreate_accepts_iff: "ValidateCreate v = None \<longleftrightarrow> wellFormedSpec v"
  by (rule ValidateCreate_None)

text \<open>
  C2: an update of an accepted resource is accepted exactly when the new spec is well formed, the
  fields that cannot change are unchanged, some subcluster that is in the database keeps its name,
  no subcluster changes its type and, during an upgrade, the upgrade policy and the temporary
  routing stay as they are.
\<close>

theorem ValidateUpdate_accepts_iff:
  assumes "ValidateCreate old = None"
  shows "ValidateUpdate v old = None \<longleftrightarrow> wellFormedSpec v \<and> immutablesKept v old"
  using assms ValidateCreate_None ValidateUpdate_None by blast

theorem ValidateUpdate_accepts_iff_witness:
  "ValidateCreate MakeVDB = None
   \<and> (ValidateUpdate (MakeVDB\<lparr>vdb_Spec := (vdb_Spec MakeVDB)\<lparr>spec_DBName := ''other''\<rparr>\<rparr>) MakeVDB = None \<longleftrightarrow>
      wellFormedSpec (MakeVDB\<lparr>vdb_Spec := (vdb_Spec MakeVDB)\<lparr>spec_DBName := ''other''\<rparr>\<rparr>)
      \<and> immutablesKept (MakeVDB\<lparr>vdb_Spec := (vdb_Spec MakeVDB)\<lparr>spec_DBName := ''other''\<rparr>\<rparr>) MakeVDB)"
proof -
  have "ValidateCreate MakeVDB = None" by (simp add: ValidateCreate_None MakeVDB_wellFormed)
  with ValidateUpdate_accepts_iff show ?thesis by blast
qed

text \<open>
  C3: in every history of creates, updates and status writes that the webhook lets through, the
  resource stays well formed and the fields that cannot change have the value they were created
  with.
\<close>

theorem admitted_history:
  assumes "admitted v0 v"
  shows "wellFormedSpec v \<and> fixedFields v = fixedFields v0"
  using assms
proof induction
  case (admitted_create v)
  then show ?case by (simp add: ValidateCreate_None)
next
  case (admitted_update v0 old v)
  then show ?case by (auto simp: ValidateUpdate_None immutablesKept_def)
next
  case (admitted_status v0 v st)
  then show ?case by (simp add: wellFormedSpec_status fixedFields_def)
qed

theorem admitted_history_witness:
  "admitted (VDB_Default MakeVDB) (VDB_Default MakeVDB)
   \<and> wellFormedSpec (VDB_Default MakeVDB) \<and> fixedFields (VDB_Default MakeVDB) = fixedFields (VDB_Default MakeVDB)"
proof -
  have "ValidateCreate (VDB_Default MakeVDB) = None"
    by (simp add: ValidateCreate_None MakeVDB_wellFormed wellFormedSpec_default)
  then have "admitted (VDB_Default MakeVDB) (VDB_Default MakeVDB)" by (rule admitted_create)
  with admitted_history show ?thesis by blast
qed

text \<open>Defaulting a resource that has been defaulted changes nothing.\<close>

theorem Default_idempotent: "VDB_Default (VDB_Default v) = VDB_Default v"
  by (simp add: VDB_Default_spec defaultedSpec_idem)

text \<open>Defaulting never makes the webhook reject a resource it would have accepted.\<close>

theorem Default_keeps_accepted:
  assumes "ValidateCreate v = None"
  shows "ValidateCreate (VDB_Default v) = None"
  using assms by (simp add: ValidateCreate_None wellFormedSpec_default)

theorem Default_keeps_accepted_witness:
  "ValidateCreate MakeVDB = None \<and> ValidateCreate (VDB_Default MakeVDB) = None"
proof -
  have "ValidateCreate MakeVDB = None" by (simp add: ValidateCreate_None MakeVDB_wellFormed)
  with Default_keeps_accepted show ?thesis by blast
qed

end
