(* ===== verification/VasApi.thy ===== *)
theory VasApi
  imports Webhook
begin

text \<open>
  The VerticaAutoscaler resource (files verticaautoscaler_types.go and verticaautoscaler_webhook.go of
  api/v1beta1): its data, and the webhook that validates it.
\<close>

section \<open>Data\<close>

definition PodScalingGranularity :: string where
  "PodScalingGranularity = ''Pod''"
definition SubclusterScalingGranularity :: string where
  "SubclusterScalingGranularity = ''Subcluster''"

record VerticaAutoscalerSpec =
  vsp_VerticaDBName :: string
  vsp_ScalingGranularity :: string
  vsp_ServiceName :: string
  vsp_Template :: Subcluster
  vsp_TargetSize :: int

record VerticaAutoscalerCondition =
  vc_Type :: string
  vc_Status :: string
  vc_LastTransitionTime :: int

record VerticaAutoscalerStatus =
  vst_ScalingCount :: int
  vst_CurrentSize :: int
  vst_Selector :: string
  vst_Conditions :: "VerticaAutoscalerCondition list"

record VerticaAutoscaler =
  vas_Name :: string
  vas_Namespace :: string
  vas_UID :: string
  vas_Spec :: VerticaAutoscalerSpec
  vas_Status :: VerticaAutoscalerStatus

definition TargetSizeInitialized :: string where
  "TargetSizeInitialized = ''TargetSizeInitialized''"
definition TargetSizeInitializedIndex :: nat where
  "TargetSizeInitializedIndex = 0"

definition zeroVasCondition :: VerticaAutoscalerCondition where
  "zeroVasCondition = \<lparr>vc_Type = [], vc_Status = [], vc_LastTransitionTime = 0\<rparr>"

definition zeroVasStatus :: VerticaAutoscalerStatus where
  "zeroVasStatus = \<lparr>vst_ScalingCount = 0, vst_CurrentSize = 0, vst_Selector = [], vst_Conditions = []\<rparr>"

abbreviation vas_TargetSize :: "VerticaAutoscaler \<Rightarrow> int" where
  "vas_TargetSize a \<equiv> vsp_TargetSize (vas_Spec a)"

abbreviation vas_ServiceName :: "VerticaAutoscaler \<Rightarrow> string" where
  "vas_ServiceName a \<equiv> vsp_ServiceName (vas_Spec a)"

definition MakeVASName :: NamespacedName where
  "MakeVASName = \<lparr>nn_Namespace = ''default'', nn_Name = ''vertica-vas-sample''\<rparr>"

definition MakeVAS :: VerticaAutoscaler where
  "MakeVAS = \<lparr>vas_Name = ''vertica-vas-sample'', vas_Namespace = ''default'', vas_UID = ''abcdef-ghi'',
     vas_Spec = \<lparr>vsp_VerticaDBName = ''vertica-sample'', vsp_ScalingGranularity = PodScalingGranularity,
       vsp_ServiceName = ''sc1'', vsp_Template = zeroSubcluster, vsp_TargetSize = 0\<rparr>,
     vas_Status = zeroVasStatus\<rparr>"

definition CanUseTemplate :: "VerticaAutoscaler \<Rightarrow> bool" where
  "CanUseTemplate a \<longleftrightarrow> sc_Size (vsp_Template (vas_Spec a)) > 0"

section \<open>Webhook\<close>

definition VAS_Default :: "VerticaAutoscaler \<Rightarrow> VerticaAutoscaler" where
  "VAS_Default a = a"

definition validateScalingGranularity :: "VerticaAutoscaler \<Rightarrow> FieldError list \<Rightarrow> FieldError list" where
  "validateScalingGranularity a allErrs =
     (if vsp_ScalingGranularity (vas_Spec a) \<in> {PodScalingGranularity, SubclusterScalingGranularity} then allErrs
      else allErrs @ [field_Invalid [Child ''spec'', Child ''scalingGranularity'']
        (''scalingGranularity must be set to either '' @ SubclusterScalingGranularity @ '' or '' @ PodScalingGranularity)])"

definition validateSubclusterTemplate :: "VerticaAutoscaler \<Rightarrow> FieldError list \<Rightarrow> FieldError list" where
  "validateSubclusterTemplate a allErrs =
     (let errs1 = (if CanUseTemplate a \<and> sc_ServiceName (vsp_Template (vas_Spec a)) \<noteq> vas_ServiceName a
            then allErrs @ [field_Invalid [Child ''spec'', Child ''template'', Child ''serviceName'']
              ''The serviceName in the subcluster template must match spec.serviceName'']
            else allErrs)
      in if CanUseTemplate a \<and> vsp_ScalingGranularity (vas_Spec a) = PodScalingGranularity
         then errs1 @ [field_Invalid [Child ''spec'', Child ''template'', Child ''serviceName'']
           ''You cannot use the template if scalingGranularity is Pod.  Set the template size to 0 to disable the template'']
         else errs1)"

definition VAS_validateSpec :: "VerticaAutoscaler \<Rightarrow> FieldError list" where
  "VAS_validateSpec a = validateSubclusterTemplate a (validateScalingGranularity a [])"

definition VAS_ValidateCreate :: "VerticaAutoscaler \<Rightarrow> FieldError list option" where
  "VAS_ValidateCreate a = (let allErrs = VAS_validateSpec a in if allErrs = [] then None else Some allErrs)"

definition VAS_ValidateUpdate :: "VerticaAutoscaler \<Rightarrow> VerticaAutoscaler \<Rightarrow> FieldError list option" where
  "VAS_ValidateUpdate a old = (let allErrs = VAS_validateSpec a in if allErrs = [] then None else Some allErrs)"

definition VAS_ValidateDelete :: "VerticaAutoscaler \<Rightarrow> FieldError list option" where
  "VAS_ValidateDelete a = None"

section \<open>Lemmas\<close>

text \<open>What an autoscaler that was let in looks like.\<close>

definition vasWellFormed :: "VerticaAutoscaler \<Rightarrow> bool" where
  "vasWellFormed a \<longleftrightarrow>
     vsp_ScalingGranularity (vas_Spec a) = SubclusterScalingGranularity
       \<and> (CanUseTemplate a \<longrightarrow> sc_ServiceName (vsp_Template (vas_Spec a)) = vas_ServiceName a)
     \<or> vsp_ScalingGranularity (vas_Spec a) = PodScalingGranularity \<and> \<not> CanUseTemplate a"

lemma VAS_ValidateCreate_iff: "VAS_ValidateCreate a = None \<longleftrightarrow> vasWellFormed a"
  by (auto simp: VAS_ValidateCreate_def VAS_validateSpec_def validateSubclusterTemplate_def
      validateScalingGranularity_def vasWellFormed_def PodScalingGranularity_def SubclusterScalingGranularity_def Let_def)

end
