(* ===== verification/Version.thy ===== *)
theory Version
  imports Vapi
begin

text \<open>
  Server versions, package version: parsing of a version, the order that decides what a server
  supports, the upgrade paths (version.go), and the annotations read from the output of
  \<open>vertica --version\<close> (metadata.go). A call to panic is the result \<^const>\<open>None\<close>.
\<close>

datatype Components = Components (VdbMajor: int) (VdbMinor: int) (VdbPatch: int)

record Info =
  VdbVer :: string
  VdbComponents :: Components

instantiation Components :: linorder
begin

definition less_eq_Components :: "Components \<Rightarrow> Components \<Rightarrow> bool" where
  "less_eq_Components a b \<longleftrightarrow>
     VdbMajor a < VdbMajor b \<or> VdbMajor a = VdbMajor b \<and>
     (VdbMinor a < VdbMinor b \<or> VdbMinor a = VdbMinor b \<and> VdbPatch a \<le> VdbPatch b)"

definition less_Components :: "Components \<Rightarrow> Components \<Rightarrow> bool" where
  "less_Components a b \<longleftrightarrow> a \<le> b \<and> \<not> b \<le> (a :: Components)"

instance
  by standard (auto simp: less_eq_Components_def less_Components_def intro: Components.expand)

end

section \<open>Parsing\<close>

definition versionRe :: re where
  "versionRe = re_seq [Lit ''v'', Cap (Rep isDigit 1 None), Lit ''.'', Cap (Rep isDigit 1 None),
                       Lit ''.'', Cap (Rep isDigit 1 None)]"

text \<open>\<^const>\<open>None\<close> is \<open>ok = false\<close>; no caller uses the numbers that come with it.\<close>

definition parseVersion :: "string \<Rightarrow> Components option" where
  "parseVersion v =
     (case re_find versionRe v of
        Some (_, [ma, mi, pa]) \<Rightarrow>
          (case strconv_Atoi ma of None \<Rightarrow> None | Some major \<Rightarrow>
           (case strconv_Atoi mi of None \<Rightarrow> None | Some minor \<Rightarrow>
            (case strconv_Atoi pa of None \<Rightarrow> None | Some patch \<Rightarrow>
               Some (Components major minor patch))))
      | _ \<Rightarrow> None)"

definition MakeInfoFromStr :: "string \<Rightarrow> Info option" where
  "MakeInfoFromStr ver =
     (case parseVersion ver of None \<Rightarrow> None | Some c \<Rightarrow> Some \<lparr>VdbVer = ver, VdbComponents = c\<rparr>)"

definition MakeInfoFromVdb :: "VerticaDB \<Rightarrow> Info option" where
  "MakeInfoFromVdb vdb =
     (case GetVerticaVersion vdb of None \<Rightarrow> None | Some vdbVer \<Rightarrow> MakeInfoFromStr vdbVer)"

section \<open>Comparison\<close>

definition MinimumVersion :: string where
  "MinimumVersion = ''v11.0.0''"
definition NodesHaveReadOnlyStateVersion :: string where
  "NodesHaveReadOnlyStateVersion = ''v11.0.2''"
definition OnlineUpgradeVersion :: string where
  "OnlineUpgradeVersion = ''v11.1.0''"
definition ReIPAllowedWithUpNodesVersion :: string where
  "ReIPAllowedWithUpNodesVersion = ''v11.1.0''"
definition StartDBAcceptsHostListVersion :: string where
  "StartDBAcceptsHostListVersion = ''v11.0.1''"
definition CGroupV2UnsupportedVersion :: string where
  "CGroupV2UnsupportedVersion = ''v12.0.0''"

definition IsEqualOrNewer :: "Info \<Rightarrow> string \<Rightarrow> bool option" where
  "IsEqualOrNewer i inVer =
     (case parseVersion inVer of
        None \<Rightarrow> None
      | Some (Components inVerMajor inVerMinor inVerPatch) \<Rightarrow>
          Some (if VdbMajor (VdbComponents i) > inVerMajor then True
                else if VdbMajor (VdbComponents i) < inVerMajor then False
                else if VdbMinor (VdbComponents i) > inVerMinor then True
                else if VdbMinor (VdbComponents i) < inVerMinor then False
                else if VdbPatch (VdbComponents i) > inVerPatch then True
                else if VdbPatch (VdbComponents i) < inVerPatch then False
                else True))"

definition IsSupported :: "Info \<Rightarrow> bool option" where
  "IsSupported i = IsEqualOrNewer i MinimumVersion"

definition IsUnsupported :: "Info \<Rightarrow> bool option" where
  "IsUnsupported i = map_option Not (IsSupported i)"

definition IsEqualExceptPatch :: "Info \<Rightarrow> Info \<Rightarrow> bool" where
  "IsEqualExceptPatch i other \<longleftrightarrow>
     VdbMajor (VdbComponents other) = VdbMajor (VdbComponents i)
     \<and> VdbMinor (VdbComponents other) = VdbMinor (VdbComponents i)"

definition IsEqual :: "Info \<Rightarrow> Info \<Rightarrow> bool" where
  "IsEqual i other \<longleftrightarrow>
     IsEqualExceptPatch i other \<and> VdbPatch (VdbComponents other) = VdbPatch (VdbComponents i)"

section \<open>Upgrade paths\<close>

definition UpgradePaths :: "Components \<rightharpoonup> Info" where
  "UpgradePaths = map_of
     [(Components 11 0 0, \<lparr>VdbVer = ''v11.1.x'', VdbComponents = Components 11 1 0\<rparr>),
      (Components 11 0 1, \<lparr>VdbVer = ''v11.1.x'', VdbComponents = Components 11 1 0\<rparr>),
      (Components 11 0 2, \<lparr>VdbVer = ''v11.1.x'', VdbComponents = Components 11 1 0\<rparr>),
      (Components 11 1 0, \<lparr>VdbVer = ''v12.0.x'', VdbComponents = Components 12 0 0\<rparr>),
      (Components 11 1 1, \<lparr>VdbVer = ''v12.0.x'', VdbComponents = Components 12 0 0\<rparr>)]"

definition quoted :: "string \<Rightarrow> string" where
  "quoted s = [CHR 0x27] @ s @ [CHR 0x27]"

definition IsValidUpgradePath :: "Info \<Rightarrow> string \<Rightarrow> (bool \<times> string) option" where
  "IsValidUpgradePath i targetVer =
     (case MakeInfoFromStr targetVer of
        None \<Rightarrow> None
      | Some t \<Rightarrow> Some (
          let tc = VdbComponents t; ic = VdbComponents i in
          if IsEqual i t then (True, [])
          else if VdbMajor tc < VdbMajor ic
               \<or> VdbMajor tc = VdbMajor ic \<and> VdbMinor tc < VdbMinor ic
               \<or> VdbMajor tc = VdbMajor ic \<and> VdbMinor tc = VdbMinor ic \<and> VdbPatch tc < VdbPatch ic
          then (False, ''Version '' @ quoted (VdbVer i) @ '' to '' @ quoted (VdbVer t)
                  @ '' is a downgrade and is not supported'')
          else if IsEqualExceptPatch i t then (True, [])
          else (case UpgradePaths ic of
                  None \<Rightarrow> (True, [])
                | Some nextVer \<Rightarrow>
                    if IsEqualExceptPatch t nextVer then (True, [])
                    else (False, ''Version '' @ quoted (VdbVer i) @ '' to '' @ quoted (VdbVer t)
                            @ '' is invalid because it skips '' @ quoted (VdbVer nextVer)))))"

section \<open>Annotations\<close>

text \<open>
  The new annotations come in the order in which the loop visits the Go map, a list with distinct
  keys.
\<close>

definition mergeStep :: "VerticaDB \<times> bool \<Rightarrow> string \<times> string \<Rightarrow> VerticaDB \<times> bool" where
  "mergeStep acc kv =
     (case acc of (vdb, changed) \<Rightarrow> case kv of (k, newValue) \<Rightarrow>
        if vdb_Annotations vdb k = None \<or> vdb_Annotations vdb k \<noteq> Some newValue
        then (vdb\<lparr>vdb_Annotations := (vdb_Annotations vdb)(k \<mapsto> newValue)\<rparr>, True)
        else (vdb, changed))"

definition MergeAnnotations :: "VerticaDB \<Rightarrow> (string \<times> string) list \<Rightarrow> VerticaDB \<times> bool" where
  "MergeAnnotations vdb newAnnotations = foldl mergeStep (vdb, False) newAnnotations"

definition isVersionChar :: "char \<Rightarrow> bool" where
  "isVersionChar c \<longleftrightarrow> isDigit c \<or> isLower c \<or> isUpper c \<or> c = CHR ''.'' \<or> c = CHR ''-''"

definition isDateChar :: "char \<Rightarrow> bool" where
  "isDateChar c \<longleftrightarrow> isDigit c \<or> isLower c \<or> isUpper c \<or> c = CHR '':'' \<or> c = CHR '' ''"

definition versionOutputRe :: re where
  "versionOutputRe = re_seq [Cap (Seq (Lit ''v'') (Rep isVersionChar 1 None)), Lit [newline]]"

definition buildRefRe :: re where
  "buildRefRe = re_seq [Lit ''built by '', Rep isDot 0 None, Lit '' from '', Rep isDot 0 None, Lit ''@'',
     Cap (Rep (\<lambda>c. c \<noteq> CHR '' '') 1 None), Lit '' '']"

definition buildDateRe :: re where
  "buildDateRe = re_seq [Lit (''on '' @ [CHR 0x27]), Cap (Rep isDateChar 1 None), Lit [CHR 0x27]]"

text \<open>The first capture group of the leftmost match.\<close>

definition submatch1 :: "re \<Rightarrow> string \<Rightarrow> string option" where
  "submatch1 r s = (case re_find r s of Some (_, c # _) \<Rightarrow> Some c | _ \<Rightarrow> None)"

text \<open>An entry for each of the three expressions that matches.\<close>

definition ParseVersionOutput :: "string \<Rightarrow> label_map" where
  "ParseVersionOutput op =
     (\<lambda>k. if k = VersionAnnotation then submatch1 versionOutputRe op
          else if k = BuildRefAnnotation then submatch1 buildRefRe op
          else if k = BuildDateAnnotation then submatch1 buildDateRe op
          else None)"

text \<open>Reading the annotation that is missing gives the empty string.\<close>

definition IsUpgradePathSupported :: "VerticaDB \<Rightarrow> label_map \<Rightarrow> (bool \<times> string) option" where
  "IsUpgradePathSupported vdb newAnnotations =
     (case MakeInfoFromVdb vdb of
        None \<Rightarrow> Some (True, [])
      | Some vinf \<Rightarrow> IsValidUpgradePath vinf
          (case newAnnotations VersionAnnotation of None \<Rightarrow> [] | Some ver \<Rightarrow> ver))"

section \<open>Lemmas\<close>

lemma Components_le: "Components a b c \<le> Components x y z \<longleftrightarrow> a < x \<or> a = x \<and> (b < y \<or> b = y \<and> c \<le> z)"
  by (simp add: less_eq_Components_def)

lemma Cap_Rep_Lit:
  assumes "list_all p ds" and "\<not> p c" and "lo \<le> length ds"
  shows "re_matches (Seq (Cap (Rep p lo None)) (Seq (Lit (c # l)) q)) (ds @ c # s)
       = map (\<lambda>(t, cs, rest). (ds @ t, ds # cs, rest)) (re_matches (Seq (Lit (c # l)) q) (c # s))"
  using Rep_then_Lit [OF assms, where f = "\<lambda>t. t" and g = "\<lambda>t cs. t # cs" and l = l and q = q and s = s]
  by (simp add: o_def split_def del: re_matches.simps(1,2,5,6))

lemma Cap_Rep_last:
  assumes "list_all p ds" and "suf = [] \<or> \<not> p (hd suf)" and "lo \<le> length ds"
  shows "\<exists>more. re_matches (Seq (Cap (Rep p lo None)) (Lit [])) (ds @ suf) = (ds, [ds], suf) # more"
proof -
  have "takeWhile p (ds @ suf) = ds"
    using assms(1,2) by (cases suf) (auto simp: takeWhile_all_stop takeWhile_list_all)
  then show ?thesis
    using assms(3) by (simp add: Let_def rev_upt_Cons strings_HasPrefix_def del: upt_Suc)
qed

text \<open>The expression captures the three numbers of a version and ignores what follows.\<close>

lemma versionRe_match:
  assumes d: "list_all isDigit a" "list_all isDigit b" "list_all isDigit c"
    and ne: "a \<noteq> []" "b \<noteq> []" "c \<noteq> []" and suf: "suf = [] \<or> \<not> isDigit (hd suf)"
  shows "\<exists>t. re_find versionRe (''v'' @ a @ ''.'' @ b @ ''.'' @ c @ suf) = Some (t, [a, b, c])"
proof -
  let ?D = "Cap (Rep isDigit (Suc 0) None)"
  have dot: "\<not> isDigit CHR ''.''" by (simp add: isDigit_def)
  have len: "Suc 0 \<le> length a" "Suc 0 \<le> length b" "Suc 0 \<le> length c" using ne by (cases a; cases b; cases c; simp)+
  have lit: "re_matches (Seq (Lit [x]) q) (x # s) = map (\<lambda>(t, cs, rest). (x # t, cs, rest)) (re_matches q s)"
    for x q s by (simp add: strings_HasPrefix_def)
  obtain more where "re_matches (Seq ?D (Lit [])) (c @ suf) = (c, [c], suf) # more"
    using Cap_Rep_last [OF d(3) suf len(3)] by blast
  then have "re_matches (Seq ?D (Seq (Lit ''.'') (Seq ?D (Lit [])))) (b @ CHR ''.'' # c @ suf)
      = (b @ CHR ''.'' # c, [b, c], suf) # map (\<lambda>(t, cs, rest). (b @ CHR ''.'' # t, b # cs, rest)) more"
    by (simp add: Cap_Rep_Lit [OF d(2) dot len(2)] lit o_def split_def del: re_matches.simps)
  then have "\<exists>t r. re_matches (Seq ?D (Seq (Lit ''.'') (Seq ?D (Seq (Lit ''.'') (Seq ?D (Lit []))))))
      (a @ CHR ''.'' # b @ CHR ''.'' # c @ suf) = (t, [a, b, c], suf) # r"
    by (simp add: Cap_Rep_Lit [OF d(1) dot len(1)] lit o_def split_def del: re_matches.simps)
  then have "\<exists>t r. re_matches versionRe (CHR ''v'' # a @ CHR ''.'' # b @ CHR ''.'' # c @ suf) = (t, [a, b, c], suf) # r"
    unfolding versionRe_def re_seq_def One_nat_def
    by (auto simp: lit simp del: re_matches.simps)
  then show ?thesis by (auto simp: re_matchAt_def)
qed

text \<open>The text of a version.\<close>

definition printVersion :: "Components \<Rightarrow> string" where
  "printVersion c = ''v'' @ strconv_Itoa (VdbMajor c) @ ''.'' @ strconv_Itoa (VdbMinor c) @ ''.''
     @ strconv_Itoa (VdbPatch c)"

definition validComponents :: "Components \<Rightarrow> bool" where
  "validComponents c \<longleftrightarrow>
     (\<forall>n \<in> {VdbMajor c, VdbMinor c, VdbPatch c}. 0 \<le> n \<and> n \<le> maxInt64)"

lemma Itoa_nonneg: "0 \<le> n \<Longrightarrow> strconv_Itoa n = natToString (nat n)"
  by (simp add: strconv_Itoa_def)

lemma parseVersion_print:
  assumes "validComponents c" and "suf = [] \<or> \<not> isDigit (hd suf)"
  shows "parseVersion (printVersion c @ suf) = Some c"
proof -
  have n: "0 \<le> n \<and> n \<le> maxInt64 \<Longrightarrow> strconv_Atoi (strconv_Itoa n) = Some n
           \<and> list_all isDigit (strconv_Itoa n) \<and> strconv_Itoa n \<noteq> []" for n
    using Atoi_Itoa [of n] by (simp add: Itoa_nonneg natToString_digits minInt64_def)
  let ?a = "strconv_Itoa (VdbMajor c)" and ?b = "strconv_Itoa (VdbMinor c)" and ?p = "strconv_Itoa (VdbPatch c)"
  obtain t where "re_find versionRe (''v'' @ ?a @ ''.'' @ ?b @ ''.'' @ ?p @ suf) = Some (t, [?a, ?b, ?p])"
    using versionRe_match [of ?a ?b ?p suf] n assms unfolding validComponents_def by blast
  then show ?thesis
    using n assms(1) by (auto simp: parseVersion_def printVersion_def validComponents_def)
qed

lemma parseVersion_consts [simp]:
  "parseVersion MinimumVersion = Some (Components 11 0 0)"
  "parseVersion NodesHaveReadOnlyStateVersion = Some (Components 11 0 2)"
  "parseVersion OnlineUpgradeVersion = Some (Components 11 1 0)"
  "parseVersion ReIPAllowedWithUpNodesVersion = Some (Components 11 1 0)"
  "parseVersion StartDBAcceptsHostListVersion = Some (Components 11 0 1)"
  "parseVersion CGroupV2UnsupportedVersion = Some (Components 12 0 0)"
  by code_simp+

lemma IsEqualOrNewer_le:
  "IsEqualOrNewer i inVer = map_option (\<lambda>c. c \<le> VdbComponents i) (parseVersion inVer)"
  by (auto simp: IsEqualOrNewer_def less_eq_Components_def split: option.splits Components.splits)

lemma IsEqual_iff: "IsEqual i t \<longleftrightarrow> VdbComponents i = VdbComponents t"
  by (auto simp: IsEqual_def IsEqualExceptPatch_def intro: Components.expand)

section \<open>Properties\<close>

text \<open>
  C38: a version is read back from its text, whatever follows it, when its numbers fit an int.
\<close>

theorem parse_print_version:
  assumes "validComponents c" and "suf = [] \<or> \<not> isDigit (hd suf)"
  shows "MakeInfoFromStr (printVersion c @ suf) = Some \<lparr>VdbVer = printVersion c @ suf, VdbComponents = c\<rparr>"
  using parseVersion_print [OF assms] by (simp add: MakeInfoFromStr_def)

theorem parse_print_version_witness:
  "validComponents (Components 11 0 2)
   \<and> MakeInfoFromStr (printVersion (Components 11 0 2) @ ''-20220601'')
     = Some \<lparr>VdbVer = printVersion (Components 11 0 2) @ ''-20220601'', VdbComponents = Components 11 0 2\<rparr>"
proof -
  have "validComponents (Components 11 0 2)" by (simp add: validComponents_def maxInt64_def)
  with parse_print_version [of "Components 11 0 2" "''-20220601''"] show ?thesis by simp
qed



text \<open>
  The table of upgrade paths lists patch releases one by one, so the path is not enforced from
  a patch release that is missing there: from 11.0.3 the operator lets a server skip 11.1 although
  it blocks the same step from 11.0.2.
\<close>

theorem upgrade_path_patch_hole:
  "map_option fst (IsValidUpgradePath \<lparr>VdbVer = ''v11.0.2'', VdbComponents = Components 11 0 2\<rparr> ''v12.0.0'') = Some False
   \<and> map_option fst (IsValidUpgradePath \<lparr>VdbVer = ''v11.0.3'', VdbComponents = Components 11 0 3\<rparr> ''v12.0.0'') = Some True"
proof -
  have p: "parseVersion ''v12.0.0'' = Some (Components 12 0 0)" by code_simp
  then show ?thesis
    by (simp add: IsValidUpgradePath_def MakeInfoFromStr_def IsEqual_def IsEqualExceptPatch_def
        UpgradePaths_def Let_def)
qed

text \<open>
  Merging annotations gives the old ones overridden by the new ones, whatever the order in which
  the Go map is visited, and reports a change exactly when some new value differs from the old one.
  Nothing else of the resource changes.
\<close>

theorem MergeAnnotations_result:
  assumes "distinct (map fst new)"
  shows "MergeAnnotations vdb new =
     (vdb\<lparr>vdb_Annotations := vdb_Annotations vdb ++ map_of new\<rparr>,
      \<exists>(k, v) \<in> set new. vdb_Annotations vdb k \<noteq> Some v)"
proof -
  have "foldl mergeStep (w, b) xs =
      (w\<lparr>vdb_Annotations := vdb_Annotations w ++ map_of xs\<rparr>,
       b \<or> (\<exists>(k, v) \<in> set xs. vdb_Annotations w k \<noteq> Some v))" if "distinct (map fst xs)" for w b xs
    using that
  proof (induction xs arbitrary: w b)
    case (Cons kv xs)
    obtain k v where kv: "kv = (k, v)" by force
    have k: "map_of xs k = None" using Cons.prems kv by (auto simp: map_of_eq_None_iff)
    have upd: "m(k \<mapsto> v) ++ map_of xs = m ++ map_of (kv # xs)" for m :: label_map
      using k kv by (auto simp: map_add_def fun_eq_iff split: option.splits)
    show ?case
    proof (cases "vdb_Annotations w k = Some v")
      case True
      then have eq: "vdb_Annotations w ++ map_of (kv # xs) = vdb_Annotations w ++ map_of xs"
        using kv k by (auto simp: map_add_def fun_eq_iff split: option.splits)
      have "mergeStep (w, b) kv = (w, b)" using True kv by (simp add: mergeStep_def)
      with Cons have "foldl mergeStep (w, b) (kv # xs) = (w\<lparr>vdb_Annotations := vdb_Annotations w ++ map_of xs\<rparr>,
          b \<or> (\<exists>(k, v) \<in> set xs. vdb_Annotations w k \<noteq> Some v))" by simp
      with eq True kv show ?thesis by (simp del: map_of.simps map_add_upd)
    next
      case False
      then have "mergeStep (w, b) kv = (w\<lparr>vdb_Annotations := (vdb_Annotations w)(k \<mapsto> v)\<rparr>, True)"
        using kv by (simp add: mergeStep_def)
      with Cons have "foldl mergeStep (w, b) (kv # xs) =
          (w\<lparr>vdb_Annotations := (vdb_Annotations w)(k \<mapsto> v) ++ map_of xs\<rparr>, True)" by simp
      with False kv upd [of "vdb_Annotations w"] show ?thesis by (simp del: map_of.simps map_add_upd)
    qed
  qed simp
  from this [OF assms] show ?thesis by (simp add: MergeAnnotations_def)
qed

theorem MergeAnnotations_result_witness:
  "distinct (map fst [(VersionAnnotation, ''v11.0.2'')])
   \<and> MergeAnnotations MakeVDB [(VersionAnnotation, ''v11.0.2'')] =
     (MakeVDB\<lparr>vdb_Annotations := [VersionAnnotation \<mapsto> ''v11.0.2'']\<rparr>, True)"
  using MergeAnnotations_result [of "[(VersionAnnotation, ''v11.0.2'')]" MakeVDB]
  by (simp add: MakeVDB_def)

end
