(* ===== verification/Effects.thy ===== *)
theory Effects
  imports VasApi Version "HOL-Library.State_Monad" "HOL-Library.Multiset"
begin

text \<open>
  The controller's effects. What is outside of the operator (the Kubernetes API server, the pods
  with the Vertica server in them, the clock, the order in which Go visits a map) is a parameter:
  a record of operations on an arbitrary world type. An operation of the operator is a state
  monad computation over the world, the in-memory copy of the resource and the pod facts, and it
  leaves a trace of what it asked the outside to do.
\<close>

named_theorems wp_rules \<open>weakest preconditions of the basic computations\<close>

section \<open>Errors and results\<close>

datatype goerr = NotFoundErr | ConflictErr | OtherErr string | WrapErr string goerr

primrec errors_IsNotFound :: "goerr \<Rightarrow> bool" where
  "errors_IsNotFound NotFoundErr \<longleftrightarrow> True"
| "errors_IsNotFound ConflictErr \<longleftrightarrow> False"
| "errors_IsNotFound (OtherErr m) \<longleftrightarrow> False"
| "errors_IsNotFound (WrapErr m e) \<longleftrightarrow> errors_IsNotFound e"

primrec errors_IsConflict :: "goerr \<Rightarrow> bool" where
  "errors_IsConflict NotFoundErr \<longleftrightarrow> False"
| "errors_IsConflict ConflictErr \<longleftrightarrow> True"
| "errors_IsConflict (OtherErr m) \<longleftrightarrow> False"
| "errors_IsConflict (WrapErr m e) \<longleftrightarrow> errors_IsConflict e"

text \<open>The pair of a \<open>ctrl.Result\<close> and an error, or a panic; durations are in nanoseconds.\<close>

record ctrl_result =
  Requeue :: bool
  RequeueAfter :: int

datatype ret = Ret ctrl_result "goerr option" | GoPanic string

definition emptyResult :: ctrl_result where
  "emptyResult = \<lparr>Requeue = False, RequeueAfter = 0\<rparr>"

abbreviation Done :: ret where
  "Done \<equiv> Ret emptyResult None"

definition RequeueNow :: ret where
  "RequeueNow = Ret \<lparr>Requeue = True, RequeueAfter = 0\<rparr> None"

definition RequeueIn :: "int \<Rightarrow> ret" where
  "RequeueIn d = Ret \<lparr>Requeue = False, RequeueAfter = d\<rparr> None"

definition Fail :: "goerr \<Rightarrow> ret" where
  "Fail e = Ret emptyResult (Some e)"

text \<open>A panic unwinds the callers, which never get to look at a result.\<close>

fun IsReconcileAborted :: "ret \<Rightarrow> bool" where
  "IsReconcileAborted (Ret res err) \<longleftrightarrow> Requeue res \<or> err \<noteq> None \<or> RequeueAfter res > 0"
| "IsReconcileAborted (GoPanic m) \<longleftrightarrow> True"

definition ofErr :: "goerr option \<Rightarrow> ret" where
  "ofErr err = Ret emptyResult err"

lemmas ret_defs = emptyResult_def RequeueNow_def RequeueIn_def Fail_def ofErr_def

lemma emptyResult_fields [simp]: "\<not> Requeue emptyResult" "RequeueAfter emptyResult = 0"
  by (simp_all add: emptyResult_def)

lemma aborted_simps [simp]:
  "\<not> IsReconcileAborted Done" "IsReconcileAborted RequeueNow" "IsReconcileAborted (Fail e)"
  "IsReconcileAborted (RequeueIn d) \<longleftrightarrow> 0 < d"
  "IsReconcileAborted (ofErr err) \<longleftrightarrow> err \<noteq> None"
  by (simp_all add: ret_defs)

section \<open>Objects of the API server\<close>

text \<open>
  The fields the operator reads or writes; text it only passes on is carried along as a string. The
  first container of a pod is the server; the API server accepts no pod without containers.
\<close>

record StatefulSetSpec =
  sss_Selector :: label_map
  sss_ServiceName :: string
  sss_Replicas :: "int option"
  sss_TemplateLabels :: label_map
  sss_TemplateAnnotations :: label_map
  sss_NodeSelector :: "label_map option"
  sss_Affinity :: string
  sss_Tolerations :: string
  sss_ImagePullSecrets :: "string list"
  sss_Server :: Container
  sss_Sidecars :: "Container list"
  sss_Volumes :: "Volume list"
  sss_TerminationGracePeriod :: "int option"
  sss_ServiceAccountName :: string
  sss_UpdateStrategy :: string
  sss_PodManagementPolicy :: string
  sss_VolumeClaims :: "(string \<times> string \<times> string option \<times> int) list"

record StatefulSet =
  sts_Name :: string
  sts_Namespace :: string
  sts_Labels :: label_map
  sts_Annotations :: label_map
  sts_Spec :: StatefulSetSpec
  sts_StatusReplicas :: int

abbreviation sts_Replicas :: "StatefulSet \<Rightarrow> int option" where
  "sts_Replicas sts \<equiv> sss_Replicas (sts_Spec sts)"

abbreviation sts_Image :: "StatefulSet \<Rightarrow> string" where
  "sts_Image sts \<equiv> cnt_Image (sss_Server (sts_Spec sts))"

record Pod =
  pod_Name :: string
  pod_Namespace :: string
  pod_Labels :: label_map
  pod_Annotations :: label_map
  pod_Phase :: string
  pod_Hostname :: string
  pod_Subdomain :: string
  pod_IP :: string
  pod_Image :: string

record ServicePort =
  sp_Port :: int
  sp_Name :: string
  sp_NodePort :: int

text \<open>A nil map of annotations differs from an empty one, which the operator's comparison notices.\<close>

record Service =
  svc_Name :: string
  svc_Namespace :: string
  svc_Labels :: label_map
  svc_Annotations :: "label_map option"
  svc_Selector :: label_map
  svc_Type :: string
  svc_ClusterIP :: string
  svc_PublishNotReadyAddresses :: bool
  svc_Ports :: "ServicePort list"
  svc_ExternalIPs :: "string list option"
  svc_LoadBalancerIP :: string

text \<open>The object that Go allocates and a failed Get leaves untouched.\<close>

definition zeroContainer :: Container where
  "zeroContainer = \<lparr>cnt_Name = [], cnt_Image = [], cnt_ImagePullPolicy = [], cnt_Resources = [], cnt_Ports = [],
     cnt_ReadinessProbe = [], cnt_SecurityContext = None, cnt_Env = [], cnt_VolumeMounts = [], cnt_Rest = []\<rparr>"

definition zeroStatefulSetSpec :: StatefulSetSpec where
  "zeroStatefulSetSpec = \<lparr>sss_Selector = Map.empty, sss_ServiceName = [], sss_Replicas = None,
     sss_TemplateLabels = Map.empty, sss_TemplateAnnotations = Map.empty, sss_NodeSelector = None,
     sss_Affinity = [], sss_Tolerations = [], sss_ImagePullSecrets = [], sss_Server = zeroContainer,
     sss_Sidecars = [], sss_Volumes = [], sss_TerminationGracePeriod = None, sss_ServiceAccountName = [],
     sss_UpdateStrategy = [], sss_PodManagementPolicy = [], sss_VolumeClaims = []\<rparr>"

definition zeroStatefulSet :: StatefulSet where
  "zeroStatefulSet = \<lparr>sts_Name = [], sts_Namespace = [], sts_Labels = Map.empty, sts_Annotations = Map.empty,
     sts_Spec = zeroStatefulSetSpec, sts_StatusReplicas = 0\<rparr>"

lemma zeroStatefulSet_Replicas [simp]: "sts_Replicas zeroStatefulSet = None"
  by (simp add: zeroStatefulSet_def zeroStatefulSetSpec_def)

definition PodRunning :: string where
  "PodRunning = ''Running''"

section \<open>Pod facts\<close>

datatype tristate = TriNone | TriFalse | TriTrue

record PodFact =
  pf_name :: NamespacedName
  pf_podIndex :: int
  pf_dnsName :: string
  pf_podIP :: string
  pf_subcluster :: string
  pf_isPrimary :: bool
  pf_image :: string
  pf_exists :: bool
  pf_isPodRunning :: bool
  pf_managedByParent :: bool
  pf_pendingDelete :: bool
  pf_isInstalled :: bool
  pf_hasStaleAdmintoolsConf :: bool
  pf_dbExists :: bool
  pf_upNode :: bool
  pf_readOnly :: bool
  pf_vnodeName :: string
  pf_compat21NodeName :: string
  pf_eulaAccepted :: tristate
  pf_configLogrotateExists :: bool
  pf_configLogrotateWritable :: bool
  pf_configShareExists :: bool
  pf_isTransient :: bool
  pf_shardSubscriptions :: int
  pf_hasDCTableAnnotations :: bool

definition zeroPodFact :: PodFact where
  "zeroPodFact = \<lparr>pf_name = \<lparr>nn_Namespace = [], nn_Name = []\<rparr>, pf_podIndex = 0, pf_dnsName = [], pf_podIP = [],
     pf_subcluster = [], pf_isPrimary = False, pf_image = [], pf_exists = False, pf_isPodRunning = False,
     pf_managedByParent = False, pf_pendingDelete = False, pf_isInstalled = False,
     pf_hasStaleAdmintoolsConf = False, pf_dbExists = False, pf_upNode = False, pf_readOnly = False,
     pf_vnodeName = [], pf_compat21NodeName = [], pf_eulaAccepted = TriNone,
     pf_configLogrotateExists = False, pf_configLogrotateWritable = False, pf_configShareExists = False,
     pf_isTransient = False, pf_shardSubscriptions = 0, pf_hasDCTableAnnotations = False\<rparr>"

text \<open>The Go map from pod names to facts, as an association list with one entry per name.\<close>

type_synonym PodFactDetail = "(NamespacedName \<times> PodFact) list"

record PodFacts =
  Detail :: PodFactDetail
  NeedCollection :: bool

section \<open>The outside\<close>

type_synonym exec_reply = "string \<times> string \<times> goerr option"

record 'w env =
  e_GetVdb :: "NamespacedName \<Rightarrow> 'w \<Rightarrow> (goerr + VerticaDB) \<times> 'w"
  e_UpdateVdb :: "VerticaDB \<Rightarrow> 'w \<Rightarrow> (goerr + VerticaDB) \<times> 'w"
  e_UpdateVdbStatus :: "VerticaDB \<Rightarrow> 'w \<Rightarrow> (goerr + VerticaDB) \<times> 'w"
  e_GetVas :: "NamespacedName \<Rightarrow> 'w \<Rightarrow> (goerr + VerticaAutoscaler) \<times> 'w"
  e_UpdateVas :: "VerticaAutoscaler \<Rightarrow> 'w \<Rightarrow> (goerr + VerticaAutoscaler) \<times> 'w"
  e_UpdateVasStatus :: "VerticaAutoscaler \<Rightarrow> 'w \<Rightarrow> (goerr + VerticaAutoscaler) \<times> 'w"
  e_GetSts :: "NamespacedName \<Rightarrow> 'w \<Rightarrow> (goerr + StatefulSet) \<times> 'w"
  e_ListSts :: "string \<Rightarrow> label_map \<Rightarrow> 'w \<Rightarrow> (goerr + StatefulSet list) \<times> 'w"
  e_UpdateSts :: "StatefulSet \<Rightarrow> 'w \<Rightarrow> goerr option \<times> 'w"
  e_GetPod :: "NamespacedName \<Rightarrow> 'w \<Rightarrow> (goerr + Pod) \<times> 'w"
  e_ListPods :: "string \<Rightarrow> label_map \<Rightarrow> 'w \<Rightarrow> (goerr + Pod list) \<times> 'w"
  e_UpdatePod :: "Pod \<Rightarrow> 'w \<Rightarrow> goerr option \<times> 'w"
  e_DeletePod :: "Pod \<Rightarrow> 'w \<Rightarrow> goerr option \<times> 'w"
  e_GetSvc :: "NamespacedName \<Rightarrow> 'w \<Rightarrow> (goerr + Service) \<times> 'w"
  e_ListSvc :: "string \<Rightarrow> label_map \<Rightarrow> 'w \<Rightarrow> (goerr + Service list) \<times> 'w"
  e_UpdateSvc :: "Service \<Rightarrow> 'w \<Rightarrow> goerr option \<times> 'w"
  e_CreateSts :: "StatefulSet \<Rightarrow> 'w \<Rightarrow> goerr option \<times> 'w"
  e_DeleteSts :: "StatefulSet \<Rightarrow> 'w \<Rightarrow> goerr option \<times> 'w"
  e_PatchSts :: "StatefulSet \<Rightarrow> StatefulSet \<Rightarrow> 'w \<Rightarrow> (goerr + StatefulSet) \<times> 'w"
  e_CreateSvc :: "Service \<Rightarrow> 'w \<Rightarrow> goerr option \<times> 'w"
  e_DeleteSvc :: "Service \<Rightarrow> 'w \<Rightarrow> goerr option \<times> 'w"
  e_PatchPod :: "Pod \<Rightarrow> Pod \<Rightarrow> 'w \<Rightarrow> (goerr + Pod) \<times> 'w"
  e_GetSecret :: "NamespacedName \<Rightarrow> 'w \<Rightarrow> (goerr + (string \<times> string) list) \<times> 'w"
  e_GetConfigMap :: "NamespacedName \<Rightarrow> 'w \<Rightarrow> (goerr + (string \<times> string) list) \<times> 'w"
  e_SetControllerReference :: "NamespacedName \<Rightarrow> 'w \<Rightarrow> goerr option \<times> 'w"
  e_ServerVersion :: "'w \<Rightarrow> (goerr + string \<times> string \<times> string) \<times> 'w"
  e_Copy :: "NamespacedName \<Rightarrow> string \<Rightarrow> string \<Rightarrow> 'w \<Rightarrow> exec_reply \<times> 'w"
  e_Exec :: "NamespacedName \<Rightarrow> string list \<Rightarrow> 'w \<Rightarrow> exec_reply \<times> 'w"
  e_Now :: "'w \<Rightarrow> int \<times> 'w"
  e_Range :: "PodFactDetail \<Rightarrow> 'w \<Rightarrow> PodFactDetail \<times> 'w"
  e_RangeKeys :: "string list \<Rightarrow> 'w \<Rightarrow> string list \<times> 'w"
  e_RangeMap :: "label_map \<Rightarrow> 'w \<Rightarrow> (string \<times> string) list \<times> 'w"
  e_Retries :: nat

text \<open>A loop over a Go map visits every entry once, in some order.\<close>

definition rangeLaw :: "'w env \<Rightarrow> bool" where
  "rangeLaw E \<longleftrightarrow> (\<forall>d w. mset (fst (e_Range E d w)) = mset d) \<and> (\<forall>ks w. mset (fst (e_RangeKeys E ks w)) = mset ks)
     \<and> (\<forall>m w. finite (dom m) \<longrightarrow> distinct (map fst (fst (e_RangeMap E m w))) \<and> map_of (fst (e_RangeMap E m w)) = m)"

lemma rangeLawD:
  assumes "rangeLaw E"
  shows "e_Range E d w = (d', w') \<Longrightarrow> mset d' = mset d"
    and "e_RangeKeys E ks w = (ks', w') \<Longrightarrow> mset ks' = mset ks"
    and "e_RangeMap E m w = (kvs, w') \<Longrightarrow> finite (dom m) \<Longrightarrow> distinct (map fst kvs) \<and> map_of kvs = m"
proof -
  from assms have 1: "mset (fst (e_Range E d w)) = mset d" and 2: "mset (fst (e_RangeKeys E ks w)) = mset ks"
    and 3: "finite (dom m) \<Longrightarrow> distinct (map fst (fst (e_RangeMap E m w))) \<and> map_of (fst (e_RangeMap E m w)) = m"
    unfolding rangeLaw_def by (elim conjE; simp)+
  show "e_Range E d w = (d', w') \<Longrightarrow> mset d' = mset d" using 1 by simp
  show "e_RangeKeys E ks w = (ks', w') \<Longrightarrow> mset ks' = mset ks" using 2 by simp
  show "e_RangeMap E m w = (kvs, w') \<Longrightarrow> finite (dom m) \<Longrightarrow> distinct (map fst kvs) \<and> map_of kvs = m" using 3 by simp
qed

text \<open>
  The API server as a store of the resource, for claims about what is stored: a read returns the
  stored object, a write of the status subresource replaces the status only, a write of the
  object replaces everything else, a write that fails changes nothing, and nothing but these two
  operations changes it.
\<close>

definition vdbServer :: "'w env \<Rightarrow> ('w \<Rightarrow> VerticaDB) \<Rightarrow> bool" where
  "vdbServer E stored \<longleftrightarrow>
     (\<forall>nm w. stored (snd (e_GetVdb E nm w)) = stored w
        \<and> (\<forall>v. fst (e_GetVdb E nm w) = Inr v \<longrightarrow> v = stored w))
     \<and> (\<forall>v w. case fst (e_UpdateVdbStatus E v w) of
          Inl e \<Rightarrow> stored (snd (e_UpdateVdbStatus E v w)) = stored w
        | Inr v' \<Rightarrow> stored (snd (e_UpdateVdbStatus E v w)) = v' \<and> v' = (stored w)\<lparr>vdb_Status := vdb_Status v\<rparr>)
     \<and> (\<forall>v w. case fst (e_UpdateVdb E v w) of
          Inl e \<Rightarrow> stored (snd (e_UpdateVdb E v w)) = stored w
        | Inr v' \<Rightarrow> stored (snd (e_UpdateVdb E v w)) = v' \<and> v' = v\<lparr>vdb_Status := vdb_Status (stored w)\<rparr>)
     \<and> (\<forall>nm cmd w. stored (snd (e_Exec E nm cmd w)) = stored w)
     \<and> (\<forall>d w. stored (snd (e_Range E d w)) = stored w)
     \<and> (\<forall>w. stored (snd (e_Now E w)) = stored w)
     \<and> (\<forall>nm w. stored (snd (e_GetSts E nm w)) = stored w)
     \<and> (\<forall>ns l w. stored (snd (e_ListSts E ns l w)) = stored w)
     \<and> (\<forall>x w. stored (snd (e_UpdateSts E x w)) = stored w)
     \<and> (\<forall>nm w. stored (snd (e_GetPod E nm w)) = stored w)
     \<and> (\<forall>ns l w. stored (snd (e_ListPods E ns l w)) = stored w)
     \<and> (\<forall>x w. stored (snd (e_UpdatePod E x w)) = stored w)
     \<and> (\<forall>x w. stored (snd (e_DeletePod E x w)) = stored w)
     \<and> (\<forall>nm w. stored (snd (e_GetSvc E nm w)) = stored w)
     \<and> (\<forall>ns l w. stored (snd (e_ListSvc E ns l w)) = stored w)
     \<and> (\<forall>x w. stored (snd (e_UpdateSvc E x w)) = stored w)"

lemma vdbServerD:
  assumes "vdbServer E stored"
  shows "stored (snd (e_GetVdb E nm w)) = stored w"
    and "fst (e_GetVdb E nm w) = Inr v \<Longrightarrow> v = stored w"
    and "case fst (e_UpdateVdbStatus E v w) of
          Inl e \<Rightarrow> stored (snd (e_UpdateVdbStatus E v w)) = stored w
        | Inr v' \<Rightarrow> stored (snd (e_UpdateVdbStatus E v w)) = v' \<and> v' = (stored w)\<lparr>vdb_Status := vdb_Status v\<rparr>"
    and "case fst (e_UpdateVdb E v w) of
          Inl e \<Rightarrow> stored (snd (e_UpdateVdb E v w)) = stored w
        | Inr v' \<Rightarrow> stored (snd (e_UpdateVdb E v w)) = v' \<and> v' = v\<lparr>vdb_Status := vdb_Status (stored w)\<rparr>"
  using assms unfolding vdbServer_def by (elim conjE; simp)+

lemma vdbServer_frame:
  assumes "vdbServer E stored"
  shows "stored (snd (e_Exec E nm cmd w)) = stored w"
    and "stored (snd (e_Range E d w)) = stored w"
    and "stored (snd (e_Now E w)) = stored w"
    and "stored (snd (e_GetSts E nm w)) = stored w"
    and "stored (snd (e_ListSts E ns l w)) = stored w"
    and "stored (snd (e_UpdateSts E sts w)) = stored w"
    and "stored (snd (e_GetPod E nm w)) = stored w"
    and "stored (snd (e_ListPods E ns l w)) = stored w"
    and "stored (snd (e_UpdatePod E pod w)) = stored w"
    and "stored (snd (e_DeletePod E pod w)) = stored w"
    and "stored (snd (e_GetSvc E nm w)) = stored w"
    and "stored (snd (e_ListSvc E ns l w)) = stored w"
    and "stored (snd (e_UpdateSvc E svc w)) = stored w"
  using assms unfolding vdbServer_def by (elim conjE; simp)+

text \<open>
  A concrete outside with no objects: every read finds nothing, every write and every command
  succeeds without output and maps are visited in the order of the list.
\<close>

definition emptyEnv :: "'w env" where
  "emptyEnv = \<lparr>
     e_GetVdb = \<lambda>nm w. (Inl NotFoundErr, w),
     e_UpdateVdb = \<lambda>v w. (Inr v, w),
     e_UpdateVdbStatus = \<lambda>v w. (Inr v, w),
     e_GetVas = \<lambda>nm w. (Inl NotFoundErr, w),
     e_UpdateVas = \<lambda>a w. (Inr a, w),
     e_UpdateVasStatus = \<lambda>a w. (Inr a, w),
     e_GetSts = \<lambda>nm w. (Inl NotFoundErr, w),
     e_ListSts = \<lambda>ns l w. (Inr [], w),
     e_UpdateSts = \<lambda>x w. (None, w),
     e_GetPod = \<lambda>nm w. (Inl NotFoundErr, w),
     e_ListPods = \<lambda>ns l w. (Inr [], w),
     e_UpdatePod = \<lambda>x w. (None, w),
     e_DeletePod = \<lambda>x w. (None, w),
     e_GetSvc = \<lambda>nm w. (Inl NotFoundErr, w),
     e_ListSvc = \<lambda>ns l w. (Inr [], w),
     e_UpdateSvc = \<lambda>x w. (None, w),
     e_CreateSts = \<lambda>x w. (None, w),
     e_DeleteSts = \<lambda>x w. (None, w),
     e_PatchSts = \<lambda>x y w. (Inr y, w),
     e_CreateSvc = \<lambda>x w. (None, w),
     e_DeleteSvc = \<lambda>x w. (None, w),
     e_PatchPod = \<lambda>x y w. (Inr y, w),
     e_GetSecret = \<lambda>nm w. (Inl NotFoundErr, w),
     e_GetConfigMap = \<lambda>nm w. (Inl NotFoundErr, w),
     e_SetControllerReference = \<lambda>nm w. (None, w),
     e_ServerVersion = \<lambda>w. (Inr (''v1.23.5'', ''c285e78'', ''2022-03-16''), w),
     e_Copy = \<lambda>nm contents dest w. (([], [], None), w),
     e_Exec = \<lambda>nm cmd w. (([], [], None), w),
     e_Now = \<lambda>w. (63800000000, w),
     e_Range = \<lambda>d w. (d, w),
     e_RangeKeys = \<lambda>ks w. (ks, w),
     e_RangeMap = \<lambda>m w. (map (\<lambda>k. (k, the (m k))) (sorted_list_of_set (dom m)), w),
     e_Retries = 3\<rparr>"

text \<open>The same with a stored resource, which is the world.\<close>

definition storeEnv :: "VerticaDB env" where
  "storeEnv = emptyEnv\<lparr>
     e_GetVdb := \<lambda>nm w. (Inr w, w),
     e_UpdateVdb := \<lambda>v w. (let v' = v\<lparr>vdb_Status := vdb_Status w\<rparr> in (Inr v', v')),
     e_UpdateVdbStatus := \<lambda>v w. (let v' = w\<lparr>vdb_Status := vdb_Status v\<rparr> in (Inr v', v'))\<rparr>"

lemma map_of_sorted_entries:
  assumes "finite (dom m)"
  shows "map_of (map (\<lambda>k. (k, the (m k))) (sorted_list_of_set (dom m))) = m"
proof
  show "map_of (map (\<lambda>k. (k, the (m k))) (sorted_list_of_set (dom m))) k = m k" for k
    using assms by (cases "m k") (simp_all add: map_of_map_restrict restrict_map_def dom_def)
qed

lemma emptyEnv_range: "rangeLaw (emptyEnv :: 'w env)"
proof -
  have "distinct (map fst (map (\<lambda>k. (k, the (m k))) (sorted_list_of_set (dom m))))" for m :: label_map
    by (simp add: comp_def)
  then show ?thesis by (simp add: rangeLaw_def emptyEnv_def map_of_sorted_entries)
qed

lemma storeEnv_laws: "vdbServer storeEnv id" "rangeLaw storeEnv"
proof -
  show "vdbServer storeEnv id" by (simp add: vdbServer_def storeEnv_def emptyEnv_def Let_def)
  show "rangeLaw storeEnv" using emptyEnv_range by (simp add: rangeLaw_def storeEnv_def)
qed

section \<open>The controller's state\<close>

datatype exec_kind = InPod | VSQL | AT

datatype metric = UpgradeCount | ClusterRestartAttempt | ClusterRestartFailure | ClusterRestartDuration
  | NodesRestartAttempt | NodesRestartFailed | NodesRestartDuration
  | SubclusterCount | TotalNodeCount | RunningNodeCount | UpNodeCount

datatype metric_op = MetricInit | MetricInc | MetricObserve | MetricSet int | MetricDelete

datatype obs =
    ObsExec exec_kind NamespacedName "string list"
  | ObsEvent string string
  | ObsUpdateVdb VerticaDB
  | ObsUpdateStatus VerticaDB
  | ObsUpdateVas VerticaAutoscaler
  | ObsUpdateVasStatus VerticaAutoscaler
  | ObsUpdateSts StatefulSet
  | ObsUpdatePod Pod
  | ObsDeletePod Pod
  | ObsUpdateSvc Service
  | ObsCreateSts StatefulSet
  | ObsDeleteSts StatefulSet
  | ObsPatchSts StatefulSet StatefulSet
  | ObsCreateSvc Service
  | ObsDeleteSvc Service
  | ObsPatchPod Pod
  | ObsCopy NamespacedName string string
  | ObsMetric metric metric_op "(string \<times> string) list"

record 'w st =
  world :: 'w
  vdb :: VerticaDB
  pfacts :: PodFacts
  trace :: "obs list"
  suPassword :: string

type_synonym ('w, 'a) op = "('w st, 'a) state"

definition ret_op :: "'a \<Rightarrow> ('w, 'a) op" where
  "ret_op = State_Monad.return"

definition gets_st :: "('w st \<Rightarrow> 'a) \<Rightarrow> ('w, 'a) op" where
  "gets_st f = State (\<lambda>s. (f s, s))"

definition modify_st :: "('w st \<Rightarrow> 'w st) \<Rightarrow> ('w, unit) op" where
  "modify_st f = State (\<lambda>s. ((), f s))"

definition ask :: "('w \<Rightarrow> 'a \<times> 'w) \<Rightarrow> ('w, 'a) op" where
  "ask f = State (\<lambda>s. case f (world s) of (a, w) \<Rightarrow> (a, s\<lparr>world := w\<rparr>))"

definition emit :: "obs \<Rightarrow> ('w, unit) op" where
  "emit o' = modify_st (\<lambda>s. s\<lparr>trace := trace s @ [o']\<rparr>)"

definition setVdb :: "VerticaDB \<Rightarrow> ('w, unit) op" where
  "setVdb v = modify_st (\<lambda>s. s\<lparr>vdb := v\<rparr>)"

definition Eventf :: "string \<Rightarrow> string \<Rightarrow> ('w, unit) op" where
  "Eventf ty reason = emit (ObsEvent ty reason)"

definition EventTypeNormal :: string where
  "EventTypeNormal = ''Normal''"
definition EventTypeWarning :: string where
  "EventTypeWarning = ''Warning''"

section \<open>Commands in pods\<close>

definition UpdateVsqlCmd :: "string \<Rightarrow> string list \<Rightarrow> string list" where
  "UpdateVsqlCmd passwd cmd =
     (if passwd \<noteq> [] then [''vsql'', ''--password'', passwd] else [''vsql'']) @ cmd"

definition getSupportingPasswdSlice :: "string list" where
  "getSupportingPasswdSlice = [''db_add_node'', ''db_add_subcluster'', ''db_remove_node'',
     ''db_remove_subcluster'', ''create_db'', ''restart_node'', ''start_db'', ''stop_db'']"

text \<open>The index of the first occurrence; the source's \<open>-1, false\<close> is \<^const>\<open>None\<close>.\<close>

fun cmds_Find :: "string list \<Rightarrow> string \<Rightarrow> nat option" where
  "cmds_Find [] option = None"
| "cmds_Find (item # rest) option = (if item = option then Some 0 else map_option Suc (cmds_Find rest option))"

definition UpdateAdmintoolsCmd :: "string \<Rightarrow> string list \<Rightarrow> string list" where
  "UpdateAdmintoolsCmd passwd cmd =
     (let cmd = [''sudo'', ''su'', ''dbadmin'', ''--'', ''/opt/vertica/bin/admintools''] @ cmd
      in if passwd = [] then cmd
         else if list_ex (\<lambda>e. cmds_Find cmd e \<noteq> None) getSupportingPasswdSlice
         then cmd @ [''--password'', passwd]
         else cmd)"

text \<open>What the operator logs of a command: the password is replaced by stars.\<close>

fun logInfoCmd :: "string list \<Rightarrow> string" where
  "logInfoCmd [] = []"
| "logInfoCmd (c # rest) =
     (if c = ''--password''
      then c @ '' '' @ ''*******'' @ '' '' @ (case rest of [] \<Rightarrow> [] | _ # rest' \<Rightarrow> logInfoCmd rest')
      else c @ '' '' @ logInfoCmd rest)"

definition ExecInPod :: "'w env \<Rightarrow> NamespacedName \<Rightarrow> string list \<Rightarrow> ('w, exec_reply) op" where
  "ExecInPod E podName cmd = do { emit (ObsExec InPod podName cmd); ask (e_Exec E podName cmd) }"

definition ExecVSQL :: "'w env \<Rightarrow> NamespacedName \<Rightarrow> string list \<Rightarrow> ('w, exec_reply) op" where
  "ExecVSQL E podName cmd = do {
     emit (ObsExec VSQL podName cmd);
     pw \<leftarrow> gets_st suPassword;
     ask (e_Exec E podName (UpdateVsqlCmd pw cmd))
   }"

definition ExecAdmintools :: "'w env \<Rightarrow> NamespacedName \<Rightarrow> string list \<Rightarrow> ('w, exec_reply) op" where
  "ExecAdmintools E podName cmd = do {
     emit (ObsExec AT podName cmd);
     pw \<leftarrow> gets_st suPassword;
     ask (e_Exec E podName (UpdateAdmintoolsCmd pw cmd))
   }"

section \<open>Retrying\<close>

text \<open>
  client-go's \<open>RetryOnConflict\<close>: the function is called again after a conflict, a bounded number of
  times; the last error is returned.
\<close>

fun RetryOnConflict :: "nat \<Rightarrow> ('w, goerr option) op \<Rightarrow> ('w, goerr option) op" where
  "RetryOnConflict 0 fn = fn"
| "RetryOnConflict (Suc n) fn = do {
     err \<leftarrow> fn;
     case err of
       None \<Rightarrow> ret_op None
     | Some e \<Rightarrow> if errors_IsConflict e then RetryOnConflict n fn else ret_op (Some e)
   }"

text \<open>The same for a function that also assigns a variable of its caller when it succeeds.\<close>

fun RetryOnConflictV :: "nat \<Rightarrow> ('w, goerr + 'a) op \<Rightarrow> ('w, goerr + 'a) op" where
  "RetryOnConflictV 0 fn = fn"
| "RetryOnConflictV (Suc n) fn = do {
     r \<leftarrow> fn;
     case r of
       Inr a \<Rightarrow> ret_op (Inr a)
     | Inl e \<Rightarrow> if errors_IsConflict e then RetryOnConflictV n fn else ret_op (Inl e)
   }"

section \<open>Loops with early return\<close>

fun forErr :: "'a list \<Rightarrow> ('a \<Rightarrow> ('w, goerr option) op) \<Rightarrow> ('w, goerr option) op" where
  "forErr [] f = ret_op None"
| "forErr (x # xs) f = do {
     err \<leftarrow> f x;
     case err of None \<Rightarrow> forErr xs f | Some e \<Rightarrow> ret_op (Some e)
   }"

fun forRet :: "'a list \<Rightarrow> ('a \<Rightarrow> ('w, ret) op) \<Rightarrow> ('w, ret) op" where
  "forRet [] f = ret_op Done"
| "forRet (x # xs) f = do {
     res \<leftarrow> f x;
     if IsReconcileAborted res then ret_op res else forRet xs f
   }"

section \<open>Hoare triples\<close>

definition valid :: "('s \<Rightarrow> bool) \<Rightarrow> ('s, 'a) state \<Rightarrow> ('a \<Rightarrow> 's \<Rightarrow> bool) \<Rightarrow> bool" where
  "valid P m Q \<longleftrightarrow> (\<forall>s. P s \<longrightarrow> (case run_state m s of (a, s') \<Rightarrow> Q a s'))"

lemma valid_bind [wp_rules]:
  "valid P m R \<Longrightarrow> (\<And>a. valid (R a) (f a) Q) \<Longrightarrow> valid P (m \<bind> f) Q"
  unfolding valid_def by (fastforce split: prod.splits)

lemma valid_return: "(\<And>s. P s \<Longrightarrow> Q a s) \<Longrightarrow> valid P (State_Monad.return a) Q"
  by (simp add: valid_def)

lemma valid_ret_op: "(\<And>s. P s \<Longrightarrow> Q a s) \<Longrightarrow> valid P (ret_op a) Q"
  by (simp add: valid_def ret_op_def)

lemma valid_gets: "(\<And>s. P s \<Longrightarrow> Q (f s) s) \<Longrightarrow> valid P (gets_st f) Q"
  by (simp add: valid_def gets_st_def)

lemma valid_modify: "(\<And>s. P s \<Longrightarrow> Q () (f s)) \<Longrightarrow> valid P (modify_st f) Q"
  by (simp add: valid_def modify_st_def)

lemma valid_ask:
  "(\<And>s a w. P s \<Longrightarrow> f (world s) = (a, w) \<Longrightarrow> Q a (s\<lparr>world := w\<rparr>)) \<Longrightarrow> valid P (ask f) Q"
  by (simp add: valid_def ask_def split: prod.splits)

lemma valid_pre: "valid P' m Q \<Longrightarrow> (\<And>s. P s \<Longrightarrow> P' s) \<Longrightarrow> valid P m Q"
  by (simp add: valid_def)

lemma valid_post: "valid P m Q' \<Longrightarrow> (\<And>a s. Q' a s \<Longrightarrow> Q a s) \<Longrightarrow> valid P m Q"
  unfolding valid_def by (fastforce split: prod.splits)

lemma valid_if:
  "(b \<Longrightarrow> valid P m Q) \<Longrightarrow> (\<not> b \<Longrightarrow> valid P n Q) \<Longrightarrow> valid P (if b then m else n) Q"
  by simp

lemma valid_run: "valid P m Q \<Longrightarrow> P s \<Longrightarrow> run_state m s = (a, s') \<Longrightarrow> Q a s'"
  unfolding valid_def by force

lemma valid_ret_op_option:
  "(\<And>s. P s \<Longrightarrow> x = None \<Longrightarrow> Q a s) \<Longrightarrow> (\<And>y. x = Some y \<Longrightarrow> valid P (f y) Q) \<Longrightarrow>
   valid P (case x of None \<Rightarrow> ret_op a | Some y \<Rightarrow> f y) Q"
  by (cases x) (auto intro: valid_ret_op)

text \<open>
  A triple of the body whose precondition it restores when it fails is one of the retried call.
\<close>

lemma valid_RetryOnConflict:
  assumes body: "valid P fn (\<lambda>err s. (err = None \<longrightarrow> Q s) \<and> (err \<noteq> None \<longrightarrow> P s))"
  shows "valid P (RetryOnConflict n fn) (\<lambda>err s. (err = None \<longrightarrow> Q s) \<and> (err \<noteq> None \<longrightarrow> P s))"
proof (induction n)
  case 0
  show ?case using body by simp
next
  case (Suc n)
  have "valid (\<lambda>s. (err = None \<longrightarrow> Q s) \<and> (err \<noteq> None \<longrightarrow> P s))
      (case err of None \<Rightarrow> ret_op None
       | Some e \<Rightarrow> if errors_IsConflict e then RetryOnConflict n fn else ret_op (Some e))
      (\<lambda>err s. (err = None \<longrightarrow> Q s) \<and> (err \<noteq> None \<longrightarrow> P s))" for err
  proof (cases err)
    case None
    then show ?thesis by (auto intro: valid_ret_op)
  next
    case (Some e)
    then show ?thesis using valid_pre [OF Suc] by (auto intro!: valid_ret_op)
  qed
  then show ?case by (simp add: valid_bind [OF body])
qed

text \<open>
  The invariant of a loop is indexed by what has been done: the triple of the body takes it from
  the elements done before to those with the current one.
\<close>

lemma valid_forErr:
  assumes "\<And>done x rest. xs = done @ x # rest \<Longrightarrow>
      valid (I done) (f x) (\<lambda>err s. (err = None \<longrightarrow> I (done @ [x]) s) \<and> (err \<noteq> None \<longrightarrow> R s))"
  shows "valid (I []) (forErr xs f) (\<lambda>err s. (err = None \<longrightarrow> I xs s) \<and> (err \<noteq> None \<longrightarrow> R s))"
proof -
  have "valid (I done) (forErr todo f) (\<lambda>err s. (err = None \<longrightarrow> I xs s) \<and> (err \<noteq> None \<longrightarrow> R s))"
    if "xs = done @ todo" for "done" todo
    using that
  proof (induction todo arbitrary: "done")
    case Nil
    then show ?case by (auto intro: valid_ret_op)
  next
    case (Cons x todo)
    have "valid (\<lambda>s. (err = None \<longrightarrow> I (done @ [x]) s) \<and> (err \<noteq> None \<longrightarrow> R s))
        (case err of None \<Rightarrow> forErr todo f | Some e \<Rightarrow> ret_op (Some e))
        (\<lambda>err s. (err = None \<longrightarrow> I xs s) \<and> (err \<noteq> None \<longrightarrow> R s))" for err
      using Cons.IH [of "done @ [x]"] Cons.prems by (cases err) (auto intro: valid_ret_op)
    then show ?case by (simp add: valid_bind [OF assms [OF Cons.prems]])
  qed
  from this [of "[]" xs] show ?thesis by simp
qed

lemma valid_forRet:
  assumes "\<And>done x rest. xs = done @ x # rest \<Longrightarrow>
      valid (I done) (f x) (\<lambda>res s. if IsReconcileAborted res then R res s else I (done @ [x]) s)"
  shows "valid (I []) (forRet xs f) (\<lambda>res s. if IsReconcileAborted res then R res s else I xs s)"
proof -
  have "valid (I done) (forRet todo f) (\<lambda>res s. if IsReconcileAborted res then R res s else I xs s)"
    if "xs = done @ todo" for "done" todo
    using that
  proof (induction todo arbitrary: "done")
    case Nil
    then show ?case by (simp add: valid_def ret_op_def)
  next
    case (Cons x todo)
    have "valid (\<lambda>s. if IsReconcileAborted res then R res s else I (done @ [x]) s)
        (if IsReconcileAborted res then ret_op res else forRet todo f)
        (\<lambda>res s. if IsReconcileAborted res then R res s else I xs s)" for res
      using Cons.IH [of "done @ [x]"] Cons.prems by (auto simp: valid_def ret_op_def)
    then show ?case by (simp add: valid_bind [OF assms [OF Cons.prems]])
  qed
  from this [of "[]" xs] show ?thesis by simp
qed

text \<open>Running the basic computations.\<close>

lemma run_basic [simp]:
  "run_state (ret_op a) s = (a, s)"
  "run_state (gets_st f) s = (f s, s)"
  "run_state (modify_st g) s = ((), g s)"
  "run_state (ask h) s = (case h (world s) of (a, w) \<Rightarrow> (a, s\<lparr>world := w\<rparr>))"
  "run_state (emit o') s = ((), s\<lparr>trace := trace s @ [o']\<rparr>)"
  "run_state (setVdb v) s = ((), s\<lparr>vdb := v\<rparr>)"
  "run_state (Eventf ty reason) s = ((), s\<lparr>trace := trace s @ [ObsEvent ty reason]\<rparr>)"
  by (simp_all add: ret_op_def gets_st_def modify_st_def ask_def emit_def setVdb_def Eventf_def)

lemma run_RetryOnConflict_ok:
  "run_state fn s = (None, s') \<Longrightarrow> run_state (RetryOnConflict n fn) s = (None, s')"
  by (cases n) simp_all

section \<open>Frames\<close>

text \<open>
  A computation that only talks to the outside keeps the operator's own state; \<open>yields\<close> speaks
  of the result alone.
\<close>

definition keepsLocal :: "('w, 'a) op \<Rightarrow> bool" where
  "keepsLocal m \<longleftrightarrow> (\<forall>s. vdb (snd (run_state m s)) = vdb s \<and> pfacts (snd (run_state m s)) = pfacts s
                       \<and> suPassword (snd (run_state m s)) = suPassword s)"

definition yields :: "('s, 'a) state \<Rightarrow> ('a \<Rightarrow> bool) \<Rightarrow> bool" where
  "yields m Q \<longleftrightarrow> (\<forall>s. Q (fst (run_state m s)))"

named_theorems keeps_rules \<open>computations that keep the operator's own state\<close>

lemma keepsLocal_basic [keeps_rules]:
  "keepsLocal (ret_op a)" "keepsLocal (gets_st f)" "keepsLocal (ask g)" "keepsLocal (emit o')" "keepsLocal (Eventf ty r)"
  by (simp_all add: keepsLocal_def split: prod.splits)

lemma keepsLocal_bind [keeps_rules]:
  "keepsLocal m \<Longrightarrow> (\<And>a. keepsLocal (f a)) \<Longrightarrow> keepsLocal (m \<bind> f)"
  by (simp add: keepsLocal_def split: prod.splits) (metis snd_conv)

lemma keepsLocal_cases [keeps_rules]:
  "keepsLocal m \<Longrightarrow> keepsLocal n \<Longrightarrow> keepsLocal (if b then m else n)"
  "keepsLocal m \<Longrightarrow> (\<And>y. keepsLocal (g y)) \<Longrightarrow> keepsLocal (case x of None \<Rightarrow> m | Some y \<Rightarrow> g y)"
  "(\<And>e. keepsLocal (h e)) \<Longrightarrow> (\<And>y. keepsLocal (k y)) \<Longrightarrow> keepsLocal (case r of Inl e \<Rightarrow> h e | Inr y \<Rightarrow> k y)"
  "(\<And>a b. keepsLocal (p a b)) \<Longrightarrow> keepsLocal (case q of (a, b) \<Rightarrow> p a b)"
  by (simp_all split: option.splits sum.splits prod.splits)

lemma keepsLocal_exec [keeps_rules]:
  "keepsLocal (ExecInPod E nm cmd)" "keepsLocal (ExecVSQL E nm cmd)" "keepsLocal (ExecAdmintools E nm cmd)"
  unfolding ExecInPod_def ExecVSQL_def ExecAdmintools_def by (intro keeps_rules)+

lemma keepsLocalD:
  "keepsLocal m \<Longrightarrow> run_state m s = (a, s') \<Longrightarrow> vdb s' = vdb s \<and> pfacts s' = pfacts s \<and> suPassword s' = suPassword s"
  unfolding keepsLocal_def by (metis snd_conv)

lemma yieldsD: "yields m Q \<Longrightarrow> run_state m s = (a, s') \<Longrightarrow> Q a"
  unfolding yields_def by (metis fst_conv)

lemma yields_mono: "yields m P \<Longrightarrow> (\<And>a. P a \<Longrightarrow> Q a) \<Longrightarrow> yields m Q"
  by (simp add: yields_def)

lemma yields_ret [simp]: "yields (ret_op a) Q \<longleftrightarrow> Q a"
  by (simp add: yields_def)

lemma yields_any: "(\<And>a. yields (f a) Q) \<Longrightarrow> yields (m \<bind> f) Q"
  by (simp add: yields_def split: prod.splits)

lemma yields_bind: "yields m R \<Longrightarrow> (\<And>a. R a \<Longrightarrow> yields (f a) Q) \<Longrightarrow> yields (m \<bind> f) Q"
  by (simp add: yields_def split: prod.splits) (metis fst_conv)

text \<open>A triple from a frame and a fact about the result.\<close>

lemma valid_keeps_yields:
  assumes "keepsLocal m" and "yields m Q"
  shows "valid (\<lambda>s. pfacts s = F \<and> vdb s = V) m (\<lambda>a s. pfacts s = F \<and> vdb s = V \<and> Q a)"
  unfolding valid_def using keepsLocalD [OF assms(1)] yieldsD [OF assms(2)] by (auto split: prod.splits)

end
