(* ===== verification/Names.thy ===== *)
theory Names
  imports Effects
begin

text \<open>
  The names and labels of the objects the operator creates: package names and
  pkg/builder/labels_annotations.go. Copying the entries of one Go map into another overrides
  entries with the same key and does not depend on the order, so it is the union of maps.
\<close>

section \<open>Names\<close>

definition GenNamespacedName :: "VerticaDB \<Rightarrow> string \<Rightarrow> NamespacedName" where
  "GenNamespacedName v name = \<lparr>nn_Namespace = vdb_Namespace v, nn_Name = name\<rparr>"

definition GenExtSvcName :: "VerticaDB \<Rightarrow> Subcluster \<Rightarrow> NamespacedName" where
  "GenExtSvcName v sc = GenNamespacedName v (vdb_Name v @ ''-'' @ GetServiceName sc)"

definition GenHlSvcName :: "VerticaDB \<Rightarrow> NamespacedName" where
  "GenHlSvcName v = GenNamespacedName v (vdb_Name v)"

definition GenStsName :: "VerticaDB \<Rightarrow> Subcluster \<Rightarrow> NamespacedName" where
  "GenStsName v sc = GenNamespacedName v (vdb_Name v @ ''-'' @ sc_Name sc)"

definition GenCommunalCredSecretName :: "VerticaDB \<Rightarrow> NamespacedName" where
  "GenCommunalCredSecretName v = GenNamespacedName v (com_CredentialSecret (spec_Communal (vdb_Spec v)))"

definition GenKrb5SecretName :: "VerticaDB \<Rightarrow> NamespacedName" where
  "GenKrb5SecretName v = GenNamespacedName v (spec_KerberosSecret (vdb_Spec v))"

definition GenSUPasswdSecretName :: "VerticaDB \<Rightarrow> NamespacedName" where
  "GenSUPasswdSecretName v = GenNamespacedName v (spec_SuperuserPasswordSecret (vdb_Spec v))"

definition GenPodName :: "VerticaDB \<Rightarrow> Subcluster \<Rightarrow> int \<Rightarrow> NamespacedName" where
  "GenPodName v sc podIndex =
     GenNamespacedName v (vdb_Name v @ ''-'' @ sc_Name sc @ ''-'' @ strconv_Itoa podIndex)"

definition GenPodNameFromSts :: "VerticaDB \<Rightarrow> StatefulSet \<Rightarrow> int \<Rightarrow> NamespacedName" where
  "GenPodNameFromSts v sts podIndex =
     \<lparr>nn_Namespace = vdb_Namespace v, nn_Name = sts_Name sts @ ''-'' @ strconv_Itoa podIndex\<rparr>"

section \<open>Paths\<close>

definition AdminToolsConf :: string where
  "AdminToolsConf = ''/opt/vertica/config/admintools.conf''"
definition EulaAcceptanceFile :: string where
  "EulaAcceptanceFile = ''/opt/vertica/config/d5415f948449e9d4c421b568f2411140.dat''"
definition EulaAcceptanceScript :: string where
  "EulaAcceptanceScript = ''/opt/vertica/config/accept_eula.py''"
definition ConfigLogrotatePath :: string where
  "ConfigLogrotatePath = ''/opt/vertica/config/logrotate''"
definition ConfigSharePath :: string where
  "ConfigSharePath = ''/opt/vertica/config/share''"
definition LocalDataPath :: string where
  "LocalDataPath = ''/home/dbadmin/local-data''"

section \<open>Label keys\<close>

definition SvcTypeLabel :: string where
  "SvcTypeLabel = ''vertica.com/svc-type''"
definition SubclusterNameLabel :: string where
  "SubclusterNameLabel = ''vertica.com/subcluster-name''"
definition SubclusterLegacyNameLabel :: string where
  "SubclusterLegacyNameLabel = ''vertica.com/subcluster''"
definition SubclusterTypeLabel :: string where
  "SubclusterTypeLabel = ''vertica.com/subcluster-type''"
definition SubclusterSvcNameLabel :: string where
  "SubclusterSvcNameLabel = ''vertica.com/subcluster-svc''"
definition SubclusterTransientLabel :: string where
  "SubclusterTransientLabel = ''vertica.com/subcluster-transient''"
definition ClientRoutingLabel :: string where
  "ClientRoutingLabel = ''vertica.com/client-routing''"
definition ClientRoutingVal :: string where
  "ClientRoutingVal = ''true''"
definition VDBInstanceLabel :: string where
  "VDBInstanceLabel = ''app.kubernetes.io/instance''"
definition OperatorVersionLabel :: string where
  "OperatorVersionLabel = ''app.kubernetes.io/version''"
definition ManagedByLabel :: string where
  "ManagedByLabel = ''app.kubernetes.io/managed-by''"
definition OperatorName :: string where
  "OperatorName = ''verticadb-operator''"
definition CurOperatorVersion :: string where
  "CurOperatorVersion = ''1.7.0''"
definition KubernetesVersionAnnotation :: string where
  "KubernetesVersionAnnotation = ''kubernetes.io/version''"

lemmas label_keys = SvcTypeLabel_def SubclusterNameLabel_def SubclusterLegacyNameLabel_def
  SubclusterTypeLabel_def SubclusterSvcNameLabel_def SubclusterTransientLabel_def
  ClientRoutingLabel_def VDBInstanceLabel_def OperatorVersionLabel_def ManagedByLabel_def

section \<open>Labels\<close>

definition MakeSubclusterLabels :: "Subcluster \<Rightarrow> label_map" where
  "MakeSubclusterLabels sc =
     (let m = [SubclusterNameLabel \<mapsto> sc_Name sc, SubclusterTypeLabel \<mapsto> GetType sc,
               SubclusterTransientLabel \<mapsto> strconv_FormatBool (sc_IsTransient sc)]
      in if \<not> sc_IsTransient sc then m(SubclusterSvcNameLabel \<mapsto> GetServiceName sc) else m)"

definition MakeOperatorLabels :: "VerticaDB \<Rightarrow> label_map" where
  "MakeOperatorLabels v =
     [ManagedByLabel \<mapsto> OperatorName, ''app.kubernetes.io/name'' \<mapsto> ''vertica'',
      VDBInstanceLabel \<mapsto> vdb_Name v, ''app.kubernetes.io/component'' \<mapsto> ''database'',
      ''vertica.com/database'' \<mapsto> spec_DBName (vdb_Spec v)]"

definition MakeCommonLabels :: "VerticaDB \<Rightarrow> Subcluster option \<Rightarrow> bool \<Rightarrow> label_map" where
  "MakeCommonLabels v sc forPod =
     (let labels = MakeOperatorLabels v;
          labels = (if \<not> forPod then labels(OperatorVersionLabel \<mapsto> CurOperatorVersion) else labels)
      in case sc of None \<Rightarrow> labels | Some sc \<Rightarrow> labels ++ MakeSubclusterLabels sc)"

definition makeLabelsForObject :: "VerticaDB \<Rightarrow> Subcluster option \<Rightarrow> bool \<Rightarrow> label_map" where
  "makeLabelsForObject v sc forPod = MakeCommonLabels v sc forPod ++ spec_Labels (vdb_Spec v)"

definition MakeLabelsForPodObject :: "VerticaDB \<Rightarrow> Subcluster \<Rightarrow> label_map" where
  "MakeLabelsForPodObject v sc = makeLabelsForObject v (Some sc) True"

definition MakeLabelsForStsObject :: "VerticaDB \<Rightarrow> Subcluster \<Rightarrow> label_map" where
  "MakeLabelsForStsObject v sc = makeLabelsForObject v (Some sc) False"

definition MakeLabelsForSvcObject :: "VerticaDB \<Rightarrow> Subcluster option \<Rightarrow> string \<Rightarrow> label_map" where
  "MakeLabelsForSvcObject v sc svcType = (makeLabelsForObject v sc False)(SvcTypeLabel \<mapsto> svcType)"

definition MakeAnnotationsForObject :: "VerticaDB \<Rightarrow> label_map" where
  "MakeAnnotationsForObject v = Map.empty ++ spec_Annotations (vdb_Spec v)"

definition MakeBaseSvcSelectorLabels :: "VerticaDB \<Rightarrow> label_map" where
  "MakeBaseSvcSelectorLabels v = [VDBInstanceLabel \<mapsto> vdb_Name v]"

definition MakeSvcSelectorLabelsForServiceNameRouting :: "VerticaDB \<Rightarrow> Subcluster \<Rightarrow> label_map" where
  "MakeSvcSelectorLabelsForServiceNameRouting v sc =
     (MakeBaseSvcSelectorLabels v)(SubclusterSvcNameLabel \<mapsto> GetServiceName sc, ClientRoutingLabel \<mapsto> ClientRoutingVal)"

definition MakeSvcSelectorLabelsForSubclusterNameRouting :: "VerticaDB \<Rightarrow> Subcluster \<Rightarrow> label_map" where
  "MakeSvcSelectorLabelsForSubclusterNameRouting v sc =
     (MakeBaseSvcSelectorLabels v)(SubclusterNameLabel \<mapsto> sc_Name sc, ClientRoutingLabel \<mapsto> ClientRoutingVal)"

definition MakeStsSelectorLabels :: "VerticaDB \<Rightarrow> Subcluster \<Rightarrow> label_map" where
  "MakeStsSelectorLabels v sc = (MakeBaseSvcSelectorLabels v)(SubclusterNameLabel \<mapsto> sc_Name sc)"

definition MakeAnnotationsForSubclusterService :: "VerticaDB \<Rightarrow> Subcluster \<Rightarrow> label_map" where
  "MakeAnnotationsForSubclusterService v sc =
     MakeAnnotationsForObject v ++ (case sc_ServiceAnnotations sc of None \<Rightarrow> Map.empty | Some m \<Rightarrow> m)"

section \<open>Lemmas\<close>

text \<open>A selector made from a set of labels picks the objects that have all of them.\<close>

definition selects :: "label_map \<Rightarrow> label_map \<Rightarrow> bool" where
  "selects sel labels \<longleftrightarrow> sel \<subseteq>\<^sub>m labels"

text \<open>The keys the operator sets itself.\<close>

definition operatorKeys :: "string set" where
  "operatorKeys = {ManagedByLabel, ''app.kubernetes.io/name'', VDBInstanceLabel,
     ''app.kubernetes.io/component'', ''vertica.com/database'', SubclusterNameLabel, SubclusterTypeLabel,
     SubclusterTransientLabel, SubclusterSvcNameLabel, ClientRoutingLabel}"

lemma not_in_dom_None: "K \<inter> dom m = {} \<Longrightarrow> k \<in> K \<Longrightarrow> m k = None"
  by auto

lemma pod_label_lookup:
  assumes "operatorKeys \<inter> dom (spec_Labels (vdb_Spec v)) = {}" and "k \<in> operatorKeys"
  shows "MakeLabelsForPodObject v sc k = MakeCommonLabels v (Some sc) True k"
    and "MakeLabelsForStsObject v sc k = MakeCommonLabels v (Some sc) False k"
  using not_in_dom_None [OF assms]
  by (simp_all add: MakeLabelsForPodObject_def MakeLabelsForStsObject_def makeLabelsForObject_def map_add_def)

lemma common_labels_values [simp]:
  "MakeCommonLabels v (Some sc) b VDBInstanceLabel = Some (vdb_Name v)"
  "MakeCommonLabels v (Some sc) b SubclusterNameLabel = Some (sc_Name sc)"
  "MakeCommonLabels v (Some sc) b SubclusterSvcNameLabel = (if sc_IsTransient sc then None else Some (GetServiceName sc))"
  "MakeCommonLabels v (Some sc) b ClientRoutingLabel = None"
  by (simp_all add: MakeCommonLabels_def MakeSubclusterLabels_def MakeOperatorLabels_def label_keys map_add_def Let_def)

text \<open>A pod's name determines the subcluster and the index: the index is the part after the last dash.\<close>

lemma last_dash_split:
  "x @ ''-'' @ a = y @ ''-'' @ b \<Longrightarrow> CHR ''-'' \<notin> set a \<Longrightarrow> CHR ''-'' \<notin> set b \<Longrightarrow> x = y \<and> a = b"
proof (induction x arbitrary: y)
  case Nil
  then show ?case by (cases y) auto
next
  case (Cons c x)
  then show ?case by (cases y) auto
qed

lemma Itoa_no_dash: "0 \<le> i \<Longrightarrow> CHR ''-'' \<notin> set (strconv_Itoa i)"
  using natToString_isDigit [of "CHR ''-''" "nat i"] by (auto simp: strconv_Itoa_def)

lemma Itoa_inj: "0 \<le> i \<Longrightarrow> 0 \<le> j \<Longrightarrow> strconv_Itoa i = strconv_Itoa j \<longleftrightarrow> i = j"
  by (auto simp: strconv_Itoa_def dest: natToString_inj)

lemma GenPodName_inj:
  assumes "0 \<le> i" and "0 \<le> j"
  shows "GenPodName v sc i = GenPodName v sc' j \<longleftrightarrow> sc_Name sc = sc_Name sc' \<and> i = j"
proof
  assume "GenPodName v sc i = GenPodName v sc' j"
  then have "sc_Name sc @ ''-'' @ strconv_Itoa i = sc_Name sc' @ ''-'' @ strconv_Itoa j"
    by (simp add: GenPodName_def GenNamespacedName_def)
  from last_dash_split [OF this] assms show "sc_Name sc = sc_Name sc' \<and> i = j"
    by (simp add: Itoa_no_dash Itoa_inj)
qed (simp add: GenPodName_def)

section \<open>Properties\<close>

text \<open>
  C39: the name of a pod determines its subcluster and its index, so that facts kept under pod names
  never mix two pods, and it is the name that the statefulset of the subcluster gives to the pod.
\<close>

theorem pod_names_injective:
  assumes "0 \<le> i" and "0 \<le> j"
  shows "(GenPodName v sc i = GenPodName v sc' j \<longleftrightarrow> sc_Name sc = sc_Name sc' \<and> i = j)
       \<and> (sts_Name sts = nn_Name (GenStsName v sc) \<longrightarrow> GenPodNameFromSts v sts i = GenPodName v sc i)"
  using GenPodName_inj [OF assms]
  by (simp add: GenPodNameFromSts_def GenPodName_def GenStsName_def GenNamespacedName_def)

theorem pod_names_injective_witness:
  "GenPodName MakeVDB (zeroSubcluster\<lparr>sc_Name := ''a-1''\<rparr>) 2 \<noteq> GenPodName MakeVDB (zeroSubcluster\<lparr>sc_Name := ''a''\<rparr>) 1
   \<and> GenPodNameFromSts MakeVDB (zeroStatefulSet\<lparr>sts_Name := ''vertica-sample-a''\<rparr>) 1
     = GenPodName MakeVDB (zeroSubcluster\<lparr>sc_Name := ''a''\<rparr>) 1"
  using pod_names_injective [of 2 1 MakeVDB "zeroSubcluster\<lparr>sc_Name := ''a-1''\<rparr>" "zeroSubcluster\<lparr>sc_Name := ''a''\<rparr>"]
    pod_names_injective [of 1 1 MakeVDB "zeroSubcluster\<lparr>sc_Name := ''a''\<rparr>" "zeroSubcluster\<lparr>sc_Name := ''a''\<rparr>"
      "zeroStatefulSet\<lparr>sts_Name := ''vertica-sample-a''\<rparr>"]
  by (simp add: GenStsName_def GenNamespacedName_def MakeVDB_def zeroSubcluster_def)

text \<open>
  C40: as long as the custom labels leave the operator's keys alone, a client service that routes by
  service name reaches a pod of the same database exactly when the pod is marked for client
  traffic, is not of a transient subcluster and its subcluster has that service name.
\<close>

theorem service_routing_selects:
  assumes "operatorKeys \<inter> dom (spec_Labels (vdb_Spec v)) = {}"
  shows "selects (MakeSvcSelectorLabelsForServiceNameRouting v sc) (MakeLabelsForPodObject v psc ++ extra) \<longleftrightarrow>
     extra ClientRoutingLabel = Some ClientRoutingVal
     \<and> (case extra VDBInstanceLabel of None \<Rightarrow> True | Some nm \<Rightarrow> nm = vdb_Name v)
     \<and> (case extra SubclusterSvcNameLabel of
          None \<Rightarrow> \<not> sc_IsTransient psc \<and> GetServiceName psc = GetServiceName sc
        | Some nm \<Rightarrow> nm = GetServiceName sc)"
proof -
  have keys: "VDBInstanceLabel \<in> operatorKeys" "SubclusterSvcNameLabel \<in> operatorKeys" "ClientRoutingLabel \<in> operatorKeys"
    by (simp_all add: operatorKeys_def)
  note look = pod_label_lookup(1) [OF assms keys(1)] pod_label_lookup(1) [OF assms keys(2)]
    pod_label_lookup(1) [OF assms keys(3)]
  have ne: "VDBInstanceLabel \<noteq> SubclusterSvcNameLabel" "VDBInstanceLabel \<noteq> ClientRoutingLabel"
    "SubclusterSvcNameLabel \<noteq> ClientRoutingLabel" by (simp_all add: label_keys)
  show ?thesis
    using ne
    by (auto simp: selects_def map_le_def MakeSvcSelectorLabelsForServiceNameRouting_def
        MakeBaseSvcSelectorLabels_def map_add_def look split: option.splits if_splits)
qed

theorem service_routing_selects_witness:
  "operatorKeys \<inter> dom (spec_Labels (vdb_Spec MakeVDB)) = {}
   \<and> selects (MakeSvcSelectorLabelsForServiceNameRouting MakeVDB (zeroSubcluster\<lparr>sc_Name := ''sc1''\<rparr>))
       (MakeLabelsForPodObject MakeVDB (zeroSubcluster\<lparr>sc_Name := ''sc1''\<rparr>) ++ [ClientRoutingLabel \<mapsto> ClientRoutingVal])"
  using service_routing_selects [of MakeVDB "zeroSubcluster\<lparr>sc_Name := ''sc1''\<rparr>" "zeroSubcluster\<lparr>sc_Name := ''sc1''\<rparr>"
      "[ClientRoutingLabel \<mapsto> ClientRoutingVal]"]
  by (simp add: MakeVDB_def zeroVerticaDBSpec_def zeroSubcluster_def label_keys)

end
