(* ===== verification/Finder.thy ===== *)
theory Finder
  imports Names "HOL-Library.Word"
begin

unbundle bit_operations_syntax

text \<open>
  The subcluster finder, pkg/iter/sc_finder.go: which statefulsets, services, pods and subclusters
  belong to a database. The flags are a byte with one bit per option. sort.Slice need not be
  stable; the names it sorts by are unique among the objects of a namespace.
\<close>

record SubclusterFinder =
  fnd_Vdb :: VerticaDB
  fnd_Subclusters :: "string \<rightharpoonup> Subcluster"

type_synonym FindFlags = "8 word"

definition FindInVdb :: FindFlags where
  "FindInVdb = push_bit 0 1"
definition FindNotInVdb :: FindFlags where
  "FindNotInVdb = push_bit 1 1"
definition FindExisting :: FindFlags where
  "FindExisting = push_bit 2 1"
definition FindSorted :: FindFlags where
  "FindSorted = push_bit 3 1"
definition FindAll :: FindFlags where
  "FindAll = FindInVdb OR FindNotInVdb"

definition MakeSubclusterFinder :: "VerticaDB \<Rightarrow> SubclusterFinder" where
  "MakeSubclusterFinder v = \<lparr>fnd_Vdb = v, fnd_Subclusters = GenSubclusterMap v\<rparr>"

definition hasSubclusterLabelFromVdb :: "SubclusterFinder \<Rightarrow> label_map \<Rightarrow> bool" where
  "hasSubclusterLabelFromVdb m objLabels =
     (let scName = (case objLabels SubclusterNameLabel of None \<Rightarrow> [] | Some nm \<Rightarrow> nm)
      in fnd_Subclusters m scName \<noteq> None)"

definition hasSubclusterNameLabel :: "label_map \<Rightarrow> bool" where
  "hasSubclusterNameLabel l \<longleftrightarrow> l SubclusterNameLabel \<noteq> None \<or> l SubclusterLegacyNameLabel \<noteq> None"

text \<open>The objects of a list that the flags ask for; the labels come from the object.\<close>

definition buildObjList :: "SubclusterFinder \<Rightarrow> ('o \<Rightarrow> label_map) \<Rightarrow> FindFlags \<Rightarrow> 'o list \<Rightarrow> 'o list" where
  "buildObjList m labelsOf flags objs =
     (if flags AND FindAll = FindAll then objs
      else filter (\<lambda>obj. let l = labelsOf obj in
             if \<not> hasSubclusterNameLabel l then False
             else if flags AND FindExisting \<noteq> 0 then True
             else let isScFromVdb = hasSubclusterLabelFromVdb m l in
               if flags AND FindInVdb \<noteq> 0 \<and> isScFromVdb then True
               else if flags AND FindNotInVdb \<noteq> 0 \<and> \<not> isScFromVdb then True
               else False) objs)"

text \<open>The list the API server returns for the operator's labels, narrowed and sorted.\<close>

definition findObjs :: "('w \<Rightarrow> (goerr + 'o list) \<times> 'w) \<Rightarrow> SubclusterFinder \<Rightarrow> ('o \<Rightarrow> label_map) \<Rightarrow>
    ('o \<Rightarrow> string) \<Rightarrow> FindFlags \<Rightarrow> ('w, goerr + 'o list) op" where
  "findObjs lst m labelsOf nameOf flags = do {
     r \<leftarrow> ask lst;
     ret_op (case r of
       Inl e \<Rightarrow> Inl e
     | Inr objs \<Rightarrow>
         let objs = buildObjList m labelsOf flags objs
         in Inr (if flags AND FindSorted \<noteq> 0 then sort_key nameOf objs else objs))
   }"

definition FindStatefulSets :: "'w env \<Rightarrow> SubclusterFinder \<Rightarrow> FindFlags \<Rightarrow> ('w, goerr + StatefulSet list) op" where
  "FindStatefulSets E m flags =
     findObjs (e_ListSts E (vdb_Namespace (fnd_Vdb m)) (MakeOperatorLabels (fnd_Vdb m))) m sts_Labels sts_Name flags"

definition FindServices :: "'w env \<Rightarrow> SubclusterFinder \<Rightarrow> FindFlags \<Rightarrow> ('w, goerr + Service list) op" where
  "FindServices E m flags =
     findObjs (e_ListSvc E (vdb_Namespace (fnd_Vdb m)) (MakeOperatorLabels (fnd_Vdb m))) m svc_Labels svc_Name flags"

definition FindPods :: "'w env \<Rightarrow> SubclusterFinder \<Rightarrow> FindFlags \<Rightarrow> ('w, goerr + Pod list) op" where
  "FindPods E m flags =
     findObjs (e_ListPods E (vdb_Namespace (fnd_Vdb m)) (MakeOperatorLabels (fnd_Vdb m))) m pod_Labels pod_Name flags"

text \<open>A statefulset that is not in the resource stands for a subcluster of size zero.\<close>

definition stubSubcluster :: "StatefulSet \<Rightarrow> Subcluster" where
  "stubSubcluster sts =
     zeroSubcluster\<lparr>sc_Name := (case sts_Labels sts SubclusterNameLabel of None \<Rightarrow> [] | Some nm \<Rightarrow> nm), sc_Size := 0\<rparr>"

definition FindSubclusters :: "'w env \<Rightarrow> SubclusterFinder \<Rightarrow> FindFlags \<Rightarrow> ('w, goerr + Subcluster list) op" where
  "FindSubclusters E m flags = do {
     let subclusters = (if flags AND FindInVdb \<noteq> 0 then vdb_Subclusters (fnd_Vdb m) else []);
     r \<leftarrow> (if flags AND FindNotInVdb \<noteq> 0 \<or> flags AND FindExisting \<noteq> 0
          then do {
            r \<leftarrow> FindStatefulSets E m (flags AND NOT FindInVdb);
            ret_op (case r of Inl e \<Rightarrow> Inl e | Inr missingSts \<Rightarrow> Inr (subclusters @ map stubSubcluster missingSts))
          }
          else ret_op (Inr subclusters));
     ret_op (case r of
       Inl e \<Rightarrow> Inl e
     | Inr scs \<Rightarrow> Inr (if flags AND FindSorted \<noteq> 0 then sort_key sc_Name scs else scs))
   }"

section \<open>Lemmas\<close>

lemmas flag_defs = FindInVdb_def FindNotInVdb_def FindExisting_def FindSorted_def FindAll_def

lemma flag_values [simp]:
  "FindInVdb = 1" "FindNotInVdb = 2" "FindExisting = 4" "FindSorted = 8" "FindAll = 3"
  by (simp_all add: flag_defs push_bit_eq_mult)

lemma hasSubclusterLabelFromVdb_iff:
  "hasSubclusterLabelFromVdb (MakeSubclusterFinder v) l \<longleftrightarrow>
     (case l SubclusterNameLabel of None \<Rightarrow> [] | Some nm \<Rightarrow> nm) \<in> sc_Name ` set (vdb_Subclusters v)"
  using GenSubclusterMap_None_iff by (simp add: hasSubclusterLabelFromVdb_def MakeSubclusterFinder_def Let_def) 

lemma buildObjList_modes:
  "buildObjList m labelsOf FindAll objs = objs"
  "buildObjList m labelsOf FindExisting objs = filter (\<lambda>ob. hasSubclusterNameLabel (labelsOf ob)) objs"
  "buildObjList m labelsOf FindInVdb objs =
     filter (\<lambda>ob. hasSubclusterNameLabel (labelsOf ob) \<and> hasSubclusterLabelFromVdb m (labelsOf ob)) objs"
  "buildObjList m labelsOf FindNotInVdb objs =
     filter (\<lambda>ob. hasSubclusterNameLabel (labelsOf ob) \<and> \<not> hasSubclusterLabelFromVdb m (labelsOf ob)) objs"
  by (auto simp: buildObjList_def Let_def intro!: filter_cong)

lemma buildObjList_partition:
  "mset (buildObjList m labelsOf FindInVdb objs) + mset (buildObjList m labelsOf FindNotInVdb objs)
     = mset (buildObjList m labelsOf FindExisting objs)"
  unfolding buildObjList_modes by (induction objs) auto

lemma run_FindStatefulSets:
  "run_state (FindStatefulSets E m flags) s =
     (case e_ListSts E (vdb_Namespace (fnd_Vdb m)) (MakeOperatorLabels (fnd_Vdb m)) (world s) of
        (Inl e, w) \<Rightarrow> (Inl e, s\<lparr>world := w\<rparr>)
      | (Inr objs, w) \<Rightarrow> (Inr (if flags AND FindSorted \<noteq> 0
            then sort_key sts_Name (buildObjList m sts_Labels flags objs)
            else buildObjList m sts_Labels flags objs), s\<lparr>world := w\<rparr>))"
  by (simp add: FindStatefulSets_def findObjs_def Let_def split: prod.splits sum.splits)

section \<open>Properties\<close>

text \<open>
  The two selections ``in the resource'' and ``not in the resource'' split the objects that
  belong to a subcluster: each of them is in exactly one of the two, with its multiplicity, and
  the first holds those whose subcluster label names a subcluster of the resource.
\<close>

theorem finder_partition:
  "mset (buildObjList (MakeSubclusterFinder v) labelsOf FindInVdb objs)
     + mset (buildObjList (MakeSubclusterFinder v) labelsOf FindNotInVdb objs)
     = mset (filter (\<lambda>ob. hasSubclusterNameLabel (labelsOf ob)) objs)
   \<and> set (buildObjList (MakeSubclusterFinder v) labelsOf FindInVdb objs)
     = {ob \<in> set objs. hasSubclusterNameLabel (labelsOf ob) \<and>
         (case labelsOf ob SubclusterNameLabel of None \<Rightarrow> [] | Some nm \<Rightarrow> nm) \<in> sc_Name ` set (vdb_Subclusters v)}"
  using buildObjList_partition [of "MakeSubclusterFinder v" labelsOf objs]
  by (simp only: buildObjList_modes(2)) (auto simp only: buildObjList_modes(3) hasSubclusterLabelFromVdb_iff set_filter)

lemma run_FindSubclusters_all:
  "run_state (FindSubclusters E (MakeSubclusterFinder v) FindAll) s =
     (case e_ListSts E (vdb_Namespace v) (MakeOperatorLabels v) (world s) of
        (Inl e, w) \<Rightarrow> (Inl e, s\<lparr>world := w\<rparr>)
      | (Inr objs, w) \<Rightarrow>
          (Inr (vdb_Subclusters v @ map stubSubcluster (filter (\<lambda>sts.
              hasSubclusterNameLabel (sts_Labels sts) \<and> sc_Name (stubSubcluster sts) \<notin> sc_Name ` set (vdb_Subclusters v)) objs)),
           s\<lparr>world := w\<rparr>))"
proof -
  have "fnd_Vdb (MakeSubclusterFinder v) = v" by (simp add: MakeSubclusterFinder_def)
  moreover have "sc_Name (stubSubcluster sts) = (case sts_Labels sts SubclusterNameLabel of None \<Rightarrow> [] | Some nm \<Rightarrow> nm)" for sts
    by (simp add: stubSubcluster_def)
  moreover have "FindAll AND NOT FindInVdb = FindNotInVdb" by simp
  ultimately show ?thesis
    unfolding FindSubclusters_def
    by (simp add: run_FindStatefulSets buildObjList_modes(4) [simplified] hasSubclusterLabelFromVdb_iff
        split: prod.splits sum.splits)
qed

text \<open>
  Asking for all subclusters returns those of the resource, followed by one of size zero for
  every statefulset of the database whose subcluster is no longer in the resource; an error of the
  API server is returned as it is.
\<close>

theorem FindSubclusters_all:
  "run_state (FindSubclusters E (MakeSubclusterFinder v) FindAll) s =
     (case e_ListSts E (vdb_Namespace v) (MakeOperatorLabels v) (world s) of
        (Inl e, w) \<Rightarrow> (Inl e, s\<lparr>world := w\<rparr>)
      | (Inr objs, w) \<Rightarrow>
          (Inr (vdb_Subclusters v @ map stubSubcluster (filter (\<lambda>sts.
              hasSubclusterNameLabel (sts_Labels sts) \<and> sc_Name (stubSubcluster sts) \<notin> sc_Name ` set (vdb_Subclusters v)) objs)),
           s\<lparr>world := w\<rparr>))"
  by (rule run_FindSubclusters_all)

end
