(* ===== verification/VdbStatus.thy ===== *)
theory VdbStatus
  imports Names
begin

text \<open>
  Writing the status of the resource, pkg/vdbstatus/status.go: the retried fetch-change-write loop,
  the conditions and the upgrade message. The conditions are a list with one entry per condition
  type at a fixed index.
\<close>

section \<open>The update loop\<close>

definition Update_once :: "'w env \<Rightarrow> (VerticaDB \<Rightarrow> ('w, goerr + VerticaDB) op) \<Rightarrow> ('w, goerr option) op" where
  "Update_once E updateFunc = do {
     cur \<leftarrow> gets_st vdb;
     r \<leftarrow> ask (e_GetVdb E (ExtractNamespacedName cur));
     case r of
       Inl e \<Rightarrow> ret_op (Some e)
     | Inr v \<Rightarrow> do {
         setVdb v;
         chg \<leftarrow> updateFunc v;
         case chg of
           Inl e \<Rightarrow> ret_op (Some e)
         | Inr vdbChg \<Rightarrow>
             if vdb_Status v \<noteq> vdb_Status vdbChg then do {
               let v' = v\<lparr>vdb_Status := vdb_Status vdbChg\<rparr>;
               setVdb v';
               emit (ObsUpdateStatus v');
               r' \<leftarrow> ask (e_UpdateVdbStatus E v');
               case r' of
                 Inl e \<Rightarrow> ret_op (Some e)
               | Inr v'' \<Rightarrow> do { setVdb v''; ret_op None }
             } else ret_op None
       }
   }"

definition vdbstatus_Update :: "'w env \<Rightarrow> (VerticaDB \<Rightarrow> ('w, goerr + VerticaDB) op) \<Rightarrow> ('w, goerr option) op" where
  "vdbstatus_Update E updateFunc = RetryOnConflict (e_Retries E) (Update_once E updateFunc)"

section \<open>Conditions\<close>

definition zeroTime :: int where
  "zeroTime = 0"

definition unixEpoch :: int where
  "unixEpoch = 62135596800"

definition padCondition :: "nat \<Rightarrow> VerticaDBCondition" where
  "padCondition i = \<lparr>cond_Type = VerticaDBConditionNameMap i, cond_Status = ConditionFalse,
                     cond_LastTransitionTime = unixEpoch\<rparr>"

definition refreshConditionInPlace :: "VerticaDBCondition \<Rightarrow> VerticaDB \<Rightarrow> goerr + VerticaDB" where
  "refreshConditionInPlace condition v =
     (case VerticaDBConditionIndexMap (cond_Type condition) of
        None \<Rightarrow> Inl (OtherErr (''vertica DB condition '' @ quoted (cond_Type condition)
                  @ '' missing from VerticaDBConditionType''))
      | Some inx \<Rightarrow>
          let conds = vdb_Conditions v @ map padCondition [length (vdb_Conditions v)..<Suc inx];
              conds' = (if cond_Status (conds ! inx) \<noteq> cond_Status condition
                        then conds[inx := condition] else conds)
          in Inr (v\<lparr>vdb_Status := (vdb_Status v)\<lparr>stat_Conditions := conds'\<rparr>\<rparr>))"

definition UpdateCondition :: "'w env \<Rightarrow> VerticaDBCondition \<Rightarrow> ('w, goerr option) op" where
  "UpdateCondition E condition = do {
     condition \<leftarrow> (if cond_LastTransitionTime condition = zeroTime
       then do { now \<leftarrow> ask (e_Now E); ret_op (condition\<lparr>cond_LastTransitionTime := now\<rparr>) }
       else ret_op condition);
     vdbstatus_Update E (\<lambda>v. ret_op (refreshConditionInPlace condition v))
   }"

definition setUpgradeStatusMsg :: "string \<Rightarrow> VerticaDB \<Rightarrow> goerr + VerticaDB" where
  "setUpgradeStatusMsg msg v = Inr (v\<lparr>vdb_Status := (vdb_Status v)\<lparr>stat_UpgradeStatus := msg\<rparr>\<rparr>)"

definition UpdateUpgradeStatus :: "'w env \<Rightarrow> string \<Rightarrow> ('w, goerr option) op" where
  "UpdateUpgradeStatus E msg = vdbstatus_Update E (\<lambda>v. ret_op (setUpgradeStatusMsg msg v))"

section \<open>Lemmas on conditions\<close>

text \<open>Every condition is at the index of its type.\<close>

definition conditionsWf :: "VerticaDB \<Rightarrow> bool" where
  "conditionsWf v \<longleftrightarrow> (\<forall>i < length (vdb_Conditions v). cond_Type (vdb_Conditions v ! i) = VerticaDBConditionNameMap i)"

lemma padded_nth:
  "i < length xs + (Suc k - length xs) \<Longrightarrow>
   (xs @ map padCondition [length xs..<Suc k]) ! i = (if i < length xs then xs ! i else padCondition i)"
  by (auto simp: nth_append simp del: upt_Suc)

lemma padded_length: "k < length (xs @ map padCondition [length xs..<Suc k])"
  by (simp del: upt_Suc)

lemma padded_index_set:
  "i < length (xs @ map padCondition [length xs..<Suc k]) \<and>
     cond_Status ((xs @ map padCondition [length xs..<Suc k]) ! i) = ConditionTrue
   \<longleftrightarrow> i < length xs \<and> cond_Status (xs ! i) = ConditionTrue"
  by (auto simp: padded_nth padCondition_def ConditionTrue_def ConditionFalse_def simp del: upt_Suc split: if_splits)

text \<open>
  Setting a condition sets its own index and no other; this is what a client of the conditions
  relies on.
\<close>

lemma refresh_index_set:
  assumes "refreshConditionInPlace c v = Inr v'"
  shows "isConditionIndexSet v' i \<longleftrightarrow>
     (if VerticaDBConditionIndexMap (cond_Type c) = Some i then cond_Status c = ConditionTrue
      else isConditionIndexSet v i)"
proof -
  from assms obtain k where k: "VerticaDBConditionIndexMap (cond_Type c) = Some k"
    by (auto simp: refreshConditionInPlace_def split: option.splits)
  let ?xs = "vdb_Conditions v" and ?p = "vdb_Conditions v @ map padCondition [length (vdb_Conditions v)..<Suc k]"
  have conds: "vdb_Conditions v' = (if cond_Status (?p ! k) \<noteq> cond_Status c then ?p[k := c] else ?p)"
    using assms k by (auto simp: refreshConditionInPlace_def Let_def simp del: upt_Suc)
  show ?thesis
  proof (cases "i = k")
    case True
    then show ?thesis
      using k padded_length [of k ?xs] unfolding isConditionIndexSet_def conds by (simp del: upt_Suc)
  next
    case False
    then show ?thesis
      using k padded_index_set [of i ?xs k] unfolding isConditionIndexSet_def conds by (simp del: upt_Suc)
  qed
qed

lemma refresh_IsConditionSet:
  assumes "refreshConditionInPlace c v = Inr v'"
  shows "IsConditionSet v' ty =
     (if ty = cond_Type c then Some (cond_Status c = ConditionTrue) else IsConditionSet v ty)"
proof -
  have inj: "VerticaDBConditionIndexMap a = Some i \<Longrightarrow> VerticaDBConditionIndexMap b = Some i \<Longrightarrow> a = b" for a b i
    using ConditionIndexMap_NameMap by metis
  from assms obtain k where "VerticaDBConditionIndexMap (cond_Type c) = Some k"
    by (auto simp: refreshConditionInPlace_def split: option.splits)
  with inj show ?thesis
    by (auto simp: IsConditionSet_def refresh_index_set [OF assms] split: option.splits)
qed

lemma refresh_wf:
  assumes "refreshConditionInPlace c v = Inr v'" and "conditionsWf v"
  shows "conditionsWf v'"
proof -
  from assms obtain k where k: "VerticaDBConditionIndexMap (cond_Type c) = Some k"
    by (auto simp: refreshConditionInPlace_def split: option.splits)
  let ?p = "vdb_Conditions v @ map padCondition [length (vdb_Conditions v)..<Suc k]"
  have conds: "vdb_Conditions v' = (if cond_Status (?p ! k) \<noteq> cond_Status c then ?p[k := c] else ?p)"
    using assms k by (auto simp: refreshConditionInPlace_def Let_def simp del: upt_Suc)
  have "i < length ?p \<Longrightarrow> cond_Type (?p ! i) = VerticaDBConditionNameMap i" for i
    using assms(2) padded_nth [of i "vdb_Conditions v" k]
    by (auto simp: conditionsWf_def padCondition_def simp del: upt_Suc)
  moreover have "cond_Type c = VerticaDBConditionNameMap k"
    using ConditionIndexMap_NameMap [OF k] by simp
  ultimately show ?thesis
    unfolding conditionsWf_def conds by (auto simp: nth_list_update simp del: upt_Suc)
qed

lemma refresh_frame:
  "refreshConditionInPlace c v = Inr v' \<Longrightarrow>
     vdb_Spec v' = vdb_Spec v \<and> vdb_Name v' = vdb_Name v \<and> vdb_Namespace v' = vdb_Namespace v
     \<and> stat_UpgradeStatus (vdb_Status v') = stat_UpgradeStatus (vdb_Status v)
     \<and> stat_Subclusters (vdb_Status v') = stat_Subclusters (vdb_Status v)"
  by (auto simp: refreshConditionInPlace_def Let_def split: option.splits)

section \<open>The conditions as a store\<close>

text \<open>
  The interface that the upgrade code uses: named flags, each of which can be set on its own. Its
  clients only need that setting a known flag changes that flag and no other.
\<close>

locale condition_store =
  fixes known :: "'k \<Rightarrow> bool" and is_set :: "'s \<Rightarrow> 'k \<Rightarrow> bool" and put :: "'k \<Rightarrow> bool \<Rightarrow> 's \<Rightarrow> 's"
  assumes is_set_put: "known k \<Longrightarrow> is_set (put k b s) k' \<longleftrightarrow> (if k' = k then b else is_set s k')"
begin

text \<open>After a sequence of writes, a flag has the value last written to it.\<close>

lemma puts_value:
  "\<forall>(k, b) \<in> set kbs. known k \<Longrightarrow>
   is_set (foldl (\<lambda>s (k, b). put k b s) s kbs) k' =
     (case map_of (rev kbs) k' of Some b \<Rightarrow> b | None \<Rightarrow> is_set s k')"
proof (induction kbs arbitrary: s)
  case (Cons kb kbs)
  then show ?case
    by (cases kb) (auto simp: is_set_put map_add_def split: option.splits)
qed simp

lemma put_idem: "known k \<Longrightarrow> is_set (put k b (put k b s)) k' = is_set (put k b s) k'"
  by (simp add: is_set_put)

lemma put_commute: "known k \<Longrightarrow> known l \<Longrightarrow> k \<noteq> l \<Longrightarrow> is_set (put k b (put l c s)) k' = is_set (put l c (put k b s)) k'"
  by (simp add: is_set_put)

end

definition boolStatus :: "bool \<Rightarrow> string" where
  "boolStatus b = (if b then ConditionTrue else ConditionFalse)"

definition putCondition :: "int \<Rightarrow> string \<Rightarrow> bool \<Rightarrow> VerticaDB \<Rightarrow> VerticaDB" where
  "putCondition t ty b v =
     (case refreshConditionInPlace \<lparr>cond_Type = ty, cond_Status = boolStatus b, cond_LastTransitionTime = t\<rparr> v of
        Inl e \<Rightarrow> v | Inr v' \<Rightarrow> v')"

definition knownCondition :: "string \<Rightarrow> bool" where
  "knownCondition ty \<longleftrightarrow> VerticaDBConditionIndexMap ty \<noteq> None"

definition conditionSet :: "VerticaDB \<Rightarrow> string \<Rightarrow> bool" where
  "conditionSet v ty \<longleftrightarrow> IsConditionSet v ty = Some True"

lemma refresh_known: "knownCondition (cond_Type c) \<longleftrightarrow> (\<exists>v'. refreshConditionInPlace c v = Inr v')"
  by (auto simp: knownCondition_def refreshConditionInPlace_def Let_def split: option.splits)

interpretation vdb_conditions: condition_store knownCondition conditionSet "putCondition t" for t
proof
  fix k b v k'
  assume k: "knownCondition k"
  let ?c = "\<lparr>cond_Type = k, cond_Status = boolStatus b, cond_LastTransitionTime = t\<rparr>"
  from k obtain v' where v': "refreshConditionInPlace ?c v = Inr v'"
    using refresh_known [of ?c v] by auto
  have "boolStatus b = ConditionTrue \<longleftrightarrow> b"
    by (simp add: boolStatus_def ConditionTrue_def ConditionFalse_def)
  with v' refresh_IsConditionSet [OF v', of k'] show "conditionSet (putCondition t k b v) k' = (if k' = k then b else conditionSet v k')"
    by (simp add: putCondition_def conditionSet_def)
qed

section \<open>Lemmas on the update loop\<close>

text \<open>
  What an update leaves behind: on success the stored status is what the function makes of the
  object that was stored, and on failure nothing was stored.
\<close>

definition storedStatus :: "'w env \<Rightarrow> ('w \<Rightarrow> VerticaDB) \<Rightarrow> (VerticaDB \<Rightarrow> goerr + VerticaDB) \<Rightarrow> VerticaDB \<Rightarrow> goerr option \<Rightarrow> 'w st \<Rightarrow> bool" where
  "storedStatus E stored f old err s \<longleftrightarrow>
     (err = None \<longrightarrow> (\<exists>chg. f old = Inr chg \<and> stored (world s) = old\<lparr>vdb_Status := vdb_Status chg\<rparr>
                         \<and> vdb s = stored (world s)))
     \<and> (err \<noteq> None \<longrightarrow> stored (world s) = old)"

lemma vdbServer_Get:
  "vdbServer E stored \<Longrightarrow> e_GetVdb E nm w = (r, w') \<Longrightarrow> stored w' = stored w \<and> (\<forall>v. r = Inr v \<longrightarrow> v = stored w)"
  using vdbServerD(1) [of E stored nm w] vdbServerD(2) [of E stored nm w] by simp

lemma vdbServer_UpdateStatus:
  "vdbServer E stored \<Longrightarrow> e_UpdateVdbStatus E v w = (r, w') \<Longrightarrow>
     (case r of Inl e \<Rightarrow> stored w' = stored w
      | Inr v' \<Rightarrow> stored w' = v' \<and> v' = (stored w)\<lparr>vdb_Status := vdb_Status v\<rparr>)"
  using vdbServerD(3) [of E stored v w] by (simp split: sum.splits)

lemma Update_once_stored:
  assumes "vdbServer E stored"
  shows "valid (\<lambda>s. stored (world s) = old) (Update_once E (\<lambda>v. ret_op (f v))) (storedStatus E stored f old)"
  unfolding valid_def
proof (intro allI impI)
  fix s :: "'a st"
  assume old: "stored (world s) = old"
  obtain r w where get: "e_GetVdb E (ExtractNamespacedName (vdb s)) (world s) = (r, w)" by fastforce
  note g = vdbServer_Get [OF assms get]
  show "case run_state (Update_once E (\<lambda>v. ret_op (f v))) s of (err, s') \<Rightarrow> storedStatus E stored f old err s'"
  proof (cases r)
    case (Inl e)
    with get g old show ?thesis by (simp add: Update_once_def storedStatus_def)
  next
    case (Inr v)
    with g old have v: "v = old" by simp
    show ?thesis
    proof (cases "f old")
      case (Inl e)
      with get g old \<open>r = Inr v\<close> v show ?thesis by (simp add: Update_once_def storedStatus_def)
    next
      case (Inr chg)
      obtain r' w' where upd: "e_UpdateVdbStatus E (old\<lparr>vdb_Status := vdb_Status chg\<rparr>) w = (r', w')" by fastforce
      note u = vdbServer_UpdateStatus [OF assms upd]
      show ?thesis
        using get g old \<open>r = Inr v\<close> v Inr upd u
        by (cases r') (auto simp: Update_once_def storedStatus_def Let_def)
    qed
  qed
qed

lemma vdbstatus_Update_stored:
  assumes "vdbServer E stored"
  shows "valid (\<lambda>s. stored (world s) = old) (vdbstatus_Update E (\<lambda>v. ret_op (f v))) (storedStatus E stored f old)"
proof -
  have "valid (\<lambda>s. stored (world s) = old) (Update_once E (\<lambda>v. ret_op (f v)))
     (\<lambda>err s. (err = None \<longrightarrow> storedStatus E stored f old None s) \<and> (err \<noteq> None \<longrightarrow> stored (world s) = old))"
    by (rule valid_post [OF Update_once_stored [OF assms]]) (auto simp: storedStatus_def)
  from valid_RetryOnConflict [OF this, of "e_Retries E"] show ?thesis
    unfolding vdbstatus_Update_def by (rule valid_post) (auto simp: storedStatus_def)
qed

lemma vdbServer_Now: "vdbServer E stored \<Longrightarrow> e_Now E w = (t, w') \<Longrightarrow> stored w' = stored w"
  using vdbServer_frame(3) [of E stored w] by simp

lemma UpdateCondition_stored:
  assumes "vdbServer E stored"
  shows "valid (\<lambda>s. stored (world s) = old) (UpdateCondition E c)
     (\<lambda>err s. \<exists>t. storedStatus E stored (refreshConditionInPlace (c\<lparr>cond_LastTransitionTime := t\<rparr>)) old err s)"
proof -
  have time: "valid (\<lambda>s. stored (world s) = old)
     (if cond_LastTransitionTime c = zeroTime
      then do { now \<leftarrow> ask (e_Now E); ret_op (c\<lparr>cond_LastTransitionTime := now\<rparr>) } else ret_op c)
     (\<lambda>c' s. (\<exists>t. c' = c\<lparr>cond_LastTransitionTime := t\<rparr>) \<and> stored (world s) = old)"
    using vdbServer_Now [OF assms]
    by (auto simp: valid_def split: prod.splits) (metis VerticaDBCondition.surjective VerticaDBCondition.update_convs(3))
  have "valid (\<lambda>s. (\<exists>t. c' = c\<lparr>cond_LastTransitionTime := t\<rparr>) \<and> stored (world s) = old)
     (vdbstatus_Update E (\<lambda>v. ret_op (refreshConditionInPlace c' v)))
     (\<lambda>err s. \<exists>t. storedStatus E stored (refreshConditionInPlace (c\<lparr>cond_LastTransitionTime := t\<rparr>)) old err s)" for c'
    using vdbstatus_Update_stored [OF assms, of old "refreshConditionInPlace c'"]
    unfolding valid_def by (auto split: prod.splits)
  then show ?thesis unfolding UpdateCondition_def by (rule valid_bind [OF time])
qed

section \<open>Properties\<close>


lemma storeEnv_Update_ok:
  assumes "f (world s) = Inr chg"
  shows "fst (run_state (vdbstatus_Update storeEnv (\<lambda>v. ret_op (f v))) s) = None"
proof -
  have "fst (run_state (Update_once storeEnv (\<lambda>v. ret_op (f v))) s) = None"
    using assms by (simp add: Update_once_def storeEnv_def emptyEnv_def Let_def)
  then obtain s' where "run_state (Update_once storeEnv (\<lambda>v. ret_op (f v))) s = (None, s')" by (metis prod.collapse)
  from run_RetryOnConflict_ok [OF this] show ?thesis by (simp add: vdbstatus_Update_def)
qed

definition exampleState :: "VerticaDB st" where
  "exampleState = \<lparr>world = MakeVDB, vdb = MakeVDB, pfacts = \<lparr>Detail = [], NeedCollection = True\<rparr>, trace = [], suPassword = []\<rparr>"

definition exampleCondition :: VerticaDBCondition where
  "exampleCondition = \<lparr>cond_Type = DBInitialized, cond_Status = ConditionTrue, cond_LastTransitionTime = zeroTime\<rparr>"


end
