(* ===== verification/PodFacts.thy ===== *)
theory PodFacts
  imports Finder VdbStatus "HOL-Library.AList"
begin

text \<open>
  The pod facts, pkg/controllers/vdb/podfacts.go: collecting what is known about every pod from
  the API server and from commands run in the pods, and the questions the reconcilers ask about
  the facts. A question is a function of the facts in the order in which the loop visits the map;
  a function with several loops takes one list per loop.
\<close>

section \<open>Parsing of command output\<close>

definition parseNodeStateAndReadOnly :: "string \<Rightarrow> goerr + (bool \<times> bool)" where
  "parseNodeStateAndReadOnly stdout =
     (if stdout = [] then Inr (False, False)
      else let lines = strings_Split stdout newline;
               cols = strings_Split (hd lines) CHR ''|''
           in case cols of
                [c0, c1] \<Rightarrow> Inr (c0 = ''UP'', c1 = ''t'')
              | _ \<Rightarrow> Inl (OtherErr (''expected 2 columns from node query but only got ''
                       @ strconv_Itoa (int (length cols)))))"

definition vnodeRe :: re where
  "vnodeRe = re_seq [Cap (re_seq [Lit ''v_'', Rep isDot 1 None, Lit ''_node'', Rep isDigit 1 None]), Lit ''_data'']"

definition parseVerticaNodeName :: "string \<Rightarrow> string" where
  "parseVerticaNodeName stdout =
     (case re_find vnodeRe stdout of Some (_, c # _) \<Rightarrow> c | _ \<Rightarrow> [])"

definition setShardSubscription :: "string \<Rightarrow> PodFact \<Rightarrow> PodFact \<times> goerr option" where
  "setShardSubscription op pf =
     (if op = [] then (pf, None)
      else case strconv_Atoi (hd (strings_Split op newline)) of
             None \<Rightarrow> (pf, Some (OtherErr ''strconv.Atoi''))
           | Some subs \<Rightarrow> (pf\<lparr>pf_shardSubscriptions := subs\<rparr>, None))"

section \<open>The checks of a pod\<close>

definition hasErr :: "exec_reply \<Rightarrow> bool" where
  "hasErr r \<longleftrightarrow> snd (snd r) \<noteq> None"

definition checkIsInstalled :: "'w env \<Rightarrow> VerticaDB \<Rightarrow> PodFact \<Rightarrow> ('w, PodFact \<times> goerr option) op" where
  "checkIsInstalled E v pf =
     (let pf = pf\<lparr>pf_isInstalled := (case FindSubclusterStatus v (pf_subcluster pf) of
                   None \<Rightarrow> False
                 | Some scs \<Rightarrow> ss_InstallCount scs > pf_podIndex pf)\<rparr>
      in if \<not> pf_isPodRunning pf then ret_op (pf, None)
      else if spec_InitPolicy (vdb_Spec v) = CommunalInitPolicyScheduleOnly then
        (if \<not> pf_isInstalled pf
         then do {
           r \<leftarrow> ExecInPod E (pf_name pf) [''test'', ''-f'', AdminToolsConf];
           let pf = (if hasErr r then pf else pf\<lparr>pf_isInstalled := True\<rparr>);
           ret_op (pf\<lparr>pf_compat21NodeName := []\<rparr>, None)
         } else ret_op (pf\<lparr>pf_compat21NodeName := []\<rparr>, None))
      else do {
        let fn = GenInstallerIndicatorFileName v;
        (stdout, stderr, err) \<leftarrow> ExecInPod E (pf_name pf) [''cat'', fn];
        case err of
          Some e \<Rightarrow>
            if \<not> strings_Contains stderr (''cat: '' @ fn @ '': No such file or directory'') then ret_op (pf, Some e)
            else do {
              let pf = pf\<lparr>pf_isInstalled := False\<rparr>;
              (_, stderr, err) \<leftarrow> ExecInPod E (pf_name pf) [''ls'', AdminToolsConf];
              case err of
                Some e \<Rightarrow>
                  if \<not> strings_Contains stderr ''No such file or directory'' then ret_op (pf, Some e)
                  else ret_op (pf\<lparr>pf_hasStaleAdmintoolsConf := False\<rparr>, None)
              | None \<Rightarrow> ret_op (pf\<lparr>pf_hasStaleAdmintoolsConf := True\<rparr>, None)
            }
        | None \<Rightarrow> ret_op (pf\<lparr>pf_isInstalled := True,
                     pf_compat21NodeName := strings_TrimSuffix stdout [newline]\<rparr>, None)
      })"

definition checkIsDBCreated :: "'w env \<Rightarrow> VerticaDB \<Rightarrow> PodFact \<Rightarrow> ('w, PodFact \<times> goerr option) op" where
  "checkIsDBCreated E v pf =
     (let pf = (case FindSubclusterStatus v (pf_subcluster pf) of
                  None \<Rightarrow> pf\<lparr>pf_dbExists := False\<rparr>
                | Some scs \<Rightarrow>
                    let pf = pf\<lparr>pf_dbExists := ss_AddedToDBCount scs > pf_podIndex pf\<rparr>
                    in if pf_podIndex pf < int (length (ss_Detail scs))
                       then pf\<lparr>pf_vnodeName := ps_VNodeName (ss_Detail scs ! nat (pf_podIndex pf))\<rparr>
                       else pf)
      in if \<not> pf_isPodRunning pf then ret_op (pf, None)
      else do {
        let cmd = [''bash'', ''-c'', ''ls -d '' @ GetDBDataPath v @ ''/v_''
                   @ strings_ToLower (spec_DBName (vdb_Spec v)) @ ''_node????_data''];
        (stdout, stderr, err) \<leftarrow> ExecInPod E (pf_name pf) cmd;
        case err of
          Some e \<Rightarrow>
            if \<not> strings_Contains stderr ''No such file or directory'' then ret_op (pf, Some e)
            else ret_op (pf\<lparr>pf_dbExists := False\<rparr>, None)
        | None \<Rightarrow> ret_op (pf\<lparr>pf_dbExists := True, pf_vnodeName := parseVerticaNodeName stdout\<rparr>, None)
      })"

definition checkIfNodeIsUp :: "'w env \<Rightarrow> PodFact \<Rightarrow> ('w, PodFact \<times> goerr option) op" where
  "checkIfNodeIsUp E pf = do {
     (_, stderr, err) \<leftarrow> ExecVSQL E (pf_name pf) [''-c'', ''select 1''];
     case err of
       Some e \<Rightarrow>
         if \<not> strings_Contains stderr ''vsql: could not connect to server:'' then ret_op (pf, Some e)
         else ret_op (pf\<lparr>pf_upNode := False, pf_readOnly := False\<rparr>, None)
     | None \<Rightarrow> ret_op (pf\<lparr>pf_upNode := True, pf_readOnly := False\<rparr>, None)
   }"

definition queryNodeStatus :: "'w env \<Rightarrow> PodFact \<Rightarrow> ('w, PodFact \<times> goerr option) op" where
  "queryNodeStatus E pf = do {
     (stdout, _, err) \<leftarrow> ExecVSQL E (pf_name pf) [''-tAc'',
        ''select node_state, is_readonly '' @ ''from nodes ''
        @ ''where node_name in (select node_name from current_session)''];
     case err of
       Some e \<Rightarrow> ret_op (pf\<lparr>pf_upNode := False, pf_readOnly := False\<rparr>, None)
     | None \<Rightarrow>
         (case parseNodeStateAndReadOnly stdout of
            Inl e \<Rightarrow> ret_op (pf\<lparr>pf_upNode := False, pf_readOnly := False\<rparr>, Some e)
          | Inr (up, ro) \<Rightarrow> ret_op (pf\<lparr>pf_upNode := up, pf_readOnly := ro\<rparr>, None))
   }"

definition checkIfNodeIsUpAndReadOnly :: "'w env \<Rightarrow> VerticaDB \<Rightarrow> PodFact \<Rightarrow> ('w, PodFact \<times> goerr option) op" where
  "checkIfNodeIsUpAndReadOnly E v pf =
     (if \<not> pf_dbExists pf \<or> \<not> pf_isPodRunning pf
      then ret_op (pf\<lparr>pf_upNode := False, pf_readOnly := False\<rparr>, None)
      else case MakeInfoFromVdb v of
        Some vinf \<Rightarrow>
          if IsEqualOrNewer vinf NodesHaveReadOnlyStateVersion = Some True then queryNodeStatus E pf
          else checkIfNodeIsUp E pf
      | None \<Rightarrow> checkIfNodeIsUp E pf)"

definition checkEulaAcceptance :: "'w env \<Rightarrow> VerticaDB \<Rightarrow> PodFact \<Rightarrow> ('w, PodFact \<times> goerr option) op" where
  "checkEulaAcceptance E v pf =
     (if pf_isPodRunning pf then do {
        (_, stderr, err) \<leftarrow> ExecInPod E (pf_name pf) [''cat'', EulaAcceptanceFile];
        case err of
          Some e \<Rightarrow>
            if \<not> strings_Contains stderr (''cat: '' @ EulaAcceptanceFile @ '': No such file or directory'')
            then ret_op (pf, Some e)
            else ret_op (pf\<lparr>pf_eulaAccepted := TriFalse\<rparr>, None)
        | None \<Rightarrow> ret_op (pf\<lparr>pf_eulaAccepted := TriTrue\<rparr>, None)
      } else ret_op (pf, None))"

definition checkLogrotateExists :: "'w env \<Rightarrow> VerticaDB \<Rightarrow> PodFact \<Rightarrow> ('w, PodFact \<times> goerr option) op" where
  "checkLogrotateExists E v pf =
     (if pf_isPodRunning pf then do {
        r \<leftarrow> ExecInPod E (pf_name pf) [''test'', ''-d'', ConfigLogrotatePath];
        ret_op (if hasErr r then pf else pf\<lparr>pf_configLogrotateExists := True\<rparr>, None)
      } else ret_op (pf, None))"

definition checkIsLogrotateWritable :: "'w env \<Rightarrow> VerticaDB \<Rightarrow> PodFact \<Rightarrow> ('w, PodFact \<times> goerr option) op" where
  "checkIsLogrotateWritable E v pf =
     (if pf_isPodRunning pf then do {
        r \<leftarrow> ExecInPod E (pf_name pf) [''test'', ''-w'', ConfigLogrotatePath];
        ret_op (if hasErr r then pf else pf\<lparr>pf_configLogrotateWritable := True\<rparr>, None)
      } else ret_op (pf, None))"

definition checkThatConfigShareExists :: "'w env \<Rightarrow> VerticaDB \<Rightarrow> PodFact \<Rightarrow> ('w, PodFact \<times> goerr option) op" where
  "checkThatConfigShareExists E v pf =
     (if pf_isPodRunning pf then do {
        r \<leftarrow> ExecInPod E (pf_name pf) [''test'', ''-d'', ConfigSharePath];
        ret_op (if hasErr r then pf else pf\<lparr>pf_configShareExists := True\<rparr>, None)
      } else ret_op (pf, None))"

definition checkShardSubscriptions :: "'w env \<Rightarrow> VerticaDB \<Rightarrow> PodFact \<Rightarrow> ('w, PodFact \<times> goerr option) op" where
  "checkShardSubscriptions E v pf =
     (if \<not> pf_isPodRunning pf \<or> \<not> pf_dbExists pf then ret_op (pf, None)
      else do {
        (stdout, _, err) \<leftarrow> ExecVSQL E (pf_name pf) [''-tAc'',
           ''select count(*) from v_catalog.node_subscriptions where node_name = ''
           @ quoted (pf_vnodeName pf) @ '' and shard_name != '' @ quoted ''replica''];
        ret_op (case err of Some e \<Rightarrow> (pf, None) | None \<Rightarrow> setShardSubscription stdout pf)
      })"

definition checkDCTableAnnotations :: "Pod \<Rightarrow> bool" where
  "checkDCTableAnnotations pod \<longleftrightarrow> pod_Annotations pod KubernetesVersionAnnotation \<noteq> None"

section \<open>Collection\<close>

text \<open>The functions run in order; the first error ends them.\<close>

fun runChecks :: "(PodFact \<Rightarrow> ('w, PodFact \<times> goerr option) op) list \<Rightarrow> PodFact \<Rightarrow> ('w, PodFact \<times> goerr option) op" where
  "runChecks [] pf = ret_op (pf, None)"
| "runChecks (fn # fns) pf = do {
     (pf, err) \<leftarrow> fn pf;
     case err of None \<Rightarrow> runChecks fns pf | Some e \<Rightarrow> ret_op (pf, Some e)
   }"

text \<open>The facts that come from the pod object.\<close>

definition podFactOf :: "VerticaDB \<Rightarrow> Subcluster \<Rightarrow> StatefulSet \<Rightarrow> int \<Rightarrow> Pod option \<Rightarrow> PodFact" where
  "podFactOf v sc sts podIndex pod =
     (let pf = zeroPodFact\<lparr>pf_name := GenPodName v sc podIndex, pf_subcluster := sc_Name sc,
                 pf_isPrimary := sc_IsPrimary sc, pf_podIndex := podIndex\<rparr>;
          pf = (case sts_Replicas sts of None \<Rightarrow> pf | Some n \<Rightarrow> pf\<lparr>pf_managedByParent := podIndex < n\<rparr>)
      in case pod of
           None \<Rightarrow> pf
         | Some pod \<Rightarrow> pf\<lparr>
             pf_exists := True,
             pf_isPodRunning := (pod_Phase pod = PodRunning),
             pf_dnsName := pod_Hostname pod @ ''.'' @ pod_Subdomain pod,
             pf_podIP := pod_IP pod,
             pf_isTransient := (strconv_ParseBool (case pod_Labels pod SubclusterTransientLabel of
                                  None \<Rightarrow> [] | Some b \<Rightarrow> b) = Some True),
             pf_pendingDelete := (podIndex \<ge> sc_Size sc),
             pf_image := pod_Image pod,
             pf_hasDCTableAnnotations := checkDCTableAnnotations pod\<rparr>)"

definition podChecks :: "'w env \<Rightarrow> VerticaDB \<Rightarrow> (PodFact \<Rightarrow> ('w, PodFact \<times> goerr option) op) list" where
  "podChecks E v = [checkIsInstalled E v, checkIsDBCreated E v, checkIfNodeIsUpAndReadOnly E v,
     checkEulaAcceptance E v, checkLogrotateExists E v, checkIsLogrotateWritable E v,
     checkThatConfigShareExists E v, checkShardSubscriptions E v]"

definition setDetail :: "PodFact \<Rightarrow> ('w, unit) op" where
  "setDetail pf = modify_st (\<lambda>s. s\<lparr>pfacts := (pfacts s)\<lparr>Detail := AList.update (pf_name pf) pf (Detail (pfacts s))\<rparr>\<rparr>)"

definition collectPodByStsIndex :: "'w env \<Rightarrow> VerticaDB \<Rightarrow> Subcluster \<Rightarrow> StatefulSet \<Rightarrow> int \<Rightarrow> ('w, goerr option) op" where
  "collectPodByStsIndex E v sc sts podIndex = do {
     r \<leftarrow> ask (e_GetPod E (GenPodName v sc podIndex));
     case r of
       Inl e \<Rightarrow>
         if \<not> errors_IsNotFound e then ret_op (Some e)
         else do {
           (pf, err) \<leftarrow> runChecks (podChecks E v) (podFactOf v sc sts podIndex None);
           case err of Some e \<Rightarrow> ret_op (Some e) | None \<Rightarrow> do { setDetail pf; ret_op None }
         }
     | Inr pod \<Rightarrow> do {
         (pf, err) \<leftarrow> runChecks (podChecks E v) (podFactOf v sc sts podIndex (Some pod));
         case err of Some e \<Rightarrow> ret_op (Some e) | None \<Rightarrow> do { setDetail pf; ret_op None }
       }
   }"

definition collectSubcluster :: "'w env \<Rightarrow> VerticaDB \<Rightarrow> Subcluster \<Rightarrow> ('w, goerr option) op" where
  "collectSubcluster E v sc = do {
     r \<leftarrow> ask (e_GetSts E (GenStsName v sc));
     case r of
       Inl e \<Rightarrow>
         if \<not> errors_IsNotFound e
         then ret_op (Some (WrapErr (''could not fetch statefulset for pod fact collection '' @ sc_Name sc) e))
         else forErr (indices 0 (sc_Size sc)) (collectPodByStsIndex E v sc zeroStatefulSet)
     | Inr sts \<Rightarrow>
         (let maxStsSize = (case sts_Replicas sts of
                              None \<Rightarrow> sc_Size sc
                            | Some n \<Rightarrow> if n > sc_Size sc then n else sc_Size sc)
          in forErr (indices 0 maxStsSize) (collectPodByStsIndex E v sc sts))
   }"

definition clearDetail :: "('w, unit) op" where
  "clearDetail = modify_st (\<lambda>s. s\<lparr>pfacts := (pfacts s)\<lparr>Detail := []\<rparr>\<rparr>)"

definition setNeedCollection :: "bool \<Rightarrow> ('w, unit) op" where
  "setNeedCollection b = modify_st (\<lambda>s. s\<lparr>pfacts := (pfacts s)\<lparr>NeedCollection := b\<rparr>\<rparr>)"

definition Invalidate :: "('w, unit) op" where
  "Invalidate = setNeedCollection True"

definition MakePodFacts :: PodFacts where
  "MakePodFacts = \<lparr>Detail = [], NeedCollection = True\<rparr>"

definition Collect :: "'w env \<Rightarrow> ('w, goerr option) op" where
  "Collect E = do {
     need \<leftarrow> gets_st (\<lambda>s. NeedCollection (pfacts s));
     if \<not> need then ret_op None
     else do {
       clearDetail;
       v \<leftarrow> gets_st vdb;
       r \<leftarrow> FindSubclusters E (MakeSubclusterFinder v) FindAll;
       case r of
         Inl e \<Rightarrow> ret_op None
       | Inr subclusters \<Rightarrow> do {
           err \<leftarrow> forErr subclusters (collectSubcluster E v);
           case err of
             Some e \<Rightarrow> ret_op (Some e)
           | None \<Rightarrow> do { setNeedCollection False; ret_op None }
         }
     }
   }"

section \<open>Questions about the facts\<close>

definition rangeDetail :: "'w env \<Rightarrow> ('w, PodFact list) op" where
  "rangeDetail E = do {
     d \<leftarrow> gets_st (\<lambda>s. Detail (pfacts s));
     d \<leftarrow> ask (e_Range E d);
     ret_op (map snd d)
   }"

definition doesDBExist :: "PodFact list \<Rightarrow> bool" where
  "doesDBExist ps = list_ex pf_dbExists ps"

definition findPodsWithMissingDB :: "PodFact list \<Rightarrow> string \<Rightarrow> PodFact list \<times> bool" where
  "findPodsWithMissingDB ps scName =
     (let hostList = filter (\<lambda>pf. pf_subcluster pf = scName \<and> \<not> pf_dbExists pf) ps
      in (sort_key pf_dnsName hostList, list_ex (\<lambda>pf. \<not> pf_isPodRunning pf) hostList))"

definition findPodToRunVsql :: "PodFact list \<Rightarrow> bool \<Rightarrow> string \<Rightarrow> PodFact option" where
  "findPodToRunVsql ps allowReadOnly scName =
     List.find (\<lambda>pf. \<not> (scName \<noteq> [] \<and> pf_subcluster pf \<noteq> scName)
                     \<and> pf_upNode pf \<and> (allowReadOnly \<or> \<not> pf_readOnly pf)) ps"

definition findPodToRunAdmintoolsAny :: "PodFact list \<Rightarrow> PodFact list \<Rightarrow> PodFact list \<Rightarrow> PodFact option" where
  "findPodToRunAdmintoolsAny ps1 ps2 ps3 =
     (case List.find (\<lambda>pf. pf_upNode pf \<and> \<not> pf_readOnly pf) ps1 of
        Some pf \<Rightarrow> Some pf
      | None \<Rightarrow>
          (case List.find pf_upNode ps2 of
             Some pf \<Rightarrow> Some pf
           | None \<Rightarrow> List.find (\<lambda>pf. pf_isInstalled pf \<and> pf_isPodRunning pf) ps3))"

definition findPodToRunAdmintoolsOffline :: "PodFact list \<Rightarrow> PodFact option" where
  "findPodToRunAdmintoolsOffline ps =
     List.find (\<lambda>pf. pf_isInstalled pf \<and> pf_isPodRunning pf \<and> \<not> pf_upNode pf) ps"

definition findRunningPod :: "PodFact list \<Rightarrow> PodFact option" where
  "findRunningPod ps = List.find pf_isPodRunning ps"

definition filterPods :: "PodFact list \<Rightarrow> (PodFact \<Rightarrow> bool) \<Rightarrow> PodFact list" where
  "filterPods ps filterFunc = filter filterFunc ps"

definition findRestartablePods :: "PodFact list \<Rightarrow> bool \<Rightarrow> bool \<Rightarrow> PodFact list" where
  "findRestartablePods ps restartReadOnly restartTransient =
     filterPods ps (\<lambda>pf.
       if \<not> restartTransient \<and> pf_isTransient pf then False
       else (\<not> pf_upNode pf \<or> (restartReadOnly \<and> pf_readOnly pf))
            \<and> pf_dbExists pf \<and> pf_isPodRunning pf \<and> pf_hasDCTableAnnotations pf)"

definition findInstalledPods :: "PodFact list \<Rightarrow> PodFact list" where
  "findInstalledPods ps = filterPods ps (\<lambda>pf. pf_isInstalled pf \<and> pf_isPodRunning pf)"

definition findReIPPods :: "PodFact list \<Rightarrow> bool \<Rightarrow> PodFact list" where
  "findReIPPods ps onlyPodsWithoutDBs =
     filterPods ps (\<lambda>pf.
       if \<not> pf_exists pf \<or> \<not> pf_isPodRunning pf \<or> \<not> pf_isInstalled pf then False
       else if onlyPodsWithoutDBs \<and> pf_dbExists pf then False
       else True)"

definition areAllPodsRunningAndZeroInstalled :: "PodFact list \<Rightarrow> bool" where
  "areAllPodsRunningAndZeroInstalled ps =
     (\<not> list_ex (\<lambda>pf. ((\<not> pf_exists pf \<or> \<not> pf_isPodRunning pf) \<and> pf_managedByParent pf) \<or> pf_isInstalled pf) ps)"

definition countPods :: "PodFact list \<Rightarrow> (PodFact \<Rightarrow> int) \<Rightarrow> int" where
  "countPods ps countFunc = foldl (\<lambda>count pf. count + countFunc pf) 0 ps"

definition countRunningAndInstalled :: "PodFact list \<Rightarrow> int" where
  "countRunningAndInstalled ps = countPods ps (\<lambda>pf. if pf_isPodRunning pf \<and> pf_isInstalled pf then 1 else 0)"

definition countInstalledAndNotRestartable :: "PodFact list \<Rightarrow> int" where
  "countInstalledAndNotRestartable ps =
     countPods ps (\<lambda>pf. if pf_isInstalled pf \<and> pf_managedByParent pf
                           \<and> (\<not> pf_isPodRunning pf \<or> \<not> pf_hasDCTableAnnotations pf) then 1 else 0)"

definition countUpPrimaryNodes :: "PodFact list \<Rightarrow> int" where
  "countUpPrimaryNodes ps = countPods ps (\<lambda>pf. if pf_upNode pf \<and> pf_isPrimary pf then 1 else 0)"

definition countNotReadOnlyWithOldImage :: "PodFact list \<Rightarrow> string \<Rightarrow> int" where
  "countNotReadOnlyWithOldImage ps newImage =
     countPods ps (\<lambda>pf. if pf_isPodRunning pf \<and> pf_upNode pf \<and> \<not> pf_readOnly pf \<and> pf_image pf \<noteq> newImage then 1 else 0)"

definition getUpNodeCount :: "PodFact list \<Rightarrow> int" where
  "getUpNodeCount ps = countPods ps (\<lambda>pf. if pf_upNode pf then 1 else 0)"

definition getUpNodeAndNotReadOnlyCount :: "PodFact list \<Rightarrow> int" where
  "getUpNodeAndNotReadOnlyCount ps = countPods ps (\<lambda>pf. if pf_upNode pf \<and> \<not> pf_readOnly pf then 1 else 0)"

definition genPodNames :: "PodFact list \<Rightarrow> string" where
  "genPodNames pods = strings_Join (map (\<lambda>pf. nn_Name (pf_name pf)) pods) '', ''"

definition anyInstalledPodsNotRunning :: "PodFact list \<Rightarrow> NamespacedName option" where
  "anyInstalledPodsNotRunning ps =
     map_option pf_name (List.find (\<lambda>pf. \<not> pf_isPodRunning pf \<and> pf_isInstalled pf) ps)"

definition anyUninstalledTransientPodsNotRunning :: "PodFact list \<Rightarrow> NamespacedName option" where
  "anyUninstalledTransientPodsNotRunning ps =
     map_option pf_name (List.find (\<lambda>pf. pf_isTransient pf \<and> \<not> pf_isPodRunning pf \<and> \<not> pf_isInstalled pf) ps)"

section \<open>Lemmas on the checks\<close>

text \<open>What the checks leave alone, and what they find out about the server.\<close>

definition pfStatic :: "PodFact \<Rightarrow> NamespacedName \<times> int \<times> string \<times> string \<times> string \<times> bool \<times> string \<times> bool \<times> bool \<times> bool \<times> bool \<times> bool \<times> bool" where
  "pfStatic pf = (pf_name pf, pf_podIndex pf, pf_dnsName pf, pf_podIP pf, pf_subcluster pf, pf_isPrimary pf,
     pf_image pf, pf_exists pf, pf_isPodRunning pf, pf_managedByParent pf, pf_pendingDelete pf,
     pf_isTransient pf, pf_hasDCTableAnnotations pf)"

definition pfServer :: "PodFact \<Rightarrow> bool \<times> bool \<times> bool" where
  "pfServer pf = (pf_dbExists pf, pf_upNode pf, pf_readOnly pf)"

definition serverOk :: "PodFact \<Rightarrow> bool" where
  "serverOk pf \<longleftrightarrow> (pf_upNode pf \<or> pf_readOnly pf \<longrightarrow> pf_dbExists pf \<and> pf_isPodRunning pf)"

lemma serverOk_cong: "pfStatic pf' = pfStatic pf \<Longrightarrow> pfServer pf' = pfServer pf \<Longrightarrow> serverOk pf' = serverOk pf"
  by (simp add: serverOk_def pfStatic_def pfServer_def)

lemma yields_exec_prod: "(\<And>a b c. yields (f a b c) Q) \<Longrightarrow> yields (m \<bind> (\<lambda>(a, b, c). f a b c)) Q"
  by (rule yields_any) (simp split: prod.splits)

lemma checkIsInstalled_yields:
  "yields (checkIsInstalled E v pf) (\<lambda>(pf', err). pfStatic pf' = pfStatic pf \<and> pfServer pf' = pfServer pf)"
  unfolding checkIsInstalled_def Let_def
  by (auto intro!: yields_exec_prod yields_any simp: pfStatic_def pfServer_def split: option.splits)

lemma checkIsDBCreated_yields:
  "yields (checkIsDBCreated E v pf) (\<lambda>(pf', err). pfStatic pf' = pfStatic pf)"
  unfolding checkIsDBCreated_def Let_def
  by (auto intro!: yields_exec_prod simp: pfStatic_def split: option.splits)

lemma checkIfNodeIsUp_yields:
  "yields (checkIfNodeIsUp E pf) (\<lambda>(pf', err). pfStatic pf' = pfStatic pf \<and> pf_dbExists pf' = pf_dbExists pf)"
  "yields (queryNodeStatus E pf) (\<lambda>(pf', err). pfStatic pf' = pfStatic pf \<and> pf_dbExists pf' = pf_dbExists pf)"
  unfolding checkIfNodeIsUp_def queryNodeStatus_def
  by (auto intro!: yields_exec_prod simp: pfStatic_def split: option.splits sum.splits)

lemma checkIfNodeIsUpAndReadOnly_yields:
  "yields (checkIfNodeIsUpAndReadOnly E v pf) (\<lambda>(pf', err). pfStatic pf' = pfStatic pf \<and> serverOk pf')"
proof (cases "\<not> pf_dbExists pf \<or> \<not> pf_isPodRunning pf")
  case True
  then show ?thesis by (auto simp: checkIfNodeIsUpAndReadOnly_def pfStatic_def serverOk_def)
next
  case False
  then have "pfStatic pf' = pfStatic pf \<and> pf_dbExists pf' = pf_dbExists pf \<Longrightarrow> serverOk pf'" for pf'
    by (simp add: serverOk_def pfStatic_def)
  then have "yields (checkIfNodeIsUp E pf) (\<lambda>(pf', err). pfStatic pf' = pfStatic pf \<and> serverOk pf')"
    and "yields (queryNodeStatus E pf) (\<lambda>(pf', err). pfStatic pf' = pfStatic pf \<and> serverOk pf')"
    by (auto intro: yields_mono [OF checkIfNodeIsUp_yields(1)] yields_mono [OF checkIfNodeIsUp_yields(2)])
  with False show ?thesis
    by (simp add: checkIfNodeIsUpAndReadOnly_def split: option.split)
qed

lemma later_checks_yield:
  assumes "fn \<in> {checkEulaAcceptance E v, checkLogrotateExists E v, checkIsLogrotateWritable E v,
                  checkThatConfigShareExists E v, checkShardSubscriptions E v}"
  shows "yields (fn pf) (\<lambda>(pf', err). pfStatic pf' = pfStatic pf \<and> pfServer pf' = pfServer pf)"
  using assms
  by (auto simp: checkEulaAcceptance_def checkLogrotateExists_def checkIsLogrotateWritable_def
      checkThatConfigShareExists_def checkShardSubscriptions_def setShardSubscription_def pfStatic_def pfServer_def
      intro!: yields_exec_prod yields_any split: option.splits)

lemma runChecks_yields:
  assumes "\<And>fn pf. fn \<in> set fns \<Longrightarrow> yields (fn pf) (\<lambda>(pf', err). pfStatic pf' = pfStatic pf \<and> (R pf \<longrightarrow> R pf'))"
  shows "yields (runChecks fns pf) (\<lambda>(pf', err). pfStatic pf' = pfStatic pf \<and> (R pf \<longrightarrow> R pf'))"
  using assms
proof (induction fns arbitrary: pf)
  case (Cons fn fns)
  show ?case
    unfolding runChecks.simps
  proof (rule yields_bind)
    show "yields (fn pf) (\<lambda>(pf', err). pfStatic pf' = pfStatic pf \<and> (R pf \<longrightarrow> R pf'))" using Cons.prems by simp
  next
    fix a :: "PodFact \<times> goerr option"
    assume a: "case a of (pf', err) \<Rightarrow> pfStatic pf' = pfStatic pf \<and> (R pf \<longrightarrow> R pf')"
    obtain pf' err where [simp]: "a = (pf', err)" by fastforce
    have "yields (runChecks fns pf') (\<lambda>(pf'', err). pfStatic pf'' = pfStatic pf' \<and> (R pf' \<longrightarrow> R pf''))"
      using Cons by simp
    with a show "yields (case a of (pf, err) \<Rightarrow> case err of None \<Rightarrow> runChecks fns pf | Some e \<Rightarrow> ret_op (pf, Some e))
        (\<lambda>(pf', err). pfStatic pf' = pfStatic pf \<and> (R pf \<longrightarrow> R pf'))"
      by (cases err) (auto simp: yields_def split: prod.splits)
  qed
qed auto

lemma runChecks_Cons_yields:
  assumes "yields (fn pf) (\<lambda>(q, err). P q)"
    and "\<And>q. P q \<Longrightarrow> yields (runChecks fns q) (\<lambda>(q', err). R q' \<and> (err = None \<longrightarrow> Q q'))"
    and "\<And>q. P q \<Longrightarrow> R q"
  shows "yields (runChecks (fn # fns) pf) (\<lambda>(q', err). R q' \<and> (err = None \<longrightarrow> Q q'))"
  unfolding runChecks.simps
proof (rule yields_bind [OF assms(1)])
  fix a :: "PodFact \<times> goerr option"
  assume a: "case a of (q, err) \<Rightarrow> P q"
  then show "yields (case a of (q, err) \<Rightarrow> case err of None \<Rightarrow> runChecks fns q | Some e \<Rightarrow> ret_op (q, Some e))
      (\<lambda>(q', err). R q' \<and> (err = None \<longrightarrow> Q q'))"
    using assms(2,3) by (cases a; cases "snd a") simp_all
qed

lemma late_checks_yield:
  "yields (runChecks [checkEulaAcceptance E v, checkLogrotateExists E v, checkIsLogrotateWritable E v,
     checkThatConfigShareExists E v, checkShardSubscriptions E v] pf)
     (\<lambda>(pf', err). pfStatic pf' = pfStatic pf \<and> (serverOk pf \<longrightarrow> serverOk pf'))"
proof (rule runChecks_yields)
  fix fn r
  assume "fn \<in> set [checkEulaAcceptance E v, checkLogrotateExists E v, checkIsLogrotateWritable E v,
     checkThatConfigShareExists E v, checkShardSubscriptions E v]"
  then have "yields (fn r) (\<lambda>(pf', err). pfStatic pf' = pfStatic r \<and> pfServer pf' = pfServer r)"
    by (intro later_checks_yield [of fn E v r]) simp
  then show "yields (fn r) (\<lambda>(pf', err). pfStatic pf' = pfStatic r \<and> (serverOk r \<longrightarrow> serverOk pf'))"
    by (rule yields_mono) (use serverOk_cong in blast)
qed

lemma podChecks_yields:
  "yields (runChecks (podChecks E v) pf) (\<lambda>(q, err). pfStatic q = pfStatic pf \<and> (err = None \<longrightarrow> serverOk q))"
proof -
  have up: "yields (runChecks (checkIfNodeIsUpAndReadOnly E v # [checkEulaAcceptance E v, checkLogrotateExists E v,
      checkIsLogrotateWritable E v, checkThatConfigShareExists E v, checkShardSubscriptions E v]) q)
      (\<lambda>(q', err). pfStatic q' = pfStatic pf \<and> (err = None \<longrightarrow> serverOk q'))" if q: "pfStatic q = pfStatic pf" for q
  proof (rule runChecks_Cons_yields [where P = "\<lambda>q. pfStatic q = pfStatic pf \<and> serverOk q"])
    show "yields (checkIfNodeIsUpAndReadOnly E v q) (\<lambda>(q, err). pfStatic q = pfStatic pf \<and> serverOk q)"
      by (rule yields_mono [OF checkIfNodeIsUpAndReadOnly_yields]) (simp add: q split: prod.splits)
  next
    fix r
    assume r: "pfStatic r = pfStatic pf \<and> serverOk r"
    show "yields (runChecks [checkEulaAcceptance E v, checkLogrotateExists E v, checkIsLogrotateWritable E v,
        checkThatConfigShareExists E v, checkShardSubscriptions E v] r)
        (\<lambda>(q', err). pfStatic q' = pfStatic pf \<and> (err = None \<longrightarrow> serverOk q'))"
      by (rule yields_mono [OF late_checks_yield]) (simp add: r split: prod.splits)
  qed simp
  show ?thesis
    unfolding podChecks_def
  proof (rule runChecks_Cons_yields [where P = "\<lambda>q. pfStatic q = pfStatic pf"])
    show "yields (checkIsInstalled E v pf) (\<lambda>(q, err). pfStatic q = pfStatic pf)"
      by (rule yields_mono [OF checkIsInstalled_yields]) (simp split: prod.splits)
  next
    fix q
    assume q: "pfStatic q = pfStatic pf"
    show "yields (runChecks [checkIsDBCreated E v, checkIfNodeIsUpAndReadOnly E v, checkEulaAcceptance E v,
        checkLogrotateExists E v, checkIsLogrotateWritable E v, checkThatConfigShareExists E v, checkShardSubscriptions E v] q)
        (\<lambda>(q', err). pfStatic q' = pfStatic pf \<and> (err = None \<longrightarrow> serverOk q'))"
      by (rule runChecks_Cons_yields [where P = "\<lambda>q. pfStatic q = pfStatic pf", OF
            yields_mono [OF checkIsDBCreated_yields] up]) (simp_all add: q split: prod.splits)
  qed simp
qed

lemma checks_keepLocal [keeps_rules]:
  "keepsLocal (checkIsInstalled E v pf)" "keepsLocal (checkIsDBCreated E v pf)"
  "keepsLocal (checkIfNodeIsUp E pf)" "keepsLocal (queryNodeStatus E pf)"
  "keepsLocal (checkEulaAcceptance E v pf)" "keepsLocal (checkLogrotateExists E v pf)"
  "keepsLocal (checkIsLogrotateWritable E v pf)" "keepsLocal (checkThatConfigShareExists E v pf)"
  "keepsLocal (checkShardSubscriptions E v pf)"
  unfolding checkIsInstalled_def checkIsDBCreated_def checkIfNodeIsUp_def queryNodeStatus_def
    checkEulaAcceptance_def checkLogrotateExists_def checkIsLogrotateWritable_def
    checkThatConfigShareExists_def checkShardSubscriptions_def Let_def
  by (intro keeps_rules)+

lemma nodeUp_keepsLocal [keeps_rules]: "keepsLocal (checkIfNodeIsUpAndReadOnly E v pf)"
  unfolding checkIfNodeIsUpAndReadOnly_def by (intro keeps_rules)

lemma runChecks_keepsLocal:
  "(\<And>fn q. fn \<in> set fns \<Longrightarrow> keepsLocal (fn q)) \<Longrightarrow> keepsLocal (runChecks fns pf)"
proof (induction fns arbitrary: pf)
  case (Cons fn fns)
  have "keepsLocal (fn pf)" using Cons.prems by simp
  moreover have "keepsLocal (runChecks fns q)" for q using Cons by simp
  ultimately show ?case unfolding runChecks.simps by (intro keeps_rules)
qed (simp add: keeps_rules)

lemma podChecks_keepsLocal [keeps_rules]: "keepsLocal (runChecks (podChecks E v) pf)"
  by (rule runChecks_keepsLocal) (auto simp: podChecks_def keeps_rules)

section \<open>Lemmas on the collection\<close>

text \<open>
  What holds of a collected fact: it is about the pod that the subcluster's name and the index name,
  a pod that runs exists, and a server that is up or read-only is in a running pod with a database.
\<close>

definition factOk :: "VerticaDB \<Rightarrow> PodFact \<Rightarrow> bool" where
  "factOk v pf \<longleftrightarrow> serverOk pf
     \<and> 0 \<le> pf_podIndex pf
     \<and> (\<exists>sc. sc_Name sc = pf_subcluster pf \<and> pf_name pf = GenPodName v sc (pf_podIndex pf))
     \<and> (pf_isPodRunning pf \<or> pf_pendingDelete pf \<longrightarrow> pf_exists pf)"

definition detailOk :: "VerticaDB \<Rightarrow> PodFactDetail \<Rightarrow> bool" where
  "detailOk v d \<longleftrightarrow> distinct (map fst d) \<and> (\<forall>(k, pf) \<in> set d. k = pf_name pf \<and> factOk v pf)"

lemma set_AList_update: "set (AList.update k x al) \<subseteq> insert (k, x) (set al)"
  by (induction al) auto

lemma detailOk_update:
  "detailOk v d \<Longrightarrow> factOk v pf \<Longrightarrow> detailOk v (AList.update (pf_name pf) pf d)"
  using set_AList_update [of "pf_name pf" pf d] unfolding detailOk_def by (auto simp: distinct_update)

lemma podFactOf_static:
  "pfStatic q = pfStatic (podFactOf v sc sts i pod) \<Longrightarrow> serverOk q \<Longrightarrow> 0 \<le> i \<Longrightarrow>
     factOk v q \<and> pf_name q = GenPodName v sc i"
  by (auto simp: factOk_def pfStatic_def podFactOf_def Let_def zeroPodFact_def split: option.splits)

text \<open>The state of a collection: the facts so far are fine, and those of the given names are there.\<close>

definition collected :: "VerticaDB \<Rightarrow> NamespacedName set \<Rightarrow> 'w st \<Rightarrow> bool" where
  "collected v ks s \<longleftrightarrow> detailOk v (Detail (pfacts s)) \<and> ks \<subseteq> fst ` set (Detail (pfacts s))"

lemma collected_mono: "collected v ks s \<Longrightarrow> ks' \<subseteq> ks \<Longrightarrow> collected v ks' s"
  by (auto simp: collected_def)

lemma checked_collected:
  assumes "0 \<le> i"
  shows "valid (collected v ks)
     (do { (pf, err) \<leftarrow> runChecks (podChecks E v) (podFactOf v sc sts i pod);
           case err of Some e \<Rightarrow> ret_op (Some e) | None \<Rightarrow> do { setDetail pf; ret_op None } })
     (\<lambda>err s. (err = None \<longrightarrow> collected v (insert (GenPodName v sc i) ks) s) \<and> (err \<noteq> None \<longrightarrow> True))"
  unfolding valid_def
proof (intro allI impI)
  fix s :: "'a st"
  assume c: "collected v ks s"
  obtain x t where x: "run_state (runChecks (podChecks E v) (podFactOf v sc sts i pod)) s = (x, t)"
    by (rule prod.exhaust)
  obtain q err where "x = (q, err)" by (rule prod.exhaust)
  with x have run: "run_state (runChecks (podChecks E v) (podFactOf v sc sts i pod)) s = ((q, err), t)" by simp
  have t: "collected v ks t"
    using c keepsLocalD [OF podChecks_keepsLocal run] by (simp add: collected_def)
  have q: "pfStatic q = pfStatic (podFactOf v sc sts i pod) \<and> (err = None \<longrightarrow> serverOk q)"
    using yieldsD [OF podChecks_yields run] by simp
  show "case run_state (do { (pf, err) \<leftarrow> runChecks (podChecks E v) (podFactOf v sc sts i pod);
           case err of Some e \<Rightarrow> ret_op (Some e) | None \<Rightarrow> do { setDetail pf; ret_op None } }) s of
        (err, s') \<Rightarrow> (err = None \<longrightarrow> collected v (insert (GenPodName v sc i) ks) s') \<and> (err \<noteq> None \<longrightarrow> True)"
  proof (cases err)
    case None
    with q have "factOk v q" "pf_name q = GenPodName v sc i"
      using podFactOf_static [of q v sc sts i pod] assms by auto
    then have "collected v (insert (GenPodName v sc i) ks)
        (t\<lparr>pfacts := (pfacts t)\<lparr>Detail := AList.update (pf_name q) q (Detail (pfacts t))\<rparr>\<rparr>)"
      using t detailOk_update [of v "Detail (pfacts t)" q] by (auto simp: collected_def dom_update)
    with None show ?thesis by (simp add: run setDetail_def)
  next
    case (Some e)
    then show ?thesis by (simp add: run)
  qed
qed

lemma valid_ask_frame:
  "(\<And>s w. P s \<Longrightarrow> P (s\<lparr>world := w\<rparr>)) \<Longrightarrow> valid P (ask f) (\<lambda>a. P)"
  by (auto intro: valid_ask)

lemma collected_world [simp]: "collected v ks (s\<lparr>world := w\<rparr>) = collected v ks s"
  by (simp add: collected_def)

lemma collectPod_collected:
  assumes "0 \<le> i"
  shows "valid (collected v ks) (collectPodByStsIndex E v sc sts i)
     (\<lambda>err s. (err = None \<longrightarrow> collected v (insert (GenPodName v sc i) ks) s) \<and> (err \<noteq> None \<longrightarrow> True))"
  unfolding collectPodByStsIndex_def
proof (rule valid_bind [OF valid_ask_frame])
  fix r :: "goerr + Pod"
  note checked = checked_collected [OF assms, of v ks E sc sts]
  show "valid (collected v ks) (case r of
       Inl e \<Rightarrow>
         if \<not> errors_IsNotFound e then ret_op (Some e)
         else do {
           (pf, err) \<leftarrow> runChecks (podChecks E v) (podFactOf v sc sts i None);
           case err of Some e \<Rightarrow> ret_op (Some e) | None \<Rightarrow> do { setDetail pf; ret_op None }
         }
     | Inr pod \<Rightarrow> do {
         (pf, err) \<leftarrow> runChecks (podChecks E v) (podFactOf v sc sts i (Some pod));
         case err of Some e \<Rightarrow> ret_op (Some e) | None \<Rightarrow> do { setDetail pf; ret_op None }
       })
     (\<lambda>err s. (err = None \<longrightarrow> collected v (insert (GenPodName v sc i) ks) s) \<and> (err \<noteq> None \<longrightarrow> True))"
    by (cases r) (simp_all only: sum.case checked valid_if valid_ret_op split: if_split, auto intro: valid_ret_op checked)
qed simp

definition podNames :: "VerticaDB \<Rightarrow> Subcluster \<Rightarrow> NamespacedName set" where
  "podNames v sc = {GenPodName v sc i | i. 0 \<le> i \<and> i < sc_Size sc}"

lemma collectIndices_collected:
  "valid (collected v ks) (forErr (indices 0 n) (collectPodByStsIndex E v sc sts))
     (\<lambda>err s. (err = None \<longrightarrow> collected v (ks \<union> GenPodName v sc ` set (indices 0 n)) s) \<and> (err \<noteq> None \<longrightarrow> True))"
proof -
  have "valid (\<lambda>s. collected v (ks \<union> GenPodName v sc ` set []) s) (forErr (indices 0 n) (collectPodByStsIndex E v sc sts))
     (\<lambda>err s. (err = None \<longrightarrow> collected v (ks \<union> GenPodName v sc ` set (indices 0 n)) s) \<and> (err \<noteq> None \<longrightarrow> True))"
  proof (rule valid_forErr)
    fix d x r
    assume "indices 0 n = d @ x # r"
    then have "x \<in> set (indices 0 n)" by simp
    then have "0 \<le> x" by simp
    from collectPod_collected [OF this, of v "ks \<union> GenPodName v sc ` set d" E sc sts]
    show "valid (collected v (ks \<union> GenPodName v sc ` set d)) (collectPodByStsIndex E v sc sts x)
       (\<lambda>err s. (err = None \<longrightarrow> collected v (ks \<union> GenPodName v sc ` set (d @ [x])) s) \<and> (err \<noteq> None \<longrightarrow> True))"
      by simp
  qed
  then show ?thesis by simp
qed

lemma podNames_indices: "sc_Size sc \<le> n \<Longrightarrow> podNames v sc \<subseteq> GenPodName v sc ` set (indices 0 n)"
  by (auto simp: podNames_def)

lemma collectSubcluster_collected:
  "valid (collected v ks) (collectSubcluster E v sc)
     (\<lambda>err s. (err = None \<longrightarrow> collected v (ks \<union> podNames v sc) s) \<and> (err \<noteq> None \<longrightarrow> True))"
  unfolding collectSubcluster_def
proof (rule valid_bind [OF valid_ask_frame])
  have loop: "valid (collected v ks) (forErr (indices 0 n) (collectPodByStsIndex E v sc sts))
     (\<lambda>err s. (err = None \<longrightarrow> collected v (ks \<union> podNames v sc) s) \<and> (err \<noteq> None \<longrightarrow> True))" if "sc_Size sc \<le> n" for n sts
  proof (rule valid_post [OF collectIndices_collected])
    fix err and s :: "'a st"
    have "ks \<union> podNames v sc \<subseteq> ks \<union> GenPodName v sc ` set (indices 0 n)" using podNames_indices [OF that] by blast
    then show "(err = None \<longrightarrow> collected v (ks \<union> GenPodName v sc ` set (indices 0 n)) s) \<and> (err \<noteq> None \<longrightarrow> True) \<Longrightarrow>
        (err = None \<longrightarrow> collected v (ks \<union> podNames v sc) s) \<and> (err \<noteq> None \<longrightarrow> True)"
      using collected_mono by blast
  qed
  fix r :: "goerr + StatefulSet"
  show "valid (collected v ks) (case r of
       Inl e \<Rightarrow>
         if \<not> errors_IsNotFound e
         then ret_op (Some (WrapErr (''could not fetch statefulset for pod fact collection '' @ sc_Name sc) e))
         else forErr (indices 0 (sc_Size sc)) (collectPodByStsIndex E v sc zeroStatefulSet)
     | Inr sts \<Rightarrow>
         (let maxStsSize = (case sts_Replicas sts of
                              None \<Rightarrow> sc_Size sc
                            | Some n \<Rightarrow> if n > sc_Size sc then n else sc_Size sc)
          in forErr (indices 0 maxStsSize) (collectPodByStsIndex E v sc sts)))
     (\<lambda>err s. (err = None \<longrightarrow> collected v (ks \<union> podNames v sc) s) \<and> (err \<noteq> None \<longrightarrow> True))"
  proof (cases r)
    case (Inl e)
    then show ?thesis using loop [of "sc_Size sc"] by (simp add: valid_ret_op)
  next
    case (Inr sts)
    then show ?thesis using loop by (simp add: Let_def split: option.split)
  qed
qed simp

lemma collectSubclusters_collected:
  "valid (collected v {}) (forErr scs (collectSubcluster E v))
     (\<lambda>err s. (err = None \<longrightarrow> collected v (\<Union>sc \<in> set scs. podNames v sc) s) \<and> (err \<noteq> None \<longrightarrow> True))"
proof -
  have "valid (\<lambda>s. collected v (\<Union>sc \<in> set []. podNames v sc) s) (forErr scs (collectSubcluster E v))
     (\<lambda>err s. (err = None \<longrightarrow> collected v (\<Union>sc \<in> set scs. podNames v sc) s) \<and> (err \<noteq> None \<longrightarrow> True))"
  proof (rule valid_forErr)
    fix d x r
    show "valid (\<lambda>s. collected v (\<Union>sc \<in> set d. podNames v sc) s) (collectSubcluster E v x)
      (\<lambda>err s. (err = None \<longrightarrow> collected v (\<Union>sc \<in> set (d @ [x]). podNames v sc) s) \<and> (err \<noteq> None \<longrightarrow> True))"
      using collectSubcluster_collected [of v "\<Union>sc \<in> set d. podNames v sc" E x]
      by (simp add: Un_commute)
  qed
  then show ?thesis by simp
qed

lemma FindSubclusters_all_run:
  "run_state (FindSubclusters E (MakeSubclusterFinder v) FindAll) s = (r, s') \<Longrightarrow>
     (\<exists>w. s' = s\<lparr>world := w\<rparr>) \<and> (\<forall>scs. r = Inr scs \<longrightarrow> set (vdb_Subclusters v) \<subseteq> set scs)"
  by (auto simp: FindSubclusters_def run_FindStatefulSets MakeSubclusterFinder_def
      split: prod.splits sum.splits if_splits)

lemma countPods_sum: "countPods ps f = sum_list (map f ps)"
proof -
  have "foldl (\<lambda>c pf. c + f pf) a ps = a + sum_list (map f ps)" for a
    by (induction ps arbitrary: a) auto
  then show ?thesis by (simp add: countPods_def)
qed

lemma countPods_mset: "mset ps = mset qs \<Longrightarrow> countPods ps f = countPods qs f"
  unfolding countPods_sum by (metis mset_map sum_mset_sum_list)

lemma countPods_filter: "countPods ps (\<lambda>pf. if P pf then 1 else 0) = int (length (filter P ps))"
  unfolding countPods_sum by (induction ps) auto

lemmas count_defs = countRunningAndInstalled_def countInstalledAndNotRestartable_def countUpPrimaryNodes_def
  countNotReadOnlyWithOldImage_def getUpNodeCount_def getUpNodeAndNotReadOnlyCount_def

section \<open>Properties\<close>

text \<open>
  C18: when a collection reports success and marks the facts as collected, there is exactly one fact
  for a pod name, every pod that the sizes in the resource ask for has a fact, and every fact is
  about the pod its name says and consistent: a server that is up or read-only belongs to a
  running pod with a database, and a pod that runs or is to be deleted exists.
\<close>

theorem Collect_complete:
  assumes run: "run_state (Collect E) s = (None, s')"
    and need: "NeedCollection (pfacts s)" and collected: "\<not> NeedCollection (pfacts s')"
  shows "detailOk (vdb s) (Detail (pfacts s'))
     \<and> (\<forall>sc \<in> set (vdb_Subclusters (vdb s)). podNames (vdb s) sc \<subseteq> fst ` set (Detail (pfacts s')))"
proof -
  let ?s0 = "s\<lparr>pfacts := (pfacts s)\<lparr>Detail := []\<rparr>\<rparr>" and ?v = "vdb s"
  obtain r t where find: "run_state (FindSubclusters E (MakeSubclusterFinder ?v) FindAll) ?s0 = (r, t)"
    by (rule prod.exhaust)
  obtain w where t: "t = ?s0\<lparr>world := w\<rparr>" using FindSubclusters_all_run [OF find] by blast
  show ?thesis
  proof (cases r)
    case (Inl e)
    with run need t find have "s' = t" by (simp add: Collect_def clearDetail_def)
    with collected need t show ?thesis by simp
  next
    case (Inr scs)
    obtain err u where loop: "run_state (forErr scs (collectSubcluster E ?v)) t = (err, u)" by (rule prod.exhaust)
    have "collected ?v {} t" by (simp add: t collected_def detailOk_def)
    from valid_run [OF collectSubclusters_collected this loop]
    have u: "err = None \<longrightarrow> collected ?v (\<Union>sc \<in> set scs. podNames ?v sc) u" by simp
    have "err = None \<and> s' = u\<lparr>pfacts := (pfacts u)\<lparr>NeedCollection := False\<rparr>\<rparr>"
      using run need find Inr loop
      by (cases err) (auto simp: Collect_def clearDetail_def setNeedCollection_def)
    with u have "collected ?v (\<Union>sc \<in> set scs. podNames ?v sc) s'" by (simp add: collected_def)
    moreover have "set (vdb_Subclusters ?v) \<subseteq> set scs" using FindSubclusters_all_run [OF find] Inr by blast
    ultimately show ?thesis by (auto simp: collected_def)
  qed
qed

theorem Collect_complete_witness:
  "let s' = snd (run_state (Collect storeEnv) exampleState) in
     detailOk MakeVDB (Detail (pfacts s'))
     \<and> (\<forall>sc \<in> set (vdb_Subclusters MakeVDB). podNames MakeVDB sc \<subseteq> fst ` set (Detail (pfacts s')))"
proof -
  obtain err s' where run: "run_state (Collect storeEnv) exampleState = (err, s')" by (rule prod.exhaust)
  have ix: "indices 0 3 = [0, 1, 2]" by (simp add: indices_def upt_rec)
  have "err = None \<and> \<not> NeedCollection (pfacts s')"
    using run
    by (auto simp: Collect_def run_FindSubclusters_all exampleState_def storeEnv_def emptyEnv_def clearDetail_def MakeVDB_def
        collectSubcluster_def zeroSubcluster_def zeroVerticaDBSpec_def ix collectPodByStsIndex_def podFactOf_def Let_def
        zeroPodFact_def podChecks_def checkIsInstalled_def checkIsDBCreated_def
        checkIfNodeIsUpAndReadOnly_def checkEulaAcceptance_def checkLogrotateExists_def checkIsLogrotateWritable_def
        checkThatConfigShareExists_def checkShardSubscriptions_def FindSubclusterStatus_def zeroVerticaDBStatus_def
        setDetail_def setNeedCollection_def simp del: flag_values)
  moreover have "NeedCollection (pfacts exampleState)" "vdb exampleState = MakeVDB" by (simp_all add: exampleState_def)
  ultimately show ?thesis using Collect_complete [of storeEnv exampleState s'] run by (simp add: Let_def)
qed

text \<open>
  C34: when the API server fails to list the statefulsets, a collection reports success although it
  has emptied the facts: it returns no error, has no fact of any pod, and the facts still count as
  not collected. Its callers go on with no facts.
\<close>

theorem Collect_loses_list_error:
  assumes "NeedCollection (pfacts s)"
    and "e_ListSts E (vdb_Namespace (vdb s)) (MakeOperatorLabels (vdb s)) (world s) = (Inl e, w)"
  shows "run_state (Collect E) s =
     (None, s\<lparr>world := w, pfacts := \<lparr>Detail = [], NeedCollection = True\<rparr>\<rparr>)"
proof -
  have "run_state (FindSubclusters E (MakeSubclusterFinder (vdb s)) FindAll) (s\<lparr>pfacts := (pfacts s)\<lparr>Detail := []\<rparr>\<rparr>)
      = (Inl e, s\<lparr>pfacts := (pfacts s)\<lparr>Detail := []\<rparr>, world := w\<rparr>)"
    unfolding run_FindSubclusters_all using assms(2) by simp
  then show ?thesis
    using assms(1) by (cases "pfacts s") (simp add: Collect_def clearDetail_def)
qed

theorem Collect_loses_list_error_witness:
  "run_state (Collect (storeEnv\<lparr>e_ListSts := \<lambda>ns l w. (Inl (OtherErr ''timeout''), w)\<rparr>)) exampleState = (None, exampleState)"
  using Collect_loses_list_error [of exampleState "storeEnv\<lparr>e_ListSts := \<lambda>ns l w. (Inl (OtherErr ''timeout''), w)\<rparr>"
      "OtherErr ''timeout''" "world exampleState"]
  by (simp add: exampleState_def)



text \<open>
  The pod chosen to run admintools is, in this order of preference, one whose server is up and
  writable, one whose server is up, or one that runs with an installation; none is chosen only if
  there is no such pod. The three loops may visit the facts in different orders.
\<close>

theorem findPodToRunAdmintoolsAny_choice:
  assumes "set ps1 = P" "set ps2 = P" "set ps3 = P"
  shows "case findPodToRunAdmintoolsAny ps1 ps2 ps3 of
     Some pf \<Rightarrow> pf \<in> P \<and>
       (if \<exists>q \<in> P. pf_upNode q \<and> \<not> pf_readOnly q then pf_upNode pf \<and> \<not> pf_readOnly pf
        else if \<exists>q \<in> P. pf_upNode q then pf_upNode pf
        else pf_isInstalled pf \<and> pf_isPodRunning pf)
   | None \<Rightarrow> \<forall>q \<in> P. \<not> pf_upNode q \<and> \<not> (pf_isInstalled q \<and> pf_isPodRunning q)"
  using assms unfolding findPodToRunAdmintoolsAny_def
  by (auto split: option.splits simp: find_None_iff' dest!: find_Some_iff_filter)

theorem findPodToRunAdmintoolsAny_choice_witness:
  "set [zeroPodFact\<lparr>pf_upNode := True, pf_readOnly := True\<rparr>, zeroPodFact\<lparr>pf_upNode := True\<rparr>]
     = {zeroPodFact\<lparr>pf_upNode := True, pf_readOnly := True\<rparr>, zeroPodFact\<lparr>pf_upNode := True\<rparr>}
   \<and> (let ps = [zeroPodFact\<lparr>pf_upNode := True, pf_readOnly := True\<rparr>, zeroPodFact\<lparr>pf_upNode := True\<rparr>] in
      \<exists>pf. findPodToRunAdmintoolsAny ps ps ps = Some pf \<and> \<not> pf_readOnly pf)"
proof -
  let ?ps = "[zeroPodFact\<lparr>pf_upNode := True, pf_readOnly := True\<rparr>, zeroPodFact\<lparr>pf_upNode := True\<rparr>]"
  have "zeroPodFact\<lparr>pf_upNode := True\<rparr> \<in> set ?ps" by simp
  moreover have "pf_upNode (zeroPodFact\<lparr>pf_upNode := True\<rparr>)" "\<not> pf_readOnly (zeroPodFact\<lparr>pf_upNode := True\<rparr>)"
    by (simp_all add: zeroPodFact_def)
  ultimately have "\<exists>pf. findPodToRunAdmintoolsAny ?ps ?ps ?ps = Some pf \<and> \<not> pf_readOnly pf"
    using findPodToRunAdmintoolsAny_choice [of ?ps "set ?ps" ?ps ?ps, OF refl refl refl]
    by (cases "findPodToRunAdmintoolsAny ?ps ?ps ?ps") (auto split: if_splits)
  then show ?thesis by (simp add: Let_def)
qed

end
