(* ===== verification/Metrics.thy ===== *)
theory Metrics
  imports Effects
begin

text \<open>
  The Prometheus metrics of the operator (pkg/metrics/metrics.go): the series it declares, with
  their names and labels, and the operations that create, clear and set them. The Prometheus
  client is not part of the repository; what the operator asks of it is recorded in the trace.
  The observed duration of a restart is a reading of the clock and is left out of the record.
\<close>

section \<open>The declared metrics\<close>

definition metrics_Namespace :: string where
  "metrics_Namespace = ''vertica''"

definition UpgradeSubsystem :: string where
  "UpgradeSubsystem = ''upgrade''"

definition ClusterRestartSubsystem :: string where
  "ClusterRestartSubsystem = ''cluster_restart''"

definition NodesRestartSubsystem :: string where
  "NodesRestartSubsystem = ''nodes_restart''"

definition SubclusterSubsystem :: string where
  "SubclusterSubsystem = ''subclusters''"

definition NamespaceLabel :: string where
  "NamespaceLabel = ''namespace''"

definition VerticaDBLabel :: string where
  "VerticaDBLabel = ''verticadb''"

definition metrics_SubclusterLabel :: string where
  "metrics_SubclusterLabel = ''subcluster''"

definition AdminToolsBucket :: "int list" where
  "AdminToolsBucket = [1, 5, 10, 30, 60, 120, 300, 600]"

datatype metric_kind = CounterVec | HistogramVec "int list" | GaugeVec

record metric_opts =
  mo_Kind :: metric_kind
  mo_Subsystem :: string
  mo_Name :: string
  mo_Labels :: "string list"

definition metricOpts :: "metric \<Rightarrow> metric_opts" where
  "metricOpts m =
     (let vdbLabels = [NamespaceLabel, VerticaDBLabel];
          scLabels = [NamespaceLabel, VerticaDBLabel, metrics_SubclusterLabel]
      in case m of
        UpgradeCount \<Rightarrow> \<lparr>mo_Kind = CounterVec, mo_Subsystem = UpgradeSubsystem, mo_Name = ''total'', mo_Labels = vdbLabels\<rparr>
      | ClusterRestartAttempt \<Rightarrow>
          \<lparr>mo_Kind = CounterVec, mo_Subsystem = ClusterRestartSubsystem, mo_Name = ''attempted_total'', mo_Labels = vdbLabels\<rparr>
      | ClusterRestartFailure \<Rightarrow>
          \<lparr>mo_Kind = CounterVec, mo_Subsystem = ClusterRestartSubsystem, mo_Name = ''failed_total'', mo_Labels = vdbLabels\<rparr>
      | ClusterRestartDuration \<Rightarrow>
          \<lparr>mo_Kind = HistogramVec AdminToolsBucket, mo_Subsystem = ClusterRestartSubsystem, mo_Name = ''seconds'', mo_Labels = vdbLabels\<rparr>
      | NodesRestartAttempt \<Rightarrow>
          \<lparr>mo_Kind = CounterVec, mo_Subsystem = NodesRestartSubsystem, mo_Name = ''attempted_total'', mo_Labels = vdbLabels\<rparr>
      | NodesRestartFailed \<Rightarrow>
          \<lparr>mo_Kind = CounterVec, mo_Subsystem = NodesRestartSubsystem, mo_Name = ''failed_total'', mo_Labels = vdbLabels\<rparr>
      | NodesRestartDuration \<Rightarrow>
          \<lparr>mo_Kind = HistogramVec AdminToolsBucket, mo_Subsystem = NodesRestartSubsystem, mo_Name = ''seconds'', mo_Labels = vdbLabels\<rparr>
      | SubclusterCount \<Rightarrow> \<lparr>mo_Kind = GaugeVec, mo_Subsystem = SubclusterSubsystem, mo_Name = ''count'', mo_Labels = vdbLabels\<rparr>
      | TotalNodeCount \<Rightarrow> \<lparr>mo_Kind = GaugeVec, mo_Subsystem = [], mo_Name = ''total_nodes_count'', mo_Labels = scLabels\<rparr>
      | RunningNodeCount \<Rightarrow> \<lparr>mo_Kind = GaugeVec, mo_Subsystem = [], mo_Name = ''running_nodes_count'', mo_Labels = scLabels\<rparr>
      | UpNodeCount \<Rightarrow> \<lparr>mo_Kind = GaugeVec, mo_Subsystem = [], mo_Name = ''up_nodes_count'', mo_Labels = scLabels\<rparr>)"

text \<open>The metrics given to the registry.\<close>

definition metrics_init :: "metric list" where
  "metrics_init = [UpgradeCount, ClusterRestartAttempt, ClusterRestartFailure, ClusterRestartDuration,
     NodesRestartAttempt, NodesRestartFailed, NodesRestartDuration, SubclusterCount, TotalNodeCount,
     RunningNodeCount, UpNodeCount]"

section \<open>Operations\<close>

definition metric_do :: "metric \<Rightarrow> metric_op \<Rightarrow> (string \<times> string) list \<Rightarrow> ('w, unit) op" where
  "metric_do m x labels = emit (ObsMetric m x labels)"

fun metrics_do :: "metric list \<Rightarrow> metric_op \<Rightarrow> (string \<times> string) list \<Rightarrow> ('w, unit) op" where
  "metrics_do [] x labels = ret_op ()"
| "metrics_do (m # ms) x labels = do { metric_do m x labels; metrics_do ms x labels }"

definition MakeVDBLabels :: "VerticaDB \<Rightarrow> (string \<times> string) list" where
  "MakeVDBLabels v = [(NamespaceLabel, vdb_Namespace v), (VerticaDBLabel, vdb_Name v)]"

definition metrics_MakeSubclusterLabels :: "VerticaDB \<Rightarrow> string \<Rightarrow> (string \<times> string) list" where
  "metrics_MakeSubclusterLabels v scName =
     [(NamespaceLabel, vdb_Namespace v), (VerticaDBLabel, vdb_Name v), (metrics_SubclusterLabel, scName)]"

definition HandleSubclusterDelete :: "VerticaDB \<Rightarrow> string \<Rightarrow> ('w, unit) op" where
  "HandleSubclusterDelete v scName =
     metrics_do [TotalNodeCount, RunningNodeCount, UpNodeCount] MetricDelete (metrics_MakeSubclusterLabels v scName)"

definition HandleVDBDelete :: "string \<Rightarrow> string \<Rightarrow> ('w, unit) op" where
  "HandleVDBDelete namespaceName vdbName =
     metrics_do [UpgradeCount, ClusterRestartAttempt, ClusterRestartFailure, ClusterRestartDuration,
       NodesRestartAttempt, NodesRestartFailed, NodesRestartDuration, SubclusterCount] MetricDelete
       [(NamespaceLabel, namespaceName), (VerticaDBLabel, vdbName)]"

definition HandleVDBInit :: "VerticaDB \<Rightarrow> ('w, unit) op" where
  "HandleVDBInit v =
     metrics_do [UpgradeCount, ClusterRestartAttempt, ClusterRestartFailure, ClusterRestartDuration,
       NodesRestartAttempt, NodesRestartFailed, NodesRestartDuration] MetricInit (MakeVDBLabels v)"

section \<open>Lemmas\<close>

lemma run_metric_do [simp]: "run_state (metric_do m x l) s = ((), s\<lparr>trace := trace s @ [ObsMetric m x l]\<rparr>)"
  by (simp add: metric_do_def)

lemma run_metrics_do [simp]:
  "run_state (metrics_do ms x l) s = ((), s\<lparr>trace := trace s @ map (\<lambda>m. ObsMetric m x l) ms\<rparr>)"
  by (induction ms arbitrary: s) simp_all

text \<open>Every metric is registered once, and no two of them have the same full name.\<close>

lemma registered: "set metrics_init = UNIV" "distinct metrics_init"
proof -
  have "m \<in> set metrics_init" for m by (cases m) (simp_all add: metrics_init_def)
  then show "set metrics_init = UNIV" by blast
  show "distinct metrics_init" by (simp add: metrics_init_def)
qed

lemma metric_names_distinct:
  "distinct (map (\<lambda>m. (mo_Subsystem (metricOpts m), mo_Name (metricOpts m))) metrics_init)"
  by (simp add: metrics_init_def metricOpts_def UpgradeSubsystem_def ClusterRestartSubsystem_def
      NodesRestartSubsystem_def SubclusterSubsystem_def Let_def)

text \<open>
  A deletion gives every label of the series it removes. The deletion of a database covers the
  registered series that only have the labels of the database; those of its subclusters stay.
\<close>

lemma delete_labels_complete:
  "run_state (HandleVDBDelete ns nm) s = ((), s') \<Longrightarrow>
     {m. ObsMetric m MetricDelete [(NamespaceLabel, ns), (VerticaDBLabel, nm)] \<in> set (drop (length (trace s)) (trace s'))}
       = {m. mo_Labels (metricOpts m) = [NamespaceLabel, VerticaDBLabel]}"
proof -
  assume run: "run_state (HandleVDBDelete ns nm) s = ((), s')"
  let ?vdb = "[UpgradeCount, ClusterRestartAttempt, ClusterRestartFailure, ClusterRestartDuration,
       NodesRestartAttempt, NodesRestartFailed, NodesRestartDuration, SubclusterCount]"
  from run have "drop (length (trace s)) (trace s')
      = map (\<lambda>m. ObsMetric m MetricDelete [(NamespaceLabel, ns), (VerticaDBLabel, nm)]) ?vdb"
    by (auto simp: HandleVDBDelete_def)
  then have "{m. ObsMetric m MetricDelete [(NamespaceLabel, ns), (VerticaDBLabel, nm)] \<in> set (drop (length (trace s)) (trace s'))}
      = set ?vdb" by auto
  moreover have "mo_Labels (metricOpts m) = [NamespaceLabel, VerticaDBLabel] \<longleftrightarrow> m \<in> set ?vdb" for m
    by (cases m) (simp_all add: metricOpts_def Let_def)
  ultimately show ?thesis by blast
qed

end
