(* ===== verification/Trace.thy ===== *)
theory Trace
  imports PodFacts Metrics
begin

text \<open>
  Reasoning about what an operation asks the outside to do. A specification of an operation has a
  precondition, a postcondition and a predicate that everything the operation adds to the trace
  satisfies. The rules follow the structure of the monadic code; an invariant of the operator's
  own state passes through everything that only talks to the outside.
\<close>

definition spec :: "('w st \<Rightarrow> bool) \<Rightarrow> (obs \<Rightarrow> bool) \<Rightarrow> ('w, 'a) op \<Rightarrow> ('a \<Rightarrow> 'w st \<Rightarrow> bool) \<Rightarrow> bool" where
  "spec P \<Phi> m Q \<longleftrightarrow>
     (\<forall>s. P s \<longrightarrow> (case run_state m s of (a, s') \<Rightarrow>
        (\<exists>os. trace s' = trace s @ os \<and> list_all \<Phi> os) \<and> Q a s'))"

named_theorems spec_rules \<open>rules for the control structures, with one invariant\<close>

section \<open>Structural rules\<close>

lemma specI:
  "(\<And>s a s'. P s \<Longrightarrow> run_state m s = (a, s') \<Longrightarrow> (\<exists>os. trace s' = trace s @ os \<and> list_all \<Phi> os) \<and> Q a s')
   \<Longrightarrow> spec P \<Phi> m Q"
  unfolding spec_def by (auto split: prod.splits)

lemma specD:
  "spec P \<Phi> m Q \<Longrightarrow> P s \<Longrightarrow> run_state m s = (a, s') \<Longrightarrow>
     (\<exists>os. trace s' = trace s @ os \<and> list_all \<Phi> os) \<and> Q a s'"
  unfolding spec_def by (auto split: prod.splits)

lemma spec_bind:
  assumes m: "spec P \<Phi> m R" and f: "\<And>a. spec (R a) \<Phi> (f a) Q"
  shows "spec P \<Phi> (m \<bind> f) Q"
proof (rule specI)
  fix s b s''
  assume P: "P s" and run: "run_state (m \<bind> f) s = (b, s'')"
  obtain a s' where a: "run_state m s = (a, s')" by (rule prod.exhaust)
  with run have b: "run_state (f a) s' = (b, s'')" by simp
  from specD [OF m P a] obtain os1 where 1: "trace s' = trace s @ os1" "list_all \<Phi> os1" "R a s'" by blast
  from specD [OF f 1(3) b] obtain os2 where 2: "trace s'' = trace s' @ os2" "list_all \<Phi> os2" "Q b s''" by blast
  from 1 2 show "(\<exists>os. trace s'' = trace s @ os \<and> list_all \<Phi> os) \<and> Q b s''"
    by (intro conjI exI [of _ "os1 @ os2"]) simp_all
qed

lemma spec_ret: "(\<And>s. P s \<Longrightarrow> Q a s) \<Longrightarrow> spec P \<Phi> (ret_op a) Q"
  by (simp add: spec_def)

lemma spec_gets: "(\<And>s. P s \<Longrightarrow> Q (f s) s) \<Longrightarrow> spec P \<Phi> (gets_st f) Q"
  by (simp add: spec_def)

lemma spec_weaken:
  "spec P' \<Phi>' m Q' \<Longrightarrow> (\<And>s. P s \<Longrightarrow> P' s) \<Longrightarrow> (\<And>x. \<Phi>' x \<Longrightarrow> \<Phi> x) \<Longrightarrow> (\<And>a s. Q' a s \<Longrightarrow> Q a s) \<Longrightarrow> spec P \<Phi> m Q"
  unfolding spec_def by (fastforce split: prod.splits elim: list.pred_mono_strong)

lemma spec_conj:
  "spec P \<Phi> m Q \<Longrightarrow> spec P \<Phi> m Q' \<Longrightarrow> spec P \<Phi> m (\<lambda>a s. Q a s \<and> Q' a s)"
  unfolding spec_def by (auto split: prod.splits)

lemma spec_pre_pure: "(A \<Longrightarrow> spec P \<Phi> m Q) \<Longrightarrow> spec (\<lambda>s. P s \<and> A) \<Phi> m Q"
  unfolding spec_def by auto

section \<open>Rules with an invariant\<close>

text \<open>
  An invariant that only looks at the operator's own state; the world and the trace are not part
  of it.
\<close>

definition localPred :: "('w st \<Rightarrow> bool) \<Rightarrow> bool" where
  "localPred P \<longleftrightarrow> (\<forall>s w tr. P (s\<lparr>world := w, trace := tr\<rparr>) = P s)"

lemma localPred_world: "localPred P \<Longrightarrow> P (s\<lparr>world := w\<rparr>) = P s"
  unfolding localPred_def by (metis (no_types, lifting) st.surjective st.update_convs(1) st.update_convs(4))

lemma localPred_trace: "localPred P \<Longrightarrow> P (s\<lparr>trace := tr\<rparr>) = P s"
  unfolding localPred_def by (metis (no_types, lifting) st.surjective st.update_convs(1) st.update_convs(4))

lemma localPred_both: "localPred P \<Longrightarrow> P (s\<lparr>trace := tr, world := w\<rparr>) = P s"
  by (simp add: localPred_world localPred_trace)

lemma localPred_facts [simp]: "localPred (\<lambda>s. B)" "localPred (\<lambda>s. vdb s = v)" "localPred (\<lambda>s. pfacts s = F)"
  "localPred (\<lambda>s. Detail (pfacts s) = D)" "localPred (\<lambda>s. vdb s = v \<and> Detail (pfacts s) = D)"
  by (simp_all add: localPred_def)

lemma spec_ret_inv [spec_rules]: "spec P \<Phi> (ret_op a) (\<lambda>_. P)"
  by (simp add: spec_def)

lemma spec_gets_inv [spec_rules]: "spec P \<Phi> (gets_st f) (\<lambda>_. P)"
  by (simp add: spec_def)

lemma spec_ask [spec_rules]: "localPred P \<Longrightarrow> spec P \<Phi> (ask f) (\<lambda>_. P)"
  by (auto simp: spec_def localPred_world split: prod.splits)

lemma spec_emit [spec_rules]: "localPred P \<Longrightarrow> \<Phi> x \<Longrightarrow> spec P \<Phi> (emit x) (\<lambda>_. P)"
  by (auto simp: spec_def localPred_trace)

lemma spec_Eventf [spec_rules]: "localPred P \<Longrightarrow> \<Phi> (ObsEvent ty r) \<Longrightarrow> spec P \<Phi> (Eventf ty r) (\<lambda>_. P)"
  unfolding Eventf_def by (rule spec_emit)

lemma spec_metric [spec_rules]: "localPred P \<Longrightarrow> \<Phi> (ObsMetric m x l) \<Longrightarrow> spec P \<Phi> (metric_do m x l) (\<lambda>_. P)"
  unfolding metric_do_def by (rule spec_emit)

lemma spec_bind_inv [spec_rules]:
  "spec P \<Phi> m (\<lambda>_. P) \<Longrightarrow> (\<And>a. spec P \<Phi> (f a) Q) \<Longrightarrow> spec P \<Phi> (m \<bind> f) Q"
  by (rule spec_bind)

lemma spec_bind_gets:
  "(\<And>s. P s \<Longrightarrow> g s = x) \<Longrightarrow> spec P \<Phi> (f x) Q \<Longrightarrow> spec P \<Phi> (gets_st g \<bind> f) Q"
  by (auto simp: spec_def)

lemma spec_if [spec_rules]:
  "(b \<Longrightarrow> spec P \<Phi> m Q) \<Longrightarrow> (\<not> b \<Longrightarrow> spec P \<Phi> n Q) \<Longrightarrow> spec P \<Phi> (if b then m else n) Q"
  by simp

lemma spec_metrics [spec_rules]:
  "localPred P \<Longrightarrow> (\<And>m. \<Phi> (ObsMetric m x l)) \<Longrightarrow> spec P \<Phi> (metrics_do ms x l) (\<lambda>_. P)"
  by (induction ms) (simp_all add: spec_ret_inv spec_bind_inv spec_metric)

lemma spec_option [spec_rules]:
  "(x = None \<Longrightarrow> spec P \<Phi> m Q) \<Longrightarrow> (\<And>y. x = Some y \<Longrightarrow> spec P \<Phi> (f y) Q) \<Longrightarrow>
   spec P \<Phi> (case x of None \<Rightarrow> m | Some y \<Rightarrow> f y) Q"
  by (cases x) auto

lemma spec_sum [spec_rules]:
  "(\<And>e. x = Inl e \<Longrightarrow> spec P \<Phi> (f e) Q) \<Longrightarrow> (\<And>y. x = Inr y \<Longrightarrow> spec P \<Phi> (g y) Q) \<Longrightarrow>
   spec P \<Phi> (case x of Inl e \<Rightarrow> f e | Inr y \<Rightarrow> g y) Q"
  by (cases x) auto

lemma spec_prod [spec_rules]:
  "(\<And>a b. x = (a, b) \<Longrightarrow> spec P \<Phi> (f a b) Q) \<Longrightarrow> spec P \<Phi> (case x of (a, b) \<Rightarrow> f a b) Q"
  by (cases x) auto

lemma spec_let [spec_rules]: "spec P \<Phi> (f x) Q \<Longrightarrow> spec P \<Phi> (let y = x in f y) Q"
  by simp

lemma spec_ExecInPod [spec_rules]:
  "localPred P \<Longrightarrow> \<Phi> (ObsExec InPod nm cmd) \<Longrightarrow> spec P \<Phi> (ExecInPod E nm cmd) (\<lambda>_. P)"
  unfolding ExecInPod_def by (intro spec_bind_inv spec_emit spec_ask)

lemma spec_ExecVSQL [spec_rules]:
  "localPred P \<Longrightarrow> \<Phi> (ObsExec VSQL nm cmd) \<Longrightarrow> spec P \<Phi> (ExecVSQL E nm cmd) (\<lambda>_. P)"
  unfolding ExecVSQL_def by (intro spec_bind_inv spec_emit spec_ask spec_gets_inv)

lemma spec_ExecAdmintools [spec_rules]:
  "localPred P \<Longrightarrow> \<Phi> (ObsExec AT nm cmd) \<Longrightarrow> spec P \<Phi> (ExecAdmintools E nm cmd) (\<lambda>_. P)"
  unfolding ExecAdmintools_def by (intro spec_bind_inv spec_emit spec_ask spec_gets_inv)

lemma spec_forErr [spec_rules]:
  "(\<And>x. x \<in> set xs \<Longrightarrow> spec P \<Phi> (f x) (\<lambda>_. P)) \<Longrightarrow> spec P \<Phi> (forErr xs f) (\<lambda>_. P)"
proof (induction xs)
  case (Cons x xs)
  then have "spec P \<Phi> (f x) (\<lambda>_. P)" "spec P \<Phi> (forErr xs f) (\<lambda>_. P)" by simp_all
  then show ?case unfolding forErr.simps by (intro spec_rules)
qed (simp add: spec_rules)

lemma spec_forRet [spec_rules]:
  "(\<And>x. x \<in> set xs \<Longrightarrow> spec P \<Phi> (f x) (\<lambda>_. P)) \<Longrightarrow> spec P \<Phi> (forRet xs f) (\<lambda>_. P)"
proof (induction xs)
  case (Cons x xs)
  then have "spec P \<Phi> (f x) (\<lambda>_. P)" "spec P \<Phi> (forRet xs f) (\<lambda>_. P)" by simp_all
  then show ?case unfolding forRet.simps by (intro spec_rules)
qed (simp add: spec_rules)

lemma spec_RetryOnConflict [spec_rules]:
  "spec P \<Phi> m (\<lambda>_. P) \<Longrightarrow> spec P \<Phi> (RetryOnConflict n m) (\<lambda>_. P)"
proof (induction n)
  case (Suc n)
  then show ?case unfolding RetryOnConflict.simps by (intro spec_rules; simp)
qed simp

section \<open>Operations of the lower components\<close>

text \<open>Loops over the facts see the facts of the state, in some order.\<close>

lemma spec_RetryOnConflictV [spec_rules]:
  "spec P \<Phi> fn (\<lambda>_. P) \<Longrightarrow> spec P \<Phi> (RetryOnConflictV n fn) (\<lambda>_. P)"
proof (induction n)
  case (Suc n)
  then have IH: "spec P \<Phi> (RetryOnConflictV n fn) (\<lambda>_. P)" by simp
  show ?case
    unfolding RetryOnConflictV.simps by (intro spec_bind_inv spec_sum spec_if spec_ret_inv IH Suc.prems)
qed simp

lemma spec_rangeDetail:
  assumes "rangeLaw E" and "localPred P"
  shows "spec (\<lambda>s. P s \<and> Detail (pfacts s) = D) \<Phi> (rangeDetail E)
     (\<lambda>ps s. (P s \<and> Detail (pfacts s) = D) \<and> mset ps = mset (map snd D))"
proof (rule specI)
  fix s :: "'a st" and ps s'
  assume P: "P s \<and> Detail (pfacts s) = D" and run: "run_state (rangeDetail E) s = (ps, s')"
  obtain d w where d: "e_Range E D (world s) = (d, w)" by (rule prod.exhaust)
  have "mset d = mset D" by (rule rangeLawD(1) [OF assms(1) d])
  then have "mset (map snd d) = mset (map snd D)" by (metis mset_map)
  with P run d assms(2) show "(\<exists>os. trace s' = trace s @ os \<and> list_all \<Phi> os) \<and>
      (P s' \<and> Detail (pfacts s') = D) \<and> mset ps = mset (map snd D)"
    by (auto simp: rangeDetail_def localPred_world)
qed

lemma spec_bind_range:
  assumes "rangeLaw E" and "localPred P" and D: "\<And>s. P s \<Longrightarrow> Detail (pfacts s) = D"
    and f: "\<And>ps. set ps = snd ` set D \<Longrightarrow> spec P \<Phi> (f ps) Q"
  shows "spec P \<Phi> (rangeDetail E \<bind> f) Q"
proof (rule spec_bind)
  have sets: "set ps = snd ` set D" if "mset ps = mset (map snd D)" for ps :: "PodFact list"
    using mset_eq_setD [OF that] by simp
  show "spec P \<Phi> (rangeDetail E) (\<lambda>ps s. P s \<and> set ps = snd ` set D)"
    by (rule spec_weaken [OF spec_rangeDetail [OF assms(1,2), of D \<Phi>]]) (simp add: D, assumption, simp add: sets)
  show "spec (\<lambda>s. P s \<and> set ps = snd ` set D) \<Phi> (f ps) Q" for ps
    by (rule spec_pre_pure) (rule f)
qed

lemma spec_rangeDetail_inv [spec_rules]: "localPred P \<Longrightarrow> spec P \<Phi> (rangeDetail E) (\<lambda>_. P)"
  unfolding rangeDetail_def by (intro spec_rules)

lemma spec_Invalidate:
  "(\<And>s. P s \<Longrightarrow> P (s\<lparr>pfacts := (pfacts s)\<lparr>NeedCollection := True\<rparr>\<rparr>)) \<Longrightarrow> spec P \<Phi> Invalidate (\<lambda>_. P)"
  by (simp add: spec_def Invalidate_def setNeedCollection_def)

text \<open>Collecting the facts only runs commands that look.\<close>

definition probe :: "obs \<Rightarrow> bool" where
  "probe x \<longleftrightarrow> (\<exists>k nm cmd. x = ObsExec k nm cmd \<and>
     (k = VSQL \<and> (\<exists>o' q. cmd = [o', q] \<and> prefix ''select '' q)
      \<or> k = InPod \<and> (cmd \<noteq> [] \<and> hd cmd \<in> {''test'', ''cat'', ''ls''}
                      \<or> (\<exists>c. cmd = [''bash'', ''-c'', c] \<and> prefix ''ls -d '' c))))"

lemma spec_checks:
  assumes "fn \<in> set (podChecks E v)" and "localPred P"
  shows "spec P probe (fn pf) (\<lambda>_. P)"
proof -
  note L = assms(2)
  have 1: "spec P probe (checkIsInstalled E v pf) (\<lambda>_. P)"
    unfolding checkIsInstalled_def by (intro spec_rules L) (simp_all add: probe_def)
  have 2: "spec P probe (checkIsDBCreated E v pf) (\<lambda>_. P)"
    unfolding checkIsDBCreated_def by (intro spec_rules L) (simp_all add: probe_def)
  have 3: "spec P probe (checkIfNodeIsUp E pf) (\<lambda>_. P)" "spec P probe (queryNodeStatus E pf) (\<lambda>_. P)"
    unfolding checkIfNodeIsUp_def queryNodeStatus_def by (intro spec_rules L; simp add: probe_def)+
  have 4: "spec P probe (checkIfNodeIsUpAndReadOnly E v pf) (\<lambda>_. P)"
    unfolding checkIfNodeIsUpAndReadOnly_def by (intro spec_rules 3)
  have 5: "spec P probe (checkEulaAcceptance E v pf) (\<lambda>_. P)" "spec P probe (checkLogrotateExists E v pf) (\<lambda>_. P)"
    "spec P probe (checkIsLogrotateWritable E v pf) (\<lambda>_. P)" "spec P probe (checkThatConfigShareExists E v pf) (\<lambda>_. P)"
    unfolding checkEulaAcceptance_def checkLogrotateExists_def checkIsLogrotateWritable_def checkThatConfigShareExists_def
    by (intro spec_rules L; simp add: probe_def)+
  have 6: "spec P probe (checkShardSubscriptions E v pf) (\<lambda>_. P)"
    unfolding checkShardSubscriptions_def by (intro spec_rules L) (simp add: probe_def)
  from 1 2 4 5 6 assms(1) show ?thesis by (auto simp: podChecks_def)
qed

lemma spec_runChecks:
  "(\<And>fn pf. fn \<in> set fns \<Longrightarrow> spec P \<Phi> (fn pf) (\<lambda>_. P)) \<Longrightarrow> spec P \<Phi> (runChecks fns pf) (\<lambda>_. P)"
proof (induction fns arbitrary: pf)
  case (Cons fn fns)
  have fn: "spec P \<Phi> (fn q) (\<lambda>_. P)" for q using Cons.prems by simp
  have fns: "spec P \<Phi> (runChecks fns q) (\<lambda>_. P)" for q using Cons by simp
  show ?case unfolding runChecks.simps by (intro spec_rules fn fns)
qed (simp add: spec_rules)

lemma spec_FindSubclusters [spec_rules]: "localPred P \<Longrightarrow> spec P \<Phi> (FindSubclusters E m flags) (\<lambda>_. P)"
  unfolding FindSubclusters_def FindStatefulSets_def findObjs_def by (intro spec_rules)

lemma spec_FindObjs [spec_rules]:
  "localPred P \<Longrightarrow> spec P \<Phi> (FindStatefulSets E m flags) (\<lambda>_. P)"
  "localPred P \<Longrightarrow> spec P \<Phi> (FindPods E m flags) (\<lambda>_. P)"
  "localPred P \<Longrightarrow> spec P \<Phi> (FindServices E m flags) (\<lambda>_. P)"
  unfolding FindStatefulSets_def FindPods_def FindServices_def findObjs_def by (intro spec_rules; assumption)+

text \<open>A collection changes the facts and nothing else.\<close>

lemma spec_modify:
  "(\<And>s. P s \<Longrightarrow> P (f s)) \<Longrightarrow> (\<And>s. trace (f s) = trace s) \<Longrightarrow> spec P \<Phi> (modify_st f) (\<lambda>_. P)"
  by (simp add: spec_def)

lemma spec_collectPod [spec_rules]: "spec (\<lambda>s. vdb s = v') probe (collectPodByStsIndex E v sc sts i) (\<lambda>_ s. vdb s = v')"
  unfolding collectPodByStsIndex_def setDetail_def
  by (intro spec_rules spec_runChecks spec_checks spec_modify; simp)

lemma spec_collectSubcluster [spec_rules]: "spec (\<lambda>s. vdb s = v') probe (collectSubcluster E v sc) (\<lambda>_ s. vdb s = v')"
  unfolding collectSubcluster_def by (intro spec_rules; simp)

lemma spec_Collect: "spec (\<lambda>s. vdb s = v) probe (Collect E) (\<lambda>_ s. vdb s = v)"
  unfolding Collect_def clearDetail_def setNeedCollection_def
  by (intro spec_rules spec_modify; simp)

text \<open>Writing the status changes the operator's copy of the resource, and only the status is written.\<close>

definition statusWrite :: "obs \<Rightarrow> bool" where
  "statusWrite x \<longleftrightarrow> (\<exists>v. x = ObsUpdateStatus v)"

lemma spec_setVdb: "(\<And>s. P s \<Longrightarrow> P (s\<lparr>vdb := v\<rparr>)) \<Longrightarrow> spec P \<Phi> (setVdb v) (\<lambda>_. P)"
  by (simp add: spec_def)

lemma spec_vdbstatus_UpdateM:
  assumes "\<And>v. spec (\<lambda>s. pfacts s = F) statusWrite (f v) (\<lambda>_ s. pfacts s = F)"
  shows "spec (\<lambda>s. pfacts s = F) statusWrite (vdbstatus_Update E f) (\<lambda>_ s. pfacts s = F)"
  unfolding vdbstatus_Update_def Update_once_def
  by (intro spec_rules spec_setVdb assms; simp add: statusWrite_def)

lemma spec_vdbstatus_Update:
  "spec (\<lambda>s. pfacts s = F) statusWrite (vdbstatus_Update E (\<lambda>v. ret_op (f v))) (\<lambda>_ s. pfacts s = F)"
  by (intro spec_vdbstatus_UpdateM spec_ret_inv)

lemma spec_UpdateCondition: "spec (\<lambda>s. pfacts s = F) statusWrite (UpdateCondition E c) (\<lambda>_ s. pfacts s = F)"
  unfolding UpdateCondition_def by (intro spec_rules spec_vdbstatus_Update; simp)

lemma spec_any:
  assumes "\<And>x. spec (\<lambda>s. f s = x) \<Phi> m (\<lambda>_ s. f s = x)"
  shows "spec (\<lambda>_. True) \<Phi> m (\<lambda>_ _. True)"
  using assms unfolding spec_def by (fastforce split: prod.splits)

lemmas spec_Collect_any = spec_any [OF spec_Collect]
lemmas spec_UpdateCondition_any = spec_any [OF spec_UpdateCondition]
lemmas spec_vdbstatus_Update_any = spec_any [OF spec_vdbstatus_Update]

section \<open>Claims relative to the final state\<close>

text \<open>
  A reconciler first refreshes the resource and the facts and then acts on them. What it does is
  judged by the facts it ends with: the steps before the refresh satisfy the claim whatever the
  facts are.
\<close>

definition ends :: "('w st \<Rightarrow> obs \<Rightarrow> bool) \<Rightarrow> ('w, 'a) op \<Rightarrow> bool" where
  "ends \<Phi> m \<longleftrightarrow> (\<forall>s. case run_state m s of (a, s') \<Rightarrow> \<exists>os. trace s' = trace s @ os \<and> (\<forall>x \<in> set os. \<Phi> s' x))"

named_theorems ends_rules \<open>rules for claims relative to the final state\<close>

lemma endsD:
  "ends \<Phi> m \<Longrightarrow> run_state m s = (a, s') \<Longrightarrow> \<exists>os. trace s' = trace s @ os \<and> (\<forall>x \<in> set os. \<Phi> s' x)"
  unfolding ends_def by (auto split: prod.splits)

lemma ends_ret [ends_rules]: "ends \<Phi> (ret_op a)"
  by (simp add: ends_def)

lemma ends_if [ends_rules]: "(b \<Longrightarrow> ends \<Phi> m) \<Longrightarrow> (\<not> b \<Longrightarrow> ends \<Phi> n) \<Longrightarrow> ends \<Phi> (if b then m else n)"
  by simp

lemma ends_option [ends_rules]:
  "(x = None \<Longrightarrow> ends \<Phi> m) \<Longrightarrow> (\<And>y. x = Some y \<Longrightarrow> ends \<Phi> (f y)) \<Longrightarrow> ends \<Phi> (case x of None \<Rightarrow> m | Some y \<Rightarrow> f y)"
  by (cases x) auto

lemma ends_sum [ends_rules]:
  "(\<And>e. x = Inl e \<Longrightarrow> ends \<Phi> (f e)) \<Longrightarrow> (\<And>y. x = Inr y \<Longrightarrow> ends \<Phi> (g y)) \<Longrightarrow> ends \<Phi> (case x of Inl e \<Rightarrow> f e | Inr y \<Rightarrow> g y)"
  by (cases x) auto

lemma ends_prod [ends_rules]: "(\<And>a b. x = (a, b) \<Longrightarrow> ends \<Phi> (f a b)) \<Longrightarrow> ends \<Phi> (case x of (a, b) \<Rightarrow> f a b)"
  by (cases x) auto

lemma ends_let [ends_rules]: "ends \<Phi> (f x) \<Longrightarrow> ends \<Phi> (let y = x in f y)"
  by simp

lemma ends_gets [ends_rules]: "(\<And>a. ends \<Phi> (f a)) \<Longrightarrow> ends \<Phi> (gets_st g \<bind> f)"
  by (simp add: ends_def)

lemma ends_prefix:
  assumes n: "spec (\<lambda>_. True) pre n (\<lambda>_ _. True)" and pre: "\<And>s x. pre x \<Longrightarrow> \<Phi> s x" and k: "\<And>a. ends \<Phi> (k a)"
  shows "ends \<Phi> (n \<bind> k)"
  unfolding ends_def
proof
  fix t
  obtain a t1 where a: "run_state n t = (a, t1)" by (rule prod.exhaust)
  obtain b t2 where b: "run_state (k a) t1 = (b, t2)" by (rule prod.exhaust)
  from specD [OF n _ a] obtain o1 where o1: "trace t1 = trace t @ o1" "list_all pre o1" by auto
  from endsD [OF k b] obtain o2 where "trace t2 = trace t1 @ o2" "\<forall>x \<in> set o2. \<Phi> t2 x" by auto
  with o1 a b show "case run_state (n \<bind> k) t of (a, s') \<Rightarrow> \<exists>os. trace s' = trace t @ os \<and> (\<forall>x \<in> set os. \<Phi> s' x)"
    by (auto simp: list_all_iff pre intro!: exI [of _ "o1 @ o2"])
qed

lemma ends_spec:
  assumes "\<And>t. spec (\<lambda>s. s = t) (\<Psi> t) m (\<lambda>_ s'. \<forall>x. \<Psi> t x \<longrightarrow> \<Phi> s' x)"
  shows "ends \<Phi> m"
  unfolding ends_def
proof
  fix t
  show "case run_state m t of (a, s') \<Rightarrow> \<exists>os. trace s' = trace t @ os \<and> (\<forall>x \<in> set os. \<Phi> s' x)"
    using assms [of t] unfolding spec_def by (fastforce simp: list_all_iff split: prod.splits)
qed

end
