(* ===== verification/AtOps.thy ===== *)
theory AtOps
  imports Trace
begin

text \<open>
  Helpers the reconcilers share (files paths.go and at.go of pkg/controllers/vdb): cleaning up
  local files, dumping admintools.conf for the log, the owner of the depot, and copying
  admintools.conf to every running pod, starting with the base pod.
\<close>

section \<open>Local paths\<close>

definition ctrl_requeue :: "bool \<Rightarrow> ret" where
  "ctrl_requeue b = (if b then RequeueNow else Done)"

definition zeroNamespacedName :: NamespacedName where
  "zeroNamespacedName = \<lparr>nn_Namespace = [], nn_Name = []\<rparr>"

definition cleanupLocalFiles :: "'w env \<Rightarrow> VerticaDB \<Rightarrow> NamespacedName \<Rightarrow> ('w, goerr option) op" where
  "cleanupLocalFiles E v podName =
     forErr [GetDBDataPath v, GetDepotPath v] (\<lambda>path. do {
       (stdout, stderr, err) \<leftarrow> ExecInPod E podName [''rm'', ''-r'', path];
       case err of
         None \<Rightarrow> ret_op None
       | Some e \<Rightarrow> if strings_Contains stderr ''No such file or directory'' then ret_op None else ret_op (Some e)
     })"

definition dumpCmd :: "string list" where
  "dumpCmd = [''bash'', ''-c'',
     ''ls -l '' @ AdminToolsConf @ '' && grep '' @ [CHR 0x27] @ ''^node'' @ [CHR 0x5C] @ ''|^v_'' @ [CHR 0x5C] @ ''|^host''
       @ [CHR 0x27] @ '' '' @ AdminToolsConf]"

definition debugDumpAdmintoolsConf :: "'w env \<Rightarrow> NamespacedName \<Rightarrow> ('w, unit) op" where
  "debugDumpAdmintoolsConf E atPod = do { ExecInPod E atPod dumpCmd; ret_op () }"

fun debugDumpAdmintoolsConfForPods :: "'w env \<Rightarrow> PodFact list \<Rightarrow> ('w, unit) op" where
  "debugDumpAdmintoolsConfForPods E [] = ret_op ()"
| "debugDumpAdmintoolsConfForPods E (pod # pods) = do {
     debugDumpAdmintoolsConf E (pf_name pod);
     debugDumpAdmintoolsConfForPods E pods
   }"

definition changeDepotPermissions :: "'w env \<Rightarrow> VerticaDB \<Rightarrow> PodFact list \<Rightarrow> ('w, goerr option) op" where
  "changeDepotPermissions E v podList =
     forErr podList (\<lambda>pod. do {
       (stdout, stderr, err) \<leftarrow> ExecInPod E (pf_name pod) [''sudo'', ''chown'', ''dbadmin:verticadba'', ''-R'',
          LocalDataPath @ ''/'' @ GetPVSubPath v ''depot''];
       ret_op err
     })"

section \<open>Distributing admintools.conf\<close>

text \<open>
  A file of the operator is represented by its contents. Looking up a pod that has no facts gives a
  nil pointer, and reading a field of it panics: \<^const>\<open>None\<close>.
\<close>

definition CopyToPod :: "'w env \<Rightarrow> NamespacedName \<Rightarrow> string \<Rightarrow> string \<Rightarrow> ('w, exec_reply) op" where
  "CopyToPod E podName contents destFile = do {
     emit (ObsCopy podName contents destFile);
     ask (e_Copy E podName contents destFile)
   }"

fun firstPodWith :: "VerticaDB \<Rightarrow> PodFactDetail \<Rightarrow> (PodFact \<Rightarrow> bool) \<Rightarrow> Subcluster list \<Rightarrow> (goerr + NamespacedName) option" where
  "firstPodWith v d P [] = Some (Inl (OtherErr (''couldn'' @ [CHR 0x27] @ ''t find a suitable pod to install from'')))"
| "firstPodWith v d P (sc # scs) =
     (case map_of d (GenPodName v sc 0) of
        None \<Rightarrow> None
      | Some pf \<Rightarrow> if P pf then Some (Inr (GenPodName v sc 0)) else firstPodWith v d P scs)"

definition findATBasePod :: "VerticaDB \<Rightarrow> PodFactDetail \<Rightarrow> (goerr + NamespacedName) option" where
  "findATBasePod v d = firstPodWith v d pf_isInstalled (vdb_Subclusters v)"

definition findPodForFirstCopy :: "VerticaDB \<Rightarrow> PodFactDetail \<Rightarrow> (goerr + NamespacedName) option" where
  "findPodForFirstCopy v d =
     (case findATBasePod v d of
        None \<Rightarrow> None
      | Some base \<Rightarrow>
          let basePod = (case base of Inl e \<Rightarrow> zeroNamespacedName | Inr pn \<Rightarrow> pn)
          in if basePod \<noteq> zeroNamespacedName then Some (Inr basePod)
             else firstPodWith v d pf_isPodRunning (vdb_Subclusters v))"

text \<open>The loop over the other pods keeps going after an error and collects the errors.\<close>

fun copyToOthers :: "'w env \<Rightarrow> NamespacedName \<Rightarrow> string \<Rightarrow> PodFact list \<Rightarrow> ('w, goerr list) op" where
  "copyToOthers E basePod contents [] = ret_op []"
| "copyToOthers E basePod contents (p # ps) =
     (if \<not> pf_isPodRunning p then copyToOthers E basePod contents ps
      else if pf_name p = basePod then copyToOthers E basePod contents ps
      else do {
        (stdout, stderr, e) \<leftarrow> CopyToPod E (pf_name p) contents AdminToolsConf;
        errs \<leftarrow> copyToOthers E basePod contents ps;
        ret_op (case e of None \<Rightarrow> errs | Some e \<Rightarrow> e # errs)
      })"

definition distributeAdmintoolsConf :: "'w env \<Rightarrow> string \<Rightarrow> ('w, goerr option option) op" where
  "distributeAdmintoolsConf E contents = do {
     v \<leftarrow> gets_st vdb;
     d \<leftarrow> gets_st (\<lambda>s. Detail (pfacts s));
     case findPodForFirstCopy v d of
       None \<Rightarrow> ret_op None
     | Some (Inl e) \<Rightarrow> ret_op (Some (Some e))
     | Some (Inr basePod) \<Rightarrow> do {
         (stdout, stderr, err) \<leftarrow> CopyToPod E basePod contents AdminToolsConf;
         case err of
           Some e \<Rightarrow> ret_op (Some (Some e))
         | None \<Rightarrow> do {
             ps \<leftarrow> rangeDetail E;
             errs \<leftarrow> copyToOthers E basePod contents ps;
             case errs of
               [] \<Rightarrow> ret_op (Some None)
             | e # _ \<Rightarrow> do {
                 Eventf EventTypeWarning ''ATConfPartiallyCopied'';
                 ret_op (Some (Some e))
               }
           }
       }
   }"

section \<open>Lemmas\<close>

lemma ctrl_requeue_simps [simp]:
  "ctrl_requeue True = RequeueNow" "ctrl_requeue False = Done" "IsReconcileAborted (ctrl_requeue b) \<longleftrightarrow> b"
  by (simp_all add: ctrl_requeue_def)

lemma spec_debugDump [spec_rules]:
  "localPred P \<Longrightarrow> \<Phi> (ObsExec InPod atPod dumpCmd) \<Longrightarrow> spec P \<Phi> (debugDumpAdmintoolsConf E atPod) (\<lambda>_. P)"
  unfolding debugDumpAdmintoolsConf_def by (intro spec_rules)

lemma spec_debugDumpForPods [spec_rules]:
  "localPred P \<Longrightarrow> (\<And>p. \<Phi> (ObsExec InPod p dumpCmd)) \<Longrightarrow> spec P \<Phi> (debugDumpAdmintoolsConfForPods E pods) (\<lambda>_. P)"
  by (induction pods) (auto intro!: spec_rules)

lemma spec_CopyToPod [spec_rules]:
  "localPred P \<Longrightarrow> \<Phi> (ObsCopy podName contents destFile) \<Longrightarrow> spec P \<Phi> (CopyToPod E podName contents destFile) (\<lambda>_. P)"
  unfolding CopyToPod_def by (intro spec_rules)

lemma spec_copyToOthers [spec_rules]:
  "localPred P \<Longrightarrow> (\<And>p. \<Phi> (ObsCopy p contents AdminToolsConf)) \<Longrightarrow> spec P \<Phi> (copyToOthers E basePod contents ps) (\<lambda>_. P)"
  by (induction ps) (auto intro!: spec_rules)

lemma spec_list [spec_rules]:
  "(xs = [] \<Longrightarrow> spec P \<Phi> m Q) \<Longrightarrow> (\<And>y ys. xs = y # ys \<Longrightarrow> spec P \<Phi> (f y ys) Q)
     \<Longrightarrow> spec P \<Phi> (case xs of [] \<Rightarrow> m | y # ys \<Rightarrow> f y ys) Q"
  by (cases xs) simp_all

lemma spec_distribute [spec_rules]:
  "localPred P \<Longrightarrow> (\<And>p. \<Phi> (ObsCopy p contents AdminToolsConf)) \<Longrightarrow> \<Phi> (ObsEvent EventTypeWarning ''ATConfPartiallyCopied'')
     \<Longrightarrow> spec P \<Phi> (distributeAdmintoolsConf E contents) (\<lambda>_. P)"
  unfolding distributeAdmintoolsConf_def by (intro spec_rules)

lemma GenPodName_nonzero [simp]: "GenPodName v sc i \<noteq> zeroNamespacedName"
  by (simp add: GenPodName_def GenNamespacedName_def zeroNamespacedName_def)

lemma firstPodWith_Inr:
  "firstPodWith v d P scs = Some (Inr pn) \<Longrightarrow> \<exists>sc \<in> set scs. pn = GenPodName v sc 0 \<and> (\<exists>pf. map_of d pn = Some pf \<and> P pf)"
  by (induction scs) (auto split: option.splits if_splits)

lemma findPodForFirstCopy_Inr:
  assumes "findPodForFirstCopy v d = Some (Inr pn)"
  shows "\<exists>pf. map_of d pn = Some pf \<and> (pf_isInstalled pf \<or> pf_isPodRunning pf)"
proof (cases "\<exists>b. findATBasePod v d = Some (Inr b) \<and> b \<noteq> zeroNamespacedName")
  case True
  with assms have "firstPodWith v d pf_isInstalled (vdb_Subclusters v) = Some (Inr pn)"
    by (auto simp: findPodForFirstCopy_def findATBasePod_def)
  then show ?thesis using firstPodWith_Inr by blast
next
  case False
  with assms have "firstPodWith v d pf_isPodRunning (vdb_Subclusters v) = Some (Inr pn)"
    by (auto simp: findPodForFirstCopy_def Let_def split: option.splits sum.splits if_splits)
  then show ?thesis using firstPodWith_Inr by blast
qed

lemma run_copyToOthers:
  "run_state (copyToOthers E b c ps) s = (errs, s') \<Longrightarrow>
     trace s' = trace s @ map (\<lambda>p. ObsCopy (pf_name p) c AdminToolsConf)
       (filter (\<lambda>p. pf_isPodRunning p \<and> pf_name p \<noteq> b) ps)
     \<and> pfacts s' = pfacts s \<and> vdb s' = vdb s"
proof (induction ps arbitrary: s s' errs)
  case (Cons p ps)
  show ?case
  proof (cases "pf_isPodRunning p \<and> pf_name p \<noteq> b")
    case True
    obtain rep w where rep: "e_Copy E (pf_name p) c AdminToolsConf (world s) = (rep, w)" by (rule prod.exhaust)
    obtain o1 o2 e where "rep = (o1, o2, e)" by (rule prod_cases3)
    with rep have ex: "e_Copy E (pf_name p) c AdminToolsConf (world s) = ((o1, o2, e), w)" by simp
    obtain errs2 s2 where r2: "run_state (copyToOthers E b c ps)
        (s\<lparr>trace := trace s @ [ObsCopy (pf_name p) c AdminToolsConf], world := w\<rparr>) = (errs2, s2)"
      by (rule prod.exhaust)
    have "s' = s2" using Cons.prems True ex r2 by (simp add: CopyToPod_def)
    then show ?thesis using Cons.IH [OF r2] True by simp
  next
    case False
    then show ?thesis using Cons by (auto split: if_splits)
  qed
qed simp


text \<open>An example with two pods of the first subcluster, both running and installed, the second one down.\<close>

definition exampleFact :: "int \<Rightarrow> PodFact" where
  "exampleFact i = zeroPodFact\<lparr>pf_name := GenPodName MakeVDB (hd (vdb_Subclusters MakeVDB)) i, pf_podIndex := i,
     pf_subcluster := sc_Name (hd (vdb_Subclusters MakeVDB)), pf_isPrimary := True, pf_exists := True,
     pf_isPodRunning := True, pf_isInstalled := True, pf_dbExists := True, pf_upNode := (i = 0),
     pf_managedByParent := True, pf_hasDCTableAnnotations := True, pf_podIP := ''10.0.0.'' @ strconv_Itoa i,
     pf_vnodeName := ''v_vertdb_node000'' @ strconv_Itoa (i + 1), pf_compat21NodeName := ''node000'' @ strconv_Itoa (i + 1)\<rparr>"

definition examplePods :: "VerticaDB st" where
  "examplePods = exampleState\<lparr>pfacts := \<lparr>Detail = [(pf_name (exampleFact 0), exampleFact 0), (pf_name (exampleFact 1), exampleFact 1)],
     NeedCollection = False\<rparr>\<rparr>"

lemma exampleFact_fields [simp]:
  "pf_name (exampleFact i) = GenPodName MakeVDB (hd (vdb_Subclusters MakeVDB)) i" "pf_isPodRunning (exampleFact i)"
  "pf_isInstalled (exampleFact i)" "pf_dbExists (exampleFact i)" "pf_upNode (exampleFact i) \<longleftrightarrow> i = 0"
  "\<not> pf_readOnly (exampleFact i)" "pf_exists (exampleFact i)" "pf_hasDCTableAnnotations (exampleFact i)"
  "pf_managedByParent (exampleFact i)" "\<not> pf_isTransient (exampleFact i)" "pf_podIP (exampleFact i) = ''10.0.0.'' @ strconv_Itoa i"
  "pf_vnodeName (exampleFact i) = ''v_vertdb_node000'' @ strconv_Itoa (i + 1)"
  "pf_compat21NodeName (exampleFact i) = ''node000'' @ strconv_Itoa (i + 1)"
  by (simp_all add: exampleFact_def zeroPodFact_def)

lemma examplePods_fields [simp]:
  "vdb examplePods = MakeVDB" "trace examplePods = []" "world examplePods = MakeVDB"
  "Detail (pfacts examplePods) = [(pf_name (exampleFact 0), exampleFact 0), (pf_name (exampleFact 1), exampleFact 1)]"
  "\<not> NeedCollection (pfacts examplePods)"
  by (simp_all add: examplePods_def exampleState_def)


end
