(* ===== verification/Restart.thy ===== *)
theory Restart
  imports AtOps
begin

text \<open>
  Restarting Vertica (pkg/controllers/vdb/restart_reconcile.go). When no node is up and writable the
  whole cluster is restarted: left-over processes are killed, changed IP addresses are given to
  admintools with re_ip, and start_db starts the database. Otherwise only the nodes that are down
  are restarted. The reconciler's field for the pod that runs admintools is threaded through as an
  argument.
\<close>

section \<open>The reconciler\<close>

definition RequeueWaitTimeInSeconds :: int where
  "RequeueWaitTimeInSeconds = 10"
definition AdminToolsMapFile :: string where
  "AdminToolsMapFile = ''/opt/vertica/config/ipMap.txt''"
definition StateUp :: string where
  "StateUp = ''UP''"

type_synonym verticaIPLookup = "string \<rightharpoonup> string"

definition parseNodeStatusLine :: "label_map \<Rightarrow> string \<Rightarrow> label_map" where
  "parseNodeStatusLine stateMap line =
     (case strings_Split line (CHR ''|'') of
        c0 # c1 # c2 # c3 # _ \<Rightarrow> stateMap(strings_Trim c0 (CHR '' '') \<mapsto> strings_Trim c2 (CHR '' ''))
      | _ \<Rightarrow> stateMap)"

definition parseClusterNodeStatus :: "string \<Rightarrow> label_map" where
  "parseClusterNodeStatus stdout =
     (let lines = strings_Split stdout newline
      in if length lines \<le> 2 then Map.empty
         else foldl parseNodeStatusLine Map.empty (drop 2 lines))"

definition fetchClusterNodeStatus :: "'w env \<Rightarrow> NamespacedName \<Rightarrow> ('w, goerr + label_map) op" where
  "fetchClusterNodeStatus E atPod = do {
     (stdout, stderr, err) \<leftarrow> ExecAdmintools E atPod [''-t'', ''list_allnodes''];
     case err of
       Some e \<Rightarrow> ret_op (Inl e)
     | None \<Rightarrow> ret_op (Inr (parseClusterNodeStatus stdout))
   }"

text \<open>
  The loop that compacts the slice in place: it reads position \<open>k\<close> of the slice it also writes,
  at position \<open>i\<close>.
\<close>

fun compactLoop :: "label_map \<Rightarrow> PodFact list \<Rightarrow> nat \<Rightarrow> nat list \<Rightarrow> PodFact list \<times> nat" where
  "compactLoop clusterState pods i [] = (pods, i)"
| "compactLoop clusterState pods i (k # ks) =
     (let pod = pods ! k in
      if clusterState (pf_vnodeName pod) = None \<or> clusterState (pf_vnodeName pod) \<noteq> Some StateUp
      then compactLoop clusterState (pods[i := pod]) (i + 1) ks
      else compactLoop clusterState pods i ks)"

definition dropUpPods :: "label_map \<Rightarrow> PodFact list \<Rightarrow> PodFact list" where
  "dropUpPods clusterState pods =
     (let (pods', i) = compactLoop clusterState pods 0 [0..<length pods] in take i pods')"

definition removePodsWithClusterUpState :: "'w env \<Rightarrow> NamespacedName \<Rightarrow> PodFact list \<Rightarrow> ('w, goerr + PodFact list) op" where
  "removePodsWithClusterUpState E atPod pods = do {
     r \<leftarrow> fetchClusterNodeStatus E atPod;
     case r of
       Inl e \<Rightarrow> ret_op (Inl e)
     | Inr clusterState \<Rightarrow> ret_op (Inr (dropUpPods clusterState pods))
   }"

definition KillMarker :: string where
  "KillMarker = ''Killing process''"

definition killCmd :: "string list" where
  "killCmd = [''bash'', ''-c'', ''for pid in $(pgrep ^vertica$); do echo '' @ [CHR 0x22] @ KillMarker @ '' $pid'' @ [CHR 0x22]
     @ ''; kill -n SIGKILL $pid; done'']"

fun killLoop :: "'w env \<Rightarrow> PodFact list \<Rightarrow> bool \<Rightarrow> ('w, ret) op" where
  "killLoop E [] killedAtLeastOnePid = ret_op (ctrl_requeue killedAtLeastOnePid)"
| "killLoop E (pod # pods) killedAtLeastOnePid = do {
     (stdout, stderr, err) \<leftarrow> ExecInPod E (pf_name pod) killCmd;
     case err of
       Some e \<Rightarrow> ret_op (Fail e)
     | None \<Rightarrow> killLoop E pods (killedAtLeastOnePid \<or> strings_Contains stdout KillMarker)
   }"

definition killOldProcesses :: "'w env \<Rightarrow> PodFact list \<Rightarrow> ('w, ret) op" where
  "killOldProcesses E pods = killLoop E pods False"

definition genRestartVNodeList :: "PodFact list \<Rightarrow> string list" where
  "genRestartVNodeList downPods = map pf_vnodeName downPods"

definition genRestartIPList :: "PodFact list \<Rightarrow> string list" where
  "genRestartIPList downPods = map pf_podIP downPods"

definition genRestartNodeCmd :: "VerticaDB \<Rightarrow> string list \<Rightarrow> string list \<Rightarrow> string list" where
  "genRestartNodeCmd v vnodeList ipList =
     [''-t'', ''restart_node'', ''--database='' @ spec_DBName (vdb_Spec v),
      ''--hosts='' @ strings_Join vnodeList '','', ''--new-host-ips='' @ strings_Join ipList '','', ''--noprompt'']
     @ (if spec_RestartTimeout (vdb_Spec v) \<noteq> 0 then [''--timeout='' @ strconv_Itoa (spec_RestartTimeout (vdb_Spec v))] else [])"

definition execRestartPods :: "'w env \<Rightarrow> NamespacedName \<Rightarrow> PodFact list \<Rightarrow> string list \<Rightarrow> ('w, string \<times> goerr option) op" where
  "execRestartPods E atPod downPods cmd = do {
     Eventf EventTypeNormal ''NodeRestartStarted'';
     v \<leftarrow> gets_st vdb;
     let labels = MakeVDBLabels v;
     (stdout, stderr, err) \<leftarrow> ExecAdmintools E atPod cmd;
     metric_do NodesRestartDuration MetricObserve labels;
     metric_do NodesRestartAttempt MetricInc labels;
     case err of
       Some e \<Rightarrow> do {
         Eventf EventTypeWarning ''NodeRestartFailed'';
         metric_do NodesRestartFailed MetricInc labels;
         ret_op (stdout, Some e)
       }
     | None \<Rightarrow> do { Eventf EventTypeNormal ''NodeRestartSucceeded''; ret_op (stdout, None) }
   }"

definition restartPods :: "'w env \<Rightarrow> NamespacedName \<Rightarrow> PodFact list \<Rightarrow> ('w, ret) op" where
  "restartPods E atPod pods = do {
     r \<leftarrow> removePodsWithClusterUpState E atPod pods;
     case r of
       Inl e \<Rightarrow> ret_op (Fail e)
     | Inr downPods \<Rightarrow>
         if downPods = [] then ret_op RequeueNow
         else do {
           res \<leftarrow> killOldProcesses E downPods;
           if IsReconcileAborted res then ret_op res
           else do {
             debugDumpAdmintoolsConf E atPod;
             v \<leftarrow> gets_st vdb;
             (stdout, err) \<leftarrow> execRestartPods E atPod downPods
                (genRestartNodeCmd v (genRestartVNodeList downPods) (genRestartIPList downPods));
             case err of
               Some e \<Rightarrow>
                 if strings_Contains stdout (''All nodes in the input are not down, can'' @ [CHR 0x27] @ ''t restart'')
                 then ret_op (RequeueIn (wrap64 (time_Second * RequeueWaitTimeInSeconds)))
                 else ret_op (Fail (WrapErr ''failed to restart pod(s)'' e))
             | None \<Rightarrow> do {
                 debugDumpAdmintoolsConf E atPod;
                 Invalidate;
                 ret_op (ctrl_requeue (length pods > length downPods))
               }
           }
         }
   }"

section \<open>Re-IP\<close>

definition isIPChar :: "char \<Rightarrow> bool" where
  "isIPChar c \<longleftrightarrow> isDigit c \<or> c = CHR ''.'' \<or> c = CHR '':'' \<or> isHexLetter c"

definition nodeLineRe :: re where
  "nodeLineRe = re_seq [Cap (re_seq [Lit ''node'', Rep isDigit 4 (Some 4)]), Lit '' = '', Cap (Rep isIPChar 1 None), Lit '','']"

definition parseNodeLine :: "verticaIPLookup \<Rightarrow> string \<Rightarrow> verticaIPLookup" where
  "parseNodeLine ips line =
     (case re_matchAt nodeLineRe line of
        Some (_, node # ip # _) \<Rightarrow> ips(node \<mapsto> ip)
      | _ \<Rightarrow> ips)"

definition parseNodesFromAdmintoolConf :: "string \<Rightarrow> verticaIPLookup" where
  "parseNodesFromAdmintoolConf nodeText = foldl parseNodeLine Map.empty (strings_Split nodeText newline)"

definition genGrepNodeCmd :: "string list" where
  "genGrepNodeCmd = [''bash'', ''-c'', ''grep --regexp='' @ quoted ''^node[0-9]'' @ '' '' @ AdminToolsConf]"

definition fetchOldIPsFromNode :: "'w env \<Rightarrow> NamespacedName \<Rightarrow> ('w, goerr + verticaIPLookup) op" where
  "fetchOldIPsFromNode E atPod = do {
     (stdout, stderr, err) \<leftarrow> ExecInPod E atPod genGrepNodeCmd;
     case err of
       Some e \<Rightarrow> ret_op (Inl e)
     | None \<Rightarrow> ret_op (Inr (parseNodesFromAdmintoolConf stdout))
   }"

fun genMapFile_loop :: "verticaIPLookup \<Rightarrow> PodFact list \<Rightarrow> string list \<Rightarrow> bool \<Rightarrow> string list \<times> bool \<times> bool" where
  "genMapFile_loop oldIPs [] mapContents ipChanging = (mapContents, ipChanging, True)"
| "genMapFile_loop oldIPs (pod # pods) mapContents ipChanging =
     (if \<not> pf_isPodRunning pod then (mapContents, ipChanging, False)
      else case oldIPs (pf_compat21NodeName pod) of
             None \<Rightarrow> genMapFile_loop oldIPs pods mapContents ipChanging
           | Some oldIP \<Rightarrow>
               genMapFile_loop oldIPs pods (mapContents @ [oldIP @ '' '' @ pf_podIP pod]) (ipChanging \<or> oldIP \<noteq> pf_podIP pod))"

definition genMapFile :: "verticaIPLookup \<Rightarrow> PodFact list \<Rightarrow> string list \<times> bool \<times> bool" where
  "genMapFile oldIPs pods = (if pods = [] then ([], False, False) else genMapFile_loop oldIPs pods [] False)"

definition genMapFileUploadCmd :: "string list \<Rightarrow> string list" where
  "genMapFileUploadCmd mapFileContents =
     [''bash'', ''-c'', ''cat > '' @ AdminToolsMapFile @ ''<<< '' @ quoted (strings_Join mapFileContents [newline])]"

definition versionAtLeast :: "VerticaDB \<Rightarrow> string \<Rightarrow> bool" where
  "versionAtLeast v ver \<longleftrightarrow> (case MakeInfoFromVdb v of None \<Rightarrow> False | Some vinf \<Rightarrow> IsEqualOrNewer vinf ver = Some True)"

definition genReIPCommand :: "VerticaDB \<Rightarrow> string list" where
  "genReIPCommand v =
     [''-t'', ''re_ip'', ''--file='' @ AdminToolsMapFile, ''--noprompt'']
     @ (if versionAtLeast v ReIPAllowedWithUpNodesVersion then [''--force''] else [])"

definition reipNodes :: "'w env \<Rightarrow> NamespacedName \<Rightarrow> PodFact list \<Rightarrow> ('w, ret) op" where
  "reipNodes E atPod pods = do {
     r \<leftarrow> fetchOldIPsFromNode E atPod;
     case r of
       Inl e \<Rightarrow> ret_op (Fail e)
     | Inr oldIPs \<Rightarrow>
         let (mapFileContents, ipChanging, ok) = genMapFile oldIPs pods in
         if \<not> ok then ret_op RequeueNow
         else if \<not> ipChanging then ret_op Done
         else do {
           (stdout, stderr, err) \<leftarrow> ExecInPod E atPod (genMapFileUploadCmd mapFileContents);
           case err of
             Some e \<Rightarrow> ret_op (Fail e)
           | None \<Rightarrow> do {
               debugDumpAdmintoolsConf E atPod;
               v \<leftarrow> gets_st vdb;
               (stdout, stderr, err) \<leftarrow> ExecAdmintools E atPod (genReIPCommand v);
               case err of
                 Some e \<Rightarrow> do { Eventf EventTypeWarning ''ReipFailed''; ret_op (Fail e) }
               | None \<Rightarrow> do { debugDumpAdmintoolsConf E atPod; ret_op Done }
             }
         }
   }"

section \<open>Restarting the cluster\<close>

definition genStartDBCommand :: "VerticaDB \<Rightarrow> PodFact list \<Rightarrow> string list" where
  "genStartDBCommand v downPods =
     [''-t'', ''start_db'', ''--database='' @ spec_DBName (vdb_Spec v), ''--noprompt'']
     @ (if spec_IgnoreClusterLease (vdb_Spec v) then [''--ignore-cluster-lease''] else [])
     @ (if spec_RestartTimeout (vdb_Spec v) \<noteq> 0 then [''--timeout='' @ strconv_Itoa (spec_RestartTimeout (vdb_Spec v))] else [])
     @ (if versionAtLeast v StartDBAcceptsHostListVersion
        then [''--hosts'', strings_Join (map pf_podIP downPods) '',''] else [])"

definition restartCluster :: "'w env \<Rightarrow> NamespacedName \<Rightarrow> PodFact list \<Rightarrow> ('w, ret) op" where
  "restartCluster E atPod downPods = do {
     v \<leftarrow> gets_st vdb;
     Eventf EventTypeNormal ''ClusterRestartStarted'';
     let labels = MakeVDBLabels v;
     (stdout, stderr, err) \<leftarrow> ExecAdmintools E atPod (genStartDBCommand v downPods);
     metric_do ClusterRestartDuration MetricObserve labels;
     metric_do ClusterRestartAttempt MetricInc labels;
     case err of
       Some e \<Rightarrow> do {
         Eventf EventTypeWarning ''ClusterRestartFailed'';
         metric_do ClusterRestartFailure MetricInc labels;
         ret_op (Fail e)
       }
     | None \<Rightarrow> do { Eventf EventTypeNormal ''ClusterRestartSucceeded''; ret_op Done }
   }"

text \<open>
  The pod to run admintools from is looked up only when none is set. Each of the three loops of the
  search for any pod visits the facts in an order of its own.
\<close>

definition findAny :: "'w env \<Rightarrow> ('w, PodFact option) op" where
  "findAny E = do {
     ps1 \<leftarrow> rangeDetail E;
     ps2 \<leftarrow> rangeDetail E;
     ps3 \<leftarrow> rangeDetail E;
     ret_op (findPodToRunAdmintoolsAny ps1 ps2 ps3)
   }"

definition findOffline :: "'w env \<Rightarrow> ('w, PodFact option) op" where
  "findOffline E = do { ps \<leftarrow> rangeDetail E; ret_op (findPodToRunAdmintoolsOffline ps) }"

definition setATPod :: "NamespacedName \<Rightarrow> ('w, PodFact option) op \<Rightarrow> ('w, NamespacedName option) op" where
  "setATPod atPod findFunc =
     (if atPod = zeroNamespacedName
      then do { pf \<leftarrow> findFunc; ret_op (map_option pf_name pf) }
      else ret_op (Some atPod))"

definition shouldRequeueIfPodsNotRunning :: "'w env \<Rightarrow> ('w, bool) op" where
  "shouldRequeueIfPodsNotRunning E = do {
     ps \<leftarrow> rangeDetail E;
     ret_op (countInstalledAndNotRestartable ps > 0)
   }"

text \<open>From the choice of the admintools pod on.\<close>

definition startCluster :: "'w env \<Rightarrow> bool \<Rightarrow> NamespacedName \<Rightarrow> ('w, ret) op" where
  "startCluster E restartReadOnly atPod = do {
     ps \<leftarrow> rangeDetail E;
     let downPods = findRestartablePods ps restartReadOnly True;
     res \<leftarrow> killOldProcesses E downPods;
     if IsReconcileAborted res then ret_op res
     else do {
       ps \<leftarrow> rangeDetail E;
       res \<leftarrow> reipNodes E atPod (findReIPPods ps False);
       if IsReconcileAborted res then ret_op res
       else do {
         ps \<leftarrow> rangeDetail E;
         if \<not> doesDBExist ps then ret_op Done
         else do {
           res \<leftarrow> restartCluster E atPod downPods;
           if IsReconcileAborted res then ret_op res
           else do { Invalidate; ret_op Done }
         }
       }
     }
   }"

definition reconcileCluster :: "'w env \<Rightarrow> bool \<Rightarrow> ('w, ret) op" where
  "reconcileCluster E restartReadOnly = do {
     ps \<leftarrow> rangeDetail E;
     if areAllPodsRunningAndZeroInstalled ps then ret_op Done
     else do {
       ps \<leftarrow> rangeDetail E;
       if countRunningAndInstalled ps = 0 then ret_op RequeueNow
       else do {
         v \<leftarrow> gets_st vdb;
         ps \<leftarrow> rangeDetail E;
         if spec_KSafety (vdb_Spec v) = KSafety0 \<and> countInstalledAndNotRestartable ps > 0 then ret_op RequeueNow
         else do {
           r \<leftarrow> setATPod zeroNamespacedName (findOffline E);
           case r of
             None \<Rightarrow> ret_op RequeueNow
           | Some atPod \<Rightarrow> startCluster E restartReadOnly atPod
         }
       }
     }
   }"

section \<open>Restarting nodes\<close>

definition restartDownNodes :: "'w env \<Rightarrow> bool \<Rightarrow> ('w, ret \<times> NamespacedName) op" where
  "restartDownNodes E restartReadOnly = do {
     ps \<leftarrow> rangeDetail E;
     let downPods = findRestartablePods ps restartReadOnly False;
     if downPods = [] then ret_op (Done, zeroNamespacedName)
     else do {
       r \<leftarrow> setATPod zeroNamespacedName (findAny E);
       case r of
         None \<Rightarrow> ret_op (RequeueNow, zeroNamespacedName)
       | Some atPod \<Rightarrow> do { res \<leftarrow> restartPods E atPod downPods; ret_op (res, atPod) }
     }
   }"

definition reipInstalledNodes :: "'w env \<Rightarrow> NamespacedName \<Rightarrow> ('w, ret) op" where
  "reipInstalledNodes E atPod = do {
     ps \<leftarrow> rangeDetail E;
     let reIPPods = findReIPPods ps True;
     if reIPPods = [] then ret_op Done
     else do {
       r \<leftarrow> setATPod atPod (findAny E);
       case r of
         None \<Rightarrow> ret_op RequeueNow
       | Some atPod \<Rightarrow> reipNodes E atPod reIPPods
     }
   }"

definition reconcileNodes :: "'w env \<Rightarrow> bool \<Rightarrow> ('w, ret) op" where
  "reconcileNodes E restartReadOnly = do {
     (res, atPod) \<leftarrow> restartDownNodes E restartReadOnly;
     if IsReconcileAborted res then ret_op res
     else do {
       v \<leftarrow> gets_st vdb;
       if spec_InitPolicy (vdb_Spec v) = CommunalInitPolicyScheduleOnly
       then do { b \<leftarrow> shouldRequeueIfPodsNotRunning E; ret_op (ctrl_requeue b) }
       else do {
         res \<leftarrow> reipInstalledNodes E atPod;
         if IsReconcileAborted res then ret_op res
         else do { b \<leftarrow> shouldRequeueIfPodsNotRunning E; ret_op (ctrl_requeue b) }
       }
     }
   }"

definition Restart_Reconcile :: "'w env \<Rightarrow> bool \<Rightarrow> ('w, ret) op" where
  "Restart_Reconcile E restartReadOnly = do {
     v \<leftarrow> gets_st vdb;
     if \<not> spec_AutoRestartVertica (vdb_Spec v)
     then do {
       err \<leftarrow> UpdateCondition E \<lparr>cond_Type = AutoRestartVertica, cond_Status = ConditionFalse, cond_LastTransitionTime = zeroTime\<rparr>;
       ret_op (ofErr err)
     }
     else do {
       err \<leftarrow> UpdateCondition E \<lparr>cond_Type = AutoRestartVertica, cond_Status = ConditionTrue, cond_LastTransitionTime = zeroTime\<rparr>;
       case err of
         Some e \<Rightarrow> ret_op (Fail e)
       | None \<Rightarrow> do {
           err \<leftarrow> Collect E;
           case err of
             Some e \<Rightarrow> ret_op (Fail e)
           | None \<Rightarrow> do {
               ps \<leftarrow> rangeDetail E;
               v \<leftarrow> gets_st vdb;
               if getUpNodeAndNotReadOnlyCount ps = 0 \<and> spec_InitPolicy (vdb_Spec v) \<noteq> CommunalInitPolicyScheduleOnly
               then reconcileCluster E restartReadOnly
               else reconcileNodes E restartReadOnly
             }
         }
     }
   }"

section \<open>The in-place compaction\<close>

definition downInCluster :: "label_map \<Rightarrow> PodFact \<Rightarrow> bool" where
  "downInCluster clusterState pod \<longleftrightarrow> clusterState (pf_vnodeName pod) \<noteq> Some StateUp"

lemma compactLoop_filter:
  assumes "i \<le> k" and "k \<le> length pods" and "length arr = length pods"
    and "drop k arr = drop k pods" and "take i arr = filter (downInCluster cs) (take k pods)"
  shows "case compactLoop cs arr i [k..<length pods] of (arr', j) \<Rightarrow> take j arr' = filter (downInCluster cs) pods"
  using assms
proof (induction "length pods - k" arbitrary: i k arr)
  case 0
  then show ?case by simp
next
  case (Suc n)
  then have k: "k < length pods" by simp
  then have pod: "arr ! k = pods ! k" using Suc.prems(3,4) by (metis hd_drop_conv_nth)
  have drop: "drop (Suc k) arr = drop (Suc k) pods" using Suc.prems(4) by (metis drop_Suc tl_drop)
  have tk: "take (Suc k) pods = take k pods @ [pods ! k]" using k by (rule take_Suc_conv_app_nth)
  have upt: "[k..<length pods] = k # [Suc k..<length pods]" using k by (simp add: upt_conv_Cons)
  show ?case
  proof (cases "downInCluster cs (pods ! k)")
    case True
    let ?arr = "arr[i := pods ! k]"
    have "take (Suc i) ?arr = filter (downInCluster cs) (take (Suc k) pods)"
      using Suc.prems k True by (simp add: tk take_Suc_conv_app_nth)
    moreover have "drop (Suc k) ?arr = drop (Suc k) pods" using drop Suc.prems(1) by simp
    ultimately show ?thesis
      using Suc.hyps(1) [of "Suc k" "Suc i" ?arr] Suc.hyps(2) Suc.prems k True
      by (auto simp: upt pod downInCluster_def Let_def)
  next
    case False
    have "take i arr = filter (downInCluster cs) (take (Suc k) pods)" using Suc.prems(5) False by (simp add: tk)
    then show ?thesis
      using Suc.hyps(1) [of "Suc k" i arr] Suc.hyps(2) Suc.prems k False drop
      by (simp add: upt pod downInCluster_def Let_def)
  qed
qed

lemma dropUpPods_eq: "dropUpPods cs pods = filter (downInCluster cs) pods"
  using compactLoop_filter [of 0 0 pods pods cs] by (simp add: dropUpPods_def split: prod.splits)

text \<open>
  Compacting the slice in place, while the loop reads the same slice, gives exactly the pods
  that the cluster does not list as up, in their order.
\<close>

theorem dropUpPods_is_filter:
  "dropUpPods clusterState pods = filter (\<lambda>pod. clusterState (pf_vnodeName pod) \<noteq> Some StateUp) pods"
  by (simp add: dropUpPods_eq downInCluster_def [abs_def])

section \<open>The map of old and new addresses\<close>

lemma genMapFile_loop_eq:
  "genMapFile_loop oldIPs pods acc chg = (contents, changing, ok) \<Longrightarrow>
     ok = (\<forall>pod \<in> set pods. pf_isPodRunning pod)
   \<and> (ok \<longrightarrow> contents = acc @ concat (map (\<lambda>pod. case oldIPs (pf_compat21NodeName pod) of
              None \<Rightarrow> [] | Some oldIP \<Rightarrow> [oldIP @ '' '' @ pf_podIP pod]) pods)
        \<and> changing = (chg \<or> (\<exists>pod \<in> set pods. \<exists>oldIP. oldIPs (pf_compat21NodeName pod) = Some oldIP \<and> oldIP \<noteq> pf_podIP pod)))"
proof (induction pods arbitrary: acc chg)
  case (Cons pod pods)
  show ?case
  proof (cases "pf_isPodRunning pod")
    case True
    show ?thesis
    proof (cases "oldIPs (pf_compat21NodeName pod)")
      case None
      then show ?thesis using Cons.IH [of acc chg] Cons.prems True by simp
    next
      case (Some oldIP)
      then show ?thesis
        using Cons.IH [of "acc @ [oldIP @ '' '' @ pf_podIP pod]" "chg \<or> oldIP \<noteq> pf_podIP pod"] Cons.prems True
        by auto
    qed
  next
    case False
    then show ?thesis using Cons.prems by simp
  qed
qed auto

text \<open>
  C30: the map file is generated exactly when there are pods and all of them are running. It then has
  one line, old address and new address, for every pod whose old address admintools knows, and a
  re-IP is asked for exactly when one of these addresses changed.
\<close>

theorem genMapFile_result:
  assumes "genMapFile oldIPs pods = (contents, changing, ok)"
  shows "(ok \<longleftrightarrow> pods \<noteq> [] \<and> (\<forall>pod \<in> set pods. pf_isPodRunning pod))
     \<and> (ok \<longrightarrow>
          contents = map (\<lambda>pod. the (oldIPs (pf_compat21NodeName pod)) @ '' '' @ pf_podIP pod)
                        (filter (\<lambda>pod. pf_compat21NodeName pod \<in> dom oldIPs) pods)
        \<and> (changing \<longleftrightarrow> (\<exists>pod \<in> set pods. pf_compat21NodeName pod \<in> dom oldIPs
              \<and> oldIPs (pf_compat21NodeName pod) \<noteq> Some (pf_podIP pod))))"
proof (cases "pods = []")
  case True
  then show ?thesis using assms by (simp add: genMapFile_def)
next
  case False
  have flat: "concat (map (\<lambda>pod. case oldIPs (pf_compat21NodeName pod) of
              None \<Rightarrow> [] | Some oldIP \<Rightarrow> [oldIP @ '' '' @ pf_podIP pod]) ps)
      = map (\<lambda>pod. the (oldIPs (pf_compat21NodeName pod)) @ '' '' @ pf_podIP pod)
          (filter (\<lambda>pod. pf_compat21NodeName pod \<in> dom oldIPs) ps)" for ps
    by (induction ps) (auto simp: dom_def)
  from False assms have "genMapFile_loop oldIPs pods [] False = (contents, changing, ok)" by (simp add: genMapFile_def)
  from genMapFile_loop_eq [OF this] False show ?thesis unfolding flat by auto
qed

theorem genMapFile_result_witness:
  "genMapFile [''node0001'' \<mapsto> ''10.0.0.9''] [exampleFact 0, exampleFact 1] = ([''10.0.0.9 10.0.0.0''], True, True)"
proof -
  have ip: "pf_compat21NodeName (exampleFact 0) = ''node0001''" "pf_compat21NodeName (exampleFact 1) = ''node0002''"
    "pf_podIP (exampleFact 0) = ''10.0.0.0''"
    by (simp_all add: strconv_Itoa_def natToString.simps digitChar_def digit_chars)
  obtain contents changing ok where r: "genMapFile [''node0001'' \<mapsto> ''10.0.0.9''] [exampleFact 0, exampleFact 1] = (contents, changing, ok)"
    by (rule prod_cases3)
  from genMapFile_result [OF r] ip r show ?thesis by (simp del: exampleFact_fields(11-13))
qed

text \<open>The lines of admintools.conf that name the nodes: the node, its address and the rest.\<close>

definition nodeLine :: "string \<times> string \<times> string \<Rightarrow> string" where
  "nodeLine e = (case e of (digits, ip, rest) \<Rightarrow> ''node'' @ digits @ '' = '' @ ip @ '','' @ rest)"

definition nodeEntryOk :: "string \<times> string \<times> string \<Rightarrow> bool" where
  "nodeEntryOk e = (case e of (digits, ip, rest) \<Rightarrow>
     length digits = 4 \<and> list_all isDigit digits \<and> ip \<noteq> [] \<and> list_all isIPChar ip \<and> newline \<notin> set rest)"

lemma nodeLine_match:
  assumes "length ds = 4" "list_all isDigit ds" "ip \<noteq> []" "list_all isIPChar ip"
  shows "re_matchAt nodeLineRe (nodeLine (ds, ip, rest)) = Some (''node'' @ ds @ '' = '' @ ip @ '','', [''node'' @ ds, ip])"
proof -
  have ip: "re_matches (Seq (Cap (Rep isIPChar 1 None)) (Seq (Lit '','') (Lit []))) (ip @ CHR '','' # rest)
      = [(ip @ '','', [ip], rest)]"
    using Cap_Rep_Lit [of isIPChar ip "CHR '',''" 1 "[]" "Lit []" rest] assms(3,4)
    by (simp add: isIPChar_def isDigit_def isHexLetter_def strings_HasPrefix_def Suc_le_eq)
  have digits: "takeWhile isDigit (ds @ CHR '' '' # t) = ds" for t
    by (rule takeWhile_all_stop [OF assms(2)]) (simp add: isDigit_def)
  have node: "re_matches (Cap (re_seq [Lit ''node'', Rep isDigit 4 (Some 4)])) (''node'' @ ds @ CHR '' '' # t)
      = [(''node'' @ ds, [''node'' @ ds], CHR '' '' # t)]" for t
    using assms(1) digits [of t] by (simp add: re_seq_def strings_HasPrefix_def Let_def)
  have "re_matches nodeLineRe (''node'' @ ds @ CHR '' '' # ''= '' @ ip @ CHR '','' # rest)
      = [(''node'' @ ds @ '' = '' @ ip @ '','', [''node'' @ ds, ip], rest)]"
    unfolding nodeLineRe_def re_seq_def foldr.simps id_apply o_apply
    unfolding re_matches.simps(4) [of "Cap _" "Seq (Lit '' = '') _"] node [unfolded re_seq_def foldr.simps id_apply o_apply]
    by (simp add: re_matches.simps(4) [of "Lit '' = ''"] re_matches.simps(1) [of "'' = ''"] strings_HasPrefix_def ip [unfolded One_nat_def]
          del: re_matches.simps)
  then show ?thesis by (simp add: re_matchAt_def nodeLine_def)
qed

lemma parseNodeLine_line:
  "nodeEntryOk e \<Longrightarrow> parseNodeLine ips (nodeLine e) = ips(''node'' @ fst e \<mapsto> fst (snd e))"
  by (cases e) (simp add: parseNodeLine_def nodeEntryOk_def nodeLine_match)

lemma nodeLine_no_newline:
  assumes "nodeEntryOk e"
  shows "newline \<notin> set (nodeLine e)"
proof -
  obtain ds ip rest where e: "e = (ds, ip, rest)" by (rule prod_cases3)
  have "newline \<notin> set ds" "newline \<notin> set ip"
    using assms e by (auto simp: nodeEntryOk_def list_all_iff isDigit_def isIPChar_def isHexLetter_def newline_def)
  then show ?thesis using assms e by (auto simp: nodeLine_def nodeEntryOk_def newline_def)
qed

text \<open>
  C31: reading the node lines of an admintools.conf gives back the node addresses that were written
  there; for a node listed twice the last line counts.
\<close>

theorem parse_nodes_roundtrip:
  assumes "\<forall>e \<in> set entries. nodeEntryOk e"
  shows "parseNodesFromAdmintoolConf (strings_Join (map nodeLine entries) [newline])
       = map_of (rev (map (\<lambda>(digits, ip, rest). (''node'' @ digits, ip)) entries))"
proof (cases "entries = []")
  case True
  then show ?thesis
    by (simp add: parseNodesFromAdmintoolConf_def parseNodeLine_def re_matchAt_def nodeLineRe_def re_seq_def strings_HasPrefix_def)
next
  case False
  have "strings_Split (strings_Join (map nodeLine entries) [newline]) newline = map nodeLine entries"
    using False assms nodeLine_no_newline by (intro Split_Join) auto
  moreover have "foldl parseNodeLine m (map nodeLine es) = m ++ map_of (rev (map (\<lambda>(digits, ip, rest). (''node'' @ digits, ip)) es))"
    if "\<forall>e \<in> set es. nodeEntryOk e" for m es
    using that
  proof (induction es arbitrary: m)
    case (Cons e es)
    then show ?case by (cases e) (simp add: parseNodeLine_line)
  qed simp
  ultimately show ?thesis using assms unfolding parseNodesFromAdmintoolConf_def by simp
qed

theorem parse_nodes_roundtrip_witness:
  "parseNodesFromAdmintoolConf (strings_Join (map nodeLine [(''0001'', ''10.0.0.1'', ''/d''), (''0002'', ''fd00::2'', [])]) [newline]) ''node0002''
     = Some ''fd00::2''"
proof -
  have "\<forall>e \<in> set [(''0001'', ''10.0.0.1'', ''/d''), (''0002'', ''fd00::2'', [])]. nodeEntryOk e"
    by (simp add: nodeEntryOk_def isDigit_def isIPChar_def isHexLetter_def newline_def)
  from parse_nodes_roundtrip [OF this] show ?thesis by simp
qed

section \<open>What a restart may do\<close>

definition restartable :: "bool \<Rightarrow> PodFact \<Rightarrow> bool" where
  "restartable restartReadOnly pf \<longleftrightarrow>
     (\<not> pf_upNode pf \<or> restartReadOnly \<and> pf_readOnly pf) \<and> pf_dbExists pf \<and> pf_isPodRunning pf"

definition noWritableNode :: "PodFact list \<Rightarrow> bool" where
  "noWritableNode ps \<longleftrightarrow> (\<forall>pf \<in> set ps. \<not> (pf_upNode pf \<and> \<not> pf_readOnly pf))"

text \<open>
  The commands that disturb the database: killing its processes in a pod, starting the cluster and
  restarting nodes.
\<close>

definition restartSafe :: "bool \<Rightarrow> VerticaDB \<Rightarrow> PodFact list \<Rightarrow> obs \<Rightarrow> bool" where
  "restartSafe ro v ps x \<longleftrightarrow> (\<forall>k pod cmd. x = ObsExec k pod cmd \<longrightarrow>
       (k = InPod \<and> cmd = killCmd \<longrightarrow> (\<exists>pf \<in> set ps. pf_name pf = pod \<and> restartable ro pf))
     \<and> (k = AT \<and> cmd ! 1 = ''start_db'' \<longrightarrow>
          noWritableNode ps \<and> spec_InitPolicy (vdb_Spec v) \<noteq> CommunalInitPolicyScheduleOnly
        \<and> (\<exists>pf \<in> set ps. pf_name pf = pod \<and> pf_isInstalled pf \<and> pf_isPodRunning pf \<and> \<not> pf_upNode pf))
     \<and> (k = AT \<and> cmd ! 1 = ''restart_node'' \<longrightarrow>
          (\<not> noWritableNode ps \<or> spec_InitPolicy (vdb_Spec v) = CommunalInitPolicyScheduleOnly)
        \<and> (\<exists>down. down \<noteq> [] \<and> (\<forall>pf \<in> set down. pf \<in> set ps \<and> restartable ro pf \<and> \<not> pf_isTransient pf)
             \<and> cmd = genRestartNodeCmd v (map pf_vnodeName down) (map pf_podIP down))))"

lemma count_zero_iff: "countPods ps (\<lambda>pf. if P pf then 1 else 0) = 0 \<longleftrightarrow> (\<forall>pf \<in> set ps. \<not> P pf)"
  by (simp add: countPods_filter filter_empty_conv)

lemma noWritable_count: "getUpNodeAndNotReadOnlyCount ps = 0 \<longleftrightarrow> noWritableNode ps"
  unfolding getUpNodeAndNotReadOnlyCount_def noWritableNode_def by (rule count_zero_iff)

lemma restartSafe_other [simp]:
  "restartSafe ro v ps (ObsEvent ty r)" "restartSafe ro v ps (ObsMetric m op l)" "statusWrite x \<Longrightarrow> restartSafe ro v ps x"
  "restartSafe ro v ps (ObsExec VSQL pod c)"
  "cmd \<noteq> killCmd \<Longrightarrow> restartSafe ro v ps (ObsExec InPod pod cmd)"
  "a \<noteq> ''start_db'' \<Longrightarrow> a \<noteq> ''restart_node'' \<Longrightarrow> restartSafe ro v ps (ObsExec AT pod (o' # a # cs))"
  by (auto simp: restartSafe_def statusWrite_def)

lemma restartSafe_probe: "probe x \<Longrightarrow> restartSafe ro v ps x"
  by (auto simp: probe_def killCmd_def restartSafe_def)

lemma other_commands [simp]:
  "dumpCmd \<noteq> killCmd" "genGrepNodeCmd \<noteq> killCmd" "genMapFileUploadCmd c \<noteq> killCmd"
  by (simp_all add: dumpCmd_def killCmd_def genGrepNodeCmd_def genMapFileUploadCmd_def)

lemma restartSafe_kill:
  "pf \<in> set ps \<Longrightarrow> restartable ro pf \<Longrightarrow> restartSafe ro v ps (ObsExec InPod (pf_name pf) killCmd)"
  by (auto simp: restartSafe_def)

lemma spec_kill:
  "localPred P \<Longrightarrow> (\<And>pod. pod \<in> set pods \<Longrightarrow> \<Phi> (ObsExec InPod (pf_name pod) killCmd)) \<Longrightarrow>
   spec P \<Phi> (killLoop E pods b) (\<lambda>_. P)"
proof (induction pods arbitrary: b)
  case (Cons pod pods)
  have rest: "spec P \<Phi> (killLoop E pods b) (\<lambda>_. P)" for b
    by (rule Cons.IH) (use Cons.prems in simp_all)
  show ?case unfolding killLoop.simps by (intro spec_rules rest Cons.prems) simp
qed (simp add: spec_rules)

lemma spec_reipNodes:
  "localPred P \<Longrightarrow> spec P (restartSafe ro v ps) (reipNodes E atPod pods) (\<lambda>_. P)"
  unfolding reipNodes_def fetchOldIPsFromNode_def
  by (intro spec_rules; simp add: genReIPCommand_def)

lemma spec_restartCluster:
  assumes P: "localPred P" "\<And>s. P s \<Longrightarrow> vdb s = v"
    and \<Phi>: "\<And>c. \<Phi> (ObsExec AT atPod (''-t'' # ''start_db'' # c))" "\<And>ty r. \<Phi> (ObsEvent ty r)"
      "\<And>m x l. \<Phi> (ObsMetric m x l)"
  shows "spec P \<Phi> (restartCluster E atPod pods) (\<lambda>_. P)"
  unfolding restartCluster_def genStartDBCommand_def append.simps by (intro spec_rules P \<Phi>)

text \<open>The facts and the resource do not change while the restart is carried out.\<close>

abbreviation restartInv :: "VerticaDB \<Rightarrow> PodFactDetail \<Rightarrow> 'w st \<Rightarrow> bool" where
  "restartInv v D \<equiv> (\<lambda>s. vdb s = v \<and> Detail (pfacts s) = D)"

abbreviation factsOf :: "PodFactDetail \<Rightarrow> PodFact list" where
  "factsOf D \<equiv> map snd D"

lemma spec_Invalidate_inv: "spec (restartInv v D) \<Phi> Invalidate (\<lambda>_. restartInv v D)"
  by (rule spec_Invalidate) simp

lemma findRestartablePods_set:
  "pf \<in> set (findRestartablePods ps ro tr) \<Longrightarrow> pf \<in> set ps \<and> restartable ro pf \<and> (tr \<or> \<not> pf_isTransient pf)"
  by (auto simp: findRestartablePods_def filterPods_def restartable_def split: if_splits)

lemma spec_startCluster:
  assumes E: "rangeLaw E" and \<Phi>: "\<And>c. restartSafe ro v (factsOf D) (ObsExec AT atPod (''-t'' # ''start_db'' # c))"
  shows "spec (restartInv v D) (restartSafe ro v (factsOf D)) (startCluster E ro atPod) (\<lambda>_. restartInv v D)"
proof -
  have kill: "spec (restartInv v D) (restartSafe ro v (factsOf D)) (killOldProcesses E (findRestartablePods ps ro True)) (\<lambda>_. restartInv v D)"
    if "set ps = snd ` set D" for ps
    unfolding killOldProcesses_def
    by (rule spec_kill) (use that in \<open>auto dest!: findRestartablePods_set intro!: restartSafe_kill\<close>)
  have start: "spec (restartInv v D) (restartSafe ro v (factsOf D)) (restartCluster E atPod pods) (\<lambda>_. restartInv v D)" for pods
    by (rule spec_restartCluster [where v = v]) (auto intro: \<Phi>)
  show ?thesis
    unfolding startCluster_def Let_def
    by (rule spec_bind_range [OF E, of _ D], simp, simp)
       (intro spec_rules kill start spec_reipNodes spec_Invalidate_inv localPred_facts; assumption)
qed

text \<open>The pod that runs admintools for a restart of the cluster is one without a running server.\<close>

definition offlinePod :: "PodFactDetail \<Rightarrow> NamespacedName \<Rightarrow> bool" where
  "offlinePod D nm \<longleftrightarrow> (\<exists>pf \<in> snd ` set D. pf_name pf = nm \<and> pf_isInstalled pf \<and> pf_isPodRunning pf \<and> \<not> pf_upNode pf)"

lemma findOffline_pod:
  "findPodToRunAdmintoolsOffline ps = Some pf \<Longrightarrow> pf \<in> set ps \<and> pf_isInstalled pf \<and> pf_isPodRunning pf \<and> \<not> pf_upNode pf"
  by (auto simp: findPodToRunAdmintoolsOffline_def find_Some_iff)

lemma spec_setATPod_offline:
  assumes E: "rangeLaw E"
  shows "spec (restartInv v D) \<Phi> (setATPod zeroNamespacedName (findOffline E))
      (\<lambda>r s. restartInv v D s \<and> (\<forall>nm. r = Some nm \<longrightarrow> offlinePod D nm))"
proof -
  have "spec (restartInv v D) \<Phi> (findOffline E) (\<lambda>r s. restartInv v D s \<and> (\<forall>pf. r = Some pf \<longrightarrow> offlinePod D (pf_name pf)))"
    unfolding findOffline_def
    by (rule spec_bind_range [OF E, of _ D], simp, simp)
       (rule spec_ret, auto simp: offlinePod_def dest!: findOffline_pod)
  then show ?thesis
    unfolding setATPod_def by simp (rule spec_bind, assumption, rule spec_ret, auto)
qed

lemma spec_setATPod [spec_rules]:
  "spec P \<Phi> f (\<lambda>_. P) \<Longrightarrow> spec P \<Phi> (setATPod atPod f) (\<lambda>_. P)"
  unfolding setATPod_def by (intro spec_rules)

lemma spec_findAny [spec_rules]: "localPred P \<Longrightarrow> spec P \<Phi> (findAny E) (\<lambda>_. P)"
  unfolding findAny_def by (intro spec_rules)

lemma spec_reconcileCluster:
  assumes E: "rangeLaw E" and none: "noWritableNode (factsOf D)"
    and pol: "spec_InitPolicy (vdb_Spec v) \<noteq> CommunalInitPolicyScheduleOnly"
  shows "spec (restartInv v D) (restartSafe ro v (factsOf D)) (reconcileCluster E ro) (\<lambda>_. restartInv v D)"
proof -
  have start: "spec (restartInv v D) (restartSafe ro v (factsOf D))
      (case r of None \<Rightarrow> ret_op RequeueNow | Some atPod \<Rightarrow> startCluster E ro atPod) (\<lambda>_. restartInv v D)"
    if r: "\<forall>nm. r = Some nm \<longrightarrow> offlinePod D nm" for r
  proof (cases r)
    case None
    then show ?thesis by (simp add: spec_ret_inv)
  next
    case (Some nm)
    then have "restartSafe ro v (factsOf D) (ObsExec AT nm (''-t'' # ''start_db'' # c))" for c
      using none pol r by (auto simp: restartSafe_def offlinePod_def)
    then show ?thesis using Some by (simp add: spec_startCluster [OF E])
  qed
  define m where "m = setATPod zeroNamespacedName (findOffline E) \<bind>
      case_option (ret_op RequeueNow) (startCluster E ro)"
  have m: "spec (restartInv v D) (restartSafe ro v (factsOf D)) m (\<lambda>_. restartInv v D)"
    unfolding m_def by (rule spec_bind [OF spec_setATPod_offline [OF E] spec_pre_pure [OF start]])
  show ?thesis
    unfolding reconcileCluster_def m_def [symmetric] by (intro spec_rules localPred_facts m)
qed

lemma spec_restartPods:
  assumes pods: "\<And>pf. pf \<in> set pods \<Longrightarrow> pf \<in> snd ` set D \<and> restartable ro pf \<and> \<not> pf_isTransient pf"
    and some: "\<not> noWritableNode (factsOf D) \<or> spec_InitPolicy (vdb_Spec v) = CommunalInitPolicyScheduleOnly"
  shows "spec (restartInv v D) (restartSafe ro v (factsOf D)) (restartPods E atPod pods) (\<lambda>_. restartInv v D)"
proof -
  let ?S = "restartSafe ro v (factsOf D)"
  have kill: "spec (restartInv v D) ?S (killOldProcesses E (dropUpPods cs pods)) (\<lambda>_. restartInv v D)" for cs
    unfolding killOldProcesses_def dropUpPods_eq
    by (rule spec_kill) (use pods in \<open>auto intro!: restartSafe_kill\<close>)
  have safe: "?S (ObsExec AT atPod (genRestartNodeCmd v (genRestartVNodeList (dropUpPods cs pods)) (genRestartIPList (dropUpPods cs pods))))"
    if "dropUpPods cs pods \<noteq> []" for cs
  proof -
    have "\<exists>down. down \<noteq> [] \<and> (\<forall>pf \<in> set down. pf \<in> set (factsOf D) \<and> restartable ro pf \<and> \<not> pf_isTransient pf)
       \<and> genRestartNodeCmd v (map pf_vnodeName (dropUpPods cs pods)) (map pf_podIP (dropUpPods cs pods))
           = genRestartNodeCmd v (map pf_vnodeName down) (map pf_podIP down)"
      by (rule exI [of _ "dropUpPods cs pods"]) (use pods that in \<open>auto simp: dropUpPods_eq\<close>)
    then show ?thesis
      using some by (simp add: restartSafe_def genRestartVNodeList_def genRestartIPList_def genRestartNodeCmd_def)
  qed
  have fetch: "spec (restartInv v D) ?S (removePodsWithClusterUpState E atPod pods)
      (\<lambda>r s. restartInv v D s \<and> (\<forall>down. r = Inr down \<longrightarrow> (\<exists>cs. down = dropUpPods cs pods)))"
    unfolding removePodsWithClusterUpState_def fetchClusterNodeStatus_def
    by (rule spec_bind [where R = "\<lambda>_. restartInv v D"], intro spec_rules; simp)
       (auto intro!: spec_ret split: sum.split)
  have exec: "spec (restartInv v D) ?S (gets_st vdb \<bind> (\<lambda>v. execRestartPods E atPod ds
          (genRestartNodeCmd v (genRestartVNodeList ds) (genRestartIPList ds)) \<bind> k)) (\<lambda>_. restartInv v D)"
    if "ds = dropUpPods cs pods" "ds \<noteq> []" "\<And>x. spec (restartInv v D) ?S (k x) (\<lambda>_. restartInv v D)" for ds cs k
    by (rule spec_bind_gets [where x = v], simp)
       (use that safe [of cs] in \<open>auto simp: execRestartPods_def intro!: spec_rules\<close>)
  show ?thesis
    unfolding restartPods_def
    apply (rule spec_bind [OF fetch], rule spec_pre_pure)
    apply (rule spec_sum, rule spec_ret_inv)
    apply (elim allE impE, assumption, elim exE)
    apply (rule spec_if, rule spec_ret_inv)
    apply (simp only:)
    apply (rule spec_bind_inv [OF kill])
    apply (rule spec_if, rule spec_ret_inv)
    apply (rule spec_bind_inv, rule spec_debugDump, simp, simp)
    apply (rule exec, rule refl, assumption)
    apply (intro spec_rules spec_Invalidate_inv localPred_facts; simp)
    done
qed

lemma spec_reconcileNodes:
  assumes E: "rangeLaw E"
    and some: "\<not> noWritableNode (factsOf D) \<or> spec_InitPolicy (vdb_Spec v) = CommunalInitPolicyScheduleOnly"
  shows "spec (restartInv v D) (restartSafe ro v (factsOf D)) (reconcileNodes E ro) (\<lambda>_. restartInv v D)"
proof -
  let ?S = "restartSafe ro v (factsOf D)"
  have pods: "spec (restartInv v D) ?S (restartPods E atPod (findRestartablePods ps ro False)) (\<lambda>_. restartInv v D)"
    if "set ps = snd ` set D" for ps atPod
    by (rule spec_restartPods [OF _ some]) (use that in \<open>auto dest!: findRestartablePods_set\<close>)
  have down: "spec (restartInv v D) ?S (restartDownNodes E ro) (\<lambda>_. restartInv v D)"
    unfolding restartDownNodes_def Let_def
    by (rule spec_bind_range [OF E, of _ D], simp, simp) (intro spec_rules pods localPred_facts; assumption)
  have reip: "spec (restartInv v D) ?S (reipInstalledNodes E atPod) (\<lambda>_. restartInv v D)" for atPod
    unfolding reipInstalledNodes_def Let_def by (intro spec_rules spec_reipNodes localPred_facts)
  show ?thesis
    unfolding reconcileNodes_def shouldRequeueIfPodsNotRunning_def
    by (intro spec_rules down reip localPred_facts)
qed

text \<open>What follows the collection of the facts.\<close>

lemma spec_restart_branch:
  assumes E: "rangeLaw E"
  shows "spec (restartInv v D) (restartSafe ro v (factsOf D))
     (do {
        ps \<leftarrow> rangeDetail E;
        v \<leftarrow> gets_st vdb;
        if getUpNodeAndNotReadOnlyCount ps = 0 \<and> spec_InitPolicy (vdb_Spec v) \<noteq> CommunalInitPolicyScheduleOnly
        then reconcileCluster E ro else reconcileNodes E ro }) (\<lambda>_. restartInv v D)"
proof (rule spec_bind_range [OF E, of _ D])
  fix ps assume ps: "set ps = snd ` set D"
  then have none: "getUpNodeAndNotReadOnlyCount ps = 0 \<longleftrightarrow> noWritableNode (factsOf D)"
    by (simp add: noWritable_count noWritableNode_def)
  show "spec (restartInv v D) (restartSafe ro v (factsOf D))
     (gets_st vdb \<bind> (\<lambda>v. if getUpNodeAndNotReadOnlyCount ps = 0 \<and> spec_InitPolicy (vdb_Spec v) \<noteq> CommunalInitPolicyScheduleOnly
        then reconcileCluster E ro else reconcileNodes E ro)) (\<lambda>_. restartInv v D)"
    by (rule spec_bind_gets [where x = v], simp)
       (use none in \<open>auto intro!: spec_reconcileCluster [OF E] spec_reconcileNodes [OF E]\<close>)
qed simp_all



end
