(* ===== verification/PodRecon.thy ===== *)
theory PodRecon
  imports Restart
begin

text \<open>
  The reconcilers of pkg/controllers/vdb that look after the pods and the resource between the
  larger steps: the label for client routing, the annotations of the pods, stopping the database,
  statefulsets of old operators, the version annotations and the status of the resource.
\<close>

section \<open>Client routing\<close>

definition AddNodeApplyMethod :: string where
  "AddNodeApplyMethod = ''Add''"
definition PodRescheduleApplyMethod :: string where
  "PodRescheduleApplyMethod = ''PodReschedule''"
definition DelNodeApplyMethod :: string where
  "DelNodeApplyMethod = ''RemoveNode''"

text \<open>The pods of the operator's statefulsets always have labels, so that the map is not nil.\<close>

definition manipulateRoutingLabelInPod :: "string \<Rightarrow> PodFact \<Rightarrow> Pod \<Rightarrow> Pod" where
  "manipulateRoutingLabelInPod applyMethod pf pod =
     (let labelExists = pod_Labels pod ClientRoutingLabel \<noteq> None in
      if applyMethod = AddNodeApplyMethod \<or> applyMethod = PodRescheduleApplyMethod
      then (if \<not> labelExists \<and> pf_upNode pf \<and> pf_shardSubscriptions pf > 0 \<and> \<not> pf_pendingDelete pf
            then pod\<lparr>pod_Labels := (pod_Labels pod)(ClientRoutingLabel \<mapsto> ClientRoutingVal)\<rparr> else pod)
      else if applyMethod = DelNodeApplyMethod
      then (if labelExists \<and> pf_pendingDelete pf
            then pod\<lparr>pod_Labels := (pod_Labels pod)(ClientRoutingLabel := None)\<rparr> else pod)
      else pod)"

definition routePod :: "'w env \<Rightarrow> string \<Rightarrow> NamespacedName \<Rightarrow> PodFact \<Rightarrow> ('w, goerr + bool) op" where
  "routePod E applyMethod pn pf = RetryOnConflictV (e_Retries E) (do {
     r \<leftarrow> ask (e_GetPod E pn);
     case r of
       Inl e \<Rightarrow> ret_op (if errors_IsNotFound e then Inr False else Inl e)
     | Inr pod \<Rightarrow> do {
         let pod' = manipulateRoutingLabelInPod applyMethod pf pod;
         emit (ObsPatchPod pod');
         r \<leftarrow> ask (e_PatchPod E pod pod');
         ret_op (case r of
           Inl e \<Rightarrow> Inl e
         | Inr _ \<Rightarrow> Inr (applyMethod = AddNodeApplyMethod \<and> pf_upNode pf \<and> pf_shardSubscriptions pf = 0 \<and> \<not> pf_pendingDelete pf))
       }
   })"

text \<open>A requeue of one pod does not keep the others from being looked at; an error does.\<close>

fun routePods :: "'w env \<Rightarrow> string \<Rightarrow> string \<Rightarrow> PodFactDetail \<Rightarrow> bool \<Rightarrow> ('w, ret) op" where
  "routePods E applyMethod scName [] savedRes = ret_op (ctrl_requeue savedRes)"
| "routePods E applyMethod scName ((pn, pf) # rest) savedRes =
     (if scName \<noteq> [] \<and> pf_subcluster pf \<noteq> scName then routePods E applyMethod scName rest savedRes
      else do {
        r \<leftarrow> routePod E applyMethod pn pf;
        case r of
          Inl e \<Rightarrow> ret_op (Fail e)
        | Inr requeue \<Rightarrow> routePods E applyMethod scName rest (savedRes \<or> requeue)
      })"

definition rangeEntries :: "'w env \<Rightarrow> ('w, PodFactDetail) op" where
  "rangeEntries E = do { d \<leftarrow> gets_st (\<lambda>s. Detail (pfacts s)); ask (e_Range E d) }"

definition ClientRoutingLabel_Reconcile :: "'w env \<Rightarrow> string \<Rightarrow> string \<Rightarrow> ('w, ret) op" where
  "ClientRoutingLabel_Reconcile E applyMethod scName = do {
     err \<leftarrow> Collect E;
     case err of
       Some e \<Rightarrow> ret_op (Fail e)
     | None \<Rightarrow> do { d \<leftarrow> rangeEntries E; routePods E applyMethod scName d False }
   }"

section \<open>Annotations and labels of the pods\<close>

definition KubernetesGitCommitAnnotation :: string where
  "KubernetesGitCommitAnnotation = ''kubernetes.io/gitcommit''"
definition KubernetesBuildDateAnnotation :: string where
  "KubernetesBuildDateAnnotation = ''kubernetes.io/buildDate''"

text \<open>The three keys differ, so that the order in which the loop visits them does not matter.\<close>

definition generateAnnotations :: "'w env \<Rightarrow> ('w, goerr + (string \<times> string) list) op" where
  "generateAnnotations E = do {
     r \<leftarrow> ask (e_ServerVersion E);
     ret_op (case r of
       Inl e \<Rightarrow> Inl e
     | Inr (gitVersion, gitCommit, buildDate) \<Rightarrow>
         Inr [(KubernetesVersionAnnotation, gitVersion), (KubernetesGitCommitAnnotation, gitCommit),
              (KubernetesBuildDateAnnotation, buildDate)])
   }"

definition generateLabels :: "(string \<times> string) list" where
  "generateLabels = [(OperatorVersionLabel, CurOperatorVersion)]"

definition annotatePod :: "(string \<times> string) list \<Rightarrow> Pod \<Rightarrow> Pod \<times> bool" where
  "annotatePod anns pod = foldl (\<lambda>(pod, changed) (k, v).
     if (case pod_Annotations pod k of None \<Rightarrow> [] | Some old \<Rightarrow> old) \<noteq> v
     then (pod\<lparr>pod_Annotations := (pod_Annotations pod)(k \<mapsto> v)\<rparr>, True)
     else (pod, changed)) (pod, False) anns"

definition labelPod :: "(string \<times> string) list \<Rightarrow> Pod \<times> bool \<Rightarrow> Pod \<times> bool" where
  "labelPod labels acc = foldl (\<lambda>(pod, changed) (k, v).
     (pod\<lparr>pod_Labels := (pod_Labels pod)(k \<mapsto> v)\<rparr>, True)) acc labels"

definition setHasDCTableAnnotations :: "NamespacedName \<Rightarrow> ('w, unit) op" where
  "setHasDCTableAnnotations podName = modify_st (\<lambda>s. s\<lparr>pfacts := (pfacts s)\<lparr>Detail :=
     map (\<lambda>(pn, pf). (pn, if pn = podName then pf\<lparr>pf_hasDCTableAnnotations := True\<rparr> else pf)) (Detail (pfacts s))\<rparr>\<rparr>)"

definition applyAnnotationsAndLabels ::
  "'w env \<Rightarrow> NamespacedName \<Rightarrow> (string \<times> string) list \<Rightarrow> (string \<times> string) list \<Rightarrow> ('w, goerr option) op" where
  "applyAnnotationsAndLabels E podName anns labels = RetryOnConflict (e_Retries E) (do {
     r \<leftarrow> ask (e_GetPod E podName);
     case r of
       Inl e \<Rightarrow> ret_op (if errors_IsNotFound e then None else Some e)
     | Inr pod \<Rightarrow>
         (case labelPod labels (annotatePod anns pod) of (pod', changed) \<Rightarrow>
            if changed then do {
              emit (ObsUpdatePod pod');
              err \<leftarrow> ask (e_UpdatePod E pod');
              case err of
                None \<Rightarrow> do { setHasDCTableAnnotations podName; ret_op None }
              | Some e \<Rightarrow> ret_op (Some e)
            } else ret_op None)
   })"

definition AnnotateAndLabelPod_Reconcile :: "'w env \<Rightarrow> ('w, ret) op" where
  "AnnotateAndLabelPod_Reconcile E = do {
     err \<leftarrow> Collect E;
     case err of
       Some e \<Rightarrow> ret_op (Fail e)
     | None \<Rightarrow> do {
         r \<leftarrow> generateAnnotations E;
         case r of
           Inl e \<Rightarrow> ret_op (Fail e)
         | Inr annotations \<Rightarrow> do {
             d \<leftarrow> rangeEntries E;
             err \<leftarrow> forErr d (\<lambda>(pn, pf).
               if pf_exists pf then applyAnnotationsAndLabels E pn annotations generateLabels else ret_op None);
             ret_op (ofErr err)
           }
       }
   }"

section \<open>Stopping the database\<close>

definition genStopDBCmd :: "VerticaDB \<Rightarrow> string list" where
  "genStopDBCmd v = [''-t'', ''stop_db'', ''--database'', spec_DBName (vdb_Spec v), ''--force'']"

definition runStopDB :: "'w env \<Rightarrow> NamespacedName \<Rightarrow> ('w, goerr option) op" where
  "runStopDB E atPod = do {
     v \<leftarrow> gets_st vdb;
     Eventf EventTypeNormal ''StopDBStart'';
     (stdout, stderr, err) \<leftarrow> ExecAdmintools E atPod (genStopDBCmd v);
     case err of
       Some e \<Rightarrow> do { Eventf EventTypeWarning ''StopDBFailed''; ret_op (Some e) }
     | None \<Rightarrow> do { Eventf EventTypeNormal ''StopDBSucceeded''; ret_op None }
   }"

definition stopVertica :: "'w env \<Rightarrow> ('w, goerr option) op" where
  "stopVertica E = do {
     r \<leftarrow> findAny E;
     case r of
       None \<Rightarrow> ret_op None
     | Some pf \<Rightarrow> do { err \<leftarrow> runStopDB E (pf_name pf); Invalidate; ret_op err }
   }"

definition clearRestartNeeded :: "'w env \<Rightarrow> ('w, goerr option) op" where
  "clearRestartNeeded E = UpdateCondition E \<lparr>cond_Type = VerticaRestartNeeded, cond_Status = ConditionFalse, cond_LastTransitionTime = zeroTime\<rparr>"

definition StopDB_Reconcile :: "'w env \<Rightarrow> ('w, ret) op" where
  "StopDB_Reconcile E = do {
     err \<leftarrow> Collect E;
     case err of
       Some e \<Rightarrow> ret_op (Fail e)
     | None \<Rightarrow> do {
         ps \<leftarrow> rangeDetail E;
         if \<not> doesDBExist ps then ret_op Done
         else do {
           v \<leftarrow> gets_st vdb;
           case IsConditionSet v VerticaRestartNeeded of
             None \<Rightarrow> ret_op (Fail (OtherErr ''vertica DB condition missing from VerticaDBConditionType''))
           | Some False \<Rightarrow> ret_op Done
           | Some True \<Rightarrow> do {
               ps \<leftarrow> rangeDetail E;
               err \<leftarrow> (if getUpNodeCount ps > 0 then stopVertica E else ret_op None);
               case err of
                 Some e \<Rightarrow> ret_op (Fail e)
               | None \<Rightarrow> do { err \<leftarrow> clearRestartNeeded E; ret_op (ofErr err) }
             }
         }
       }
   }"

section \<open>Statefulsets of old operators\<close>

definition OperatorVersion100 :: string where
  "OperatorVersion100 = ''1.0.0''"
definition OperatorVersion110 :: string where
  "OperatorVersion110 = ''1.1.0''"
definition OperatorVersion120 :: string where
  "OperatorVersion120 = ''1.2.0''"

definition deleteOldSts :: "'w env \<Rightarrow> StatefulSet \<Rightarrow> ('w, goerr option) op" where
  "deleteOldSts E sts =
     (case sts_Labels sts OperatorVersionLabel of
        None \<Rightarrow> ret_op None
      | Some opVer \<Rightarrow>
          if opVer \<in> {OperatorVersion120, OperatorVersion110, OperatorVersion100}
          then do {
            Eventf EventTypeNormal ''OperatorUpgrade'';
            emit (ObsDeleteSts sts);
            ask (e_DeleteSts E sts)
          } else ret_op None)"

definition UpgradeOperator120_Reconcile :: "'w env \<Rightarrow> ('w, ret) op" where
  "UpgradeOperator120_Reconcile E = do {
     v \<leftarrow> gets_st vdb;
     r \<leftarrow> FindStatefulSets E (MakeSubclusterFinder v) FindExisting;
     case r of
       Inl e \<Rightarrow> ret_op (Fail e)
     | Inr stss \<Rightarrow> do { err \<leftarrow> forErr stss (deleteOldSts E); ret_op (ofErr err) }
   }"

section \<open>Version annotations\<close>

definition getVersion :: "'w env \<Rightarrow> PodFact \<Rightarrow> ('w, goerr + string) op" where
  "getVersion E pod = do {
     (stdout, stderr, err) \<leftarrow> ExecInPod E (pf_name pod) [''/opt/vertica/bin/vertica'', ''--version''];
     ret_op (case err of Some e \<Rightarrow> Inl e | None \<Rightarrow> Inr stdout)
   }"

text \<open>The keys of the new annotations in the order of the loop, with their values.\<close>

definition rangeAnnotations :: "'w env \<Rightarrow> label_map \<Rightarrow> ('w, (string \<times> string) list) op" where
  "rangeAnnotations E anns = do {
     ks \<leftarrow> ask (e_RangeKeys E (filter (\<lambda>k. anns k \<noteq> None) [VersionAnnotation, BuildRefAnnotation, BuildDateAnnotation]));
     ret_op (map (\<lambda>k. (k, the (anns k))) ks)
   }"

definition storeVersionAnnotations :: "'w env \<Rightarrow> label_map \<Rightarrow> ('w, goerr option) op" where
  "storeVersionAnnotations E versionAnnotations = do {
     cur \<leftarrow> gets_st vdb;
     r \<leftarrow> ask (e_GetVdb E (ExtractNamespacedName cur));
     case r of
       Inl e \<Rightarrow> ret_op (Some e)
     | Inr v \<Rightarrow> do {
         anns \<leftarrow> rangeAnnotations E versionAnnotations;
         let (v', changed) = MergeAnnotations v anns;
         setVdb v';
         if changed then do {
           emit (ObsUpdateVdb v');
           r \<leftarrow> ask (e_UpdateVdb E v');
           case r of
             Inl e \<Rightarrow> ret_op (Some e)
           | Inr v'' \<Rightarrow> do { setVdb v''; ret_op None }
         } else ret_op None
       }
   }"

definition updateVDBVersion :: "'w env \<Rightarrow> bool \<Rightarrow> string \<Rightarrow> ('w, ret) op" where
  "updateVDBVersion E enforceUpgradePath newVersion = do {
     v \<leftarrow> gets_st vdb;
     let versionAnnotations = ParseVersionOutput newVersion;
     let store = do { err \<leftarrow> RetryOnConflict (e_Retries E) (storeVersionAnnotations E versionAnnotations); ret_op (ofErr err) };
     if enforceUpgradePath \<and> \<not> spec_IgnoreUpgradePath (vdb_Spec v)
     then (case IsUpgradePathSupported v versionAnnotations of
             None \<Rightarrow> ret_op (GoPanic ''could not parse input version'')
           | Some (False, failureReason) \<Rightarrow> do { Eventf EventTypeWarning ''InvalidUpgradePath''; ret_op RequeueNow }
           | Some (True, _) \<Rightarrow> store)
     else store
   }"

definition reconcileVersion :: "'w env \<Rightarrow> bool \<Rightarrow> PodFact \<Rightarrow> ('w, ret) op" where
  "reconcileVersion E enforceUpgradePath pod = do {
     r \<leftarrow> getVersion E pod;
     case r of Inl e \<Rightarrow> ret_op (Fail e) | Inr vver \<Rightarrow> updateVDBVersion E enforceUpgradePath vver
   }"

definition logWarningIfVersionDoesNotSupportsCGroupV2 :: "'w env \<Rightarrow> Info \<Rightarrow> PodFact \<Rightarrow> ('w, ret) op" where
  "logWarningIfVersionDoesNotSupportsCGroupV2 E vinf pod =
     (case MakeInfoFromStr CGroupV2UnsupportedVersion of
        None \<Rightarrow> ret_op (GoPanic ''nil pointer dereference'')
      | Some ver12 \<Rightarrow>
          if \<not> IsEqual vinf ver12 then ret_op Done
          else do {
            (stdout, stderr, err) \<leftarrow> ExecInPod E (pf_name pod) [''test'', ''-f'', ''/sys/fs/cgroup/cgroup.controllers''];
            if err = None then do { Eventf EventTypeWarning ''UnsupportedVerticaVersion''; ret_op Done } else ret_op Done
          })"

definition Version_Reconcile :: "'w env \<Rightarrow> bool \<Rightarrow> ('w, PodFact option) op \<Rightarrow> ('w, ret) op" where
  "Version_Reconcile E enforceUpgradePath FindPodFunc = do {
     err \<leftarrow> Collect E;
     case err of
       Some e \<Rightarrow> ret_op (Fail e)
     | None \<Rightarrow> do {
         r \<leftarrow> FindPodFunc;
         case r of
           None \<Rightarrow> ret_op RequeueNow
         | Some pod \<Rightarrow> do {
             res \<leftarrow> reconcileVersion E enforceUpgradePath pod;
             if IsReconcileAborted res then ret_op res
             else do {
               v \<leftarrow> gets_st vdb;
               case MakeInfoFromVdb v of
                 None \<Rightarrow> ret_op Done
               | Some vinf \<Rightarrow>
                   (case IsUnsupported vinf of
                      None \<Rightarrow> ret_op (GoPanic ''could not parse input version'')
                    | Some True \<Rightarrow> do { Eventf EventTypeWarning ''UnsupportedVerticaVersion''; ret_op RequeueNow }
                    | Some False \<Rightarrow> logWarningIfVersionDoesNotSupportsCGroupV2 E vinf pod)
             }
           }
       }
   }"

definition runningPod :: "'w env \<Rightarrow> ('w, PodFact option) op" where
  "runningPod E = do { ps \<leftarrow> rangeDetail E; ret_op (findRunningPod ps) }"

section \<open>The status of the resource\<close>

definition getSubclusterSize :: "'w env \<Rightarrow> VerticaDB \<Rightarrow> Subcluster \<Rightarrow> ('w, goerr + int) op" where
  "getSubclusterSize E v sc = do {
     r \<leftarrow> ask (e_GetSts E (GenStsName v sc));
     ret_op (case r of
       Inl e \<Rightarrow> if errors_IsNotFound e then Inr (sc_Size sc) else Inl (WrapErr ''could not fetch sts for subcluster'' e)
     | Inr sts \<Rightarrow> Inr (if sts_StatusReplicas sts > sc_Size sc then sts_StatusReplicas sts else sc_Size sc))
   }"

text \<open>The loop appends before it looks at the length, so that it always adds one entry.\<close>

function growDetail :: "int \<Rightarrow> VerticaDBPodStatus list \<Rightarrow> VerticaDBPodStatus list" where
  "growDetail scSize detail =
     (let detail' = detail @ [zeroPodStatus]
      in if int (length detail') < scSize then growDetail scSize detail' else detail')"
  by pat_completeness auto
termination by (relation "measure (\<lambda>(scSize, detail). nat (scSize - int (length detail)))") auto

text \<open>Cutting a slice at a negative length panics; the panic travels as an error of its own up to the reconciler.\<close>

definition slicePanic :: goerr where
  "slicePanic = OtherErr ''panic: slice bounds out of range''"

definition resizeSubclusterStatus :: "'w env \<Rightarrow> VerticaDB \<Rightarrow> Subcluster \<Rightarrow> SubclusterStatus \<Rightarrow> ('w, goerr + SubclusterStatus) op" where
  "resizeSubclusterStatus E v sc curStat = do {
     r \<leftarrow> getSubclusterSize E v sc;
     ret_op (case r of
       Inl e \<Rightarrow> Inl e
     | Inr scSize \<Rightarrow>
         let detail = growDetail scSize (ss_Detail curStat) in
         if int (length detail) > scSize
         then if scSize < 0 then Inl slicePanic else Inr (curStat\<lparr>ss_Detail := take (nat scSize) detail\<rparr>)
         else Inr (curStat\<lparr>ss_Detail := detail\<rparr>))
   }"

definition podStatusOf :: "VerticaDB \<Rightarrow> PodFactDetail \<Rightarrow> Subcluster \<Rightarrow> int \<Rightarrow> VerticaDBPodStatus \<Rightarrow> VerticaDBPodStatus" where
  "podStatusOf v d sc podIndex old =
     (case map_of d (GenPodName v sc podIndex) of
        None \<Rightarrow> old
      | Some pf \<Rightarrow> old\<lparr>ps_UpNode := pf_upNode pf, ps_ReadOnly := pf_readOnly pf, ps_Installed := pf_isInstalled pf,
          ps_AddedToDB := pf_dbExists pf, ps_VNodeName := (if pf_vnodeName pf \<noteq> [] then pf_vnodeName pf else ps_VNodeName old)\<rparr>)"

definition refreshDetail :: "VerticaDB \<Rightarrow> PodFactDetail \<Rightarrow> Subcluster \<Rightarrow> VerticaDBPodStatus list \<Rightarrow> VerticaDBPodStatus list" where
  "refreshDetail v d sc detail =
     foldl (\<lambda>detail podIndex. detail[nat podIndex := podStatusOf v d sc podIndex (detail ! nat podIndex)])
       detail (indices 0 (int (length detail)))"

definition refreshCounts :: "SubclusterStatus \<Rightarrow> SubclusterStatus" where
  "refreshCounts curStat =
     foldl (\<lambda>st v. st\<lparr>
         ss_InstallCount := ss_InstallCount st + (if ps_Installed v then 1 else 0),
         ss_AddedToDBCount := ss_AddedToDBCount st + (if ps_AddedToDB v then 1 else 0),
         ss_UpNodeCount := ss_UpNodeCount st + (if ps_UpNode v then 1 else 0),
         ss_ReadOnlyCount := ss_ReadOnlyCount st + (if ps_ReadOnly v then 1 else 0)\<rparr>)
       (curStat\<lparr>ss_InstallCount := 0, ss_AddedToDBCount := 0, ss_UpNodeCount := 0, ss_ReadOnlyCount := 0\<rparr>)
       (ss_Detail curStat)"

definition calculateSubclusterStatus :: "'w env \<Rightarrow> Subcluster \<Rightarrow> SubclusterStatus \<Rightarrow> ('w, goerr + SubclusterStatus) op" where
  "calculateSubclusterStatus E sc curStat = do {
     v \<leftarrow> gets_st vdb;
     d \<leftarrow> gets_st (\<lambda>s. Detail (pfacts s));
     r \<leftarrow> resizeSubclusterStatus E v sc (curStat\<lparr>ss_Name := sc_Name sc\<rparr>);
     ret_op (case r of
       Inl e \<Rightarrow> Inl e
     | Inr st \<Rightarrow> Inr (refreshCounts (st\<lparr>ss_Detail := refreshDetail v d sc (ss_Detail st)\<rparr>)))
   }"

fun calculateSubclusters :: "'w env \<Rightarrow> Subcluster list \<Rightarrow> SubclusterStatus list \<Rightarrow> ('w, goerr + SubclusterStatus list) op" where
  "calculateSubclusters E [] acc = ret_op (Inr acc)"
| "calculateSubclusters E (sc # scs) acc = do {
     r \<leftarrow> calculateSubclusterStatus E sc zeroSubclusterStatus;
     case r of
       Inl e \<Rightarrow> ret_op (Inl (if e = slicePanic then e else WrapErr (''failed to calculate subcluster status '' @ sc_Name sc) e))
     | Inr st \<Rightarrow> calculateSubclusters E scs (acc @ [st])
   }"

text \<open>The totals of the cluster are 32 bit integers and wrap around.\<close>

definition calculateClusterStatus :: "VerticaDBStatus \<Rightarrow> VerticaDBStatus" where
  "calculateClusterStatus stat =
     foldl (\<lambda>stat sc. stat\<lparr>
         stat_SubclusterCount := wrap32 (stat_SubclusterCount stat + 1),
         stat_InstallCount := wrap32 (stat_InstallCount stat + ss_InstallCount sc),
         stat_AddedToDBCount := wrap32 (stat_AddedToDBCount stat + ss_AddedToDBCount sc),
         stat_UpNodeCount := wrap32 (stat_UpNodeCount stat + ss_UpNodeCount sc)\<rparr>)
       (stat\<lparr>stat_SubclusterCount := 0, stat_InstallCount := 0, stat_AddedToDBCount := 0, stat_UpNodeCount := 0\<rparr>)
       (stat_Subclusters stat)"

definition refreshStatus :: "'w env \<Rightarrow> Subcluster list \<Rightarrow> VerticaDB \<Rightarrow> ('w, goerr + VerticaDB) op" where
  "refreshStatus E subclusters vdbChg = do {
     r \<leftarrow> calculateSubclusters E subclusters [];
     ret_op (case r of
       Inl e \<Rightarrow> Inl e
     | Inr stats \<Rightarrow> Inr (vdbChg\<lparr>vdb_Status := calculateClusterStatus ((vdb_Status vdbChg)\<lparr>stat_Subclusters := stats\<rparr>)\<rparr>))
   }"

definition Status_Reconcile :: "'w env \<Rightarrow> ('w, ret) op" where
  "Status_Reconcile E = do {
     err \<leftarrow> Collect E;
     case err of
       Some e \<Rightarrow> ret_op (Fail e)
     | None \<Rightarrow> do {
         v \<leftarrow> gets_st vdb;
         r \<leftarrow> FindSubclusters E (MakeSubclusterFinder v) FindAll;
         case r of
           Inl e \<Rightarrow> ret_op (Fail e)
         | Inr subclusters \<Rightarrow> do {
             err \<leftarrow> vdbstatus_Update E (refreshStatus E subclusters);
             ret_op (if err = Some slicePanic then GoPanic ''slice bounds out of range'' else ofErr err)
           }
       }
   }"

section \<open>Lemmas on the status\<close>

declare growDetail.simps [simp del]

lemma growDetail_eq: "growDetail n d = d @ replicate (max 1 (nat n - length d)) zeroPodStatus"
proof (induction n d rule: growDetail.induct)
  case (1 n d)
  show ?case
  proof (cases "int (length (d @ [zeroPodStatus])) < n")
    case True
    then have "max 1 (nat n - length d) = Suc (max 1 (nat n - length (d @ [zeroPodStatus])))" by auto
    then show ?thesis
      using 1 [OF refl True] True by (subst growDetail.simps) (simp only: Let_def if_True append_assoc, simp)
  next
    case False
    then have "max 1 (nat n - length d) = 1" by auto
    then show ?thesis using False by (subst growDetail.simps) (simp add: Let_def)
  qed
qed

lemma run_resize:
  assumes "run_state (resizeSubclusterStatus E v sc (zeroSubclusterStatus\<lparr>ss_Name := nm\<rparr>)) s = (Inr st, s')"
  shows "\<exists>n \<ge> 0. fst (run_state (getSubclusterSize E v sc) s) = Inr n
      \<and> st = zeroSubclusterStatus\<lparr>ss_Name := nm, ss_Detail := replicate (nat n) zeroPodStatus\<rparr>"
proof -
  obtain r s1 where r: "run_state (getSubclusterSize E v sc) s = (r, s1)" by (rule prod.exhaust)
  show ?thesis
  proof (cases r)
    case (Inl e)
    then show ?thesis using assms r by (simp add: resizeSubclusterStatus_def)
  next
    case (Inr n)
    show ?thesis
    proof (cases "n \<ge> 1")
      case True
      then have "growDetail n [] = replicate (nat n) zeroPodStatus" by (simp add: growDetail_eq max_absorb2)
      then show ?thesis using assms r Inr True
        by (auto simp: resizeSubclusterStatus_def Let_def zeroSubclusterStatus_def)
    next
      case False
      then have "growDetail n [] = [zeroPodStatus]" by (simp add: growDetail_eq)
      then show ?thesis using assms r Inr False
        by (auto simp: resizeSubclusterStatus_def Let_def zeroSubclusterStatus_def split: if_splits)
    qed
  qed
qed

lemma foldl_update_upt:
  "m \<le> length xs \<Longrightarrow> foldl (\<lambda>xs k. xs[k := f k (xs ! k)]) xs [0..<m] = map (\<lambda>k. if k < m then f k (xs ! k) else xs ! k) [0..<length xs]"
proof (induction m)
  case 0
  then show ?case by (simp add: map_nth)
next
  case (Suc m)
  then show ?case by (auto intro!: nth_equalityI simp: nth_list_update)
qed

lemma refreshDetail_eq:
  "refreshDetail v d sc detail = map (\<lambda>k. podStatusOf v d sc (int k) (detail ! k)) [0..<length detail]"
proof -
  have "refreshDetail v d sc detail
      = foldl (\<lambda>xs k. xs[k := podStatusOf v d sc (int k) (xs ! k)]) detail [0..<length detail]"
    by (simp add: refreshDetail_def indices_def foldl_map)
  then show ?thesis
    using foldl_update_upt [of "length detail" detail "\<lambda>k. podStatusOf v d sc (int k)"] by simp
qed

definition countStatus :: "(VerticaDBPodStatus \<Rightarrow> bool) \<Rightarrow> SubclusterStatus \<Rightarrow> int" where
  "countStatus P st = int (length (filter P (ss_Detail st)))"

lemma refreshCounts_eq:
  "refreshCounts st = st\<lparr>ss_InstallCount := countStatus ps_Installed st, ss_AddedToDBCount := countStatus ps_AddedToDB st,
     ss_UpNodeCount := countStatus ps_UpNode st, ss_ReadOnlyCount := countStatus ps_ReadOnly st\<rparr>"
proof -
  have step: "foldl (\<lambda>st v. st\<lparr>
         ss_InstallCount := ss_InstallCount st + (if ps_Installed v then 1 else 0),
         ss_AddedToDBCount := ss_AddedToDBCount st + (if ps_AddedToDB v then 1 else 0),
         ss_UpNodeCount := ss_UpNodeCount st + (if ps_UpNode v then 1 else 0),
         ss_ReadOnlyCount := ss_ReadOnlyCount st + (if ps_ReadOnly v then 1 else 0)\<rparr>) (t :: SubclusterStatus) xs
    = t\<lparr>ss_InstallCount := ss_InstallCount t + int (length (filter ps_Installed xs)),
        ss_AddedToDBCount := ss_AddedToDBCount t + int (length (filter ps_AddedToDB xs)),
        ss_UpNodeCount := ss_UpNodeCount t + int (length (filter ps_UpNode xs)),
        ss_ReadOnlyCount := ss_ReadOnlyCount t + int (length (filter ps_ReadOnly xs))\<rparr>" for t xs
    by (induction xs arbitrary: t) simp_all
  show ?thesis unfolding refreshCounts_def step by (simp add: countStatus_def)
qed

text \<open>What the status says of a subcluster, given its size and the facts.\<close>

definition statusOf :: "VerticaDB \<Rightarrow> PodFactDetail \<Rightarrow> Subcluster \<Rightarrow> int \<Rightarrow> SubclusterStatus" where
  "statusOf v d sc n =
     (let detail = map (\<lambda>k. podStatusOf v d sc (int k) zeroPodStatus) [0..<nat n];
          number = (\<lambda>P. int (length (filter P detail)))
      in \<lparr>ss_Name = sc_Name sc, ss_InstallCount = number ps_Installed, ss_AddedToDBCount = number ps_AddedToDB,
          ss_UpNodeCount = number ps_UpNode, ss_ReadOnlyCount = number ps_ReadOnly, ss_Detail = detail\<rparr>)"

lemma getSubclusterSize_local: "run_state (getSubclusterSize E v sc) s = (r, s') \<Longrightarrow> vdb s' = vdb s \<and> pfacts s' = pfacts s"
  by (auto simp: getSubclusterSize_def split: prod.splits)

lemma run_calculateSubclusterStatus:
  assumes "run_state (calculateSubclusterStatus E sc zeroSubclusterStatus) s = (Inr st, s')"
  shows "vdb s' = vdb s \<and> pfacts s' = pfacts s
     \<and> (\<exists>n. 0 \<le> n \<and> fst (run_state (getSubclusterSize E (vdb s) sc) s) = Inr n \<and> st = statusOf (vdb s) (Detail (pfacts s)) sc n)"
proof -
  let ?R = "resizeSubclusterStatus E (vdb s) sc (zeroSubclusterStatus\<lparr>ss_Name := sc_Name sc\<rparr>)"
  obtain r s1 where r: "run_state ?R s = (r, s1)" by (rule prod.exhaust)
  have loc: "vdb s1 = vdb s \<and> pfacts s1 = pfacts s"
    using r getSubclusterSize_local [of E "vdb s" sc s]
    by (auto simp: resizeSubclusterStatus_def split: prod.splits)
  show ?thesis
  proof (cases r)
    case (Inl e)
    then show ?thesis using assms r by (simp add: calculateSubclusterStatus_def)
  next
    case (Inr st1)
    obtain n where n: "0 \<le> n" "fst (run_state (getSubclusterSize E (vdb s) sc) s) = Inr n"
      "st1 = zeroSubclusterStatus\<lparr>ss_Name := sc_Name sc, ss_Detail := replicate (nat n) zeroPodStatus\<rparr>"
      using run_resize r Inr by blast
    have "refreshDetail (vdb s) (Detail (pfacts s)) sc (replicate (nat n) zeroPodStatus)
        = map (\<lambda>k. podStatusOf (vdb s) (Detail (pfacts s)) sc (int k) zeroPodStatus) [0..<nat n]"
      by (simp add: refreshDetail_eq)
    then have "st = statusOf (vdb s) (Detail (pfacts s)) sc n"
      using assms r Inr n(3)
      by (simp add: calculateSubclusterStatus_def refreshCounts_eq statusOf_def countStatus_def zeroSubclusterStatus_def Let_def)
    then show ?thesis using assms r Inr n loc by (auto simp: calculateSubclusterStatus_def)
  qed
qed

lemma run_calculateSubclusters:
  "run_state (calculateSubclusters E scs acc) s = (Inr stats, s') \<Longrightarrow>
     \<exists>ns. length ns = length scs \<and> (\<forall>n \<in> set ns. 0 \<le> n)
       \<and> stats = acc @ map2 (statusOf (vdb s) (Detail (pfacts s))) scs ns"
proof (induction scs arbitrary: acc s)
  case Nil
  then show ?case by simp
next
  case (Cons sc scs)
  obtain r s1 where r: "run_state (calculateSubclusterStatus E sc zeroSubclusterStatus) s = (r, s1)" by (rule prod.exhaust)
  show ?case
  proof (cases r)
    case (Inl e)
    then show ?thesis using Cons.prems r by simp
  next
    case (Inr st)
    obtain n where n: "0 \<le> n" "st = statusOf (vdb s) (Detail (pfacts s)) sc n" and loc: "vdb s1 = vdb s" "pfacts s1 = pfacts s"
      using run_calculateSubclusterStatus r Inr by blast
    have "run_state (calculateSubclusters E scs (acc @ [st])) s1 = (Inr stats, s')"
      using Cons.prems r Inr by simp
    from Cons.IH [OF this] loc n obtain ns where "length ns = length scs" "\<forall>n \<in> set ns. 0 \<le> n"
      "stats = acc @ [st] @ map2 (statusOf (vdb s) (Detail (pfacts s))) scs ns" by auto
    then show ?thesis using n by (intro exI [of _ "n # ns"]) simp
  qed
qed

lemma foldl_totals:
  "foldl (\<lambda>stat sc. stat\<lparr>
       stat_SubclusterCount := wrap32 (stat_SubclusterCount stat + 1),
       stat_InstallCount := wrap32 (stat_InstallCount stat + ss_InstallCount sc),
       stat_AddedToDBCount := wrap32 (stat_AddedToDBCount stat + ss_AddedToDBCount sc),
       stat_UpNodeCount := wrap32 (stat_UpNodeCount stat + ss_UpNodeCount sc)\<rparr>)
     (old\<lparr>stat_SubclusterCount := wrap32 a, stat_InstallCount := wrap32 b, stat_AddedToDBCount := wrap32 c, stat_UpNodeCount := wrap32 d\<rparr>) xs
  = old\<lparr>stat_SubclusterCount := wrap32 (a + int (length xs)), stat_InstallCount := wrap32 (b + sum_list (map ss_InstallCount xs)),
      stat_AddedToDBCount := wrap32 (c + sum_list (map ss_AddedToDBCount xs)),
      stat_UpNodeCount := wrap32 (d + sum_list (map ss_UpNodeCount xs))\<rparr>"
  by (induction xs arbitrary: a b c d) (simp_all add: wrap32_add add.assoc)

lemma calculateClusterStatus_eq:
  "calculateClusterStatus stat = stat\<lparr>
     stat_SubclusterCount := wrap32 (int (length (stat_Subclusters stat))),
     stat_InstallCount := wrap32 (sum_list (map ss_InstallCount (stat_Subclusters stat))),
     stat_AddedToDBCount := wrap32 (sum_list (map ss_AddedToDBCount (stat_Subclusters stat))),
     stat_UpNodeCount := wrap32 (sum_list (map ss_UpNodeCount (stat_Subclusters stat)))\<rparr>"
proof -
  have "wrap32 0 = 0" by (simp add: wrap32_def)
  then show ?thesis
    using foldl_totals [where old = stat and a = 0 and b = 0 and c = 0 and d = 0 and xs = "stat_Subclusters stat"]
    by (simp add: calculateClusterStatus_def)
qed



end
