(* ===== verification/Builder.thy ===== *)
theory Builder
  imports PodRecon
begin

text \<open>
  Building the Kubernetes objects of a database, pkg/builder/builder.go: the external and the headless
  service and the statefulset of a subcluster with its volumes, environment and containers. Building
  a statefulset visits the map of annotations and changes the security context of the resource in
  memory, so that these functions are computations of the controller.
\<close>

section \<open>Paths and names\<close>

definition ServerContainer :: string where
  "ServerContainer = ''server''"
definition SuperuserPasswordPath :: string where
  "SuperuserPasswordPath = ''superuser-passwd''"
definition SuperuserPasswordKey :: string where
  "SuperuserPasswordKey = ''password''"
definition MountedLicensePath :: string where
  "MountedLicensePath = ''/home/dbadmin/licensing/mnt''"
definition HadoopConfPath :: string where
  "HadoopConfPath = ''/etc/hadoop''"
definition ConfigPath :: string where
  "ConfigPath = ''/opt/vertica/config''"
definition LogPath :: string where
  "LogPath = ''/opt/vertica/log''"
definition PodInfoPath :: string where
  "PodInfoPath = ''/etc/podinfo''"
definition Krb5Conf :: string where
  "Krb5Conf = ''/etc/krb5.conf''"
definition Krb5Keytab :: string where
  "Krb5Keytab = ''/etc/krb5/krb5.keytab''"
definition SSHPath :: string where
  "SSHPath = ''/home/dbadmin/.ssh''"
definition SSHKeyPaths :: "string list" where
  "SSHKeyPaths = [''id_rsa'', ''id_rsa.pub'', ''authorized_keys'']"

text \<open>Package filepath, for a path with a directory and a name.\<close>

definition filepath_Base :: "string \<Rightarrow> string" where
  "filepath_Base p = last (strings_Split p (CHR ''/''))"

definition filepath_Dir :: "string \<Rightarrow> string" where
  "filepath_Dir p = strings_Join (butlast (strings_Split p (CHR ''/''))) ''/''"

record DeploymentNames =
  dn_ServiceAccountName :: string
  dn_PrefixName :: string

definition getConfigMapName :: "DeploymentNames \<Rightarrow> string" where
  "getConfigMapName d = dn_PrefixName d @ ''-manager-config''"

definition DefaultDeploymentNames :: DeploymentNames where
  "DefaultDeploymentNames = \<lparr>dn_ServiceAccountName = ''verticadb-operator-controller-manager'', dn_PrefixName = ''verticadb-operator''\<rparr>"

section \<open>Services\<close>

definition BuildExtSvc :: "NamespacedName \<Rightarrow> VerticaDB \<Rightarrow> Subcluster \<Rightarrow> (VerticaDB \<Rightarrow> Subcluster \<Rightarrow> label_map) \<Rightarrow> Service" where
  "BuildExtSvc nm v sc selectorLabelCreator =
     \<lparr>svc_Name = nn_Name nm, svc_Namespace = nn_Namespace nm, svc_Labels = MakeLabelsForSvcObject v (Some sc) ''external'',
      svc_Annotations = Some (MakeAnnotationsForSubclusterService v sc), svc_Selector = selectorLabelCreator v sc,
      svc_Type = sc_ServiceType sc, svc_ClusterIP = [], svc_PublishNotReadyAddresses = False,
      svc_Ports = [\<lparr>sp_Port = 5433, sp_Name = ''vertica'', sp_NodePort = sc_NodePort sc\<rparr>,
                   \<lparr>sp_Port = 5444, sp_Name = ''agent'', sp_NodePort = 0\<rparr>],
      svc_ExternalIPs = sc_ExternalIPs sc, svc_LoadBalancerIP = sc_LoadBalancerIP sc\<rparr>"

definition BuildHlSvc :: "NamespacedName \<Rightarrow> VerticaDB \<Rightarrow> Service" where
  "BuildHlSvc nm v =
     \<lparr>svc_Name = nn_Name nm, svc_Namespace = nn_Namespace nm, svc_Labels = MakeLabelsForSvcObject v None ''headless'',
      svc_Annotations = Some (MakeAnnotationsForObject v), svc_Selector = MakeBaseSvcSelectorLabels v,
      svc_Type = ''ClusterIP'', svc_ClusterIP = ''None'', svc_PublishNotReadyAddresses = True,
      svc_Ports = [\<lparr>sp_Port = 22, sp_Name = ''ssh'', sp_NodePort = 0\<rparr>],
      svc_ExternalIPs = None, svc_LoadBalancerIP = []\<rparr>"

section \<open>Volumes\<close>

definition buildKerberosVolumeMounts :: "VolumeMount list" where
  "buildKerberosVolumeMounts =
     [\<lparr>vm_Name = Krb5SecretMountName, vm_MountPath = Krb5Conf, vm_SubPath = filepath_Base Krb5Conf\<rparr>,
      \<lparr>vm_Name = Krb5SecretMountName, vm_MountPath = filepath_Dir Krb5Keytab, vm_SubPath = []\<rparr>]"

definition buildSSHVolumeMounts :: "VolumeMount list" where
  "buildSSHVolumeMounts = map (\<lambda>p. \<lparr>vm_Name = SSHMountName, vm_MountPath = SSHPath @ ''/'' @ p, vm_SubPath = p\<rparr>) SSHKeyPaths"

definition buildCertSecretVolumeMounts :: "VerticaDB \<Rightarrow> VolumeMount list" where
  "buildCertSecretVolumeMounts v =
     map (\<lambda>s. \<lparr>vm_Name = s, vm_MountPath = CertsRoot @ ''/'' @ s, vm_SubPath = []\<rparr>) (spec_CertSecrets (vdb_Spec v))"

definition buildVolumeMounts :: "VerticaDB \<Rightarrow> VolumeMount list" where
  "buildVolumeMounts v =
     (let sp = vdb_Spec v in
      [\<lparr>vm_Name = LocalDataPVC, vm_MountPath = LocalDataPath, vm_SubPath = []\<rparr>,
       \<lparr>vm_Name = LocalDataPVC, vm_MountPath = ConfigPath, vm_SubPath = GetPVSubPath v ''config''\<rparr>,
       \<lparr>vm_Name = LocalDataPVC, vm_MountPath = LogPath, vm_SubPath = GetPVSubPath v ''log''\<rparr>,
       \<lparr>vm_Name = LocalDataPVC, vm_MountPath = loc_DataPath (spec_Local sp), vm_SubPath = GetPVSubPath v ''data''\<rparr>,
       \<lparr>vm_Name = LocalDataPVC, vm_MountPath = loc_DepotPath (spec_Local sp), vm_SubPath = GetPVSubPath v ''depot''\<rparr>,
       \<lparr>vm_Name = PodInfoMountName, vm_MountPath = PodInfoPath, vm_SubPath = []\<rparr>]
      @ (if spec_LicenseSecret sp \<noteq> [] then [\<lparr>vm_Name = LicensingMountName, vm_MountPath = MountedLicensePath, vm_SubPath = []\<rparr>] else [])
      @ (if com_HadoopConfig (spec_Communal sp) \<noteq> [] then [\<lparr>vm_Name = HadoopConfigMountName, vm_MountPath = HadoopConfPath, vm_SubPath = []\<rparr>] else [])
      @ (if spec_KerberosSecret sp \<noteq> [] then buildKerberosVolumeMounts else [])
      @ (if spec_SSHSecret sp \<noteq> [] then buildSSHVolumeMounts else [])
      @ buildCertSecretVolumeMounts v @ spec_VolumeMounts sp)"

definition buildDownwardAPIProjection :: VolumeProjection where
  "buildDownwardAPIProjection = DownwardAPIProjection
     [(''memory-limit'', ResourceFieldRef ServerContainer ''limits.memory''),
      (''memory-request'', ResourceFieldRef ServerContainer ''requests.memory''),
      (''cpu-limit'', ResourceFieldRef ServerContainer ''limits.cpu''),
      (''cpu-request'', ResourceFieldRef ServerContainer ''requests.cpu''),
      (''labels'', FieldRef ''metadata.labels''),
      (''annotations'', FieldRef ''metadata.annotations''),
      (''name'', FieldRef ''metadata.name''),
      (''namespace'', FieldRef ''metadata.namespace''),
      (''k8s-version'', FieldRef (''metadata.annotations['' @ quoted KubernetesVersionAnnotation @ '']'')),
      (''k8s-git-commit'', FieldRef (''metadata.annotations['' @ quoted KubernetesGitCommitAnnotation @ '']'')),
      (''k8s-build-date'', FieldRef (''metadata.annotations['' @ quoted KubernetesBuildDateAnnotation @ '']''))]"

definition buildOperatorConfigMapProjection :: "DeploymentNames \<Rightarrow> VolumeProjection" where
  "buildOperatorConfigMapProjection dn = ConfigMapProjection (getConfigMapName dn)
     [(''DEPLOY_WITH'', ''operator-deployment-method''), (''VERSION'', ''operator-version'')]"

definition buildSuperuserPasswordProjection :: "VerticaDB \<Rightarrow> VolumeProjection" where
  "buildSuperuserPasswordProjection v = SecretProjection
     (if spec_SuperuserPasswordSecret (vdb_Spec v) \<noteq> []
      then Some (spec_SuperuserPasswordSecret (vdb_Spec v), [(SuperuserPasswordKey, SuperuserPasswordPath)]) else None)"

definition buildPodInfoVolume :: "VerticaDB \<Rightarrow> DeploymentNames \<Rightarrow> Volume" where
  "buildPodInfoVolume v dn = \<lparr>vol_Name = PodInfoMountName, vol_Source = ProjectedVolumeSource
     [buildDownwardAPIProjection, buildOperatorConfigMapProjection dn, buildSuperuserPasswordProjection v]\<rparr>"

definition buildLicenseVolume :: "VerticaDB \<Rightarrow> Volume" where
  "buildLicenseVolume v = \<lparr>vol_Name = LicensingMountName, vol_Source = SecretVolumeSource (spec_LicenseSecret (vdb_Spec v))\<rparr>"

definition buildHadoopConfigVolume :: "VerticaDB \<Rightarrow> Volume" where
  "buildHadoopConfigVolume v =
     \<lparr>vol_Name = HadoopConfigMountName, vol_Source = ConfigMapVolumeSource (com_HadoopConfig (spec_Communal (vdb_Spec v)))\<rparr>"

definition buildKerberosVolume :: "VerticaDB \<Rightarrow> Volume" where
  "buildKerberosVolume v = \<lparr>vol_Name = Krb5SecretMountName, vol_Source = SecretVolumeSource (spec_KerberosSecret (vdb_Spec v))\<rparr>"

definition buildSSHVolume :: "VerticaDB \<Rightarrow> Volume" where
  "buildSSHVolume v = \<lparr>vol_Name = SSHMountName, vol_Source = SecretVolumeSource (spec_SSHSecret (vdb_Spec v))\<rparr>"

definition buildCertSecretVolumes :: "VerticaDB \<Rightarrow> Volume list" where
  "buildCertSecretVolumes v = map (\<lambda>s. \<lparr>vol_Name = s, vol_Source = SecretVolumeSource s\<rparr>) (spec_CertSecrets (vdb_Spec v))"

definition buildVolumes :: "VerticaDB \<Rightarrow> DeploymentNames \<Rightarrow> Volume list" where
  "buildVolumes v dn =
     (let sp = vdb_Spec v in
      [buildPodInfoVolume v dn]
      @ (if spec_LicenseSecret sp \<noteq> [] then [buildLicenseVolume v] else [])
      @ (if com_HadoopConfig (spec_Communal sp) \<noteq> [] then [buildHadoopConfigVolume v] else [])
      @ (if spec_KerberosSecret sp \<noteq> [] then [buildKerberosVolume v] else [])
      @ (if spec_SSHSecret sp \<noteq> [] then [buildSSHVolume v] else [])
      @ buildCertSecretVolumes v @ spec_Volumes sp)"

section \<open>Environment variables\<close>

definition isLetter :: "char \<Rightarrow> bool" where
  "isLetter c \<longleftrightarrow> isLower c \<or> isUpper c"

definition char_ToUpper :: "char \<Rightarrow> char" where
  "char_ToUpper c = (if isLower c then char_of ((of_char c :: nat) - 32) else c)"

definition strings_ToUpper :: "string \<Rightarrow> string" where
  "strings_ToUpper = map char_ToUpper"

text \<open>The name of the variable of an annotation: every other character becomes an underscore.\<close>

definition envVarName :: "string \<Rightarrow> string" where
  "envVarName k = strings_ToUpper (map (\<lambda>c. if isLetter c \<or> isDigit c then c else CHR ''_'') k)"

definition startsWithLetter :: "string \<Rightarrow> bool" where
  "startsWithLetter k \<longleftrightarrow> (case k of [] \<Rightarrow> False | c # _ \<Rightarrow> isLetter c)"

text \<open>
  The loop visits the annotations in some order. Where two variables have the same name, the sort
  of the source leaves their order open, which an arbitrary order of the visit followed by a stable
  sort covers.
\<close>

definition envVarsOf :: "(string \<times> string) list \<Rightarrow> EnvVar list" where
  "envVarsOf kvs = sort_key ev_Name
     (map (\<lambda>(k, v). \<lparr>ev_Name = envVarName k, ev_Value = v, ev_FieldPath = []\<rparr>) (filter (\<lambda>(k, v). startsWithLetter k) kvs))"

definition translateAnnotationsToEnvVars :: "'w env \<Rightarrow> ('w, EnvVar list) op" where
  "translateAnnotationsToEnvVars E = do {
     v \<leftarrow> gets_st vdb;
     kvs \<leftarrow> ask (e_RangeMap E (spec_Annotations (vdb_Spec v)));
     ret_op (envVarsOf kvs)
   }"

section \<open>Containers\<close>

definition pickImage :: "VerticaDB \<Rightarrow> Subcluster \<Rightarrow> string" where
  "pickImage v sc = (if sc_ImageOverride sc \<noteq> [] then sc_ImageOverride sc else spec_Image (vdb_Spec v))"

definition buildReadinessProbeSQL :: "VerticaDB \<Rightarrow> string" where
  "buildReadinessProbeSQL v =
     (let passwd = (if spec_SuperuserPasswordSecret (vdb_Spec v) \<noteq> []
                    then ''-w $(cat '' @ PodInfoPath @ ''/'' @ SuperuserPasswordPath @ '')'' else [])
      in ''vsql '' @ passwd @ '' -c '' @ quoted ''select 1'')"

definition capabilitiesNeeded :: "string list" where
  "capabilitiesNeeded = [''SYS_CHROOT'', ''AUDIT_WRITE'', ''SYS_PTRACE'']"

definition addCapability :: "Capabilities \<Rightarrow> string \<Rightarrow> Capabilities" where
  "addCapability c needed =
     (let foundCap = needed \<in> set (cap_Add c);
          foundCap = (if needed \<in> set (cap_Drop c) then False else foundCap)
      in if \<not> foundCap then c\<lparr>cap_Add := cap_Add c @ [needed]\<rparr> else c)"

text \<open>The context of the resource, if it has one, is changed in place.\<close>

definition makeServerSecurityContext :: "('w, SecurityContext) op" where
  "makeServerSecurityContext = do {
     v \<leftarrow> gets_st vdb;
     let ctx = (case spec_SecurityContext (vdb_Spec v) of None \<Rightarrow> \<lparr>secc_Capabilities = None, secc_Rest = []\<rparr> | Some ctx \<Rightarrow> ctx);
     let caps = (case secc_Capabilities ctx of None \<Rightarrow> \<lparr>cap_Add = [], cap_Drop = []\<rparr> | Some c \<Rightarrow> c);
     let ctx' = ctx\<lparr>secc_Capabilities := Some (foldl addCapability caps capabilitiesNeeded)\<rparr>;
     (if spec_SecurityContext (vdb_Spec v) \<noteq> None
      then setVdb (v\<lparr>vdb_Spec := (vdb_Spec v)\<lparr>spec_SecurityContext := Some ctx'\<rparr>\<rparr>)
      else ret_op ());
     ret_op ctx'
   }"

definition makeServerContainer :: "'w env \<Rightarrow> Subcluster \<Rightarrow> ('w, Container) op" where
  "makeServerContainer E sc = do {
     envVars \<leftarrow> translateAnnotationsToEnvVars E;
     secc \<leftarrow> makeServerSecurityContext;
     v \<leftarrow> gets_st vdb;
     ret_op \<lparr>cnt_Name = ServerContainer, cnt_Image = pickImage v sc, cnt_ImagePullPolicy = spec_ImagePullPolicy (vdb_Spec v),
       cnt_Resources = sc_Resources sc,
       cnt_Ports = [(5433, ''vertica''), (5434, ''vertica-int''), (22, ''ssh'')],
       cnt_ReadinessProbe = [''bash'', ''-c'', buildReadinessProbeSQL v],
       cnt_SecurityContext = Some secc,
       cnt_Env = envVars @
         [\<lparr>ev_Name = ''POD_IP'', ev_Value = [], ev_FieldPath = ''status.podIP''\<rparr>,
          \<lparr>ev_Name = ''HOST_IP'', ev_Value = [], ev_FieldPath = ''status.hostIP''\<rparr>,
          \<lparr>ev_Name = ''HOST_NODENAME'', ev_Value = [], ev_FieldPath = ''spec.nodeName''\<rparr>,
          \<lparr>ev_Name = ''DATA_PATH'', ev_Value = loc_DataPath (spec_Local (vdb_Spec v)), ev_FieldPath = []\<rparr>,
          \<lparr>ev_Name = ''DEPOT_PATH'', ev_Value = loc_DepotPath (spec_Local (vdb_Spec v)), ev_FieldPath = []\<rparr>],
       cnt_VolumeMounts = buildVolumeMounts v, cnt_Rest = []\<rparr>
   }"

fun makeSidecars :: "'w env \<Rightarrow> Container list \<Rightarrow> ('w, Container list) op" where
  "makeSidecars E [] = ret_op []"
| "makeSidecars E (c # cs) = do {
     v \<leftarrow> gets_st vdb;
     envVars \<leftarrow> translateAnnotationsToEnvVars E;
     rest \<leftarrow> makeSidecars E cs;
     ret_op (c\<lparr>cnt_VolumeMounts := cnt_VolumeMounts c @ buildVolumeMounts v,
               cnt_Env := cnt_Env c @ envVars @ [\<lparr>ev_Name = ''DBPATH'', ev_Value = GetDBDataPath v, ev_FieldPath = []\<rparr>]\<rparr> # rest)
   }"

text \<open>The server container and the sidecars.\<close>

definition makeContainers :: "'w env \<Rightarrow> Subcluster \<Rightarrow> ('w, Container \<times> Container list) op" where
  "makeContainers E sc = do {
     server \<leftarrow> makeServerContainer E sc;
     v \<leftarrow> gets_st vdb;
     sidecars \<leftarrow> makeSidecars E (spec_Sidecars (vdb_Spec v));
     ret_op (server, sidecars)
   }"

section \<open>The statefulset\<close>

definition getStorageClassName :: "VerticaDB \<Rightarrow> string option" where
  "getStorageClassName v =
     (if loc_StorageClass (spec_Local (vdb_Spec v)) = [] then None else Some (loc_StorageClass (spec_Local (vdb_Spec v))))"

definition makeUpdateStrategy :: "VerticaDB \<Rightarrow> string" where
  "makeUpdateStrategy v = (if spec_KSafety (vdb_Spec v) = KSafety0 then ''OnDelete'' else ''RollingUpdate'')"

text \<open>The template of the pods is part of the record of the statefulset; this sets its fields.\<close>

definition buildPodSpec :: "'w env \<Rightarrow> Subcluster \<Rightarrow> DeploymentNames \<Rightarrow> StatefulSetSpec \<Rightarrow> ('w, StatefulSetSpec) op" where
  "buildPodSpec E sc dn sp = do {
     (server, sidecars) \<leftarrow> makeContainers E sc;
     v \<leftarrow> gets_st vdb;
     ret_op (sp\<lparr>sss_NodeSelector := sc_NodeSelector sc, sss_Affinity := sc_Affinity sc, sss_Tolerations := sc_Tolerations sc,
       sss_ImagePullSecrets := spec_ImagePullSecrets (vdb_Spec v), sss_Server := server, sss_Sidecars := sidecars,
       sss_Volumes := buildVolumes v dn, sss_TerminationGracePeriod := Some 0,
       sss_ServiceAccountName := dn_ServiceAccountName dn\<rparr>)
   }"

definition BuildStsSpec :: "'w env \<Rightarrow> NamespacedName \<Rightarrow> Subcluster \<Rightarrow> DeploymentNames \<Rightarrow> ('w, StatefulSet) op" where
  "BuildStsSpec E nm sc dn = do {
     v \<leftarrow> gets_st vdb;
     sp \<leftarrow> buildPodSpec E sc dn (zeroStatefulSetSpec\<lparr>
       sss_Selector := MakeStsSelectorLabels v sc,
       sss_ServiceName := nn_Name (GenHlSvcName v),
       sss_Replicas := Some (sc_Size sc),
       sss_TemplateLabels := MakeLabelsForPodObject v sc,
       sss_TemplateAnnotations := MakeAnnotationsForObject v,
       sss_UpdateStrategy := makeUpdateStrategy v,
       sss_PodManagementPolicy := ''Parallel'',
       sss_VolumeClaims := [(LocalDataPVC, ''ReadWriteOnce'', getStorageClassName v, loc_RequestSize (spec_Local (vdb_Spec v)))]\<rparr>);
     ret_op \<lparr>sts_Name = nn_Name nm, sts_Namespace = nn_Namespace nm, sts_Labels = makeLabelsForObject v (Some sc) False,
       sts_Annotations = MakeAnnotationsForObject v, sts_Spec = sp, sts_StatusReplicas = 0\<rparr>
   }"

section \<open>Lemmas\<close>

lemma envVarsOf_perm:
  assumes "distinct (map fst kvs)" "distinct (map fst kvs')" "map_of kvs = map_of kvs'"
    and inj: "inj_on envVarName {k \<in> dom (map_of kvs). startsWithLetter k}"
  shows "envVarsOf kvs = envVarsOf kvs'"
proof -
  let ?mk = "\<lambda>(k, v). \<lparr>ev_Name = envVarName k, ev_Value = v, ev_FieldPath = []\<rparr>"
  let ?xs = "\<lambda>kvs. map ?mk (filter (\<lambda>(k, v). startsWithLetter k) kvs)"
  have "set kvs = set kvs'"
    using map_of_inject_set [OF assms(1,2)] assms(3) by simp
  then have "mset kvs = mset kvs'"
    using assms(1,2) by (simp add: set_eq_iff_mset_eq_distinct [symmetric] distinct_map)
  then have ms: "mset (?xs kvs) = mset (?xs kvs')" by (simp only: mset_map mset_filter)
  have inj_xs: "inj_on ev_Name (set (?xs kvs))"
  proof (rule inj_onI)
    fix a b assume "a \<in> set (?xs kvs)" "b \<in> set (?xs kvs)" and eq: "ev_Name a = ev_Name b"
    then obtain k v k' v' where kv: "(k, v) \<in> set kvs" "startsWithLetter k" "a = ?mk (k, v)"
      and kv': "(k', v') \<in> set kvs" "startsWithLetter k'" "b = ?mk (k', v')" by auto
    have mk: "map_of kvs k = Some v" "map_of kvs k' = Some v'"
      using kv(1) kv'(1) assms(1) by (simp_all add: map_of_is_SomeI)
    have "k = k'"
      by (rule inj_onD [OF inj]) (use eq kv kv' mk in \<open>simp_all add: dom_def\<close>)
    with mk kv(3) kv'(3) show "a = b" by simp
  qed
  have "mset (?xs kvs) = mset (sort_key ev_Name (?xs kvs'))" by (simp only: ms mset_sort)
  then show ?thesis
    unfolding envVarsOf_def by (rule sort_key_inj_key_eq [OF _ inj_xs]) (rule sorted_sort_key)
qed

text \<open>
  When no two annotations that become environment variables get the same name, the list of
  environment variables does not depend on the order in which the map of annotations is visited, so
  that two reconcile iterations build the same containers. The list is sorted by name.
\<close>

theorem env_vars_deterministic:
  assumes "rangeLaw E" and "finite (dom (spec_Annotations (vdb_Spec (vdb s))))"
    and "inj_on envVarName {k \<in> dom (spec_Annotations (vdb_Spec (vdb s))). startsWithLetter k}"
    and "spec_Annotations (vdb_Spec (vdb s')) = spec_Annotations (vdb_Spec (vdb s))"
  shows "fst (run_state (translateAnnotationsToEnvVars E) s') = fst (run_state (translateAnnotationsToEnvVars E) s)
     \<and> sorted (map ev_Name (fst (run_state (translateAnnotationsToEnvVars E) s)))"
proof -
  let ?m = "spec_Annotations (vdb_Spec (vdb s))"
  obtain kvs w where kvs: "e_RangeMap E ?m (world s) = (kvs, w)" by (rule prod.exhaust)
  obtain kvs' w' where kvs': "e_RangeMap E ?m (world s') = (kvs', w')" by (rule prod.exhaust)
  have "envVarsOf kvs' = envVarsOf kvs"
    using rangeLawD(3) [OF assms(1) kvs assms(2)] rangeLawD(3) [OF assms(1) kvs' assms(2)] assms(3)
    by (intro envVarsOf_perm) auto
  then show ?thesis
    using kvs kvs' assms(4) by (simp add: translateAnnotationsToEnvVars_def) (simp add: envVarsOf_def)
qed

definition annotatedVdb :: VerticaDB where
  "annotatedVdb = MakeVDB\<lparr>vdb_Spec := (vdb_Spec MakeVDB)\<lparr>spec_Annotations := [''build'' \<mapsto> ''7'', ''a.b'' \<mapsto> ''x'']\<rparr>\<rparr>"

theorem env_vars_deterministic_witness:
  "fst (run_state (translateAnnotationsToEnvVars storeEnv) (exampleState\<lparr>vdb := annotatedVdb, world := annotatedVdb\<rparr>))
     = fst (run_state (translateAnnotationsToEnvVars storeEnv) (exampleState\<lparr>vdb := annotatedVdb\<rparr>))
   \<and> inj_on envVarName {k \<in> dom (spec_Annotations (vdb_Spec annotatedVdb)). startsWithLetter k}"
proof -
  have "envVarName ''build'' \<noteq> envVarName ''a.b''" by code_simp
  then have inj: "inj_on envVarName {k \<in> dom (spec_Annotations (vdb_Spec annotatedVdb)). startsWithLetter k}"
    by (auto simp: annotatedVdb_def inj_on_def)
  have "finite (dom (spec_Annotations (vdb_Spec annotatedVdb)))" by (simp add: annotatedVdb_def)
  then show ?thesis
    using env_vars_deterministic [OF storeEnv_laws(2), of "exampleState\<lparr>vdb := annotatedVdb\<rparr>" "exampleState\<lparr>vdb := annotatedVdb, world := annotatedVdb\<rparr>"] inj
    by simp
qed

lemma dropped_capability_added:
  "needed \<in> set (cap_Drop c) \<Longrightarrow> cap_Add (addCapability c needed) = cap_Add c @ [needed]"
  by (simp add: addCapability_def)

end
