(* ===== verification/ObjRecon.thy ===== *)
theory ObjRecon
  imports Builder
begin

text \<open>
  Keeping the Kubernetes objects in line with the resource, obj_reconcile.go and k8s.go of
  pkg/controllers/vdb: the mounted secrets, the services and the statefulsets, and deleting what
  belongs to subclusters that are gone. What happens to a statefulset is proved safe for
  admintools.conf: no pod that is still installed or in the database goes away.
\<close>

section \<open>Secrets and config maps\<close>

definition getConfigMapOrSecret :: "(NamespacedName \<Rightarrow> 'w \<Rightarrow> (goerr + (string \<times> string) list) \<times> 'w) \<Rightarrow> NamespacedName \<Rightarrow> ('w, (string \<times> string) list \<times> ret) op" where
  "getConfigMapOrSecret get nm = do {
     r \<leftarrow> ask (get nm);
     case r of
       Inl e \<Rightarrow>
         if errors_IsNotFound e then do { Eventf EventTypeWarning ''ObjectNotFound''; ret_op ([], RequeueNow) }
         else ret_op ([], Fail (WrapErr (''could not read the secret '' @ nn_Namespace nm @ ''/'' @ nn_Name nm) e))
     | Inr contents \<Rightarrow> ret_op (contents, Done)
   }"

definition getSecret :: "'w env \<Rightarrow> NamespacedName \<Rightarrow> ('w, (string \<times> string) list \<times> ret) op" where
  "getSecret E nm = getConfigMapOrSecret (e_GetSecret E) nm"

definition getConfigMap :: "'w env \<Rightarrow> NamespacedName \<Rightarrow> ('w, (string \<times> string) list \<times> ret) op" where
  "getConfigMap E nm = getConfigMapOrSecret (e_GetConfigMap E) nm"

definition checkSecretHasKeys :: "'w env \<Rightarrow> string \<Rightarrow> string list \<Rightarrow> ('w, ret) op" where
  "checkSecretHasKeys E secretName keyNames = do {
     v \<leftarrow> gets_st vdb;
     (secret, res) \<leftarrow> getSecret E (GenNamespacedName v secretName);
     if IsReconcileAborted res then ret_op res
     else forRet keyNames (\<lambda>key.
       if key \<notin> fst ` set secret then do { Eventf EventTypeWarning ''MissingSecretKeys''; ret_op RequeueNow } else ret_op Done)
   }"

definition checkMountedObjs :: "'w env \<Rightarrow> ('w, ret) op" where
  "checkMountedObjs E = do {
     v \<leftarrow> gets_st vdb;
     let sp = vdb_Spec v;
     forRet
       [(spec_LicenseSecret sp \<noteq> [], do { (_, res) \<leftarrow> getSecret E (GenNamespacedName v (spec_LicenseSecret sp)); ret_op res }),
        (com_HadoopConfig (spec_Communal sp) \<noteq> [],
           do { (_, res) \<leftarrow> getConfigMap E (GenNamespacedName v (com_HadoopConfig (spec_Communal sp))); ret_op res }),
        (spec_KerberosSecret sp \<noteq> [],
           checkSecretHasKeys E (spec_KerberosSecret sp) [filepath_Base Krb5Conf, filepath_Base Krb5Keytab]),
        (spec_SSHSecret sp \<noteq> [], checkSecretHasKeys E (spec_SSHSecret sp) SSHKeyPaths)]
       (\<lambda>(configured, check). if configured then check else ret_op Done)
   }"

section \<open>Services\<close>

definition ObjReconcileModeAll :: string where
  "ObjReconcileModeAll = ''All''"
definition ObjReconcileModeIfNotFound :: string where
  "ObjReconcileModeIfNotFound = ''IfNotFound''"

definition zeroService :: Service where
  "zeroService = \<lparr>svc_Name = [], svc_Namespace = [], svc_Labels = Map.empty, svc_Annotations = None,
     svc_Selector = Map.empty, svc_Type = [], svc_ClusterIP = [], svc_PublishNotReadyAddresses = False, svc_Ports = [],
     svc_ExternalIPs = None, svc_LoadBalancerIP = []\<rparr>"

definition createService :: "'w env \<Rightarrow> Service \<Rightarrow> ('w, goerr option) op" where
  "createService E svc = do {
     err \<leftarrow> ask (e_SetControllerReference E \<lparr>nn_Namespace = svc_Namespace svc, nn_Name = svc_Name svc\<rparr>);
     case err of
       Some e \<Rightarrow> ret_op (Some e)
     | None \<Rightarrow> do { emit (ObsCreateSvc svc); ask (e_CreateSvc E svc) }
   }"

text \<open>
  The changed service and whether it changed. The node port of the first port of a service without
  ports is out of range, which panics: \<^const>\<open>None\<close>.
\<close>

definition reconcileNodePorts :: "Service \<Rightarrow> Service \<Rightarrow> Subcluster \<Rightarrow> (ServicePort list \<times> bool) option" where
  "reconcileNodePorts curSvc expSvc sc =
     (if svc_Type expSvc = ServiceTypeLoadBalancer \<or> svc_Type expSvc = ServiceTypeNodePort
      then if sc_NodePort sc \<noteq> 0
           then (case (svc_Ports expSvc, svc_Ports curSvc) of
                   (e # _, c # _) \<Rightarrow>
                     Some (if sp_NodePort e \<noteq> sp_NodePort c then (svc_Ports expSvc, True) else (svc_Ports curSvc, False))
                 | _ \<Rightarrow> None)
           else Some (svc_Ports curSvc, False)
      else Some (map (\<lambda>p. p\<lparr>sp_NodePort := 0\<rparr>) (svc_Ports curSvc), list_ex (\<lambda>p. sp_NodePort p \<noteq> 0) (svc_Ports curSvc)))"

definition reconcileExtSvcFields :: "Service \<Rightarrow> Service \<Rightarrow> Subcluster \<Rightarrow> Service option option" where
  "reconcileExtSvcFields curSvc expSvc sc =
     (case reconcileNodePorts curSvc expSvc sc of
        None \<Rightarrow> None
      | Some (ports, portsUpdated) \<Rightarrow>
          let updated = svc_Annotations expSvc \<noteq> svc_Annotations curSvc \<or> svc_Type expSvc \<noteq> svc_Type curSvc \<or> portsUpdated
                \<or> svc_ExternalIPs expSvc \<noteq> svc_ExternalIPs curSvc \<or> svc_LoadBalancerIP expSvc \<noteq> svc_LoadBalancerIP curSvc
                \<or> svc_Selector expSvc \<noteq> svc_Selector curSvc \<or> svc_Labels expSvc \<noteq> svc_Labels curSvc
          in Some (if updated
                   then Some (curSvc\<lparr>svc_Annotations := svc_Annotations expSvc, svc_Type := svc_Type expSvc, svc_Ports := ports,
                     svc_ExternalIPs := svc_ExternalIPs expSvc, svc_LoadBalancerIP := svc_LoadBalancerIP expSvc,
                     svc_Selector := svc_Selector expSvc, svc_Labels := svc_Labels expSvc\<rparr>)
                   else None))"

definition reconcileHlSvcFields :: "Service \<Rightarrow> Service \<Rightarrow> Service option option" where
  "reconcileHlSvcFields curSvc expSvc =
     Some (if svc_Labels expSvc \<noteq> svc_Labels curSvc then Some (curSvc\<lparr>svc_Labels := svc_Labels expSvc\<rparr>) else None)"

definition updateSvc :: "'w env \<Rightarrow> string \<Rightarrow> Service option option \<Rightarrow> ('w, ret) op" where
  "updateSvc E mode newSvc =
     (if mode = ObjReconcileModeIfNotFound then ret_op Done
      else (case newSvc of
              None \<Rightarrow> ret_op (GoPanic ''index out of range'')
            | Some None \<Rightarrow> ret_op Done
            | Some (Some svc) \<Rightarrow> do { emit (ObsUpdateSvc svc); err \<leftarrow> ask (e_UpdateSvc E svc); ret_op (ofErr err) }))"

text \<open>An error of the read other than not found is not looked at: the service is then the empty one.\<close>

definition reconcileSvc :: "'w env \<Rightarrow> string \<Rightarrow> Service \<Rightarrow> NamespacedName \<Rightarrow> (Service \<Rightarrow> Service \<Rightarrow> Service option option) \<Rightarrow> ('w, ret) op" where
  "reconcileSvc E mode expSvc svcName reconcileFieldsFunc = do {
     r \<leftarrow> ask (e_GetSvc E svcName);
     case r of
       Inl e \<Rightarrow>
         if errors_IsNotFound e then do { err \<leftarrow> createService E expSvc; ret_op (ofErr err) }
         else updateSvc E mode (reconcileFieldsFunc zeroService expSvc)
     | Inr curSvc \<Rightarrow> updateSvc E mode (reconcileFieldsFunc curSvc expSvc)
   }"

definition reconcileExtSvc :: "'w env \<Rightarrow> string \<Rightarrow> Service \<Rightarrow> Subcluster \<Rightarrow> ('w, ret) op" where
  "reconcileExtSvc E mode expSvc sc =
     reconcileSvc E mode expSvc \<lparr>nn_Namespace = svc_Namespace expSvc, nn_Name = svc_Name expSvc\<rparr>
       (\<lambda>curSvc expSvc. reconcileExtSvcFields curSvc expSvc sc)"

definition reconcileHlSvc :: "'w env \<Rightarrow> string \<Rightarrow> ('w, ret) op" where
  "reconcileHlSvc E mode = do {
     v \<leftarrow> gets_st vdb;
     reconcileSvc E mode (BuildHlSvc (GenHlSvcName v) v) (GenHlSvcName v) reconcileHlSvcFields
   }"

section \<open>Statefulsets\<close>

text \<open>Reading the replicas of a statefulset that has none is a nil dereference.\<close>

definition checkForOrphanAdmintoolsConfEntries :: "VerticaDB \<Rightarrow> PodFactDetail \<Rightarrow> int \<Rightarrow> StatefulSet \<Rightarrow> ret" where
  "checkForOrphanAdmintoolsConfEntries v d newStsSize sts =
     (case sts_Replicas sts of
        None \<Rightarrow> GoPanic ''nil pointer dereference''
      | Some replicas \<Rightarrow>
          if newStsSize \<ge> replicas then Done
          else (case List.find (\<lambda>i. case map_of d (GenPodNameFromSts v sts i) of
                       None \<Rightarrow> True | Some pf \<Rightarrow> pf_isInstalled pf \<or> pf_dbExists pf) (indices newStsSize replicas) of
                  None \<Rightarrow> Done
                | Some i \<Rightarrow>
                    if map_of d (GenPodNameFromSts v sts i) = None
                    then Fail (OtherErr (''could not find pod facts for pod '' @ quoted (nn_Name (GenPodNameFromSts v sts i))))
                    else RequeueNow))"

definition createSts :: "'w env \<Rightarrow> StatefulSet \<Rightarrow> ('w, ret) op" where
  "createSts E expSts = do {
     err \<leftarrow> ask (e_SetControllerReference E \<lparr>nn_Namespace = sts_Namespace expSts, nn_Name = sts_Name expSts\<rparr>);
     case err of
       Some e \<Rightarrow> ret_op (Fail e)
     | None \<Rightarrow> do {
         Invalidate;
         emit (ObsCreateSts expSts);
         err \<leftarrow> ask (e_CreateSts E expSts);
         ret_op (ofErr err)
       }
   }"

definition keepImage :: "StatefulSet \<Rightarrow> StatefulSet \<Rightarrow> StatefulSet" where
  "keepImage curSts expSts = expSts\<lparr>sts_Spec := (sts_Spec expSts)\<lparr>sss_Server :=
     (sss_Server (sts_Spec expSts))\<lparr>cnt_Image := sts_Image curSts\<rparr>\<rparr>\<rparr>"

definition patchSts :: "'w env \<Rightarrow> bool \<Rightarrow> StatefulSet \<Rightarrow> StatefulSet \<Rightarrow> ('w, ret) op" where
  "patchSts E patchImageAllowed curSts expSts = do {
     let expSts = (if \<not> patchImageAllowed then keepImage curSts expSts else expSts);
     let newSts = curSts\<lparr>sts_Spec := sts_Spec expSts, sts_Labels := sts_Labels expSts\<rparr>;
     emit (ObsPatchSts curSts newSts);
     r \<leftarrow> ask (e_PatchSts E curSts newSts);
     case r of
       Inl e \<Rightarrow> ret_op (Fail e)
     | Inr sts \<Rightarrow> if sts_Spec sts \<noteq> sts_Spec curSts then do { Invalidate; ret_op Done } else ret_op Done
   }"

definition updateSts :: "'w env \<Rightarrow> string \<Rightarrow> bool \<Rightarrow> Subcluster \<Rightarrow> StatefulSet \<Rightarrow> StatefulSet \<Rightarrow> ('w, ret) op" where
  "updateSts E mode patchImageAllowed sc curSts expSts =
     (if mode = ObjReconcileModeIfNotFound then ret_op Done
      else do {
        v \<leftarrow> gets_st vdb;
        d \<leftarrow> gets_st (\<lambda>s. Detail (pfacts s));
        let res = checkForOrphanAdmintoolsConfEntries v d (sc_Size sc) curSts;
        if IsReconcileAborted res then ret_op res else patchSts E patchImageAllowed curSts expSts
      })"

definition reconcileSts :: "'w env \<Rightarrow> DeploymentNames \<Rightarrow> string \<Rightarrow> bool \<Rightarrow> Subcluster \<Rightarrow> ('w, ret) op" where
  "reconcileSts E dn mode patchImageAllowed sc = do {
     v \<leftarrow> gets_st vdb;
     let nm = GenStsName v sc;
     expSts \<leftarrow> BuildStsSpec E nm sc dn;
     r \<leftarrow> ask (e_GetSts E nm);
     case r of
       Inl e \<Rightarrow>
         if errors_IsNotFound e then createSts E expSts
         else updateSts E mode patchImageAllowed sc zeroStatefulSet expSts
     | Inr curSts \<Rightarrow> updateSts E mode patchImageAllowed sc curSts expSts
   }"

section \<open>The reconciler\<close>

definition checkForCreatedSubcluster :: "'w env \<Rightarrow> DeploymentNames \<Rightarrow> string \<Rightarrow> bool \<Rightarrow> Subcluster \<Rightarrow> ('w, ret) op" where
  "checkForCreatedSubcluster E dn mode patchImageAllowed sc = do {
     v \<leftarrow> gets_st vdb;
     res \<leftarrow> (if \<not> sc_IsTransient sc
             then reconcileExtSvc E mode (BuildExtSvc (GenExtSvcName v sc) v sc MakeSvcSelectorLabelsForServiceNameRouting) sc
             else ret_op Done);
     if IsReconcileAborted res then ret_op res else reconcileSts E dn mode patchImageAllowed sc
   }"

definition deleteSts :: "'w env \<Rightarrow> StatefulSet \<Rightarrow> ('w, ret) op" where
  "deleteSts E sts = do {
     v \<leftarrow> gets_st vdb;
     d \<leftarrow> gets_st (\<lambda>s. Detail (pfacts s));
     let res = checkForOrphanAdmintoolsConfEntries v d 0 sts;
     if IsReconcileAborted res then ret_op res
     else do { emit (ObsDeleteSts sts); err \<leftarrow> ask (e_DeleteSts E sts); ret_op (ofErr err) }
   }"

definition deleteSvc :: "'w env \<Rightarrow> Service \<Rightarrow> ('w, ret) op" where
  "deleteSvc E svc = do { emit (ObsDeleteSvc svc); err \<leftarrow> ask (e_DeleteSvc E svc); ret_op (ofErr err) }"

definition checkForDeletedSubcluster :: "'w env \<Rightarrow> string \<Rightarrow> ('w, ret) op" where
  "checkForDeletedSubcluster E mode =
     (if mode = ObjReconcileModeIfNotFound then ret_op Done
      else do {
        v \<leftarrow> gets_st vdb;
        r \<leftarrow> FindStatefulSets E (MakeSubclusterFinder v) FindNotInVdb;
        case r of
          Inl e \<Rightarrow> ret_op (Fail e)
        | Inr stss \<Rightarrow> do {
            res \<leftarrow> forRet stss (deleteSts E);
            if IsReconcileAborted res then ret_op res
            else do {
              r \<leftarrow> FindServices E (MakeSubclusterFinder v) FindNotInVdb;
              case r of
                Inl e \<Rightarrow> ret_op (Fail e)
              | Inr svcs \<Rightarrow> forRet svcs (deleteSvc E)
            }
          }
      })"

definition reconcileObjs :: "'w env \<Rightarrow> DeploymentNames \<Rightarrow> string \<Rightarrow> bool \<Rightarrow> ('w, ret) op" where
  "reconcileObjs E dn mode patchImageAllowed = do {
     v \<leftarrow> gets_st vdb;
     forRet ([checkMountedObjs E, reconcileHlSvc E mode]
             @ map (checkForCreatedSubcluster E dn mode patchImageAllowed) (vdb_Subclusters v)
             @ [checkForDeletedSubcluster E mode]) (\<lambda>step. step)
   }"

definition Obj_Reconcile :: "'w env \<Rightarrow> DeploymentNames \<Rightarrow> string \<Rightarrow> bool \<Rightarrow> ('w, ret) op" where
  "Obj_Reconcile E dn mode patchImageAllowed = do {
     err \<leftarrow> Collect E;
     case err of
       Some e \<Rightarrow> ret_op (Fail e)
     | None \<Rightarrow> reconcileObjs E dn mode patchImageAllowed
   }"

section \<open>Safety\<close>

text \<open>The pods of the statefulset from an index on are neither installed nor in the database.\<close>

definition podsGone :: "VerticaDB \<Rightarrow> PodFactDetail \<Rightarrow> StatefulSet \<Rightarrow> int \<Rightarrow> bool" where
  "podsGone v D sts n \<longleftrightarrow> (\<exists>replicas. sts_Replicas sts = Some replicas \<and>
     (\<forall>i. n \<le> i \<and> i < replicas \<longrightarrow>
        (\<exists>pf. map_of D (GenPodNameFromSts v sts i) = Some pf \<and> \<not> pf_isInstalled pf \<and> \<not> pf_dbExists pf)))"

fun objSafe :: "string \<Rightarrow> bool \<Rightarrow> VerticaDB \<Rightarrow> PodFactDetail \<Rightarrow> obs \<Rightarrow> bool" where
  "objSafe mode patchImageAllowed v D (ObsDeleteSts sts) \<longleftrightarrow> mode \<noteq> ObjReconcileModeIfNotFound \<and> podsGone v D sts 0"
| "objSafe mode patchImageAllowed v D (ObsPatchSts old new) \<longleftrightarrow> mode \<noteq> ObjReconcileModeIfNotFound
     \<and> (\<exists>n. sts_Replicas new = Some n \<and> podsGone v D old n) \<and> (\<not> patchImageAllowed \<longrightarrow> sts_Image new = sts_Image old)"
| "objSafe mode patchImageAllowed v D (ObsUpdateSvc svc) \<longleftrightarrow> mode \<noteq> ObjReconcileModeIfNotFound"
| "objSafe mode patchImageAllowed v D (ObsDeleteSvc svc) \<longleftrightarrow> mode \<noteq> ObjReconcileModeIfNotFound"
| "objSafe mode patchImageAllowed v D (ObsCreateSts sts) \<longleftrightarrow> True"
| "objSafe mode patchImageAllowed v D (ObsCreateSvc svc) \<longleftrightarrow> True"
| "objSafe mode patchImageAllowed v D (ObsEvent ty r) \<longleftrightarrow> True"
| "objSafe mode patchImageAllowed v D x \<longleftrightarrow> probe x"

lemma podsGone_cong: "vdb_Namespace v = vdb_Namespace v' \<Longrightarrow> podsGone v = podsGone v'"
  by (intro ext) (simp add: podsGone_def GenPodNameFromSts_def)

lemma objSafe_cong: "vdb_Namespace v = vdb_Namespace v' \<Longrightarrow> objSafe mode patchImageAllowed v = objSafe mode patchImageAllowed v'"
proof (intro ext)
  fix D x assume "vdb_Namespace v = vdb_Namespace v'"
  then show "objSafe mode patchImageAllowed v D x = objSafe mode patchImageAllowed v' D x"
    by (cases x) (simp_all add: podsGone_cong [of v v'])
qed

lemma objSafe_namespace:
  "objSafe mode patchImageAllowed v D x \<Longrightarrow> vdb_Namespace v' = vdb_Namespace v \<Longrightarrow> objSafe mode patchImageAllowed v' D x"
  by (simp add: objSafe_cong [of v' v])

lemma objSafe_probe: "probe x \<Longrightarrow> objSafe mode patchImageAllowed v D x"
  by (cases x) (auto simp: probe_def)

lemma checkForOrphan_Done:
  assumes "\<not> IsReconcileAborted (checkForOrphanAdmintoolsConfEntries v d n sts)"
  shows "podsGone v d sts n"
proof (cases "sts_Replicas sts")
  case None
  then show ?thesis using assms by (simp add: checkForOrphanAdmintoolsConfEntries_def)
next
  case (Some replicas)
  let ?bad = "\<lambda>i. case map_of d (GenPodNameFromSts v sts i) of None \<Rightarrow> True | Some pf \<Rightarrow> pf_isInstalled pf \<or> pf_dbExists pf"
  have "List.find ?bad (indices n replicas) = None" if "n < replicas"
    using assms that Some by (auto simp: checkForOrphanAdmintoolsConfEntries_def split: option.splits if_splits)
  then have "\<not> ?bad i" if "n \<le> i" "i < replicas" for i
    using that by (auto simp: find_None_iff)
  then show ?thesis using Some by (fastforce simp: podsGone_def split: option.splits)
qed

text \<open>The part of the state the steps keep: the facts and the namespace of the resource.\<close>

abbreviation objInv :: "string \<Rightarrow> PodFactDetail \<Rightarrow> 'w st \<Rightarrow> bool" where
  "objInv ns D s \<equiv> vdb_Namespace (vdb s) = ns \<and> Detail (pfacts s) = D"

lemma localPred_objInv [simp]: "localPred (objInv ns D)"
  by (simp add: localPred_def)

lemma spec_objInvalidate: "spec (objInv ns D) \<Phi> Invalidate (\<lambda>_. objInv ns D)"
  by (rule spec_Invalidate) simp

lemma spec_translateAnnotations [spec_rules]: "localPred P \<Longrightarrow> spec P \<Phi> (translateAnnotationsToEnvVars E) (\<lambda>_. P)"
  unfolding translateAnnotationsToEnvVars_def by (intro spec_rules)

lemma spec_makeSidecars [spec_rules]: "localPred P \<Longrightarrow> spec P \<Phi> (makeSidecars E cs) (\<lambda>_. P)"
  by (induction cs) (auto intro!: spec_rules)

lemma spec_securityContext: "spec (objInv ns D) \<Phi> makeServerSecurityContext (\<lambda>_. objInv ns D)"
  by (auto simp: spec_def makeServerSecurityContext_def Let_def)

lemma spec_BuildStsSpec:
  "spec (objInv ns D) \<Phi> (BuildStsSpec E nm sc dn) (\<lambda>sts s. objInv ns D s \<and> sts_Replicas sts = Some (sc_Size sc))"
proof -
  have "spec (objInv ns D) \<Phi> (makeContainers E sc) (\<lambda>_. objInv ns D)"
    unfolding makeContainers_def makeServerContainer_def
    by (intro spec_rules spec_securityContext localPred_objInv)
  then have pod: "spec (objInv ns D) \<Phi> (buildPodSpec E sc dn sp) (\<lambda>sp' s. objInv ns D s \<and> sss_Replicas sp' = sss_Replicas sp)" for sp
    unfolding buildPodSpec_def by (rule spec_bind) (intro spec_prod spec_bind [OF spec_gets_inv] spec_ret; simp)
  show ?thesis
    unfolding BuildStsSpec_def by (rule spec_bind [OF spec_gets_inv], rule spec_bind [OF pod], rule spec_ret) simp
qed

lemma spec_checkOrphans:
  assumes "vdb_Namespace v = ns" and m: "podsGone v D sts n \<Longrightarrow> spec (objInv ns D) \<Phi> m (\<lambda>_. objInv ns D)"
  shows "spec (objInv ns D) \<Phi> (gets_st vdb \<bind> (\<lambda>v'. gets_st (\<lambda>s. Detail (pfacts s)) \<bind> (\<lambda>d.
       let res = checkForOrphanAdmintoolsConfEntries v' d n sts in if IsReconcileAborted res then ret_op res else m)))
     (\<lambda>_. objInv ns D)"
proof (rule spec_bind [OF spec_gets [where Q = "\<lambda>v' s. objInv ns D s \<and> vdb_Namespace v' = ns"]])
  fix v' :: VerticaDB
  show "spec (\<lambda>s. objInv ns D s \<and> vdb_Namespace v' = ns) \<Phi> (gets_st (\<lambda>s. Detail (pfacts s)) \<bind> (\<lambda>d.
       let res = checkForOrphanAdmintoolsConfEntries v' d n sts in if IsReconcileAborted res then ret_op res else m))
     (\<lambda>_. objInv ns D)"
  proof (rule spec_pre_pure)
    assume ns: "vdb_Namespace v' = ns"
    have gone: "podsGone v D sts n" if "\<not> IsReconcileAborted (checkForOrphanAdmintoolsConfEntries v' D n sts)"
      using checkForOrphan_Done [OF that] ns assms(1) podsGone_cong [of v v'] by simp
    show "spec (objInv ns D) \<Phi> (gets_st (\<lambda>s. Detail (pfacts s)) \<bind> (\<lambda>d.
         let res = checkForOrphanAdmintoolsConfEntries v' d n sts in if IsReconcileAborted res then ret_op res else m))
       (\<lambda>_. objInv ns D)"
      by (rule spec_bind_gets [where x = D], simp) (intro spec_let spec_if spec_ret_inv m gone)
  qed
qed simp

lemma spec_updateSts:
  assumes "vdb_Namespace v = ns" and "sts_Replicas expSts = Some (sc_Size sc)"
  shows "spec (objInv ns D) (objSafe mode allowed v D) (updateSts E mode allowed sc curSts expSts) (\<lambda>_. objInv ns D)"
proof (cases "mode = ObjReconcileModeIfNotFound")
  case False
  have "spec (objInv ns D) (objSafe mode allowed v D) (patchSts E allowed curSts expSts) (\<lambda>_. objInv ns D)"
    if "podsGone v D curSts (sc_Size sc)"
    unfolding patchSts_def
    by (intro spec_rules spec_objInvalidate localPred_objInv)
       (use that False assms(2) in \<open>simp add: keepImage_def\<close>)
  then show ?thesis
    unfolding updateSts_def by (intro spec_if spec_ret_inv spec_checkOrphans [OF assms(1)])
qed (simp add: updateSts_def spec_ret_inv)

lemma spec_reconcileSts:
  assumes "vdb_Namespace v = ns"
  shows "spec (objInv ns D) (objSafe mode allowed v D) (reconcileSts E dn mode allowed sc) (\<lambda>_. objInv ns D)"
proof -
  have create: "spec (objInv ns D) (objSafe mode allowed v D) (createSts E sts) (\<lambda>_. objInv ns D)" for sts
    unfolding createSts_def by (intro spec_rules spec_objInvalidate localPred_objInv) simp
  have cont: "spec (\<lambda>s. objInv ns D s \<and> sts_Replicas expSts = Some (sc_Size sc)) (objSafe mode allowed v D)
      (ask (e_GetSts E nm) \<bind> (\<lambda>r. case r of
         Inl e \<Rightarrow> if errors_IsNotFound e then createSts E expSts else updateSts E mode allowed sc zeroStatefulSet expSts
       | Inr curSts \<Rightarrow> updateSts E mode allowed sc curSts expSts)) (\<lambda>_. objInv ns D)" for expSts nm
    by (rule spec_pre_pure) (intro spec_bind_inv spec_ask spec_sum spec_if create spec_updateSts assms localPred_objInv)
  show ?thesis
    unfolding reconcileSts_def Let_def
    by (rule spec_bind [OF spec_gets_inv]) (rule spec_bind [OF spec_BuildStsSpec cont])
qed

lemma spec_reconcileSvc:
  "spec (objInv ns D) (objSafe mode allowed v D) (reconcileSvc E mode expSvc nm f) (\<lambda>_. objInv ns D)"
  unfolding reconcileSvc_def updateSvc_def createService_def
  by (intro spec_rules localPred_objInv) simp_all

lemma spec_checkForDeleted:
  assumes "vdb_Namespace v = ns"
  shows "spec (objInv ns D) (objSafe mode allowed v D) (checkForDeletedSubcluster E mode) (\<lambda>_. objInv ns D)"
proof (cases "mode = ObjReconcileModeIfNotFound")
  case False
  have sts: "spec (objInv ns D) (objSafe mode allowed v D) (deleteSts E sts) (\<lambda>_. objInv ns D)" for sts
    unfolding deleteSts_def
    by (rule spec_checkOrphans [OF assms]) (intro spec_rules localPred_objInv; simp add: False)
  have svc: "spec (objInv ns D) (objSafe mode allowed v D) (deleteSvc E svc) (\<lambda>_. objInv ns D)" for svc
    unfolding deleteSvc_def by (intro spec_rules localPred_objInv) (simp add: False)
  have find: "spec (objInv ns D) (objSafe mode allowed v D) (FindStatefulSets E f flags) (\<lambda>_. objInv ns D)"
    "spec (objInv ns D) (objSafe mode allowed v D) (FindServices E f flags) (\<lambda>_. objInv ns D)" for f flags
    by (intro spec_FindObjs localPred_objInv)+
  show ?thesis
    unfolding checkForDeletedSubcluster_def
    by (intro spec_if spec_bind_inv spec_ret_inv spec_gets_inv spec_sum spec_forRet find sts svc)
qed (simp add: checkForDeletedSubcluster_def spec_ret_inv)

lemma spec_checkMounted: "spec (objInv ns D) (objSafe mode allowed v D) (checkMountedObjs E) (\<lambda>_. objInv ns D)"
proof -
  have get: "spec (objInv ns D) (objSafe mode allowed v D) (getConfigMapOrSecret get nm) (\<lambda>_. objInv ns D)" for get nm
    unfolding getConfigMapOrSecret_def by (intro spec_rules localPred_objInv) simp
  then have keys: "spec (objInv ns D) (objSafe mode allowed v D) (checkSecretHasKeys E nm ks) (\<lambda>_. objInv ns D)" for nm ks
    unfolding checkSecretHasKeys_def getSecret_def
    by (intro spec_bind_inv spec_gets_inv spec_prod spec_if spec_ret_inv spec_forRet spec_Eventf localPred_objInv) simp_all
  show ?thesis
    unfolding checkMountedObjs_def Let_def getSecret_def getConfigMap_def
    by (intro spec_bind_inv spec_gets_inv spec_forRet spec_prod spec_if spec_ret_inv)
       (auto intro!: get keys spec_bind_inv spec_ret_inv)
qed

lemma spec_reconcileObjs:
  assumes "vdb_Namespace v = ns"
  shows "spec (objInv ns D) (objSafe mode allowed v D) (reconcileObjs E dn mode allowed) (\<lambda>_. objInv ns D)"
proof -
  have created: "spec (objInv ns D) (objSafe mode allowed v D) (checkForCreatedSubcluster E dn mode allowed sc) (\<lambda>_. objInv ns D)" for sc
    unfolding checkForCreatedSubcluster_def reconcileExtSvc_def
    by (intro spec_bind_inv spec_gets_inv spec_if spec_ret_inv spec_reconcileSvc spec_reconcileSts assms)
  have headless: "spec (objInv ns D) (objSafe mode allowed v D) (reconcileHlSvc E mode) (\<lambda>_. objInv ns D)"
    unfolding reconcileHlSvc_def by (intro spec_bind_inv spec_gets_inv spec_reconcileSvc)
  show ?thesis
    unfolding reconcileObjs_def
    by (intro spec_bind_inv spec_gets_inv spec_forRet)
       (auto intro: spec_checkMounted headless created spec_checkForDeleted assms)
qed

text \<open>
  C7: keeping the objects in line with the resource is safe for the database. A statefulset is only
  deleted, or patched to fewer replicas, when the facts know every pod that goes away and it has
  neither an installation nor the database. Unless the caller allows it, a patch never changes the
  image of the server container. In the mode that only creates missing objects nothing that
  exists is changed or deleted.
\<close>

theorem Obj_Reconcile_safety:
  assumes "run_state (Obj_Reconcile E dn mode patchImageAllowed) s = (res, s')"
  shows "\<exists>os. trace s' = trace s @ os \<and> (\<forall>x \<in> set os. objSafe mode patchImageAllowed (vdb s') (Detail (pfacts s')) x)"
proof -
  let ?\<Phi> = "\<lambda>s. objSafe mode patchImageAllowed (vdb s) (Detail (pfacts s))"
  have "ends ?\<Phi> (reconcileObjs E dn mode patchImageAllowed)"
  proof (rule ends_spec [where \<Psi> = ?\<Phi>])
    fix t :: "'a st"
    show "spec (\<lambda>s. s = t) (?\<Phi> t) (reconcileObjs E dn mode patchImageAllowed) (\<lambda>_ s'. \<forall>x. ?\<Phi> t x \<longrightarrow> ?\<Phi> s' x)"
      by (rule spec_weaken [OF spec_reconcileObjs [where v = "vdb t" and ns = "vdb_Namespace (vdb t)" and D = "Detail (pfacts t)"]])
         (auto intro: objSafe_namespace)
  qed
  then have "ends ?\<Phi> (Obj_Reconcile E dn mode patchImageAllowed)"
    unfolding Obj_Reconcile_def
    by (intro ends_prefix [OF spec_Collect_any] ends_option ends_ret objSafe_probe)
  then show ?thesis by (rule endsD [OF _ assms])
qed

theorem Obj_Reconcile_safety_witness:
  "\<exists>res s'. run_state (Obj_Reconcile storeEnv DefaultDeploymentNames ObjReconcileModeAll False) exampleState = (res, s')
     \<and> (\<forall>x \<in> set (trace s'). objSafe ObjReconcileModeAll False (vdb s') (Detail (pfacts s')) x)"
proof -
  obtain res s' where run: "run_state (Obj_Reconcile storeEnv DefaultDeploymentNames ObjReconcileModeAll False) exampleState = (res, s')"
    by (rule prod.exhaust)
  from Obj_Reconcile_safety [OF this] run show ?thesis by (auto simp: exampleState_def)
qed

end
