(* ===== verification/Scale.thy ===== *)
theory Scale
  imports Restart
begin

text \<open>
  Scaling the database (pkg/controllers/vdb): removing nodes and subclusters, waiting for sessions to
  leave nodes that are going away, adding subclusters and nodes, and rebalancing shards. Files
  actor.go, dbremovenode_reconcile.go, dbremovesubcluster_reconcile.go, drainnode_reconcile.go,
  dbaddsubcluster_reconcile.go, dbaddnode_reconcile.go and rebalanceshards_reconcile.go.
\<close>

section \<open>Shared parts\<close>

text \<open>
  The ratio is computed with 32-bit floats, which are exact for the counts a cluster can have (below
  two to the 22); a subcluster of size zero gives an infinite ratio, or no number when there are no
  shards either, and no number is greater than three.
\<close>

definition checkShardToNodeRatio :: "VerticaDB \<Rightarrow> Subcluster \<Rightarrow> ('w, unit) op" where
  "checkShardToNodeRatio v sc =
     (if spec_KSafety (vdb_Spec v) = KSafety0 then ret_op ()
      else if (if sc_Size sc = 0 then spec_ShardCount (vdb_Spec v) > 0
               else if sc_Size sc > 0 then spec_ShardCount (vdb_Spec v) > 3 * sc_Size sc
               else spec_ShardCount (vdb_Spec v) < 3 * sc_Size sc)
      then Eventf EventTypeWarning ''SuboptimalNodeCount''
      else ret_op ())"

text \<open>The part of scaling down that removing nodes and uninstalling share.\<close>

definition scaledownSubcluster :: "'w env \<Rightarrow> Subcluster \<Rightarrow> (Subcluster \<Rightarrow> int \<Rightarrow> int \<Rightarrow> ('w, ret) op) \<Rightarrow> ('w, ret) op" where
  "scaledownSubcluster E sc scaleDownFunc = do {
     v \<leftarrow> gets_st vdb;
     r \<leftarrow> ask (e_GetSts E (GenStsName v sc));
     case r of
       Inl e \<Rightarrow> if errors_IsNotFound e then ret_op Done else ret_op (Fail e)
     | Inr sts \<Rightarrow>
         if sts_StatusReplicas sts > sc_Size sc then do {
           err \<leftarrow> Collect E;
           case err of
             Some e \<Rightarrow> ret_op (Fail e)
           | None \<Rightarrow> do {
               res \<leftarrow> scaleDownFunc sc (sc_Size sc) (wrap32 (sts_StatusReplicas sts - 1));
               ret_op (case res of
                 GoPanic m \<Rightarrow> GoPanic m
               | Ret r (Some e) \<Rightarrow> Ret r (Some (WrapErr (''failed to scale down nodes in subcluster '' @ sc_Name sc) e))
               | Ret r None \<Rightarrow> if IsReconcileAborted (Ret r None) then Ret r None else Done)
             }
         } else ret_op Done
   }"

section \<open>Removing nodes\<close>

fun findPodsToRemove :: "VerticaDB \<Rightarrow> PodFactDetail \<Rightarrow> Subcluster \<Rightarrow> int list \<Rightarrow> PodFact list \<times> bool" where
  "findPodsToRemove v d sc [] = ([], False)"
| "findPodsToRemove v d sc (podIndex # rest) =
     (let (pods, requeueNeeded) = findPodsToRemove v d sc rest in
      case map_of d (GenPodName v sc podIndex) of
        None \<Rightarrow> (pods, True)
      | Some podFact \<Rightarrow>
          if pf_dbExists podFact \<and> \<not> pf_isPodRunning podFact then (pods, True)
          else if \<not> pf_dbExists podFact then (pods, requeueNeeded)
          else (podFact # pods, requeueNeeded))"

definition findPodsSuitableForScaleDown :: "VerticaDB \<Rightarrow> PodFactDetail \<Rightarrow> Subcluster \<Rightarrow> int \<Rightarrow> int \<Rightarrow> PodFact list \<times> bool" where
  "findPodsSuitableForScaleDown v d sc startPodIndex endPodIndex =
     findPodsToRemove v d sc (indices startPodIndex (endPodIndex + 1))"

definition genCmdRemoveNode :: "VerticaDB \<Rightarrow> PodFact list \<Rightarrow> string list" where
  "genCmdRemoveNode v pods =
     [''-t'', ''db_remove_node'', ''--database'', spec_DBName (vdb_Spec v),
      ''--hosts='' @ strings_Join (map pf_dnsName pods) '','', ''--noprompts'']"

definition execRemoveNode :: "'w env \<Rightarrow> NamespacedName \<Rightarrow> string list \<Rightarrow> ('w, goerr option) op" where
  "execRemoveNode E atPod cmd = do {
     Eventf EventTypeNormal ''RemoveNodesStart'';
     (stdout, stderr, err) \<leftarrow> ExecAdmintools E atPod cmd;
     case err of
       Some e \<Rightarrow> do { Eventf EventTypeWarning ''RemoveNodesFailed''; ret_op (Some e) }
     | None \<Rightarrow> do { Eventf EventTypeNormal ''RemoveNodesSucceeded''; ret_op None }
   }"

definition removeNodesInSubcluster :: "'w env \<Rightarrow> Subcluster \<Rightarrow> int \<Rightarrow> int \<Rightarrow> ('w, ret) op" where
  "removeNodesInSubcluster E sc startPodIndex endPodIndex = do {
     v \<leftarrow> gets_st vdb;
     d \<leftarrow> gets_st (\<lambda>s. Detail (pfacts s));
     let (podsToRemove, requeueNeeded) = findPodsSuitableForScaleDown v d sc startPodIndex endPodIndex;
     if podsToRemove \<noteq> [] then do {
       atPod \<leftarrow> findAny E;
       case atPod of
         None \<Rightarrow> ret_op RequeueNow
       | Some atPod \<Rightarrow> do {
           err \<leftarrow> execRemoveNode E (pf_name atPod) (genCmdRemoveNode v podsToRemove);
           case err of
             Some e \<Rightarrow> ret_op (Fail (WrapErr ''failed to call admintools -t db_remove_node'' e))
           | None \<Rightarrow> do {
               Invalidate;
               checkShardToNodeRatio v sc;
               ret_op (ctrl_requeue requeueNeeded)
             }
         }
     } else ret_op (ctrl_requeue requeueNeeded)
   }"

definition DBRemoveNode_Reconcile :: "'w env \<Rightarrow> ('w, ret) op" where
  "DBRemoveNode_Reconcile E = do {
     v \<leftarrow> gets_st vdb;
     if spec_InitPolicy (vdb_Spec v) = CommunalInitPolicyScheduleOnly then ret_op Done
     else do {
       r \<leftarrow> FindSubclusters E (MakeSubclusterFinder v) FindInVdb;
       case r of
         Inl e \<Rightarrow> ret_op (Fail e)
       | Inr subclusters \<Rightarrow> forRet subclusters (\<lambda>sc. scaledownSubcluster E sc (removeNodesInSubcluster E))
     }
   }"

section \<open>Removing subclusters\<close>

definition getDefaultSubcluster :: "'w env \<Rightarrow> NamespacedName \<Rightarrow> ('w, goerr + string) op" where
  "getDefaultSubcluster E atPod = do {
     (stdout, stderr, err) \<leftarrow> ExecVSQL E atPod [''-tAc'', ''select subcluster_name from subclusters where is_default is true''];
     case err of
       Some e \<Rightarrow> ret_op (Inl e)
     | None \<Rightarrow> ret_op (Inr (hd (strings_Split stdout newline)))
   }"

definition changeDefaultSubcluster :: "'w env \<Rightarrow> NamespacedName \<Rightarrow> string \<Rightarrow> ('w, goerr option) op" where
  "changeDefaultSubcluster E atPod scName = do {
     (stdout, stderr, err) \<leftarrow> ExecVSQL E atPod [''-c'', ''alter subcluster '' @ [CHR 0x22] @ scName @ [CHR 0x22] @ '' set default''];
     ret_op err
   }"

definition resetDefaultSubcluster :: "'w env \<Rightarrow> NamespacedName \<Rightarrow> ('w, goerr option) op" where
  "resetDefaultSubcluster E atPod = do {
     r \<leftarrow> getDefaultSubcluster E atPod;
     case r of
       Inl e \<Rightarrow> ret_op (Some e)
     | Inr defSc \<Rightarrow> do {
         v \<leftarrow> gets_st vdb;
         if GenSubclusterMap v defSc \<noteq> None then ret_op None
         else do {
           r \<leftarrow> FindServices E (MakeSubclusterFinder v) FindInVdb;
           case r of
             Inl e \<Rightarrow> ret_op (Some e)
           | Inr [] \<Rightarrow> ret_op None
           | Inr (svc # _) \<Rightarrow>
               changeDefaultSubcluster E atPod (case svc_Labels svc SubclusterNameLabel of None \<Rightarrow> [] | Some nm \<Rightarrow> nm)
         }
       }
   }"

definition removeSubcluster :: "'w env \<Rightarrow> NamespacedName \<Rightarrow> string \<Rightarrow> ('w, goerr option) op" where
  "removeSubcluster E atPod scName = do {
     v \<leftarrow> gets_st vdb;
     (stdout, stderr, err) \<leftarrow> ExecAdmintools E atPod
        [''-t'', ''db_remove_subcluster'', ''--database'', spec_DBName (vdb_Spec v), ''--subcluster'', scName, ''--noprompts''];
     case err of
       Some e \<Rightarrow> if strings_Contains stdout ''No subcluster found'' then ret_op None else ret_op (Some e)
     | None \<Rightarrow> do { Eventf EventTypeNormal ''SubclusterRemoved''; ret_op None }
   }"

definition removeExtraSubclusters :: "'w env \<Rightarrow> ('w, ret) op" where
  "removeExtraSubclusters E = do {
     v \<leftarrow> gets_st vdb;
     r \<leftarrow> FindSubclusters E (MakeSubclusterFinder v) FindNotInVdb;
     case r of
       Inl e \<Rightarrow> ret_op (Fail e)
     | Inr [] \<Rightarrow> ret_op Done
     | Inr (sc # scs) \<Rightarrow> do {
         atPod \<leftarrow> findAny E;
         case atPod of
           None \<Rightarrow> ret_op RequeueNow
         | Some atPod \<Rightarrow>
             if \<not> pf_upNode atPod then ret_op RequeueNow
             else do {
               err \<leftarrow> resetDefaultSubcluster E (pf_name atPod);
               case err of
                 Some e \<Rightarrow> ret_op (Fail e)
               | None \<Rightarrow> do {
                   err \<leftarrow> forErr (sc # scs) (\<lambda>sc. do {
                     v \<leftarrow> gets_st vdb;
                     HandleSubclusterDelete v (sc_Name sc);
                     removeSubcluster E (pf_name atPod) (sc_Name sc)
                   });
                   ret_op (ofErr err)
                 }
             }
       }
   }"

definition DBRemoveSubcluster_Reconcile :: "'w env \<Rightarrow> ('w, ret) op" where
  "DBRemoveSubcluster_Reconcile E = do {
     v \<leftarrow> gets_st vdb;
     if spec_InitPolicy (vdb_Spec v) = CommunalInitPolicyScheduleOnly then ret_op Done
     else do {
       err \<leftarrow> Collect E;
       case err of
         Some e \<Rightarrow> ret_op (Fail e)
       | None \<Rightarrow> removeExtraSubclusters E
     }
   }"

section \<open>Draining nodes\<close>

definition anyActiveConnections :: "string \<Rightarrow> bool" where
  "anyActiveConnections stdout =
     (let res = strings_Trim (hd (strings_Split stdout newline)) (CHR '' '')
      in res \<noteq> [] \<and> res \<noteq> ''0'')"

definition sessionsOfNodeSQL :: "string \<Rightarrow> string" where
  "sessionsOfNodeSQL vnodeName = ''select count(*) from sessions where node_name = '' @ quoted vnodeName
     @ '' and session_id not in ( select session_id from current_session )''"

definition drainPod :: "'w env \<Rightarrow> PodFact \<Rightarrow> ('w, ret) op" where
  "drainPod E pf = do {
     (stdout, stderr, err) \<leftarrow> ExecVSQL E (pf_name pf) [''-tAc'', sessionsOfNodeSQL (pf_vnodeName pf)];
     case err of
       Some e \<Rightarrow> ret_op (Fail e)
     | None \<Rightarrow> do {
         (if anyActiveConnections stdout then Eventf EventTypeWarning ''DrainNodeRetry'' else ret_op ());
         ret_op (ctrl_requeue (anyActiveConnections stdout))
       }
   }"

definition DrainNode_Reconcile :: "'w env \<Rightarrow> ('w, ret) op" where
  "DrainNode_Reconcile E = do {
     err \<leftarrow> Collect E;
     case err of
       Some e \<Rightarrow> ret_op (Fail e)
     | None \<Rightarrow> do {
         ps \<leftarrow> rangeDetail E;
         forRet ps (\<lambda>pf. if pf_pendingDelete pf \<and> pf_upNode pf then drainPod E pf else ret_op Done)
       }
   }"

section \<open>Adding subclusters\<close>

definition parseFetchSubclusterVsql :: "string \<Rightarrow> string list" where
  "parseFetchSubclusterVsql stdout =
     filter (\<lambda>sc. sc \<noteq> []) (map (\<lambda>line. strings_Trim line (CHR '' '')) (strings_Split stdout newline))"

definition fetchSubclusters :: "'w env \<Rightarrow> NamespacedName \<Rightarrow> ('w, goerr + string list) op" where
  "fetchSubclusters E atPod = do {
     (stdout, stderr, err) \<leftarrow> ExecVSQL E atPod [''-tAc'', ''select distinct(subcluster_name) from subclusters''];
     case err of
       Some e \<Rightarrow> ret_op (Inl e)
     | None \<Rightarrow> ret_op (Inr (parseFetchSubclusterVsql stdout))
   }"

definition genAddSubclusterCmd :: "VerticaDB \<Rightarrow> Subcluster \<Rightarrow> string list" where
  "genAddSubclusterCmd v sc =
     [''-t'', ''db_add_subcluster'', ''--database'', spec_DBName (vdb_Spec v), ''--subcluster'', sc_Name sc]
     @ (if versionAtLeast v ''v11.0.0''
        then (if sc_IsPrimary sc then [''--is-primary''] else [])
        else (if \<not> sc_IsPrimary sc then [''--is-secondary''] else []))"

definition createSubcluster :: "'w env \<Rightarrow> NamespacedName \<Rightarrow> Subcluster \<Rightarrow> ('w, goerr option) op" where
  "createSubcluster E atPod sc = do {
     v \<leftarrow> gets_st vdb;
     (stdout, stderr, err) \<leftarrow> ExecAdmintools E atPod (genAddSubclusterCmd v sc);
     Eventf EventTypeNormal ''SubclusterAdded'';
     ret_op err
   }"

definition addMissingSubclusters :: "'w env \<Rightarrow> Subcluster list \<Rightarrow> ('w, ret) op" where
  "addMissingSubclusters E scs = do {
     atPod \<leftarrow> findAny E;
     case atPod of
       None \<Rightarrow> ret_op RequeueNow
     | Some atPod \<Rightarrow>
         if \<not> pf_upNode atPod then ret_op RequeueNow
         else do {
           r \<leftarrow> fetchSubclusters E (pf_name atPod);
           case r of
             Inl e \<Rightarrow> ret_op (Fail e)
           | Inr subclusters \<Rightarrow> do {
               err \<leftarrow> forErr scs (\<lambda>sc.
                 if sc_Name sc \<in> set subclusters then ret_op None
                 else do {
                   err \<leftarrow> createSubcluster E (pf_name atPod) sc;
                   case err of
                     Some e \<Rightarrow> ret_op (Some e)
                   | None \<Rightarrow> do { v \<leftarrow> gets_st vdb; checkShardToNodeRatio v sc; ret_op None }
                 });
               ret_op (ofErr err)
             }
         }
   }"

definition DBAddSubcluster_Reconcile :: "'w env \<Rightarrow> ('w, ret) op" where
  "DBAddSubcluster_Reconcile E = do {
     v \<leftarrow> gets_st vdb;
     if spec_InitPolicy (vdb_Spec v) = CommunalInitPolicyScheduleOnly then ret_op Done
     else do {
       err \<leftarrow> Collect E;
       case err of
         Some e \<Rightarrow> ret_op (Fail e)
       | None \<Rightarrow> do { v \<leftarrow> gets_st vdb; addMissingSubclusters E (vdb_Subclusters v) }
     }
   }"

section \<open>Adding nodes\<close>

definition isLicenseLimitError :: "string \<Rightarrow> bool" where
  "isLicenseLimitError stdout = strings_Contains stdout ''Cannot create another node. The current license permits''"

definition genAddNodeCommand :: "VerticaDB \<Rightarrow> PodFact list \<Rightarrow> string list" where
  "genAddNodeCommand v pods =
     [''-t'', ''db_add_node'', ''--hosts'', strings_Join (map pf_dnsName pods) '','',
      ''--database'', spec_DBName (vdb_Spec v), ''--subcluster'', pf_subcluster (hd pods), ''--noprompt'']"

definition runAddNodeForPod :: "'w env \<Rightarrow> PodFact list \<Rightarrow> NamespacedName \<Rightarrow> ('w, string \<times> goerr option) op" where
  "runAddNodeForPod E pods atPod = do {
     Eventf EventTypeNormal ''AddNodeStart'';
     v \<leftarrow> gets_st vdb;
     (stdout, stderr, err) \<leftarrow> ExecAdmintools E atPod (genAddNodeCommand v pods);
     (case err of
        Some e \<Rightarrow>
          if isLicenseLimitError stdout then Eventf EventTypeWarning ''AddNodeLicenseFail''
          else Eventf EventTypeWarning ''AddNodeFailed''
      | None \<Rightarrow> Eventf EventTypeNormal ''AddNodeSucceeded'');
     ret_op (stdout, err)
   }"

definition runAddNode :: "'w env \<Rightarrow> PodFact list \<Rightarrow> ('w, ret) op" where
  "runAddNode E pods = do {
     v \<leftarrow> gets_st vdb;
     ps \<leftarrow> rangeDetail E;
     case findPodToRunVsql ps False [] of
       None \<Rightarrow> ret_op RequeueNow
     | Some atPod \<Rightarrow> do {
         err \<leftarrow> changeDepotPermissions E v pods;
         case err of
           Some e \<Rightarrow> ret_op (Fail e)
         | None \<Rightarrow> do {
             err \<leftarrow> forErr pods (\<lambda>pod. cleanupLocalFiles E v (pf_name pod));
             case err of
               Some e \<Rightarrow> ret_op (Fail e)
             | None \<Rightarrow> do {
                 debugDumpAdmintoolsConf E (pf_name atPod);
                 (stdout, err) \<leftarrow> runAddNodeForPod E pods (pf_name atPod);
                 case err of
                   Some e \<Rightarrow> if isLicenseLimitError stdout then ret_op Done else ret_op (Fail e)
                 | None \<Rightarrow> do {
                     debugDumpAdmintoolsConf E (pf_name atPod);
                     Invalidate;
                     ret_op Done
                   }
               }
           }
       }
   }"

definition addNodes_reconcileSubcluster :: "'w env \<Rightarrow> Subcluster \<Rightarrow> ('w, ret) op" where
  "addNodes_reconcileSubcluster E sc = do {
     ps \<leftarrow> rangeDetail E;
     let (addNodePods, somePodsNotRunning) = findPodsWithMissingDB ps (sc_Name sc);
     if somePodsNotRunning then ret_op RequeueNow
     else if addNodePods \<noteq> [] then runAddNode E addNodePods
     else ret_op Done
   }"

definition DBAddNode_Reconcile :: "'w env \<Rightarrow> ('w, ret) op" where
  "DBAddNode_Reconcile E = do {
     v \<leftarrow> gets_st vdb;
     if spec_InitPolicy (vdb_Spec v) = CommunalInitPolicyScheduleOnly then ret_op Done
     else do {
       err \<leftarrow> Collect E;
       case err of
         Some e \<Rightarrow> ret_op (Fail e)
       | None \<Rightarrow> do {
           ps \<leftarrow> rangeDetail E;
           if \<not> doesDBExist ps then ret_op RequeueNow
           else do {
             v \<leftarrow> gets_st vdb;
             forRet (vdb_Subclusters v) (addNodes_reconcileSubcluster E)
           }
         }
     }
   }"

section \<open>Rebalancing shards\<close>

fun rebalanceLoop :: "string \<Rightarrow> PodFact list \<Rightarrow> string list \<Rightarrow> string list" where
  "rebalanceLoop scName [] scToRebalance = scToRebalance"
| "rebalanceLoop scName (pf # ps) scToRebalance =
     (if (scName = [] \<or> scName = pf_subcluster pf) \<and> pf_isPodRunning pf \<and> pf_upNode pf \<and> pf_shardSubscriptions pf = 0
         \<and> pf_subcluster pf \<notin> set scToRebalance
      then rebalanceLoop scName ps (scToRebalance @ [pf_subcluster pf])
      else rebalanceLoop scName ps scToRebalance)"

definition findShardsToRebalance :: "string \<Rightarrow> PodFact list \<Rightarrow> string list" where
  "findShardsToRebalance scName ps = rebalanceLoop scName ps []"

definition rebalanceShards :: "'w env \<Rightarrow> NamespacedName \<Rightarrow> string \<Rightarrow> ('w, goerr option) op" where
  "rebalanceShards E atPod scName = do {
     (stdout, stderr, err) \<leftarrow> ExecVSQL E atPod [''-tAc'', ''select rebalance_shards('' @ quoted scName @ '')''];
     case err of
       Some e \<Rightarrow> ret_op (Some e)
     | None \<Rightarrow> do { Eventf EventTypeNormal ''RebalanceShards''; ret_op None }
   }"

definition RebalanceShards_Reconcile :: "'w env \<Rightarrow> string \<Rightarrow> ('w, ret) op" where
  "RebalanceShards_Reconcile E scName = do {
     err \<leftarrow> Collect E;
     case err of
       Some e \<Rightarrow> ret_op (Fail e)
     | None \<Rightarrow> do {
         ps \<leftarrow> rangeDetail E;
         let scToRebalance = findShardsToRebalance scName ps;
         if scToRebalance = [] then ret_op Done
         else do {
           ps \<leftarrow> rangeDetail E;
           case findPodToRunVsql ps False [] of
             None \<Rightarrow> ret_op RequeueNow
           | Some atPod \<Rightarrow> do {
               err \<leftarrow> forErr scToRebalance (\<lambda>sc. do {
                 err \<leftarrow> rebalanceShards E (pf_name atPod) sc;
                 case err of
                   Some e \<Rightarrow> ret_op (Some e)
                 | None \<Rightarrow> do { Invalidate; ret_op None }
               });
               ret_op (ofErr err)
             }
         }
       }
   }"

section \<open>The contract of a scale-down step\<close>

text \<open>
  A step of scaling down is given a range of pod indices. What it may do is a predicate of the
  resource, the subcluster, the first index and the facts; looking at the pods is always allowed.
  Then scaling down a subcluster only touches pods beyond the size that the resource asks for,
  judged by facts collected for it.
\<close>

locale scaledown_step =
  fixes scaleDownFunc :: "Subcluster \<Rightarrow> int \<Rightarrow> int \<Rightarrow> ('w, ret) op"
    and allowed :: "VerticaDB \<Rightarrow> Subcluster \<Rightarrow> int \<Rightarrow> PodFactDetail \<Rightarrow> obs \<Rightarrow> bool"
  assumes step: "spec (\<lambda>s. vdb s = v \<and> Detail (pfacts s) = D) (allowed v sc start D) (scaleDownFunc sc start stop)
                   (\<lambda>_ s. vdb s = v \<and> Detail (pfacts s) = D)"
    and looking: "probe x \<Longrightarrow> allowed v sc start D x"
begin

lemma scaledown_within_bounds:
  "ends (\<lambda>s. allowed (vdb s) sc (sc_Size sc) (Detail (pfacts s))) (scaledownSubcluster E sc scaleDownFunc)"
proof -
  let ?\<Phi> = "\<lambda>s :: 'w st. allowed (vdb s) sc (sc_Size sc) (Detail (pfacts s))"
  have run: "ends ?\<Phi> (scaleDownFunc sc (sc_Size sc) stop \<bind> (\<lambda>res. ret_op (f res)))" for stop and f :: "ret \<Rightarrow> ret"
  proof (rule ends_spec [where \<Psi> = ?\<Phi>])
    fix t :: "'w st"
    have "spec (\<lambda>s. vdb s = vdb t \<and> Detail (pfacts s) = Detail (pfacts t)) (?\<Phi> t)
        (scaleDownFunc sc (sc_Size sc) stop \<bind> (\<lambda>res. ret_op (f res))) (\<lambda>_ s. vdb s = vdb t \<and> Detail (pfacts s) = Detail (pfacts t))"
      by (intro spec_bind_inv step spec_ret_inv)
    then show "spec (\<lambda>s. s = t) (?\<Phi> t) (scaleDownFunc sc (sc_Size sc) stop \<bind> (\<lambda>res. ret_op (f res)))
        (\<lambda>_ s'. \<forall>x. ?\<Phi> t x \<longrightarrow> ?\<Phi> s' x)"
      by (rule spec_weaken) auto
  qed
  have get: "ends ?\<Phi> (ask f \<bind> k)" if "\<And>a. ends ?\<Phi> (k a)" for f and k :: "_ \<Rightarrow> ('w, ret) op"
    by (rule ends_prefix [where pre = "\<lambda>_. False"]) (simp_all add: spec_ask that)
  have coll: "ends ?\<Phi> (Collect E \<bind> k)" if "\<And>a. ends ?\<Phi> (k a)" for k :: "_ \<Rightarrow> ('w, ret) op"
    by (rule ends_prefix [OF spec_Collect_any _ that]) (rule looking)
  show ?thesis
    unfolding scaledownSubcluster_def by (intro ends_rules get coll run)
qed

end

text \<open>Removing nodes keeps the contract: only running pods with a database, from the given index on.\<close>

definition removeNodeAllowed :: "VerticaDB \<Rightarrow> Subcluster \<Rightarrow> int \<Rightarrow> PodFactDetail \<Rightarrow> obs \<Rightarrow> bool" where
  "removeNodeAllowed v sc start D x \<longleftrightarrow> (\<forall>pod cmd. x = ObsExec AT pod cmd \<longrightarrow>
     (\<exists>pods. pods \<noteq> [] \<and> cmd = genCmdRemoveNode v pods
        \<and> (\<forall>pf \<in> set pods. pf_dbExists pf \<and> pf_isPodRunning pf
             \<and> (\<exists>i. start \<le> i \<and> map_of D (GenPodName v sc i) = Some pf))))"

lemma findPodsToRemove_pods:
  "pf \<in> set (fst (findPodsToRemove v d sc ixs)) \<Longrightarrow>
     pf_dbExists pf \<and> pf_isPodRunning pf \<and> (\<exists>i \<in> set ixs. map_of d (GenPodName v sc i) = Some pf)"
  by (induction ixs) (auto simp: Let_def split: prod.splits option.splits if_splits)

lemma findPodsToRemove_requeue:
  "snd (findPodsToRemove v d sc ixs) \<longleftrightarrow>
     (\<exists>i \<in> set ixs. case map_of d (GenPodName v sc i) of None \<Rightarrow> True | Some pf \<Rightarrow> pf_dbExists pf \<and> \<not> pf_isPodRunning pf)"
  by (induction ixs) (auto simp: Let_def split: prod.splits option.splits if_splits)

lemma spec_checkShard [spec_rules]:
  "localPred P \<Longrightarrow> \<Phi> (ObsEvent EventTypeWarning ''SuboptimalNodeCount'') \<Longrightarrow> spec P \<Phi> (checkShardToNodeRatio v sc) (\<lambda>_. P)"
  unfolding checkShardToNodeRatio_def by (intro spec_rules)

interpretation remove_nodes: scaledown_step "removeNodesInSubcluster E" removeNodeAllowed for E
proof
  fix v D sc start stop and x
  let ?I = "\<lambda>s. vdb s = v \<and> Detail (pfacts s) = D"
  show "removeNodeAllowed v sc start D x" if "probe x"
    using that by (auto simp: removeNodeAllowed_def probe_def)
  obtain pods rq where pr: "findPodsSuitableForScaleDown v D sc start stop = (pods, rq)" by (rule prod.exhaust)
  have ok: "removeNodeAllowed v sc start D (ObsExec AT nm (genCmdRemoveNode v pods))" if "pods \<noteq> []" for nm
  proof -
    have "pf_dbExists pf \<and> pf_isPodRunning pf \<and> (\<exists>i. start \<le> i \<and> map_of D (GenPodName v sc i) = Some pf)" if "pf \<in> set pods" for pf
      using findPodsToRemove_pods [of pf v D sc "indices start (stop + 1)"] pr that
      by (auto simp: findPodsSuitableForScaleDown_def)
    then show ?thesis using that by (auto simp: removeNodeAllowed_def)
  qed
  have ev: "removeNodeAllowed v sc start D (ObsEvent ty r)" for ty r by (simp add: removeNodeAllowed_def)
  have inv: "spec ?I \<Phi> Invalidate (\<lambda>_. ?I)" for \<Phi> by (rule spec_Invalidate) simp
  show "spec ?I (removeNodeAllowed v sc start D) (removeNodesInSubcluster E sc start stop) (\<lambda>_. ?I)"
    unfolding removeNodesInSubcluster_def execRemoveNode_def
    apply (rule spec_bind_gets [where x = v], simp)
    apply (rule spec_bind_gets [where x = D], simp)
    apply (simp only: pr Let_def prod.case)
    apply (intro spec_rules ok ev inv localPred_facts; assumption)
    done
qed

text \<open>
  C14: when a subcluster is scaled down, admintools is only ever asked to remove nodes of this
  subcluster whose pod index is not below the size in the resource, that are running and have the
  database, as the facts collected for the step say.
\<close>

theorem removeNodes_only_beyond_size:
  assumes "run_state (scaledownSubcluster E sc (removeNodesInSubcluster E)) s = (res, s')"
  shows "\<exists>os. trace s' = trace s @ os \<and> (\<forall>x \<in> set os. removeNodeAllowed (vdb s') sc (sc_Size sc) (Detail (pfacts s')) x)"
  by (rule endsD [OF remove_nodes.scaledown_within_bounds assms])

theorem removeNodes_only_beyond_size_witness:
  "\<exists>res s' os. run_state (scaledownSubcluster storeEnv zeroSubcluster (removeNodesInSubcluster storeEnv)) examplePods = (res, s')
     \<and> trace s' = os \<and> (\<forall>x \<in> set os. removeNodeAllowed (vdb s') zeroSubcluster 0 (Detail (pfacts s')) x)"
proof -
  obtain res s' where run: "run_state (scaledownSubcluster storeEnv zeroSubcluster (removeNodesInSubcluster storeEnv)) examplePods = (res, s')"
    by (rule prod.exhaust)
  from removeNodes_only_beyond_size [OF run] run show ?thesis by (auto simp: zeroSubcluster_def)
qed

section \<open>What adding nodes may do\<close>

definition addNodeAllowed :: "VerticaDB \<Rightarrow> PodFactDetail \<Rightarrow> obs \<Rightarrow> bool" where
  "addNodeAllowed v D x \<longleftrightarrow> (\<forall>atPod cmd. x = ObsExec AT atPod cmd \<longrightarrow>
     (\<exists>sc pods. sc \<in> set (vdb_Subclusters v) \<and> pods \<noteq> [] \<and> cmd = genAddNodeCommand v pods
        \<and> set pods = {pf \<in> snd ` set D. pf_subcluster pf = sc_Name sc \<and> \<not> pf_dbExists pf}
        \<and> (\<forall>pf \<in> set pods. pf_isPodRunning pf)
        \<and> (\<exists>pf \<in> snd ` set D. pf_name pf = atPod \<and> pf_upNode pf \<and> \<not> pf_readOnly pf)))"

lemma addNodeAllowed_other [simp]:
  "addNodeAllowed v D (ObsEvent ty r)" "addNodeAllowed v D (ObsExec InPod nm cmd)" "addNodeAllowed v D (ObsExec VSQL nm cmd)"
  by (simp_all add: addNodeAllowed_def)

lemma findPodToRunVsql_pod:
  "findPodToRunVsql ps False [] = Some pf \<Longrightarrow> pf \<in> set ps \<and> pf_upNode pf \<and> \<not> pf_readOnly pf"
  by (auto simp: findPodToRunVsql_def find_Some_iff)

lemma spec_runAddNode:
  assumes E: "rangeLaw E" and sc: "sc \<in> set (vdb_Subclusters v)"
    and pods: "pods \<noteq> []" "set pods = {pf \<in> snd ` set D. pf_subcluster pf = sc_Name sc \<and> \<not> pf_dbExists pf}"
      "\<forall>pf \<in> set pods. pf_isPodRunning pf"
  shows "spec (restartInv v D) (addNodeAllowed v D) (runAddNode E pods) (\<lambda>_. restartInv v D)"
proof -
  let ?I = "restartInv v D"
  have exec: "spec ?I (addNodeAllowed v D) (runAddNodeForPod E pods (pf_name atPod)) (\<lambda>_. ?I)"
    if "atPod \<in> snd ` set D" "pf_upNode atPod" "\<not> pf_readOnly atPod" for atPod
  proof -
    have "addNodeAllowed v D (ObsExec AT (pf_name atPod) (genAddNodeCommand v pods))"
      unfolding addNodeAllowed_def using that sc pods by blast
    then show ?thesis
      unfolding runAddNodeForPod_def
      apply -
      apply (rule spec_bind_inv, rule spec_Eventf, simp, simp)
      apply (rule spec_bind_gets [where x = v], simp)
      apply (intro spec_rules localPred_facts addNodeAllowed_other; assumption)
      done
  qed
  have prep: "spec ?I (addNodeAllowed v D) (changeDepotPermissions E v' pods) (\<lambda>_. ?I)"
    "spec ?I (addNodeAllowed v D) (cleanupLocalFiles E v' nm) (\<lambda>_. ?I)" for v' nm
    unfolding changeDepotPermissions_def cleanupLocalFiles_def
    by (intro spec_rules localPred_facts addNodeAllowed_other)+
  show ?thesis
    unfolding runAddNode_def
    apply (rule spec_bind_inv, rule spec_gets_inv)
    apply (rule spec_bind_range [OF E, of _ D], simp, simp)
    apply (rule spec_option, rule spec_ret_inv)
    apply (drule findPodToRunVsql_pod, elim conjE)
    apply (intro spec_rules exec prep spec_Invalidate_inv localPred_facts addNodeAllowed_other; simp)
    done
qed

lemma findPodsWithMissingDB_set:
  "findPodsWithMissingDB ps scName = (pods, notRunning) \<Longrightarrow>
     set pods = {pf \<in> set ps. pf_subcluster pf = scName \<and> \<not> pf_dbExists pf}
     \<and> (\<not> notRunning \<longrightarrow> (\<forall>pf \<in> set pods. pf_isPodRunning pf))"
  by (auto simp: findPodsWithMissingDB_def Let_def list_ex_iff)

lemma spec_addNodes_subcluster:
  assumes E: "rangeLaw E" and sc: "sc \<in> set (vdb_Subclusters v)"
  shows "spec (restartInv v D) (addNodeAllowed v D) (addNodes_reconcileSubcluster E sc) (\<lambda>_. restartInv v D)"
  unfolding addNodes_reconcileSubcluster_def
proof (rule spec_bind_range [OF E, of _ D])
  fix ps assume ps: "set ps = snd ` set D"
  obtain pods nr where pn: "findPodsWithMissingDB ps (sc_Name sc) = (pods, nr)" by (rule prod.exhaust)
  from findPodsWithMissingDB_set [OF pn] ps spec_runAddNode [OF E sc, of pods D]
  show "spec (restartInv v D) (addNodeAllowed v D)
     (let (addNodePods, somePodsNotRunning) = findPodsWithMissingDB ps (sc_Name sc) in
      if somePodsNotRunning then ret_op RequeueNow
      else if addNodePods \<noteq> [] then runAddNode E addNodePods else ret_op Done) (\<lambda>_. restartInv v D)"
    by (simp add: pn spec_ret_inv)
qed simp_all



text \<open>
  When admintools fails to add a subcluster, the operator records the event that the subcluster
  was added all the same; only the error it returns tells that it was not.
\<close>

theorem createSubcluster_event_on_failure:
  assumes "e_Exec E atPod (UpdateAdmintoolsCmd (suPassword s) (genAddSubclusterCmd (vdb s) sc)) (world s) = ((stdout, stderr, Some e), w)"
  shows "\<exists>s'. run_state (createSubcluster E atPod sc) s = (Some e, s')
     \<and> trace s' = trace s @ [ObsExec AT atPod (genAddSubclusterCmd (vdb s) sc), ObsEvent EventTypeNormal ''SubclusterAdded'']"
  using assms by (simp add: createSubcluster_def ExecAdmintools_def Eventf_def)

theorem createSubcluster_event_on_failure_witness:
  "\<exists>s'. run_state (createSubcluster (storeEnv\<lparr>e_Exec := \<lambda>nm cmd w. (([], [], Some (OtherErr ''failed'')), w)\<rparr>)
        (pf_name (exampleFact 0)) zeroSubcluster) exampleState = (Some (OtherErr ''failed''), s')
     \<and> ObsEvent EventTypeNormal ''SubclusterAdded'' \<in> set (trace s')"
  using createSubcluster_event_on_failure [of "storeEnv\<lparr>e_Exec := \<lambda>nm cmd w. (([], [], Some (OtherErr ''failed'')), w)\<rparr>"
      "pf_name (exampleFact 0)" exampleState zeroSubcluster "[]" "[]" "OtherErr ''failed''" "world exampleState"]
  by auto

section \<open>What is rebalanced\<close>

lemma rebalanceLoop_result:
  "distinct acc \<Longrightarrow> distinct (rebalanceLoop scName ps acc) \<and>
     set (rebalanceLoop scName ps acc) = set acc \<union> pf_subcluster ` {pf \<in> set ps. (scName = [] \<or> scName = pf_subcluster pf)
        \<and> pf_isPodRunning pf \<and> pf_upNode pf \<and> pf_shardSubscriptions pf = 0}"
proof (induction ps arbitrary: acc)
  case (Cons pf ps)
  show ?case
    using Cons.IH [of acc] Cons.IH [of "acc @ [pf_subcluster pf]"] Cons.prems by auto
qed simp

text \<open>
  The subclusters to rebalance are, each once, those with a running pod whose node is up and has
  no shard subscriptions, within the subcluster asked for if there is one.
\<close>

theorem findShardsToRebalance_result:
  "distinct (findShardsToRebalance scName ps) \<and>
   set (findShardsToRebalance scName ps) = pf_subcluster ` {pf \<in> set ps. (scName = [] \<or> scName = pf_subcluster pf)
        \<and> pf_isPodRunning pf \<and> pf_upNode pf \<and> pf_shardSubscriptions pf = 0}"
  using rebalanceLoop_result [of "[]" scName ps] by (simp add: findShardsToRebalance_def)

end
