(* ===== verification/AtConf.thy ===== *)
theory AtConf
  imports AtOps "HOL-Library.AList"
begin

text \<open>
  Editing admintools.conf (pkg/atconf/file_writer.go, pkg/net/ipv6.go): hosts are added to and removed
  from the list of cluster hosts, together with their node entries. The parser of the file and the
  function that removes the indentation of a text are third-party packages; they are parameters,
  and what is used of the parser is stated as laws. The operator's temporary files are their
  contents.
\<close>

record 'c configparser =
  cp_Parse :: "string \<Rightarrow> goerr + 'c"
  cp_Print :: "'c \<Rightarrow> string"
  cp_Get :: "'c \<Rightarrow> string \<Rightarrow> string \<Rightarrow> goerr + string"
  cp_Set :: "'c \<Rightarrow> string \<Rightarrow> string \<Rightarrow> string \<Rightarrow> goerr + 'c"
  cp_Items :: "'c \<Rightarrow> string \<Rightarrow> goerr + (string \<times> string) list"
  cp_RemoveOption :: "'c \<Rightarrow> string \<Rightarrow> string \<Rightarrow> goerr + 'c"
  cp_Dedent :: "string \<Rightarrow> string"

text \<open>
  The laws of the parser: sections with options that have values. Reading after writing or removing
  an option gives what was written or an error, every other option is left alone, and the items of a
  section are its options, once each, in some order. Writing and removing succeed in a section that
  exists, and keep the sections.
\<close>

definition confLaws :: "'c configparser \<Rightarrow> bool" where
  "confLaws C \<longleftrightarrow>
     (\<forall>c sec opt v c'. cp_Set C c sec opt v = Inr c' \<longrightarrow>
        cp_Get C c' sec opt = Inr v
        \<and> (\<forall>sec' opt'. (sec', opt') \<noteq> (sec, opt) \<longrightarrow> cp_Get C c' sec' opt' = cp_Get C c sec' opt')
        \<and> (\<forall>sec'. (\<exists>items. cp_Items C c' sec' = Inr items) = (\<exists>items. cp_Items C c sec' = Inr items)))
   \<and> (\<forall>c sec opt c'. cp_RemoveOption C c sec opt = Inr c' \<longrightarrow>
        (\<forall>v. cp_Get C c' sec opt \<noteq> Inr v)
        \<and> (\<forall>sec' opt'. (sec', opt') \<noteq> (sec, opt) \<longrightarrow> cp_Get C c' sec' opt' = cp_Get C c sec' opt')
        \<and> (\<forall>sec'. (\<exists>items. cp_Items C c' sec' = Inr items) = (\<exists>items. cp_Items C c sec' = Inr items)))
   \<and> (\<forall>c sec items. cp_Items C c sec = Inr items \<longrightarrow>
        distinct (map fst items) \<and> (\<forall>opt v. (opt, v) \<in> set items \<longleftrightarrow> cp_Get C c sec opt = Inr v)
        \<and> (\<forall>opt v. \<exists>c'. cp_Set C c sec opt v = Inr c')
        \<and> (\<forall>opt. \<exists>c'. cp_RemoveOption C c sec opt = Inr c'))"

definition ClusterSection :: string where
  "ClusterSection = ''Cluster''"
definition NodesSection :: string where
  "NodesSection = ''Nodes''"
definition ConfigurationSection :: string where
  "ConfigurationSection = ''Configuration''"
definition ClusterHostOption :: string where
  "ClusterHostOption = ''hosts''"
definition ConfigurationIPv6Option :: string where
  "ConfigurationIPv6Option = ''ipv6''"

lemmas section_defs = ClusterSection_def NodesSection_def ConfigurationSection_def ClusterHostOption_def
  ConfigurationIPv6Option_def

section \<open>The file writer\<close>

definition IsIPv6 :: "string \<Rightarrow> bool" where
  "IsIPv6 address \<longleftrightarrow> 2 \<le> length (filter (\<lambda>c. c = CHR '':'') address)"

definition setIPv6Flag :: "'c configparser \<Rightarrow> 'c \<Rightarrow> string list \<Rightarrow> goerr + 'c" where
  "setIPv6Flag C cfg installIPs =
     (case installIPs of
        [] \<Rightarrow> Inr cfg
      | ip # _ \<Rightarrow> cp_Set C cfg ConfigurationSection ConfigurationIPv6Option (if IsIPv6 ip then ''True'' else ''False''))"

text \<open>The hosts that exist, as the keys of the Go map.\<close>

definition getHosts :: "'c configparser \<Rightarrow> 'c \<Rightarrow> string list" where
  "getHosts C cfg =
     (case cp_Get C cfg ClusterSection ClusterHostOption of
        Inl e \<Rightarrow> []
      | Inr existingHosts \<Rightarrow> strings_Split existingHosts (CHR '',''))"

fun appendHosts :: "string list \<Rightarrow> string \<Rightarrow> string list \<Rightarrow> string" where
  "appendHosts oldHosts ips [] = ips"
| "appendHosts oldHosts ips (ip # rest) =
     (if ip \<in> set oldHosts then appendHosts oldHosts ips rest
      else appendHosts oldHosts (ips @ (if ips \<noteq> [] then '','' else []) @ ip) rest)"

definition addToClusterHosts :: "'c configparser \<Rightarrow> 'c \<Rightarrow> string list \<Rightarrow> string list \<Rightarrow> goerr + 'c" where
  "addToClusterHosts C cfg oldHosts installIPs =
     cp_Set C cfg ClusterSection ClusterHostOption
       (appendHosts oldHosts
          (case cp_Get C cfg ClusterSection ClusterHostOption of Inl e \<Rightarrow> [] | Inr oldHostLine \<Rightarrow> oldHostLine) installIPs)"

definition getNextNodeNumber :: "'c configparser \<Rightarrow> 'c \<Rightarrow> int" where
  "getNextNodeNumber C cfg =
     (case cp_Items C cfg NodesSection of
        Inl e \<Rightarrow> 1
      | Inr items \<Rightarrow> foldl (\<lambda>nextNodeNumber (k, _).
          if strings_HasPrefix k ''node''
          then (case strconv_Atoi (drop 4 k) of
                  None \<Rightarrow> nextNodeNumber
                | Some i \<Rightarrow> if i \<ge> nextNodeNumber then wrap64 (i + 1) else nextNodeNumber)
          else nextNodeNumber) 1 items)"

text \<open>The verb \<open>%04d\<close> of package fmt: padded with zeros to four places, the sign included.\<close>

definition fmt_04d :: "int \<Rightarrow> string" where
  "fmt_04d i =
     (let ds = natToString (nat \<bar>i\<bar>)
      in if i < 0 then ''-'' @ replicate (3 - length ds) (CHR ''0'') @ ds
         else replicate (4 - length ds) (CHR ''0'') @ ds)"

fun addNodes_loop :: "'c configparser \<Rightarrow> string \<Rightarrow> string list \<Rightarrow> int \<Rightarrow> string list \<Rightarrow> 'c \<Rightarrow> goerr + 'c" where
  "addNodes_loop C dataPath oldHosts nextNodeNumber [] cfg = Inr cfg"
| "addNodes_loop C dataPath oldHosts nextNodeNumber (ip # ips) cfg =
     (if ip \<in> set oldHosts then addNodes_loop C dataPath oldHosts nextNodeNumber ips cfg
      else case cp_Set C cfg NodesSection (''node'' @ fmt_04d nextNodeNumber) (ip @ '','' @ dataPath @ '','' @ dataPath) of
             Inl e \<Rightarrow> Inl e
           | Inr cfg' \<Rightarrow> addNodes_loop C dataPath oldHosts (wrap64 (nextNodeNumber + 1)) ips cfg')"

definition addNodes :: "'c configparser \<Rightarrow> VerticaDB \<Rightarrow> 'c \<Rightarrow> string list \<Rightarrow> string list \<Rightarrow> goerr + 'c" where
  "addNodes C v cfg oldHosts installIPs =
     addNodes_loop C (loc_DataPath (spec_Local (vdb_Spec v))) oldHosts (getNextNodeNumber C cfg) installIPs cfg"

definition addNewHosts :: "'c configparser \<Rightarrow> VerticaDB \<Rightarrow> 'c \<Rightarrow> string list \<Rightarrow> goerr + 'c" where
  "addNewHosts C v cfg installIPs =
     (let oldHosts = getHosts C cfg in
      case addToClusterHosts C cfg oldHosts installIPs of
        Inl e \<Rightarrow> Inl e
      | Inr cfg \<Rightarrow> addNodes C v cfg oldHosts installIPs)"

text \<open>The inner loop runs from the end and removes the last occurrence of the address.\<close>

definition removeLast :: "string list \<Rightarrow> string \<Rightarrow> string list" where
  "removeLast hosts removeIP = rev (remove1 removeIP (rev hosts))"

definition removeFromClusterHosts :: "'c configparser \<Rightarrow> 'c \<Rightarrow> string list \<Rightarrow> goerr + 'c" where
  "removeFromClusterHosts C cfg ips =
     (case cp_Get C cfg ClusterSection ClusterHostOption of
        Inl e \<Rightarrow> Inl e
      | Inr oldHostLine \<Rightarrow>
          cp_Set C cfg ClusterSection ClusterHostOption
            (strings_Join (foldl removeLast (strings_Split oldHostLine (CHR '','')) ips) '',''))"

fun removeMatching :: "'c configparser \<Rightarrow> string \<Rightarrow> (string \<times> string) list \<Rightarrow> 'c \<Rightarrow> goerr + 'c" where
  "removeMatching C ip [] cfg = Inr cfg"
| "removeMatching C ip ((option, details) # nodes) cfg =
     (if strings_Contains details (ip @ '','')
      then (case cp_RemoveOption C cfg NodesSection option of
              Inl e \<Rightarrow> Inl e
            | Inr cfg' \<Rightarrow> removeMatching C ip nodes cfg')
      else removeMatching C ip nodes cfg)"

fun removeNodes :: "'c configparser \<Rightarrow> 'c \<Rightarrow> string list \<Rightarrow> goerr + 'c" where
  "removeNodes C cfg [] = Inr cfg"
| "removeNodes C cfg (ip # ips) =
     (case cp_Items C cfg NodesSection of
        Inl e \<Rightarrow> Inl e
      | Inr nodes \<Rightarrow>
          (case removeMatching C ip nodes cfg of
             Inl e \<Rightarrow> Inl e
           | Inr cfg' \<Rightarrow> removeNodes C cfg' ips))"

definition removeOldHosts :: "'c configparser \<Rightarrow> 'c \<Rightarrow> string list \<Rightarrow> goerr + 'c" where
  "removeOldHosts C cfg ips =
     (case removeFromClusterHosts C cfg ips of
        Inl e \<Rightarrow> Inl e
      | Inr cfg' \<Rightarrow> removeNodes C cfg' ips)"

definition DefaultAdmintoolsConf :: string where
  "DefaultAdmintoolsConf = [newline, CHR 0x09] @ ''    [Configuration]'' @ [newline] @
     strings_Join (map (\<lambda>l. if l = [] then [] else [CHR 0x09, CHR 0x09] @ l)
      [''format = 3'', ''install_opts = '', ''default_base = /home/dbadmin'', ''controlmode = pt2pt'',
       ''controlsubnet = default'', ''spreadlog = False'', ''last_port = 5433'', ''tmp_dir = /tmp'', ''atdebug = False'',
       ''atgui_default_license = False'', ''unreachable_host_caching = True'', ''aws_metadata_conn_timeout = 2'',
       ''rebalance_shards_timeout = 36000'', ''database_state_change_poll_timeout = 21600'',
       ''wait_for_shutdown_timeout = 3600'', ''pexpect_verbose_logging = False'', ''sync_catalog_retries = 2000'',
       ''client_connect_timeout_sec = 5.0'', ''admintools_config_version = 110'', [],
       ''[Cluster]'', [], ''[Nodes]'', [], ''[SSHConfig]'', ''ssh_user = '', ''ssh_ident = '',
       ''ssh_options = -oConnectTimeout=30 -o TCPKeepAlive=no -o ServerAliveInterval=15 -o ServerAliveCountMax=2 -o StrictHostKeyChecking=no -o BatchMode=yes'',
       [], ''[BootstrapParameters]'', ''awsendpoint = null'', ''awsregion = null'']) [newline]"

text \<open>An error of the command that reads the file of the source pod is dropped; the file is then empty.\<close>

definition createAdmintoolsConfBase :: "'w env \<Rightarrow> 'c configparser \<Rightarrow> NamespacedName \<Rightarrow> ('w, string) op" where
  "createAdmintoolsConfBase E C sourcePod =
     (if sourcePod = zeroNamespacedName then ret_op (cp_Dedent C DefaultAdmintoolsConf)
      else do {
        (stdout, stderr, err) \<leftarrow> ExecInPod E sourcePod [''cat'', AdminToolsConf];
        ret_op (if err \<noteq> None then [] else stdout)
      })"

definition AddHosts :: "'w env \<Rightarrow> 'c configparser \<Rightarrow> NamespacedName \<Rightarrow> string list \<Rightarrow> ('w, goerr + string) op" where
  "AddHosts E C sourcePod ips = do {
     v \<leftarrow> gets_st vdb;
     text \<leftarrow> createAdmintoolsConfBase E C sourcePod;
     ret_op (case cp_Parse C text of
        Inl e \<Rightarrow> Inl e
      | Inr cfg \<Rightarrow>
          (case setIPv6Flag C cfg ips of
             Inl e \<Rightarrow> Inl e
           | Inr cfg \<Rightarrow>
               (case addNewHosts C v cfg ips of
                  Inl e \<Rightarrow> Inl e
                | Inr cfg \<Rightarrow> Inr (cp_Print C cfg))))
   }"

definition RemoveHosts :: "'w env \<Rightarrow> 'c configparser \<Rightarrow> NamespacedName \<Rightarrow> string list \<Rightarrow> ('w, goerr + string) op" where
  "RemoveHosts E C sourcePod ips = do {
     text \<leftarrow> createAdmintoolsConfBase E C sourcePod;
     ret_op (case cp_Parse C text of
        Inl e \<Rightarrow> Inl e
      | Inr cfg \<Rightarrow>
          (case removeOldHosts C cfg ips of
             Inl e \<Rightarrow> Inl e
           | Inr cfg \<Rightarrow> Inr (cp_Print C cfg)))
   }"

lemma spec_confBase [spec_rules]:
  "localPred P \<Longrightarrow> (\<And>p. \<Phi> (ObsExec InPod p [''cat'', AdminToolsConf])) \<Longrightarrow> spec P \<Phi> (createAdmintoolsConfBase E C sourcePod) (\<lambda>_. P)"
  unfolding createAdmintoolsConfBase_def by (intro spec_rules)

lemma spec_AddHosts [spec_rules]:
  "localPred P \<Longrightarrow> (\<And>p. \<Phi> (ObsExec InPod p [''cat'', AdminToolsConf])) \<Longrightarrow> spec P \<Phi> (AddHosts E C sourcePod ips) (\<lambda>_. P)"
  unfolding AddHosts_def by (intro spec_rules)

lemma spec_RemoveHosts [spec_rules]:
  "localPred P \<Longrightarrow> (\<And>p. \<Phi> (ObsExec InPod p [''cat'', AdminToolsConf])) \<Longrightarrow> spec P \<Phi> (RemoveHosts E C sourcePod ips) (\<lambda>_. P)"
  unfolding RemoveHosts_def by (intro spec_rules)

section \<open>Lemmas on the parser\<close>

lemma confSet:
  "confLaws C \<Longrightarrow> cp_Set C c sec opt v = Inr c' \<Longrightarrow>
     cp_Get C c' sec' opt' = (if sec' = sec \<and> opt' = opt then Inr v else cp_Get C c sec' opt')"
  unfolding confLaws_def by (elim conjE) simp

lemma confSet_sections:
  "confLaws C \<Longrightarrow> cp_Set C c sec opt v = Inr c' \<Longrightarrow> (\<exists>items. cp_Items C c' sec' = Inr items) = (\<exists>items. cp_Items C c sec' = Inr items)"
  unfolding confLaws_def by (elim conjE) blast

lemma confRemove:
  "confLaws C \<Longrightarrow> cp_RemoveOption C c sec opt = Inr c' \<Longrightarrow>
     cp_Get C c' sec' opt' = Inr w \<longleftrightarrow> (sec', opt') \<noteq> (sec, opt) \<and> cp_Get C c sec' opt' = Inr w"
  unfolding confLaws_def by (elim conjE) (cases "(sec', opt') = (sec, opt)"; simp)

lemma confRemove_other:
  "confLaws C \<Longrightarrow> cp_RemoveOption C c sec opt = Inr c' \<Longrightarrow> sec' \<noteq> sec \<Longrightarrow> cp_Get C c' sec' opt' = cp_Get C c sec' opt'"
  unfolding confLaws_def by (elim conjE) simp

lemma confItems:
  "confLaws C \<Longrightarrow> cp_Items C c sec = Inr items \<Longrightarrow> (opt, v) \<in> set items \<longleftrightarrow> cp_Get C c sec opt = Inr v"
  unfolding confLaws_def by (elim conjE) simp

lemma confSet_ok:
  "confLaws C \<Longrightarrow> cp_Items C c sec = Inr items \<Longrightarrow> \<exists>c'. cp_Set C c sec opt v = Inr c'"
  unfolding confLaws_def by (elim conjE) blast

section \<open>Removing hosts\<close>

lemma removeMatching_get:
  assumes C: "confLaws C"
  shows "removeMatching C ip nodes cfg = Inr cfg' \<Longrightarrow>
     (\<forall>opt d. cp_Get C cfg' NodesSection opt = Inr d \<longleftrightarrow>
        cp_Get C cfg NodesSection opt = Inr d \<and> (\<forall>det. (opt, det) \<in> set nodes \<longrightarrow> \<not> strings_Contains det (ip @ '','')))
   \<and> (\<forall>sec opt. sec \<noteq> NodesSection \<longrightarrow> cp_Get C cfg' sec opt = cp_Get C cfg sec opt)"
proof (induction nodes arbitrary: cfg)
  case (Cons n nodes)
  obtain option details where n: "n = (option, details)" by (rule prod.exhaust)
  show ?case
  proof (cases "strings_Contains details (ip @ '','')")
    case True
    with Cons.prems n obtain cfg1 where rm: "cp_RemoveOption C cfg NodesSection option = Inr cfg1"
      and rest: "removeMatching C ip nodes cfg1 = Inr cfg'" by (auto split: sum.splits)
    from Cons.IH [OF rest] confRemove [OF C rm] confRemove_other [OF C rm] True n show ?thesis by auto
  next
    case False
    with Cons n show ?thesis by auto
  qed
qed simp

lemma removeNodes_get:
  assumes C: "confLaws C"
  shows "removeNodes C cfg ips = Inr cfg' \<Longrightarrow>
     (\<forall>opt d. cp_Get C cfg' NodesSection opt = Inr d \<longleftrightarrow>
        cp_Get C cfg NodesSection opt = Inr d \<and> (\<forall>ip \<in> set ips. \<not> strings_Contains d (ip @ '','')))
   \<and> (\<forall>sec opt. sec \<noteq> NodesSection \<longrightarrow> cp_Get C cfg' sec opt = cp_Get C cfg sec opt)"
proof (induction ips arbitrary: cfg)
  case (Cons ip ips)
  from Cons.prems obtain nodes cfg1 where items: "cp_Items C cfg NodesSection = Inr nodes"
    and m: "removeMatching C ip nodes cfg = Inr cfg1" and rest: "removeNodes C cfg1 ips = Inr cfg'"
    by (auto split: sum.splits)
  have "(opt, det) \<in> set nodes \<longleftrightarrow> cp_Get C cfg NodesSection opt = Inr det" for opt det
    by (rule confItems [OF C items])
  with removeMatching_get [OF C m] Cons.IH [OF rest] show ?case by auto
qed simp

lemma removeLast_mset: "mset (foldl removeLast hosts ips) = mset hosts - mset ips"
proof (induction ips arbitrary: hosts)
  case (Cons ip ips)
  have "mset (removeLast hosts ip) = mset hosts - {#ip#}" by (simp add: removeLast_def)
  with Cons show ?case by (simp add: diff_diff_add_mset)
qed simp

lemma removeOldHosts_result:
  assumes "confLaws C" and "removeOldHosts C cfg ips = Inr cfg'"
  shows "(\<forall>opt d. cp_Get C cfg' NodesSection opt = Inr d \<longleftrightarrow>
            cp_Get C cfg NodesSection opt = Inr d \<and> (\<forall>ip \<in> set ips. \<not> strings_Contains d (ip @ '','')))
     \<and> (mset (getHosts C cfg) - mset ips \<noteq> {#} \<longrightarrow> mset (getHosts C cfg') = mset (getHosts C cfg) - mset ips)
     \<and> (\<forall>sec opt. sec \<notin> {NodesSection, ClusterSection} \<longrightarrow> cp_Get C cfg' sec opt = cp_Get C cfg sec opt)"
proof -
  from assms(2) obtain line cfg1 where line: "cp_Get C cfg ClusterSection ClusterHostOption = Inr line"
    and set: "cp_Set C cfg ClusterSection ClusterHostOption
        (strings_Join (foldl removeLast (strings_Split line (CHR '','')) ips) '','') = Inr cfg1"
    and rm: "removeNodes C cfg1 ips = Inr cfg'"
    by (auto simp: removeOldHosts_def removeFromClusterHosts_def split: sum.splits)
  let ?h = "foldl removeLast (strings_Split line (CHR '','')) ips"
  have ne: "ClusterSection \<noteq> NodesSection" by (simp add: section_defs)
  have hosts: "getHosts C cfg = strings_Split line (CHR '','')" by (simp add: getHosts_def line)
  have get: "cp_Get C cfg1 sec opt = (if sec = ClusterSection \<and> opt = ClusterHostOption
      then Inr (strings_Join ?h '','') else cp_Get C cfg sec opt)" for sec opt
    by (rule confSet [OF assms(1) set])
  have "getHosts C cfg' = ?h" if "mset (getHosts C cfg) - mset ips \<noteq> {#}"
  proof -
    have m: "mset ?h = mset (getHosts C cfg) - mset ips" by (simp add: removeLast_mset hosts)
    have "?h \<noteq> []" using that m by auto
    moreover have "\<forall>x \<in> set ?h. CHR '','' \<notin> set x"
    proof
      fix x assume "x \<in> set ?h"
      then have "x \<in># mset (getHosts C cfg)" using m by (metis in_diffD set_mset_mset)
      then show "CHR '','' \<notin> set x" using Split_parts_no_sep by (auto simp: hosts)
    qed
    ultimately show ?thesis
      using removeNodes_get [OF assms(1) rm] ne by (simp add: getHosts_def get Split_Join)
  qed
  then show ?thesis
    using removeNodes_get [OF assms(1) rm] ne by (auto simp: get removeLast_mset hosts)
qed

text \<open>
  C27: removing addresses from admintools.conf takes each of them off the list of cluster hosts, once,
  and removes the node entries whose text contains one of the addresses followed by a comma; the
  other entries and sections are as before.
\<close>

theorem removeOldHosts_effect:
  assumes "confLaws C" and "removeOldHosts C cfg ips = Inr cfg'"
  shows "(\<forall>opt d. cp_Get C cfg' NodesSection opt = Inr d \<longleftrightarrow>
            cp_Get C cfg NodesSection opt = Inr d \<and> (\<forall>ip \<in> set ips. \<not> strings_Contains d (ip @ '','')))
     \<and> (mset (getHosts C cfg) - mset ips \<noteq> {#} \<longrightarrow> mset (getHosts C cfg') = mset (getHosts C cfg) - mset ips)
     \<and> (\<forall>sec opt. sec \<notin> {NodesSection, ClusterSection} \<longrightarrow> cp_Get C cfg' sec opt = cp_Get C cfg sec opt)"
  using removeOldHosts_result [OF assms] .

section \<open>Adding hosts\<close>

lemma Join_head: "strings_Join ((a @ sep @ b) # xs) sep = a @ sep @ strings_Join (b # xs) sep"
  by (cases xs) simp_all

lemma appendHosts_join:
  "line \<noteq> [] \<Longrightarrow> appendHosts old line ips = strings_Join (line # filter (\<lambda>ip. ip \<notin> set old) ips) '',''"
proof (induction ips arbitrary: line)
  case (Cons ip ips)
  then show ?case using Join_head [of line "'',''" ip "filter (\<lambda>ip. ip \<notin> set old) ips"] by simp
qed simp

lemma Split_append: "strings_Split (s @ sep # t) sep = strings_Split s sep @ strings_Split t sep"
  by (induction s) (auto split: list.splits)

lemma Split_appendHosts:
  assumes "line \<noteq> []" and "\<forall>ip \<in> set ips. CHR '','' \<notin> set ip"
  shows "strings_Split (appendHosts old line ips) (CHR '','')
       = strings_Split line (CHR '','') @ filter (\<lambda>ip. ip \<notin> set old) ips"
proof (cases "filter (\<lambda>ip. ip \<notin> set old) ips")
  case Nil
  then show ?thesis by (simp add: appendHosts_join [OF assms(1)])
next
  case (Cons x xs)
  then have "\<forall>y \<in> set (x # xs). CHR '','' \<notin> set y" using assms(2) by (metis filter_is_subset subsetD)
  then show ?thesis using Split_Join [of "x # xs" "CHR '',''"] Cons
    by (simp add: appendHosts_join [OF assms(1)] Split_append)
qed

definition nodeNumber :: "string \<Rightarrow> int option" where
  "nodeNumber opt = (if strings_HasPrefix opt ''node'' then strconv_Atoi (drop 4 opt) else None)"

lemma Atoi_digits:
  assumes "list_all isDigit ds" and "ds \<noteq> []"
  shows "strconv_Atoi ds = (if int (digitsToNat ds) \<le> maxInt64 then Some (int (digitsToNat ds)) else None)"
proof -
  obtain c r where cr: "ds = c # r" using assms(2) by (cases ds) auto
  with assms(1) have "c \<noteq> CHR ''-''" "c \<noteq> CHR ''+''" by (auto simp: isDigit_def)
  then show ?thesis using assms cr by (simp add: strconv_Atoi_def minInt64_def)
qed

lemma digitsToNat_zeros: "digitsToNat (replicate k (CHR ''0'') @ ds) = digitsToNat ds"
  by (induction k) (simp_all add: digitsToNat_def digitVal_def)

lemma nodeNumber_fmt:
  assumes "0 \<le> n" and "n \<le> maxInt64"
  shows "nodeNumber (''node'' @ fmt_04d n) = Some n"
proof -
  have "list_all isDigit (replicate k (CHR ''0'') @ natToString (nat n))" for k
    using natToString_digits [of "nat n"] by (auto simp: list_all_iff isDigit_def)
  moreover have "fmt_04d n = replicate (4 - length (natToString (nat n))) (CHR ''0'') @ natToString (nat n)"
    using assms(1) by (simp add: fmt_04d_def Let_def)
  ultimately have "strconv_Atoi (fmt_04d n) = Some n"
    using assms by (simp add: Atoi_digits digitsToNat_zeros)
  then show ?thesis using HasPrefix_append [of "''node''" "fmt_04d n"] by (simp add: nodeNumber_def)
qed

lemma wrap64_id: "minInt64 \<le> x \<Longrightarrow> x \<le> maxInt64 \<Longrightarrow> wrap64 x = x"
  by (simp add: wrap64_def minInt64_def maxInt64_def)

lemma nextNumber_above:
  assumes "\<forall>(k, d) \<in> set items. \<forall>i. nodeNumber k = Some i \<longrightarrow> i < B" and "1 \<le> B" and "B < maxInt64"
  shows "cp_Items C cfg NodesSection = Inr items \<Longrightarrow>
     1 \<le> getNextNodeNumber C cfg \<and> getNextNodeNumber C cfg \<le> B
     \<and> (\<forall>(k, d) \<in> set items. \<forall>i. nodeNumber k = Some i \<longrightarrow> i < getNextNodeNumber C cfg)"
proof -
  let ?f = "\<lambda>next (k, _ :: string).
      if strings_HasPrefix k ''node''
      then (case strconv_Atoi (drop 4 k) of None \<Rightarrow> next | Some i \<Rightarrow> if i \<ge> next then wrap64 (i + 1) else next)
      else next"
  have wrap: "wrap64 (i + 1) = i + 1" if "1 \<le> i" "i < B" for i :: int
    using that assms(3) by (intro wrap64_id) (simp_all add: minInt64_def maxInt64_def)
  have step: "next \<le> ?f next (k, d) \<and> 1 \<le> ?f next (k, d) \<and> ?f next (k, d) \<le> B \<and> (\<forall>i. nodeNumber k = Some i \<longrightarrow> i < ?f next (k, d))"
    if "1 \<le> next" "next \<le> B" "\<forall>i. nodeNumber k = Some i \<longrightarrow> i < B" for "next" :: int and k d
    using that wrap by (auto simp: nodeNumber_def split: option.splits)
  have "next \<le> foldl ?f next xs \<and> foldl ?f next xs \<le> B \<and> (\<forall>(k, d) \<in> set xs. \<forall>i. nodeNumber k = Some i \<longrightarrow> i < foldl ?f next xs)"
    if "1 \<le> next" "next \<le> B" "\<forall>(k, d) \<in> set xs. \<forall>i. nodeNumber k = Some i \<longrightarrow> i < B" for "next" :: int and xs
    using that
  proof (induction xs arbitrary: "next")
    case (Cons x xs)
    obtain k d where x: "x = (k, d)" by (rule prod.exhaust)
    have a: "next \<le> ?f next x \<and> 1 \<le> ?f next x \<and> ?f next x \<le> B \<and> (\<forall>i. nodeNumber k = Some i \<longrightarrow> i < ?f next x)"
      unfolding x by (rule step) (use Cons.prems x in auto)
    have b: "?f next x \<le> foldl ?f (?f next x) xs \<and> foldl ?f (?f next x) xs \<le> B
        \<and> (\<forall>(k, d) \<in> set xs. \<forall>i. nodeNumber k = Some i \<longrightarrow> i < foldl ?f (?f next x) xs)"
      by (rule Cons.IH) (use a Cons.prems in auto)
    have "foldl ?f next (x # xs) = foldl ?f (?f next x) xs" by simp
    then show ?case using a b x by (smt (verit) case_prodI2 case_prod_conv prod.inject set_ConsD)
  qed simp
  moreover assume "cp_Items C cfg NodesSection = Inr items"
  ultimately show ?thesis using assms by (simp add: getNextNodeNumber_def)
qed

definition nodeInfo :: "string \<Rightarrow> string \<Rightarrow> string" where
  "nodeInfo dataPath ip = ip @ '','' @ dataPath @ '','' @ dataPath"

definition numbersBelow :: "'c configparser \<Rightarrow> 'c \<Rightarrow> int \<Rightarrow> bool" where
  "numbersBelow C cfg n \<longleftrightarrow> (\<forall>opt d i. cp_Get C cfg NodesSection opt = Inr d \<longrightarrow> nodeNumber opt = Some i \<longrightarrow> i < n)"

text \<open>The node entries of a configuration grow by the new addresses.\<close>

definition nodesAdded :: "'c configparser \<Rightarrow> string \<Rightarrow> 'c \<Rightarrow> string set \<Rightarrow> 'c \<Rightarrow> bool" where
  "nodesAdded C dataPath cfg ips cfg' \<longleftrightarrow>
     (\<forall>opt d. cp_Get C cfg NodesSection opt = Inr d \<longrightarrow> cp_Get C cfg' NodesSection opt = Inr d)
   \<and> (\<forall>ip \<in> ips. \<exists>opt. (\<forall>d. cp_Get C cfg NodesSection opt \<noteq> Inr d) \<and> cp_Get C cfg' NodesSection opt = Inr (nodeInfo dataPath ip))
   \<and> (\<forall>opt d. cp_Get C cfg' NodesSection opt = Inr d \<longrightarrow>
        cp_Get C cfg NodesSection opt = Inr d \<or> (\<exists>ip \<in> ips. d = nodeInfo dataPath ip))"

lemma nodesAdded_keep:
  "nodesAdded C dp cfg ips cfg' \<Longrightarrow> cp_Get C cfg NodesSection opt = Inr d \<Longrightarrow> cp_Get C cfg' NodesSection opt = Inr d"
  by (simp add: nodesAdded_def)

lemma nodesAdded_new:
  "nodesAdded C dp cfg ips cfg' \<Longrightarrow> ip \<in> ips \<Longrightarrow>
     \<exists>opt. (\<forall>d. cp_Get C cfg NodesSection opt \<noteq> Inr d) \<and> cp_Get C cfg' NodesSection opt = Inr (nodeInfo dp ip)"
  by (simp add: nodesAdded_def)

lemma nodesAdded_only:
  "nodesAdded C dp cfg ips cfg' \<Longrightarrow> cp_Get C cfg' NodesSection opt = Inr d \<Longrightarrow>
     cp_Get C cfg NodesSection opt = Inr d \<or> (\<exists>ip \<in> ips. d = nodeInfo dp ip)"
  by (simp add: nodesAdded_def)

lemma addNodes_loop_effect:
  assumes C: "confLaws C"
  shows "\<exists>items. cp_Items C cfg NodesSection = Inr items \<Longrightarrow> numbersBelow C cfg n \<Longrightarrow> 1 \<le> n \<Longrightarrow> n + int (length ips) \<le> maxInt64 \<Longrightarrow>
     \<exists>cfg'. addNodes_loop C dp old n ips cfg = Inr cfg' \<and> nodesAdded C dp cfg (set ips - set old) cfg'
       \<and> (\<forall>sec opt. sec \<noteq> NodesSection \<longrightarrow> cp_Get C cfg' sec opt = cp_Get C cfg sec opt)"
proof (induction ips arbitrary: cfg n)
  case Nil
  then show ?case by (simp add: nodesAdded_def)
next
  case (Cons ip ips)
  show ?case
  proof (cases "ip \<in> set old")
    case True
    then have "set (ip # ips) - set old = set ips - set old" by auto
    then show ?thesis using Cons True by simp
  next
    case False
    let ?nm = "''node'' @ fmt_04d n"
    from Cons.prems(1) confSet_ok [OF C] obtain cfg1 where set: "cp_Set C cfg NodesSection ?nm (nodeInfo dp ip) = Inr cfg1" by blast
    note get = confSet [OF C set]
    have num: "nodeNumber ?nm = Some n" using Cons.prems by (intro nodeNumber_fmt) simp_all
    have new: "cp_Get C cfg NodesSection ?nm \<noteq> Inr d" for d using Cons.prems(2) num unfolding numbersBelow_def by blast
    have w: "wrap64 (n + 1) = n + 1" using Cons.prems by (intro wrap64_id) (simp_all add: minInt64_def)
    have "numbersBelow C cfg1 (n + 1)"
      unfolding numbersBelow_def
    proof (intro allI impI)
      fix opt d i assume o: "cp_Get C cfg1 NodesSection opt = Inr d" "nodeNumber opt = Some i"
      show "i < n + 1"
      proof (cases "opt = ?nm")
        case True
        then show ?thesis using o(2) num by simp
      next
        case False
        then have "cp_Get C cfg NodesSection opt = Inr d" using o(1) by (simp add: get)
        then have "i < n" using o(2) Cons.prems(2) unfolding numbersBelow_def by blast
        then show ?thesis by simp
      qed
    qed
    moreover have "\<exists>items. cp_Items C cfg1 NodesSection = Inr items" using Cons.prems(1) confSet_sections [OF C set] by simp
    ultimately obtain cfg' where rest: "addNodes_loop C dp old (n + 1) ips cfg1 = Inr cfg'"
      and added: "nodesAdded C dp cfg1 (set ips - set old) cfg'"
      and other: "\<forall>sec opt. sec \<noteq> NodesSection \<longrightarrow> cp_Get C cfg' sec opt = cp_Get C cfg1 sec opt"
      using Cons.IH [of cfg1 "n + 1"] Cons.prems by auto
    have "addNodes_loop C dp old n (ip # ips) cfg = Inr cfg'"
      using False set w rest by (simp add: nodeInfo_def)
    moreover have "nodesAdded C dp cfg (set (ip # ips) - set old) cfg'"
      unfolding nodesAdded_def
    proof (intro conjI allI impI ballI)
      show "cp_Get C cfg' NodesSection opt = Inr d" if old: "cp_Get C cfg NodesSection opt = Inr d" for opt d
      proof -
        have "opt \<noteq> ?nm" using old new [of d] by auto
        with old have "cp_Get C cfg1 NodesSection opt = Inr d" by (simp add: get)
        with added show ?thesis by (rule nodesAdded_keep)
      qed
      show "\<exists>opt. (\<forall>d. cp_Get C cfg NodesSection opt \<noteq> Inr d) \<and> cp_Get C cfg' NodesSection opt = Inr (nodeInfo dp ip')"
        if "ip' \<in> set (ip # ips) - set old" for ip'
      proof (cases "ip' \<in> set ips")
        case True
        with that nodesAdded_new [OF added, of ip'] obtain opt where opt: "\<forall>d. cp_Get C cfg1 NodesSection opt \<noteq> Inr d"
          "cp_Get C cfg' NodesSection opt = Inr (nodeInfo dp ip')" by auto
        have "opt \<noteq> ?nm" using opt(1) get [of NodesSection opt] by (auto split: if_splits)
        then have "cp_Get C cfg NodesSection opt \<noteq> Inr d" for d using opt(1) get [of NodesSection opt] by simp
        with opt(2) show ?thesis by blast
      next
        case False
        then have "ip' = ip" using that by simp
        moreover have "cp_Get C cfg' NodesSection ?nm = Inr (nodeInfo dp ip)"
          using nodesAdded_keep [OF added] get [of NodesSection ?nm] by simp
        ultimately show ?thesis using new by blast
      qed
      show "cp_Get C cfg NodesSection opt = Inr d \<or> (\<exists>ip \<in> set (ip # ips) - set old. d = nodeInfo dp ip)"
        if "cp_Get C cfg' NodesSection opt = Inr d" for opt d
        using nodesAdded_only [OF added that] get [of NodesSection opt] False by (auto split: if_splits)
    qed
    moreover have "\<forall>sec opt. sec \<noteq> NodesSection \<longrightarrow> cp_Get C cfg' sec opt = cp_Get C cfg sec opt"
      using other get by simp
    ultimately show ?thesis by blast
  qed
qed

text \<open>
  C26: adding addresses to an admintools.conf that has the sections for hosts and nodes always
  succeeds. No node entry is changed or overwritten; every address that was not a host yet gets a
  node entry under a name that was not in use, and nothing else is added. The list of hosts keeps
  its order and gets the new addresses at its end, provided there were hosts before.
\<close>

theorem addNewHosts_effect:
  assumes C: "confLaws C"
    and sections: "\<exists>items. cp_Items C cfg NodesSection = Inr items" "\<exists>items. cp_Items C cfg ClusterSection = Inr items"
    and numbers: "\<forall>opt d i. cp_Get C cfg NodesSection opt = Inr d \<longrightarrow> nodeNumber opt = Some i \<longrightarrow> i < 2 ^ 62"
    and ips: "int (length ips) < 2 ^ 61" "\<forall>ip \<in> set ips. CHR '','' \<notin> set ip"
  shows "\<exists>cfg'. addNewHosts C v cfg ips = Inr cfg'
     \<and> nodesAdded C (loc_DataPath (spec_Local (vdb_Spec v))) cfg (set ips - set (getHosts C cfg)) cfg'
     \<and> (\<forall>line. cp_Get C cfg ClusterSection ClusterHostOption = Inr line \<and> line \<noteq> [] \<longrightarrow>
          getHosts C cfg' = getHosts C cfg @ filter (\<lambda>ip. ip \<notin> set (getHosts C cfg)) ips)"
proof -
  let ?dp = "loc_DataPath (spec_Local (vdb_Spec v))"
  have ne: "ClusterSection \<noteq> NodesSection" by (simp add: section_defs)
  from sections(2) confSet_ok [OF C] obtain cfg1 where
    set: "addToClusterHosts C cfg (getHosts C cfg) ips = Inr cfg1" unfolding addToClusterHosts_def by blast
  note get = confSet [OF C set [unfolded addToClusterHosts_def]]
  from sections(1) confSet_sections [OF C set [unfolded addToClusterHosts_def]]
  obtain items where items: "cp_Items C cfg1 NodesSection = Inr items" by blast
  have same: "cp_Get C cfg1 NodesSection opt = cp_Get C cfg NodesSection opt" for opt using ne by (simp add: get)
  have "1 \<le> getNextNodeNumber C cfg1 \<and> getNextNodeNumber C cfg1 \<le> 2 ^ 62
      \<and> (\<forall>(k, d) \<in> set items. \<forall>i. nodeNumber k = Some i \<longrightarrow> i < getNextNodeNumber C cfg1)"
    by (rule nextNumber_above [OF _ _ _ items])
       (use numbers confItems [OF C items] in \<open>auto simp: same maxInt64_def\<close>)
  then have next1: "1 \<le> getNextNodeNumber C cfg1" "getNextNodeNumber C cfg1 \<le> 2 ^ 62"
    and above: "\<forall>(k, d) \<in> set items. \<forall>i. nodeNumber k = Some i \<longrightarrow> i < getNextNodeNumber C cfg1"
    by simp_all
  have below: "numbersBelow C cfg1 (getNextNodeNumber C cfg1)"
    unfolding numbersBelow_def confItems [OF C items, symmetric] using above by blast
  from addNodes_loop_effect [OF C _ below next1(1), of ips ?dp "getHosts C cfg"] items next1(2) ips(1)
  obtain cfg' where add: "addNodes_loop C ?dp (getHosts C cfg) (getNextNodeNumber C cfg1) ips cfg1 = Inr cfg'"
    and added: "nodesAdded C ?dp cfg1 (set ips - set (getHosts C cfg)) cfg'"
    and other: "\<forall>sec opt. sec \<noteq> NodesSection \<longrightarrow> cp_Get C cfg' sec opt = cp_Get C cfg1 sec opt"
    by (auto simp: maxInt64_def)
  have "addNewHosts C v cfg ips = Inr cfg'" by (simp add: addNewHosts_def addNodes_def set add)
  moreover have "nodesAdded C ?dp cfg (set ips - set (getHosts C cfg)) cfg'"
    using added unfolding nodesAdded_def same .
  moreover have "getHosts C cfg' = getHosts C cfg @ filter (\<lambda>ip. ip \<notin> set (getHosts C cfg)) ips"
    if "cp_Get C cfg ClusterSection ClusterHostOption = Inr line" "line \<noteq> []" for line
  proof -
    have "cp_Get C cfg' ClusterSection ClusterHostOption = Inr (appendHosts (getHosts C cfg) line ips)"
      using other ne that by (simp add: get)
    then show ?thesis using Split_appendHosts [OF that(2) ips(2)] that by (simp add: getHosts_def)
  qed
  ultimately show ?thesis by blast
qed

section \<open>A parser that satisfies the laws\<close>

text \<open>Sections as an association list of association lists; a text is parsed as the empty file with the usual sections.\<close>

type_synonym conf = "(string \<times> (string \<times> string) list) list"

definition listParser :: "conf configparser" where
  "listParser = \<lparr>
     cp_Parse = \<lambda>text. Inr [(ConfigurationSection, []), (ClusterSection, []), (NodesSection, [])],
     cp_Print = \<lambda>c. concat (map (\<lambda>(sec, opts). ''['' @ sec @ '']'' @ [newline]
        @ concat (map (\<lambda>(opt, v). opt @ '' = '' @ v @ [newline]) opts)) c),
     cp_Get = \<lambda>c sec opt. (case map_of c sec of None \<Rightarrow> Inl (OtherErr ''no section'')
        | Some opts \<Rightarrow> (case map_of opts opt of None \<Rightarrow> Inl (OtherErr ''no option'') | Some v \<Rightarrow> Inr v)),
     cp_Set = \<lambda>c sec opt v. (case map_of c sec of None \<Rightarrow> Inl (OtherErr ''no section'')
        | Some opts \<Rightarrow> Inr (AList.update sec (AList.update opt v opts) c)),
     cp_Items = \<lambda>c sec. (case map_of c sec of None \<Rightarrow> Inl (OtherErr ''no section'') | Some opts \<Rightarrow> Inr (AList.clearjunk opts)),
     cp_RemoveOption = \<lambda>c sec opt. (case map_of c sec of None \<Rightarrow> Inl (OtherErr ''no section'')
        | Some opts \<Rightarrow> Inr (AList.update sec (AList.delete opt opts) c)),
     cp_Dedent = \<lambda>s. s\<rparr>"

lemma listParser_laws: "confLaws listParser"
proof -
  have items: "(opt, v) \<in> set (AList.clearjunk opts) \<longleftrightarrow> map_of opts opt = Some v" for opt v and opts :: "(string \<times> string) list"
    by (metis distinct_clearjunk map_of_clearjunk map_of_eq_Some_iff)
  show ?thesis
    unfolding confLaws_def listParser_def
    by (auto simp: update_conv' delete_conv' items distinct_clearjunk split: option.splits)
qed

theorem removeOldHosts_effect_witness:
  "\<exists>cfg'. removeOldHosts listParser [(ClusterSection, [(ClusterHostOption, ''10.0.0.1,10.0.0.2'')]),
        (NodesSection, [(''node0001'', ''10.0.0.1,/d,/d''), (''node0002'', ''10.0.0.2,/d,/d'')])] [''10.0.0.1''] = Inr cfg'
     \<and> cp_Get listParser cfg' NodesSection ''node0002'' = Inr ''10.0.0.2,/d,/d''
     \<and> (\<forall>d. cp_Get listParser cfg' NodesSection ''node0001'' \<noteq> Inr d)"
proof -
  let ?cfg = "[(ClusterSection, [(ClusterHostOption, ''10.0.0.1,10.0.0.2'')]),
        (NodesSection, [(''node0001'', ''10.0.0.1,/d,/d''), (''node0002'', ''10.0.0.2,/d,/d'')])]"
  have "\<exists>cfg'. removeOldHosts listParser ?cfg [''10.0.0.1''] = Inr cfg'"
    by (simp add: removeOldHosts_def removeFromClusterHosts_def listParser_def section_defs removeLast_def strings_HasPrefix_def)
  then obtain cfg' where run: "removeOldHosts listParser ?cfg [''10.0.0.1''] = Inr cfg'" by blast
  have "cp_Get listParser ?cfg NodesSection ''node0002'' = Inr ''10.0.0.2,/d,/d''"
    "cp_Get listParser ?cfg NodesSection ''node0001'' = Inr ''10.0.0.1,/d,/d''"
    by (simp_all add: listParser_def section_defs)
  with removeOldHosts_effect [OF listParser_laws run] run show ?thesis
    by (auto simp: strings_HasPrefix_def)
qed

theorem addNewHosts_effect_witness:
  "\<exists>cfg'. addNewHosts listParser MakeVDB [(ClusterSection, [(ClusterHostOption, ''10.0.0.1'')]), (NodesSection, [(''node0001'', ''10.0.0.1,/d,/d'')])]
          [''10.0.0.1'', ''10.0.0.2''] = Inr cfg'
     \<and> getHosts listParser cfg' = [''10.0.0.1'', ''10.0.0.2'']
     \<and> cp_Get listParser cfg' NodesSection ''node0001'' = Inr ''10.0.0.1,/d,/d''"
proof -
  let ?cfg = "[(ClusterSection, [(ClusterHostOption, ''10.0.0.1'')]), (NodesSection, [(''node0001'', ''10.0.0.1,/d,/d'')])]"
  have hosts: "getHosts listParser ?cfg = [''10.0.0.1'']" by (simp add: getHosts_def listParser_def section_defs)
  have node: "cp_Get listParser ?cfg NodesSection opt = Inr d \<longleftrightarrow> opt = ''node0001'' \<and> d = ''10.0.0.1,/d,/d''" for opt d
    by (auto simp: listParser_def section_defs)
  have num: "nodeNumber ''node0001'' = Some 1"
    by (simp add: nodeNumber_def strings_HasPrefix_def strconv_Atoi_def isDigit_def digitsToNat_def digitVal_def minInt64_def maxInt64_def)
  have "\<exists>cfg'. addNewHosts listParser MakeVDB ?cfg [''10.0.0.1'', ''10.0.0.2''] = Inr cfg'
     \<and> nodesAdded listParser (loc_DataPath (spec_Local (vdb_Spec MakeVDB))) ?cfg (set [''10.0.0.1'', ''10.0.0.2''] - set (getHosts listParser ?cfg)) cfg'
     \<and> (\<forall>line. cp_Get listParser ?cfg ClusterSection ClusterHostOption = Inr line \<and> line \<noteq> [] \<longrightarrow>
          getHosts listParser cfg' = getHosts listParser ?cfg @ filter (\<lambda>ip. ip \<notin> set (getHosts listParser ?cfg)) [''10.0.0.1'', ''10.0.0.2''])"
    by (rule addNewHosts_effect [OF listParser_laws])
       (auto simp: node num, (simp add: listParser_def section_defs)+)
  then obtain cfg' where r: "addNewHosts listParser MakeVDB ?cfg [''10.0.0.1'', ''10.0.0.2''] = Inr cfg'"
    and added: "nodesAdded listParser (loc_DataPath (spec_Local (vdb_Spec MakeVDB))) ?cfg (set [''10.0.0.1'', ''10.0.0.2''] - set (getHosts listParser ?cfg)) cfg'"
    and line: "cp_Get listParser ?cfg ClusterSection ClusterHostOption = Inr ''10.0.0.1'' \<longrightarrow>
          getHosts listParser cfg' = getHosts listParser ?cfg @ filter (\<lambda>ip. ip \<notin> set (getHosts listParser ?cfg)) [''10.0.0.1'', ''10.0.0.2'']"
    by auto
  have "cp_Get listParser ?cfg ClusterSection ClusterHostOption = Inr ''10.0.0.1''" by (simp add: listParser_def section_defs)
  with line hosts have "getHosts listParser cfg' = [''10.0.0.1'', ''10.0.0.2'']" by simp
  moreover have "cp_Get listParser cfg' NodesSection ''node0001'' = Inr ''10.0.0.1,/d,/d''"
    by (rule nodesAdded_keep [OF added]) (simp add: node)
  ultimately show ?thesis using r by blast
qed

text \<open>
  C28: the node entries to remove are found by searching for the address in their text, so removing a
  host also removes the node entry of another host whose address merely ends with the address
  removed. That host stays in the list of cluster hosts, without a node entry.
\<close>

theorem removeHosts_hits_longer_address:
  assumes "confLaws C" and "removeOldHosts C cfg [ip] = Inr cfg'"
    and "x \<noteq> []" and "x @ ip \<in> set (getHosts C cfg)"
    and "cp_Get C cfg NodesSection opt = Inr (nodeInfo dataPath (x @ ip))"
  shows "x @ ip \<in> set (getHosts C cfg') \<and> (\<forall>d. cp_Get C cfg' NodesSection opt \<noteq> Inr d)"
proof
  have ne: "x @ ip \<noteq> ip" using assms(3) by simp
  then have mem: "x @ ip \<in># mset (getHosts C cfg) - mset [ip]" using assms(4) by (simp add: in_diff_count)
  then have "mset (getHosts C cfg) - mset [ip] \<noteq> {#}" by auto
  with removeOldHosts_result [OF assms(1,2)] mem show "x @ ip \<in> set (getHosts C cfg')" by (metis set_mset_mset)
  have "sublist (ip @ '','') (nodeInfo dataPath (x @ ip))"
    unfolding nodeInfo_def sublist_def by (intro exI [of _ x] exI [of _ "dataPath @ '','' @ dataPath"]) simp
  then have "strings_Contains (nodeInfo dataPath (x @ ip)) (ip @ '','')" by (simp add: Contains_iff_sublist)
  with removeOldHosts_result [OF assms(1,2)] assms(5) show "\<forall>d. cp_Get C cfg' NodesSection opt \<noteq> Inr d" by auto
qed

theorem removeHosts_hits_longer_address_witness:
  "\<exists>cfg'. removeOldHosts listParser [(ClusterSection, [(ClusterHostOption, ''10.0.0.1,110.0.0.1'')]),
        (NodesSection, [(''node0001'', ''10.0.0.1,/d,/d''), (''node0002'', ''110.0.0.1,/d,/d'')])] [''10.0.0.1''] = Inr cfg'
     \<and> ''110.0.0.1'' \<in> set (getHosts listParser cfg')
     \<and> (\<forall>d. cp_Get listParser cfg' NodesSection ''node0002'' \<noteq> Inr d)"
proof -
  let ?cfg = "[(ClusterSection, [(ClusterHostOption, ''10.0.0.1,110.0.0.1'')]),
        (NodesSection, [(''node0001'', ''10.0.0.1,/d,/d''), (''node0002'', ''110.0.0.1,/d,/d'')])]"
  have "\<exists>cfg'. removeOldHosts listParser ?cfg [''10.0.0.1''] = Inr cfg'"
    by (simp add: removeOldHosts_def removeFromClusterHosts_def listParser_def section_defs removeLast_def strings_HasPrefix_def)
  then obtain cfg' where run: "removeOldHosts listParser ?cfg [''10.0.0.1''] = Inr cfg'" by blast
  have "''1'' @ ''10.0.0.1'' \<in> set (getHosts listParser ?cfg)"
    "cp_Get listParser ?cfg NodesSection ''node0002'' = Inr (nodeInfo ''/d'' (''1'' @ ''10.0.0.1''))"
    by (simp_all add: getHosts_def listParser_def section_defs nodeInfo_def)
  from removeHosts_hits_longer_address [OF listParser_laws run _ this] run show ?thesis by auto
qed

end
