(* ===== verification/Install.thy ===== *)
theory Install
  imports Scale AtConf
begin

text \<open>
  Installing and uninstalling pods (pkg/controllers/vdb, install_reconcile.go and
  uninstall_reconcile.go): accepting the license agreement, the configuration directories, adding
  the addresses of new pods to admintools.conf and removing those of pods that go away, and the
  indicator file that tells that a pod has been installed.
\<close>

section \<open>Uninstalling\<close>

fun findPodsToUninstall :: "VerticaDB \<Rightarrow> PodFactDetail \<Rightarrow> Subcluster \<Rightarrow> int list \<Rightarrow> PodFact list \<times> bool" where
  "findPodsToUninstall v d sc [] = ([], False)"
| "findPodsToUninstall v d sc (podIndex # rest) =
     (let (pods, requeueNeeded) = findPodsToUninstall v d sc rest in
      case map_of d (GenPodName v sc podIndex) of
        None \<Rightarrow> (pods, True)
      | Some podFact \<Rightarrow>
          if \<not> pf_isInstalled podFact then (pods, requeueNeeded)
          else if \<not> pf_isPodRunning podFact then (pods, True)
          else if pf_dbExists podFact then (pods, True)
          else (podFact # pods, requeueNeeded))"

definition genCmdRemoveInstallIndicator :: "VerticaDB \<Rightarrow> string list" where
  "genCmdRemoveInstallIndicator v = [''rm'', GenInstallerIndicatorFileName v]"

text \<open>The steps after the pods have been selected.\<close>

definition uninstallPods :: "'w env \<Rightarrow> 'c configparser \<Rightarrow> PodFact list \<Rightarrow> bool \<Rightarrow> ('w, ret) op" where
  "uninstallPods E C podsToUninstall requeueNeeded = do {
     v \<leftarrow> gets_st vdb;
     d \<leftarrow> gets_st (\<lambda>s. Detail (pfacts s));
     case findATBasePod v d of
       None \<Rightarrow> ret_op (GoPanic ''nil pointer dereference'')
     | Some (Inl e) \<Rightarrow> ret_op (Fail e)
     | Some (Inr basePod) \<Rightarrow> do {
         r \<leftarrow> RemoveHosts E C basePod (map pf_podIP podsToUninstall);
         case r of
           Inl e \<Rightarrow> ret_op (Fail e)
         | Inr conf \<Rightarrow> do {
             err \<leftarrow> distributeAdmintoolsConf E conf;
             case err of
               None \<Rightarrow> ret_op (GoPanic ''nil pointer dereference'')
             | Some (Some e) \<Rightarrow> ret_op (Fail e)
             | Some None \<Rightarrow> do {
                 err \<leftarrow> forErr podsToUninstall (\<lambda>pod. do {
                   (stdout, stderr, err) \<leftarrow> ExecInPod E (pf_name pod) (genCmdRemoveInstallIndicator v);
                   ret_op (map_option (WrapErr ''failed to call remove installer indicator file'') err)
                 });
                 case err of
                   Some e \<Rightarrow> ret_op (Fail e)
                 | None \<Rightarrow> do { Invalidate; ret_op (ctrl_requeue requeueNeeded) }
               }
           }
       }
   }"

definition uninstallPodsInSubcluster :: "'w env \<Rightarrow> 'c configparser \<Rightarrow> Subcluster \<Rightarrow> int \<Rightarrow> int \<Rightarrow> ('w, ret) op" where
  "uninstallPodsInSubcluster E C sc startPodIndex endPodIndex = do {
     v \<leftarrow> gets_st vdb;
     d \<leftarrow> gets_st (\<lambda>s. Detail (pfacts s));
     let (podsToUninstall, requeueNeeded) = findPodsToUninstall v d sc (indices startPodIndex (endPodIndex + 1));
     if podsToUninstall \<noteq> [] then uninstallPods E C podsToUninstall requeueNeeded
     else ret_op (ctrl_requeue requeueNeeded)
   }"

definition Uninstall_Reconcile :: "'w env \<Rightarrow> 'c configparser \<Rightarrow> ('w, ret) op" where
  "Uninstall_Reconcile E C = do {
     v \<leftarrow> gets_st vdb;
     if spec_InitPolicy (vdb_Spec v) = CommunalInitPolicyScheduleOnly then ret_op Done
     else do {
       err \<leftarrow> Collect E;
       case err of
         Some e \<Rightarrow> ret_op (Fail e)
       | None \<Rightarrow> do {
           ps \<leftarrow> rangeDetail E;
           if anyInstalledPodsNotRunning ps \<noteq> None then ret_op RequeueNow
           else do {
             v \<leftarrow> gets_st vdb;
             r \<leftarrow> FindSubclusters E (MakeSubclusterFinder v) FindAll;
             case r of
               Inl e \<Rightarrow> ret_op (Fail e)
             | Inr subclusters \<Rightarrow> forRet subclusters (\<lambda>sc. scaledownSubcluster E sc (uninstallPodsInSubcluster E C))
           }
         }
     }
   }"

section \<open>Installing\<close>

definition acceptEulaPython :: string where
  "acceptEulaPython = [newline] @ concat (map (\<lambda>l. [CHR 0x09, CHR 0x09] @ l @ [newline])
     [''import vertica.shared.logging'', ''import vertica.tools.eula_checker'',
      ''vertica.shared.logging.setup_admintool_logging()'',
      ''vertica.tools.eula_checker.EulaChecker().write_acceptance()'']) @ [CHR 0x09]"

definition acceptEulaInPod :: "'w env \<Rightarrow> 'c configparser \<Rightarrow> PodFact \<Rightarrow> ('w, goerr option) op" where
  "acceptEulaInPod E C pf = do {
     (stdout, stderr, err) \<leftarrow> CopyToPod E (pf_name pf) (cp_Dedent C acceptEulaPython) EulaAcceptanceScript;
     case err of
       Some e \<Rightarrow> ret_op (Some e)
     | None \<Rightarrow> do {
         (stdout, stderr, err) \<leftarrow> ExecInPod E (pf_name pf) [''/opt/vertica/oss/python3/bin/python3'', EulaAcceptanceScript];
         ret_op err
       }
   }"

definition acceptEulaIfMissing :: "'w env \<Rightarrow> 'c configparser \<Rightarrow> ('w, ret) op" where
  "acceptEulaIfMissing E C = do {
     ps \<leftarrow> rangeDetail E;
     err \<leftarrow> forErr ps (\<lambda>p.
       if pf_eulaAccepted p \<noteq> TriFalse \<or> \<not> pf_isPodRunning p then ret_op None else acceptEulaInPod E C p);
     ret_op (ofErr err)
   }"

definition checkConfigDirInPod :: "'w env \<Rightarrow> PodFact \<Rightarrow> ('w, goerr option) op" where
  "checkConfigDirInPod E p =
     (if \<not> pf_isPodRunning p then ret_op None
      else do {
        err \<leftarrow> (if pf_configLogrotateExists p \<and> \<not> pf_configLogrotateWritable p
                then do {
                  (stdout, stderr, err) \<leftarrow> ExecInPod E (pf_name p) [''sudo'', ''chown'', ''-R'', ''dbadmin:verticadba'', ConfigLogrotatePath];
                  ret_op err
                } else ret_op None);
        case err of
          Some e \<Rightarrow> ret_op (Some e)
        | None \<Rightarrow>
            if \<not> pf_configShareExists p
            then do {
              (stdout, stderr, err) \<leftarrow> ExecInPod E (pf_name p) [''mkdir'', ConfigSharePath];
              ret_op err
            } else ret_op None
      })"

definition checkConfigDir :: "'w env \<Rightarrow> ('w, ret) op" where
  "checkConfigDir E = do { ps \<leftarrow> rangeDetail E; err \<leftarrow> forErr ps (checkConfigDirInPod E); ret_op (ofErr err) }"

definition genCmdRemoveOldConfig :: "VerticaDB \<Rightarrow> string list" where
  "genCmdRemoveOldConfig v = [''mv'', AdminToolsConf, AdminToolsConf @ ''.uid.'' @ vdb_UID v]"

text \<open>The search in one subcluster stops at the first pod that has no facts or is not running.\<close>

fun installScan :: "'w env \<Rightarrow> VerticaDB \<Rightarrow> PodFactDetail \<Rightarrow> Subcluster \<Rightarrow> int list \<Rightarrow> PodFact list \<Rightarrow> ('w, PodFact list \<times> goerr option) op" where
  "installScan E v d sc [] podList = ret_op (podList, None)"
| "installScan E v d sc (i # rest) podList =
     (case map_of d (GenPodName v sc i) of
        None \<Rightarrow> ret_op (podList, None)
      | Some pf \<Rightarrow>
          if pf_isInstalled pf \<or> pf_dbExists pf then installScan E v d sc rest podList
          else if \<not> pf_isPodRunning pf then ret_op (podList, None)
          else if pf_hasStaleAdmintoolsConf pf then do {
            (stdout, stderr, err) \<leftarrow> ExecInPod E (pf_name pf) (genCmdRemoveOldConfig v);
            case err of
              Some e \<Rightarrow> ret_op (podList @ [pf], Some (WrapErr ''failed to remove old admintools.conf'' e))
            | None \<Rightarrow> installScan E v d sc rest (podList @ [pf])
          }
          else installScan E v d sc rest (podList @ [pf]))"

fun installScans :: "'w env \<Rightarrow> VerticaDB \<Rightarrow> PodFactDetail \<Rightarrow> Subcluster list \<Rightarrow> PodFact list \<Rightarrow> ('w, PodFact list \<times> goerr option) op" where
  "installScans E v d [] podList = ret_op (podList, None)"
| "installScans E v d (sc # scs) podList = do {
     (podList, err) \<leftarrow> installScan E v d sc
        (indices (case FindSubclusterStatus v (sc_Name sc) of None \<Rightarrow> 0 | Some ss \<Rightarrow> ss_InstallCount ss) (sc_Size sc)) podList;
     case err of
       Some e \<Rightarrow> ret_op (podList, Some e)
     | None \<Rightarrow> installScans E v d scs podList
   }"

definition getInstallTargets :: "'w env \<Rightarrow> ('w, PodFact list \<times> goerr option) op" where
  "getInstallTargets E = do {
     v \<leftarrow> gets_st vdb;
     d \<leftarrow> gets_st (\<lambda>s. Detail (pfacts s));
     keys \<leftarrow> ask (e_RangeKeys E (remdups (map sc_Name (vdb_Subclusters v))));
     installScans E v d (map (\<lambda>k. the (GenSubclusterMap v k)) keys) []
   }"

definition compat21Re :: re where
  "compat21Re = re_seq [Cap (re_seq [Lit ''node'', Rep isDigit 4 (Some 4)]), Lit '' = '', Rep isDot 0 None]"

definition fetchCompat21NodeNum :: "'w env \<Rightarrow> PodFact \<Rightarrow> ('w, goerr + string) op" where
  "fetchCompat21NodeNum E pf = do {
     (stdout, stderr, err) \<leftarrow> ExecInPod E (pf_name pf)
        [''bash'', ''-c'', ''grep -E '' @ quoted (''^node[0-9]{4} = '' @ pf_podIP pf @ '','') @ '' '' @ AdminToolsConf];
     case err of
       Some e \<Rightarrow> ret_op (Inl (WrapErr (''failed to find compat21 node for IP '' @ quoted (pf_podIP pf) @ '', output was '' @ quoted stdout) e))
     | None \<Rightarrow>
         ret_op (case re_matchAt compat21Re stdout of
           Some (_, node # _) \<Rightarrow> Inr node
         | _ \<Rightarrow> Inl (OtherErr ''could not find compat21 node in output''))
   }"

definition genCmdCreateInstallIndicator :: "VerticaDB \<Rightarrow> string \<Rightarrow> string list" where
  "genCmdCreateInstallIndicator v compat21Node =
     [''bash'', ''-c'', ''echo '' @ compat21Node @ '' > '' @ GenInstallerIndicatorFileName v]"

definition createInstallIndicators :: "'w env \<Rightarrow> PodFact list \<Rightarrow> ('w, goerr option) op" where
  "createInstallIndicators E pods = do {
     v \<leftarrow> gets_st vdb;
     forErr pods (\<lambda>pf. do {
       r \<leftarrow> fetchCompat21NodeNum E pf;
       case r of
         Inl e \<Rightarrow> ret_op (Some (WrapErr ''failed to extract compat21 node name'' e))
       | Inr compat21Node \<Rightarrow> do {
           (stdout, stderr, err) \<leftarrow> ExecInPod E (pf_name pf) (genCmdCreateInstallIndicator v compat21Node);
           ret_op (map_option (WrapErr ''failed to create installer indicator'') err)
         }
     })
   }"

text \<open>Writing the new admintools.conf to the pods and marking the new pods as installed.\<close>

definition installPods :: "'w env \<Rightarrow> 'c configparser \<Rightarrow> PodFact list \<Rightarrow> PodFact list \<Rightarrow> NamespacedName \<Rightarrow> ('w, ret) op" where
  "installPods E C pods installedPods installPod = do {
     r \<leftarrow> AddHosts E C installPod (map pf_podIP pods);
     case r of
       Inl e \<Rightarrow> ret_op (Fail e)
     | Inr conf \<Rightarrow> do {
         debugDumpAdmintoolsConfForPods E installedPods;
         err \<leftarrow> distributeAdmintoolsConf E conf;
         case err of
           None \<Rightarrow> ret_op (GoPanic ''nil pointer dereference'')
         | Some (Some e) \<Rightarrow> ret_op (Fail e)
         | Some None \<Rightarrow> do {
             debugDumpAdmintoolsConfForPods E (installedPods @ pods);
             Invalidate;
             err \<leftarrow> createInstallIndicators E pods;
             ret_op (ofErr err)
           }
       }
   }"

definition addHostsToATConf :: "'w env \<Rightarrow> 'c configparser \<Rightarrow> ('w, ret) op" where
  "addHostsToATConf E C = do {
     (pods, err) \<leftarrow> getInstallTargets E;
     case err of
       Some e \<Rightarrow> ret_op (Fail e)
     | None \<Rightarrow>
         if pods = [] then ret_op Done
         else do {
           ps \<leftarrow> rangeDetail E;
           let installedPods = findInstalledPods ps;
           v \<leftarrow> gets_st vdb;
           d \<leftarrow> gets_st (\<lambda>s. Detail (pfacts s));
           case (if installedPods \<noteq> [] then findATBasePod v d else Some (Inr zeroNamespacedName)) of
             None \<Rightarrow> ret_op (GoPanic ''nil pointer dereference'')
           | Some (Inl e) \<Rightarrow> ret_op (Fail e)
           | Some (Inr installPod) \<Rightarrow> installPods E C pods installedPods installPod
         }
   }"

definition analyzeFacts :: "'w env \<Rightarrow> 'c configparser \<Rightarrow> ('w, ret) op" where
  "analyzeFacts E C = do {
     ps \<leftarrow> rangeDetail E;
     if anyInstalledPodsNotRunning ps \<noteq> None then ret_op RequeueNow
     else do {
       ps \<leftarrow> rangeDetail E;
       if anyUninstalledTransientPodsNotRunning ps \<noteq> None then ret_op RequeueNow
       else forRet [acceptEulaIfMissing E C, checkConfigDir E, addHostsToATConf E C] (\<lambda>fn. fn)
     }
   }"

definition Install_Reconcile :: "'w env \<Rightarrow> 'c configparser \<Rightarrow> ('w, ret) op" where
  "Install_Reconcile E C = do {
     v \<leftarrow> gets_st vdb;
     if spec_InitPolicy (vdb_Spec v) = CommunalInitPolicyScheduleOnly then ret_op Done
     else do {
       err \<leftarrow> Collect E;
       case err of
         Some e \<Rightarrow> ret_op (Fail e)
       | None \<Rightarrow> analyzeFacts E C
     }
   }"

section \<open>Lemmas\<close>

subsection \<open>Which pods are uninstalled\<close>

lemma findPodsToUninstall_pods:
  "pf \<in> set (fst (findPodsToUninstall v d sc is)) \<Longrightarrow>
     pf_isInstalled pf \<and> pf_isPodRunning pf \<and> \<not> pf_dbExists pf \<and> (\<exists>i \<in> set is. map_of d (GenPodName v sc i) = Some pf)"
  by (induction v d sc "is" rule: findPodsToUninstall.induct)
     (auto simp: Let_def split: option.splits if_splits prod.splits)

lemma findPodsToUninstall_skips:
  "\<not> snd (findPodsToUninstall v d sc is) \<Longrightarrow> i \<in> set is \<Longrightarrow>
     \<exists>pf. map_of d (GenPodName v sc i) = Some pf \<and> (\<not> pf_isInstalled pf \<or> pf \<in> set (fst (findPodsToUninstall v d sc is)))"
  by (induction v d sc "is" rule: findPodsToUninstall.induct)
     (auto simp: Let_def split: option.splits if_splits prod.splits)

definition uninstallAllowed :: "VerticaDB \<Rightarrow> Subcluster \<Rightarrow> int \<Rightarrow> PodFactDetail \<Rightarrow> obs \<Rightarrow> bool" where
  "uninstallAllowed v sc start D x \<longleftrightarrow> (\<forall>pod. x = ObsExec InPod pod (genCmdRemoveInstallIndicator v) \<longrightarrow>
     (\<exists>pf i. pod = pf_name pf \<and> pf_isInstalled pf \<and> pf_isPodRunning pf \<and> \<not> pf_dbExists pf
        \<and> start \<le> i \<and> map_of D (GenPodName v sc i) = Some pf))"

lemma spec_uninstallPods:
  assumes "\<And>pf. pf \<in> set pods \<Longrightarrow> uninstallAllowed v sc start D (ObsExec InPod (pf_name pf) (genCmdRemoveInstallIndicator v))"
  shows "spec (\<lambda>s. vdb s = v \<and> Detail (pfacts s) = D) (uninstallAllowed v sc start D) (uninstallPods E C pods rq)
           (\<lambda>_ s. vdb s = v \<and> Detail (pfacts s) = D)"
proof -
  let ?I = "\<lambda>s. vdb s = v \<and> Detail (pfacts s) = D"
  have other: "uninstallAllowed v sc start D (ObsCopy p c f)" "uninstallAllowed v sc start D (ObsEvent ty r)"
    "uninstallAllowed v sc start D (ObsExec InPod p [''cat'', AdminToolsConf])" for p c f ty r
    by (simp_all add: uninstallAllowed_def genCmdRemoveInstallIndicator_def)
  have inv: "spec ?I \<Phi> Invalidate (\<lambda>_. ?I)" for \<Phi> by (rule spec_Invalidate) simp
  show ?thesis
    unfolding uninstallPods_def
    apply (rule spec_bind_gets [where x = v], simp)
    apply (intro spec_rules other inv localPred_facts assms; assumption)
    done
qed

interpretation uninstall_pods: scaledown_step "uninstallPodsInSubcluster E C" uninstallAllowed for E C
proof
  fix v D sc start stop and x
  let ?I = "\<lambda>s. vdb s = v \<and> Detail (pfacts s) = D"
  show "uninstallAllowed v sc start D x" if "probe x"
    using that by (auto simp: uninstallAllowed_def probe_def genCmdRemoveInstallIndicator_def)
  obtain pods rq where pr: "findPodsToUninstall v D sc (indices start (stop + 1)) = (pods, rq)" by (rule prod.exhaust)
  have ok: "uninstallAllowed v sc start D (ObsExec InPod (pf_name pf) (genCmdRemoveInstallIndicator v))" if "pf \<in> set pods" for pf
    using findPodsToUninstall_pods [of pf v D sc "indices start (stop + 1)"] pr that
    unfolding uninstallAllowed_def by (intro allI impI exI [of _ pf]) auto
  show "spec ?I (uninstallAllowed v sc start D) (uninstallPodsInSubcluster E C sc start stop) (\<lambda>_. ?I)"
    unfolding uninstallPodsInSubcluster_def
    apply (rule spec_bind_gets [where x = v], simp)
    apply (rule spec_bind_gets [where x = D], simp)
    apply (simp only: pr Let_def prod.case)
    apply (intro spec_if spec_uninstallPods spec_ret_inv ok; assumption)
    done
qed

text \<open>
  C15: when a subcluster is scaled down, the file that marks a pod as installed is only removed from
  running pods of this subcluster that are installed, no longer have the database, and whose index
  is not below the size in the resource.
\<close>

theorem uninstall_only_beyond_size:
  assumes "run_state (scaledownSubcluster E sc (uninstallPodsInSubcluster E C)) s = (res, s')"
  shows "\<exists>os. trace s' = trace s @ os \<and> (\<forall>x \<in> set os. uninstallAllowed (vdb s') sc (sc_Size sc) (Detail (pfacts s')) x)"
  by (rule endsD [OF uninstall_pods.scaledown_within_bounds assms])

theorem uninstall_only_beyond_size_witness:
  "\<exists>res s' os. run_state (scaledownSubcluster storeEnv zeroSubcluster (uninstallPodsInSubcluster storeEnv listParser)) examplePods = (res, s')
     \<and> trace s' = os \<and> (\<forall>x \<in> set os. uninstallAllowed (vdb s') zeroSubcluster 0 (Detail (pfacts s')) x)"
proof -
  obtain res s' where run: "run_state (scaledownSubcluster storeEnv zeroSubcluster (uninstallPodsInSubcluster storeEnv listParser)) examplePods = (res, s')"
    by (rule prod.exhaust)
  from uninstall_only_beyond_size [OF this] run show ?thesis by (auto simp: zeroSubcluster_def)
qed

subsection \<open>Pods are installed in the order of their index\<close>

definition installOrder :: "VerticaDB \<Rightarrow> PodFactDetail \<Rightarrow> Subcluster \<Rightarrow> int list \<Rightarrow> PodFact list \<Rightarrow> bool" where
  "installOrder v d sc is new \<longleftrightarrow> (\<forall>pf \<in> set new. \<exists>pre k post. is = pre @ k # post \<and> map_of d (GenPodName v sc k) = Some pf
      \<and> pf_isPodRunning pf \<and> \<not> pf_isInstalled pf \<and> \<not> pf_dbExists pf
      \<and> (\<forall>j \<in> set pre. \<exists>q. map_of d (GenPodName v sc j) = Some q \<and> (pf_isInstalled q \<or> pf_dbExists q \<or> q \<in> set new)))"

lemma installOrder_Nil: "installOrder v d sc is []"
  by (simp add: installOrder_def)

lemma installOrder_skip:
  assumes "installOrder v d sc is new" and "map_of d (GenPodName v sc i) = Some q" and "pf_isInstalled q \<or> pf_dbExists q"
  shows "installOrder v d sc (i # is) new"
  unfolding installOrder_def
proof
  fix pf assume "pf \<in> set new"
  with assms(1) obtain pre k post where "is = pre @ k # post" "map_of d (GenPodName v sc k) = Some pf"
      "pf_isPodRunning pf \<and> \<not> pf_isInstalled pf \<and> \<not> pf_dbExists pf"
      "\<forall>j \<in> set pre. \<exists>q. map_of d (GenPodName v sc j) = Some q \<and> (pf_isInstalled q \<or> pf_dbExists q \<or> q \<in> set new)"
    unfolding installOrder_def by blast
  then show "\<exists>pre k post. i # is = pre @ k # post \<and> map_of d (GenPodName v sc k) = Some pf
      \<and> pf_isPodRunning pf \<and> \<not> pf_isInstalled pf \<and> \<not> pf_dbExists pf
      \<and> (\<forall>j \<in> set pre. \<exists>q. map_of d (GenPodName v sc j) = Some q \<and> (pf_isInstalled q \<or> pf_dbExists q \<or> q \<in> set new))"
    using assms(2,3) by - (rule exI [of _ "i # pre"], rule exI [of _ k], rule exI [of _ post], auto)
qed

lemma installOrder_take:
  assumes "installOrder v d sc is new" and "map_of d (GenPodName v sc i) = Some q"
    and "pf_isPodRunning q" "\<not> pf_isInstalled q" "\<not> pf_dbExists q"
  shows "installOrder v d sc (i # is) (q # new)"
  unfolding installOrder_def
proof
  fix pf assume "pf \<in> set (q # new)"
  then consider "pf = q" | "pf \<in> set new" by auto
  then show "\<exists>pre k post. i # is = pre @ k # post \<and> map_of d (GenPodName v sc k) = Some pf
      \<and> pf_isPodRunning pf \<and> \<not> pf_isInstalled pf \<and> \<not> pf_dbExists pf
      \<and> (\<forall>j \<in> set pre. \<exists>q'. map_of d (GenPodName v sc j) = Some q' \<and> (pf_isInstalled q' \<or> pf_dbExists q' \<or> q' \<in> set (q # new)))"
  proof cases
    case 1
    then show ?thesis using assms by - (rule exI [of _ "[]"], rule exI [of _ i], rule exI [of _ "is"], simp)
  next
    case 2
    with assms(1) obtain pre k post where "is = pre @ k # post" "map_of d (GenPodName v sc k) = Some pf"
        "pf_isPodRunning pf \<and> \<not> pf_isInstalled pf \<and> \<not> pf_dbExists pf"
        "\<forall>j \<in> set pre. \<exists>q. map_of d (GenPodName v sc j) = Some q \<and> (pf_isInstalled q \<or> pf_dbExists q \<or> q \<in> set new)"
      unfolding installOrder_def by blast
    then show ?thesis
      using assms(2) by - (rule exI [of _ "i # pre"], rule exI [of _ k], rule exI [of _ post], auto)
  qed
qed

lemma installScan_new:
  "run_state (installScan E v d sc is acc) s = ((pods, err), s') \<Longrightarrow> \<exists>new. pods = acc @ new \<and> installOrder v d sc is new"
proof (induction "is" arbitrary: acc s)
  case Nil
  then show ?case by (simp add: installOrder_Nil)
next
  case (Cons i "is")
  show ?case
  proof (cases "map_of d (GenPodName v sc i)")
    case None
    then show ?thesis using Cons.prems by (simp add: installOrder_Nil)
  next
    case (Some pf)
    consider "pf_isInstalled pf \<or> pf_dbExists pf" | "\<not> pf_isInstalled pf" "\<not> pf_dbExists pf" "\<not> pf_isPodRunning pf"
      | "\<not> pf_isInstalled pf" "\<not> pf_dbExists pf" "pf_isPodRunning pf" by blast
    then show ?thesis
    proof cases
      case 1
      then show ?thesis using Cons.prems Some Cons.IH [of acc s] installOrder_skip [OF _ Some] by auto
    next
      case 2
      then show ?thesis using Cons.prems Some by (simp add: installOrder_Nil)
    next
      case 3
      have one: ?thesis if "pods = acc @ [pf]"
        using that installOrder_take [OF installOrder_Nil Some] 3 by blast
      have more: ?thesis if "run_state (installScan E v d sc is (acc @ [pf])) s1 = ((pods, err), s')" for s1
        using Cons.IH [OF that] installOrder_take [OF _ Some] 3 by fastforce
      show ?thesis
      proof (cases "pf_hasStaleAdmintoolsConf pf")
        case True
        obtain rep s1 where ex: "run_state (ExecInPod E (pf_name pf) (genCmdRemoveOldConfig v)) s = (rep, s1)" by (rule prod.exhaust)
        obtain o1 o2 e where rep: "rep = (o1, o2, e)" by (rule prod_cases3)
        show ?thesis
          by (cases e) (use Cons.prems Some 3 True ex rep one more in \<open>simp_all\<close>)
      qed (use Cons.prems Some 3 more in simp)
    qed
  qed
qed

lemma indices_split: "indices lo hi = pre @ k # post \<Longrightarrow> lo \<le> k \<and> k < hi \<and> set pre = {lo..<k}"
proof -
  assume eq: "indices lo hi = pre @ k # post"
  let ?m = "length pre"
  have len: "?m < nat (hi - lo)" using arg_cong [OF eq, of length] by simp
  have "k = indices lo hi ! ?m" by (simp add: eq nth_append)
  also have "\<dots> = lo + int ?m" using len by (simp add: indices_def)
  finally have k: "k = lo + int ?m" .
  have "pre = take ?m (indices lo hi)" by (simp add: eq)
  also have "\<dots> = indices lo k" using len by (simp add: indices_def take_map k take_upt)
  finally have "set pre = {lo..<k}" by auto
  then show ?thesis using len k by auto
qed



end
