(* ===== verification/Upgrade.thy ===== *)
theory Upgrade
  imports ObjRecon Install
begin

text \<open>
  Upgrading the server: what the offline and the online upgrade share (upgrade.go) and the offline
  upgrade (offlineupgrade_reconcile.go of pkg/controllers/vdb). The finder is the one made when the
  reconciler is built; whether an upgrade continues is passed from the first check to the later steps.
\<close>

section \<open>Choosing the kind of upgrade\<close>

definition onlineUpgradeAllowed :: "VerticaDB \<Rightarrow> bool" where
  "onlineUpgradeAllowed v =
     (if spec_UpgradePolicy (vdb_Spec v) = OfflineUpgrade then False
      else if (spec_UpgradePolicy (vdb_Spec v) = AutoUpgrade \<or> spec_UpgradePolicy (vdb_Spec v) = [])
              \<and> (RequiresTransientSubcluster v \<and> spec_LicenseSecret (vdb_Spec v) = [] \<or> spec_KSafety (vdb_Spec v) = KSafety0)
      then False
      else versionAtLeast v OnlineUpgradeVersion)"

definition offlineUpgradeAllowed :: "VerticaDB \<Rightarrow> bool" where
  "offlineUpgradeAllowed v = (\<not> onlineUpgradeAllowed v)"

section \<open>The upgrade manager\<close>

record UpgradeManager =
  um_Finder :: SubclusterFinder
  um_StatusCondition :: string
  um_IsAllowed :: "VerticaDB \<Rightarrow> bool"

definition isVDBImageDifferent :: "'w env \<Rightarrow> UpgradeManager \<Rightarrow> ('w, goerr + bool) op" where
  "isVDBImageDifferent E m = do {
     v \<leftarrow> gets_st vdb;
     r \<leftarrow> FindStatefulSets E (um_Finder m) FindInVdb;
     ret_op (case r of Inl e \<Rightarrow> Inl e | Inr stss \<Rightarrow> Inr (list_ex (\<lambda>sts. sts_Image sts \<noteq> spec_Image (vdb_Spec v)) stss))
   }"

text \<open>Whether an upgrade should proceed, and whether it was already in progress.\<close>

definition IsUpgradeNeeded :: "'w env \<Rightarrow> UpgradeManager \<Rightarrow> ('w, goerr + bool \<times> bool) op" where
  "IsUpgradeNeeded E m = do {
     v \<leftarrow> gets_st vdb;
     if spec_InitPolicy (vdb_Spec v) = CommunalInitPolicyScheduleOnly then ret_op (Inr (False, False))
     else (case IsConditionSet v (um_StatusCondition m) of
             None \<Rightarrow> ret_op (Inl (OtherErr ''vertica DB condition missing from VerticaDBConditionType''))
           | Some True \<Rightarrow> ret_op (Inr (True, True))
           | Some False \<Rightarrow>
               if \<not> um_IsAllowed m v then ret_op (Inr (False, False))
               else do {
                 r \<leftarrow> isVDBImageDifferent E m;
                 ret_op (case r of Inl e \<Rightarrow> Inl e | Inr different \<Rightarrow> Inr (different, False))
               })
   }"

definition toggleImageChangeInProgress :: "'w env \<Rightarrow> UpgradeManager \<Rightarrow> string \<Rightarrow> ('w, goerr option) op" where
  "toggleImageChangeInProgress E m newVal = do {
     err \<leftarrow> UpdateCondition E \<lparr>cond_Type = ImageChangeInProgress, cond_Status = newVal, cond_LastTransitionTime = zeroTime\<rparr>;
     case err of
       Some e \<Rightarrow> ret_op (Some e)
     | None \<Rightarrow> UpdateCondition E \<lparr>cond_Type = um_StatusCondition m, cond_Status = newVal, cond_LastTransitionTime = zeroTime\<rparr>
   }"

definition startUpgrade :: "'w env \<Rightarrow> UpgradeManager \<Rightarrow> bool \<Rightarrow> ('w, ret) op" where
  "startUpgrade E m ContinuingUpgrade = do {
     err \<leftarrow> toggleImageChangeInProgress E m ConditionTrue;
     case err of
       Some e \<Rightarrow> ret_op (Fail e)
     | None \<Rightarrow>
         if \<not> ContinuingUpgrade then do {
           Eventf EventTypeNormal ''UpgradeStart'';
           v \<leftarrow> gets_st vdb;
           metric_do UpgradeCount MetricInc (MakeVDBLabels v);
           ret_op Done
         }
         else ret_op Done
   }"

definition finishUpgrade :: "'w env \<Rightarrow> UpgradeManager \<Rightarrow> ('w, ret) op" where
  "finishUpgrade E m = do {
     err \<leftarrow> UpdateUpgradeStatus E [];
     case err of
       Some e \<Rightarrow> ret_op (Fail e)
     | None \<Rightarrow> do {
         err \<leftarrow> toggleImageChangeInProgress E m ConditionFalse;
         case err of
           Some e \<Rightarrow> ret_op (Fail e)
         | None \<Rightarrow> do { Eventf EventTypeNormal ''UpgradeSucceeded''; ret_op Done }
       }
   }"

definition newImageSts :: "string \<Rightarrow> StatefulSet \<Rightarrow> StatefulSet" where
  "newImageSts img sts = sts\<lparr>sts_Spec := (sts_Spec sts)\<lparr>sss_Server := (sss_Server (sts_Spec sts))\<lparr>cnt_Image := img\<rparr>,
     sss_UpdateStrategy := ''OnDelete''\<rparr>\<rparr>"

definition updateImageInStatefulSet :: "'w env \<Rightarrow> StatefulSet \<Rightarrow> ('w, goerr + bool) op" where
  "updateImageInStatefulSet E sts = do {
     v \<leftarrow> gets_st vdb;
     if sts_Image sts \<noteq> spec_Image (vdb_Spec v) then do {
       let sts' = newImageSts (spec_Image (vdb_Spec v)) sts;
       emit (ObsUpdateSts sts');
       err \<leftarrow> ask (e_UpdateSts E sts');
       ret_op (case err of Some e \<Rightarrow> Inl e | None \<Rightarrow> Inr True)
     } else ret_op (Inr False)
   }"

definition transientLabel :: "StatefulSet \<Rightarrow> bool option" where
  "transientLabel sts = strconv_ParseBool (case sts_Labels sts SubclusterTransientLabel of None \<Rightarrow> [] | Some l \<Rightarrow> l)"

text \<open>The number of statefulsets changed, also when an error ends the loop.\<close>

fun updateImages :: "'w env \<Rightarrow> StatefulSet list \<Rightarrow> int \<Rightarrow> ('w, int \<times> goerr option) op" where
  "updateImages E [] numStsChanged = ret_op (numStsChanged, None)"
| "updateImages E (sts # stss) numStsChanged =
     (case transientLabel sts of
        None \<Rightarrow> ret_op (numStsChanged, Some (OtherErr ''strconv.ParseBool: invalid syntax''))
      | Some True \<Rightarrow> updateImages E stss numStsChanged
      | Some False \<Rightarrow> do {
          r \<leftarrow> updateImageInStatefulSet E sts;
          case r of
            Inl e \<Rightarrow> ret_op (numStsChanged, Some e)
          | Inr stsUpdated \<Rightarrow> updateImages E stss (if stsUpdated then numStsChanged + 1 else numStsChanged)
        })"

definition updateImageInStatefulSets :: "'w env \<Rightarrow> UpgradeManager \<Rightarrow> ('w, int \<times> goerr option) op" where
  "updateImageInStatefulSets E m = do {
     r \<leftarrow> FindStatefulSets E (um_Finder m) FindExisting;
     case r of Inl e \<Rightarrow> ret_op (0, Some e) | Inr stss \<Rightarrow> updateImages E stss 0
   }"

fun deleteOldPods :: "'w env \<Rightarrow> string \<Rightarrow> Pod list \<Rightarrow> int \<Rightarrow> ('w, int \<times> goerr option) op" where
  "deleteOldPods E scName [] numPodsDeleted = ret_op (numPodsDeleted, None)"
| "deleteOldPods E scName (pod # pods) numPodsDeleted =
     (if scName \<noteq> [] \<and> (case pod_Labels pod SubclusterNameLabel of None \<Rightarrow> False | Some l \<Rightarrow> l \<noteq> scName)
      then deleteOldPods E scName pods numPodsDeleted
      else do {
        v \<leftarrow> gets_st vdb;
        if pod_Image pod \<noteq> spec_Image (vdb_Spec v) then do {
          emit (ObsDeletePod pod);
          err \<leftarrow> ask (e_DeletePod E pod);
          case err of
            Some e \<Rightarrow> ret_op (numPodsDeleted, Some e)
          | None \<Rightarrow> deleteOldPods E scName pods (numPodsDeleted + 1)
        } else deleteOldPods E scName pods numPodsDeleted
      })"

definition deletePodsRunningOldImage :: "'w env \<Rightarrow> UpgradeManager \<Rightarrow> string \<Rightarrow> ('w, int \<times> goerr option) op" where
  "deletePodsRunningOldImage E m scName = do {
     r \<leftarrow> FindPods E (um_Finder m) FindExisting;
     case r of Inl e \<Rightarrow> ret_op (0, Some e) | Inr pods \<Rightarrow> deleteOldPods E scName pods 0
   }"

definition postNextStatusMsg :: "'w env \<Rightarrow> string list \<Rightarrow> int \<Rightarrow> ('w, goerr option) op" where
  "postNextStatusMsg E statusMsgs msgIndex = do {
     v \<leftarrow> gets_st vdb;
     let cur = stat_UpgradeStatus (vdb_Status v);
     if msgIndex \<ge> int (length statusMsgs) then ret_op (Some (OtherErr ''msgIndex out of bounds''))
     else if msgIndex = 0 then (if cur = [] then UpdateUpgradeStatus E (statusMsgs ! 0) else ret_op None)
     else if list_ex (\<lambda>j. statusMsgs ! nat j = cur) (indices 0 msgIndex) then UpdateUpgradeStatus E (statusMsgs ! nat msgIndex)
     else ret_op None
   }"

text \<open>A requeue of one of the steps waits for the time set for upgrades.\<close>

definition upgradeRequeue :: "ret \<Rightarrow> ('w, ret) op" where
  "upgradeRequeue res = do {
     v \<leftarrow> gets_st vdb;
     ret_op (case res of
       Ret r None \<Rightarrow> if IsReconcileAborted res then Ret \<lparr>Requeue = False, RequeueAfter = GetUpgradeRequeueTime v\<rparr> None else Done
     | Ret r (Some e) \<Rightarrow> Ret r (Some e)
     | GoPanic msg \<Rightarrow> GoPanic msg)
   }"

section \<open>Offline upgrade\<close>

definition OfflineUpgradeStatusMsgs :: "string list" where
  "OfflineUpgradeStatusMsgs = [''Shutting down cluster'', ''Rescheduling pods with new image'', ''Restarting cluster with new image'']"

definition offlineManager :: "VerticaDB \<Rightarrow> UpgradeManager" where
  "offlineManager v = \<lparr>um_Finder = MakeSubclusterFinder v, um_StatusCondition = OfflineUpgradeInProgress, um_IsAllowed = offlineUpgradeAllowed\<rparr>"

definition logEventIfOnlineUpgradeRequested :: "bool \<Rightarrow> ('w, ret) op" where
  "logEventIfOnlineUpgradeRequested ContinuingUpgrade = do {
     v \<leftarrow> gets_st vdb;
     if \<not> ContinuingUpgrade \<and> spec_UpgradePolicy (vdb_Spec v) = OnlineUpgrade
     then do { Eventf EventTypeNormal ''IncompatibleOnlineUpgrade''; ret_op Done }
     else ret_op Done
   }"

definition postOfflineMsg :: "'w env \<Rightarrow> int \<Rightarrow> ('w, ret) op" where
  "postOfflineMsg E msgIndex = do { err \<leftarrow> postNextStatusMsg E OfflineUpgradeStatusMsgs msgIndex; ret_op (ofErr err) }"

fun anyOldImage :: "'w env \<Rightarrow> PodFactDetail \<Rightarrow> ('w, goerr + bool) op" where
  "anyOldImage E [] = ret_op (Inr False)"
| "anyOldImage E ((pn, pf) # rest) =
     (if \<not> pf_upNode pf then anyOldImage E rest
      else do {
        v \<leftarrow> gets_st vdb;
        r \<leftarrow> ask (e_GetPod E pn);
        case r of
          Inl e \<Rightarrow>
            if \<not> errors_IsNotFound e
            then ret_op (Inl (OtherErr (''error getting pod info for '' @ quoted (nn_Namespace pn @ ''/'' @ nn_Name pn))))
            else anyOldImage E rest
        | Inr pod \<Rightarrow> if pod_Image pod \<noteq> spec_Image (vdb_Spec v) then ret_op (Inr True) else anyOldImage E rest
      })"

definition anyPodsRunningWithOldImage :: "'w env \<Rightarrow> ('w, goerr + bool) op" where
  "anyPodsRunningWithOldImage E = do { d \<leftarrow> rangeEntries E; anyOldImage E d }"

definition shutdownDB :: "'w env \<Rightarrow> NamespacedName \<Rightarrow> ('w, ret) op" where
  "shutdownDB E atPod = do {
     v \<leftarrow> gets_st vdb;
     Eventf EventTypeNormal ''ClusterShutdownStarted'';
     (stdout, stderr, err) \<leftarrow> ExecAdmintools E atPod [''-t'', ''stop_db'', ''-F'', ''-d'', spec_DBName (vdb_Spec v)];
     case err of
       Some e \<Rightarrow> do { Eventf EventTypeWarning ''ClusterShutdownFailed''; ret_op (Fail e) }
     | None \<Rightarrow> do { Eventf EventTypeNormal ''ClusterShutdownSucceeded''; ret_op Done }
   }"

definition stopCluster :: "'w env \<Rightarrow> ('w, ret) op" where
  "stopCluster E = do {
     found \<leftarrow> runningPod E;
     case found of
       None \<Rightarrow> ret_op Done
     | Some pf \<Rightarrow> do {
         ps \<leftarrow> rangeDetail E;
         if getUpNodeCount ps = 0 then ret_op Done
         else do {
           r \<leftarrow> anyPodsRunningWithOldImage E;
           case r of
             Inl e \<Rightarrow> ret_op (Fail e)
           | Inr False \<Rightarrow> ret_op Done
           | Inr True \<Rightarrow> shutdownDB E (pf_name pf)
         }
       }
   }"

definition invalidateIf :: "bool \<Rightarrow> ('w, unit) op" where
  "invalidateIf changed = (if changed then Invalidate else ret_op ())"

definition offline_updateImageInStatefulSets :: "'w env \<Rightarrow> UpgradeManager \<Rightarrow> ('w, ret) op" where
  "offline_updateImageInStatefulSets E m = do {
     (numStsChanged, err) \<leftarrow> updateImageInStatefulSets E m;
     invalidateIf (numStsChanged > 0);
     ret_op (ofErr err)
   }"

definition deletePods :: "'w env \<Rightarrow> UpgradeManager \<Rightarrow> ('w, ret) op" where
  "deletePods E m = do {
     (numPodsDeleted, err) \<leftarrow> deletePodsRunningOldImage E m [];
     invalidateIf (numPodsDeleted > 0);
     ret_op (ofErr err)
   }"

definition checkForNewPods :: "'w env \<Rightarrow> UpgradeManager \<Rightarrow> ('w, ret) op" where
  "checkForNewPods E m = do {
     v \<leftarrow> gets_st vdb;
     r \<leftarrow> FindPods E (um_Finder m) FindExisting;
     ret_op (case r of
       Inl e \<Rightarrow> Fail e
     | Inr pods \<Rightarrow> if list_ex (\<lambda>pod. pod_Image pod = spec_Image (vdb_Spec v)) pods then Done else RequeueNow)
   }"

definition offline_checkVersion :: "'w env \<Rightarrow> ('w, ret) op" where
  "offline_checkVersion E = do {
     v \<leftarrow> gets_st vdb;
     if spec_IgnoreUpgradePath (vdb_Spec v) then ret_op Done else Version_Reconcile E True (runningPod E)
   }"

definition offlineSteps :: "'w env \<Rightarrow> 'c configparser \<Rightarrow> UpgradeManager \<Rightarrow> bool \<Rightarrow> ('w, ret) op list" where
  "offlineSteps E C m ContinuingUpgrade =
     [startUpgrade E m ContinuingUpgrade,
      logEventIfOnlineUpgradeRequested ContinuingUpgrade,
      postOfflineMsg E 0,
      stopCluster E,
      postOfflineMsg E 1,
      offline_updateImageInStatefulSets E m,
      deletePods E m,
      checkForNewPods E m,
      offline_checkVersion E,
      postOfflineMsg E 2,
      AnnotateAndLabelPod_Reconcile E,
      Install_Reconcile E C,
      Restart_Reconcile E True,
      ClientRoutingLabel_Reconcile E PodRescheduleApplyMethod [],
      finishUpgrade E m]"

definition OfflineUpgrade_Reconcile :: "'w env \<Rightarrow> 'c configparser \<Rightarrow> UpgradeManager \<Rightarrow> ('w, ret) op" where
  "OfflineUpgrade_Reconcile E C m = do {
     r \<leftarrow> IsUpgradeNeeded E m;
     case r of
       Inl e \<Rightarrow> ret_op (Fail e)
     | Inr (False, _) \<Rightarrow> ret_op Done
     | Inr (True, ContinuingUpgrade) \<Rightarrow> do {
         err \<leftarrow> Collect E;
         case err of
           Some e \<Rightarrow> ret_op (Fail e)
         | None \<Rightarrow> do { res \<leftarrow> forRet (offlineSteps E C m ContinuingUpgrade) (\<lambda>fn. fn); upgradeRequeue res }
       }
   }"

section \<open>Progress of the status message\<close>



section \<open>Changing the image\<close>

lemma run_updateImageInStatefulSet:
  assumes "run_state (updateImageInStatefulSet E sts) s = (r, s1)"
  shows "vdb s1 = vdb s
     \<and> trace s1 = trace s @ (if sts_Image sts \<noteq> spec_Image (vdb_Spec (vdb s)) then [ObsUpdateSts (newImageSts (spec_Image (vdb_Spec (vdb s))) sts)] else [])
     \<and> (\<forall>b. r = Inr b \<longrightarrow> b = (sts_Image sts \<noteq> spec_Image (vdb_Spec (vdb s))))"
  using assms by (auto simp: updateImageInStatefulSet_def Let_def split: if_splits option.splits prod.splits)

definition needsNewImage :: "string \<Rightarrow> StatefulSet \<Rightarrow> bool" where
  "needsNewImage img sts \<longleftrightarrow> transientLabel sts = Some False \<and> sts_Image sts \<noteq> img"

lemma run_updateImages:
  "run_state (updateImages E stss n) s = ((n', err), s') \<Longrightarrow>
     vdb s' = vdb s \<and> (\<exists>upd. trace s' = trace s @ map (\<lambda>sts. ObsUpdateSts (newImageSts (spec_Image (vdb_Spec (vdb s))) sts)) upd
       \<and> prefix upd (filter (needsNewImage (spec_Image (vdb_Spec (vdb s)))) stss)
       \<and> (err = None \<longrightarrow> upd = filter (needsNewImage (spec_Image (vdb_Spec (vdb s)))) stss \<and> n' = n + int (length upd)))"
proof (induction stss arbitrary: n s)
  case Nil
  then show ?case by auto
next
  case (Cons sts stss)
  let ?img = "spec_Image (vdb_Spec (vdb s))"
  consider "transientLabel sts = None" | "transientLabel sts = Some True" | "transientLabel sts = Some False"
    by (cases "transientLabel sts") auto
  then show ?case
  proof cases
    case 1
    then show ?thesis using Cons.prems by auto
  next
    case 2
    then show ?thesis using Cons.prems Cons.IH [of n s] by (simp add: needsNewImage_def)
  next
    case 3
    obtain r s1 where r: "run_state (updateImageInStatefulSet E sts) s = (r, s1)" by (rule prod.exhaust)
    note one = run_updateImageInStatefulSet [OF r]
    have needs: "needsNewImage ?img sts \<longleftrightarrow> sts_Image sts \<noteq> ?img" using 3 by (simp add: needsNewImage_def)
    show ?thesis
    proof (cases r)
      case (Inl e)
      then have "s' = s1" "err = Some e" using Cons.prems 3 r by auto
      moreover have "sts_Image sts \<noteq> ?img"
        using r Inl by (auto simp: updateImageInStatefulSet_def split: if_splits)
      ultimately show ?thesis using one needs by (intro conjI exI [of _ "[sts]"]) simp_all
    next
      case (Inr b)
      then have b: "b = (sts_Image sts \<noteq> ?img)" and v1: "vdb s1 = vdb s" using one by simp_all
      have "run_state (updateImages E stss (if b then n + 1 else n)) s1 = ((n', err), s')"
        using Cons.prems 3 r Inr by simp
      from Cons.IH [OF this] v1 obtain upd where upd: "vdb s' = vdb s"
        "trace s' = trace s1 @ map (\<lambda>sts. ObsUpdateSts (newImageSts ?img sts)) upd" "prefix upd (filter (needsNewImage ?img) stss)"
        "err = None \<longrightarrow> upd = filter (needsNewImage ?img) stss \<and> n' = (if b then n + 1 else n) + int (length upd)"
        by (elim conjE exE) (simp only:)
      then show ?thesis
        using one b needs by (intro conjI exI [of _ "(if b then [sts] else []) @ upd"]) auto
    qed
  qed
qed

definition runsOldImage :: "string \<Rightarrow> string \<Rightarrow> Pod \<Rightarrow> bool" where
  "runsOldImage img scName pod \<longleftrightarrow> pod_Image pod \<noteq> img
     \<and> (scName = [] \<or> pod_Labels pod SubclusterNameLabel \<in> {None, Some scName})"

lemma run_deleteOldPods:
  "run_state (deleteOldPods E scName pods n) s = ((n', err), s') \<Longrightarrow>
     vdb s' = vdb s \<and> (\<exists>del. trace s' = trace s @ map ObsDeletePod del
       \<and> prefix del (filter (runsOldImage (spec_Image (vdb_Spec (vdb s))) scName) pods)
       \<and> (err = None \<longrightarrow> del = filter (runsOldImage (spec_Image (vdb_Spec (vdb s))) scName) pods \<and> n' = n + int (length del)))"
proof (induction pods arbitrary: n s)
  case Nil
  then show ?case by auto
next
  case (Cons pod pods)
  let ?img = "spec_Image (vdb_Spec (vdb s))"
  show ?case
  proof (cases "runsOldImage ?img scName pod")
    case False
    then have "run_state (deleteOldPods E scName pods n) s = ((n', err), s')"
      using Cons.prems by (auto simp: runsOldImage_def split: if_splits option.splits)
    from Cons.IH [OF this] False show ?thesis by simp
  next
    case True
    obtain r w where del: "e_DeletePod E pod (world s) = (r, w)" by (rule prod.exhaust)
    let ?s1 = "s\<lparr>trace := trace s @ [ObsDeletePod pod], world := w\<rparr>"
    have skip: "\<not> (scName \<noteq> [] \<and> (case pod_Labels pod SubclusterNameLabel of None \<Rightarrow> False | Some l \<Rightarrow> l \<noteq> scName))"
      and img: "pod_Image pod \<noteq> ?img"
      using True by (auto simp: runsOldImage_def)
    show ?thesis
    proof (cases r)
      case (Some e)
      then have "s' = ?s1" "err = Some e"
        using Cons.prems del img by (simp_all only: deleteOldPods.simps if_not_P [OF skip], simp_all)
      then show ?thesis using True by (intro conjI exI [of _ "[pod]"]) simp_all
    next
      case None
      then have "run_state (deleteOldPods E scName pods (n + 1)) ?s1 = ((n', err), s')"
        using Cons.prems del img by (simp only: deleteOldPods.simps if_not_P [OF skip], simp)
      from Cons.IH [OF this] obtain dl where dl: "vdb s' = vdb s" "trace s' = trace s @ [ObsDeletePod pod] @ map ObsDeletePod dl"
        "prefix dl (filter (runsOldImage ?img scName) pods)"
        "err = None \<longrightarrow> dl = filter (runsOldImage ?img scName) pods \<and> n' = n + 1 + int (length dl)"
        by auto
      then show ?thesis using True by (intro conjI exI [of _ "pod # dl"]) simp_all
    qed
  qed
qed

text \<open>
  C24: changing the image touches exactly what has the old one. The statefulsets that are updated are,
  in order, the ones that are not transient and have another image, and they get the image of the
  resource with the strategy that leaves the restart of the pods to the operator; the pods that are
  deleted are, in order, the ones of the given subcluster, or all when none is given, that run
  another image. An error stops the loops early, and the counts are those of the objects changed.
\<close>

theorem upgrade_replaces_old_images:
  assumes "run_state (updateImages E stss 0) s = ((n, err), s1)"
    and "run_state (deleteOldPods E scName pods 0) s1 = ((k, err'), s2)"
  shows "\<exists>upd del. trace s2 = trace s @ map (\<lambda>sts. ObsUpdateSts (newImageSts (spec_Image (vdb_Spec (vdb s))) sts)) upd @ map ObsDeletePod del
     \<and> prefix upd (filter (needsNewImage (spec_Image (vdb_Spec (vdb s)))) stss)
     \<and> (err = None \<longrightarrow> upd = filter (needsNewImage (spec_Image (vdb_Spec (vdb s)))) stss \<and> n = int (length upd))
     \<and> prefix del (filter (runsOldImage (spec_Image (vdb_Spec (vdb s))) scName) pods)
     \<and> (err' = None \<longrightarrow> del = filter (runsOldImage (spec_Image (vdb_Spec (vdb s))) scName) pods \<and> k = int (length del))"
proof -
  from run_updateImages [OF assms(1)] obtain upd where u: "vdb s1 = vdb s"
    "trace s1 = trace s @ map (\<lambda>sts. ObsUpdateSts (newImageSts (spec_Image (vdb_Spec (vdb s))) sts)) upd"
    "prefix upd (filter (needsNewImage (spec_Image (vdb_Spec (vdb s)))) stss)"
    "err = None \<longrightarrow> upd = filter (needsNewImage (spec_Image (vdb_Spec (vdb s)))) stss \<and> n = int (length upd)" by auto
  from run_deleteOldPods [OF assms(2)] u(1) obtain del where d: "trace s2 = trace s1 @ map ObsDeletePod del"
    "prefix del (filter (runsOldImage (spec_Image (vdb_Spec (vdb s))) scName) pods)"
    "err' = None \<longrightarrow> del = filter (runsOldImage (spec_Image (vdb_Spec (vdb s))) scName) pods \<and> k = int (length del)" by auto
  show ?thesis by (rule exI [of _ upd], rule exI [of _ del]) (use u d in simp)
qed

definition oldSts :: StatefulSet where
  "oldSts = zeroStatefulSet\<lparr>sts_Name := ''old'', sts_Labels := [SubclusterTransientLabel \<mapsto> ''false'']\<rparr>"

theorem upgrade_replaces_old_images_witness:
  "\<exists>n err s1 k err' s2. run_state (updateImages storeEnv [oldSts] 0) exampleState = ((n, err), s1)
     \<and> run_state (deleteOldPods storeEnv [] [] 0) s1 = ((k, err'), s2)
     \<and> trace s2 = [ObsUpdateSts (newImageSts (spec_Image (vdb_Spec MakeVDB)) oldSts)]"
proof -
  obtain n err s1 where 1: "run_state (updateImages storeEnv [oldSts] 0) exampleState = ((n, err), s1)" by (metis prod.exhaust)
  have lbl: "transientLabel oldSts = Some False" by (simp add: transientLabel_def oldSts_def strconv_ParseBool_def)
  have img: "sts_Image oldSts \<noteq> spec_Image (vdb_Spec MakeVDB)"
    by (simp add: oldSts_def zeroStatefulSet_def zeroStatefulSetSpec_def zeroContainer_def MakeVDB_def zeroVerticaDBSpec_def)
  have "err = None"
    using 1 lbl img by (simp add: updateImageInStatefulSet_def exampleState_def storeEnv_def emptyEnv_def)
  moreover have "run_state (deleteOldPods storeEnv [] [] 0) s1 = ((0, None), s1)" by simp
  ultimately show ?thesis
    using 1 upgrade_replaces_old_images [OF 1, of "[]" "[]" 0 None s1] lbl img
    by (auto simp: needsNewImage_def exampleState_def)
qed

end
