(* ===== verification/Online.thy ===== *)
theory Online
  imports Upgrade
begin

text \<open>
  The online upgrade, onlineupgrade_reconciler.go of pkg/controllers/vdb: a transient subcluster takes
  the client connections while the primaries and then the secondaries restart with the new image.
  The fields of the reconciler that change on the way are a record that the steps pass on; the
  transient subcluster and the finder, pointers in the program, are kept as values.
\<close>

unbundle bit_operations_syntax

section \<open>The reconciler's state\<close>

record OnlineUpgradeReconciler =
  ou_TransientSc :: "Subcluster option"
  ou_Finder :: SubclusterFinder
  ou_PrimaryImages :: "string list"
  ou_StatusMsgs :: "string list"
  ou_MsgIndex :: int

type_synonym 'w online_step = "OnlineUpgradeReconciler \<Rightarrow> ('w, OnlineUpgradeReconciler \<times> ret) op"

definition onlineManager :: "VerticaDB \<Rightarrow> UpgradeManager" where
  "onlineManager v = \<lparr>um_Finder = MakeSubclusterFinder v, um_StatusCondition = OnlineUpgradeInProgress, um_IsAllowed = onlineUpgradeAllowed\<rparr>"

definition MakeOnlineUpgradeReconciler :: "VerticaDB \<Rightarrow> OnlineUpgradeReconciler" where
  "MakeOnlineUpgradeReconciler v = \<lparr>ou_TransientSc = None, ou_Finder = MakeSubclusterFinder v, ou_PrimaryImages = [],
     ou_StatusMsgs = [], ou_MsgIndex = 0\<rparr>"

text \<open>A step that does not change the reconciler, and running steps until one aborts.\<close>

definition plainStep :: "('w, ret) op \<Rightarrow> 'w online_step" where
  "plainStep m o' = do { res \<leftarrow> m; ret_op (o', res) }"

fun runSteps :: "'w online_step list \<Rightarrow> 'w online_step" where
  "runSteps [] o' = ret_op (o', Done)"
| "runSteps (fn # fns) o' = do {
     (o', res) \<leftarrow> fn o';
     if IsReconcileAborted res then ret_op (o', res) else runSteps fns o'
   }"

section \<open>Subclusters by type\<close>

definition subclusterNameOf :: "StatefulSet \<Rightarrow> string" where
  "subclusterNameOf sts = (case sts_Labels sts SubclusterNameLabel of None \<Rightarrow> [] | Some nm \<Rightarrow> nm)"

definition isMatchingSubclusterType :: "StatefulSet \<Rightarrow> string \<Rightarrow> goerr + bool" where
  "isMatchingSubclusterType sts scType =
     (case transientLabel sts of
        None \<Rightarrow> Inl (WrapErr (''could not parse label '' @ SubclusterTransientLabel) (OtherErr ''strconv.ParseBool: invalid syntax''))
      | Some isTransient \<Rightarrow> Inr ((case sts_Labels sts SubclusterTypeLabel of None \<Rightarrow> [] | Some ty \<Rightarrow> ty) = scType \<and> \<not> isTransient))"

definition iterateSubclusterType :: "'w env \<Rightarrow> string \<Rightarrow> (StatefulSet \<Rightarrow> 'w online_step) \<Rightarrow> 'w online_step" where
  "iterateSubclusterType E scType processFunc o' = do {
     r \<leftarrow> FindStatefulSets E (ou_Finder o') (FindExisting OR FindSorted);
     case r of
       Inl e \<Rightarrow> ret_op (o', Fail e)
     | Inr stss \<Rightarrow> runSteps (map (\<lambda>sts o'.
         case isMatchingSubclusterType sts scType of
           Inl e \<Rightarrow> ret_op (o', Fail e)
         | Inr False \<Rightarrow> ret_op (o', Done)
         | Inr True \<Rightarrow> processFunc sts o') stss) o'
   }"

section \<open>Loading the state\<close>

fun addImages :: "StatefulSet list \<Rightarrow> string list \<Rightarrow> string list" where
  "addImages [] imgs = imgs"
| "addImages (sts # stss) imgs =
     (if sts_Labels sts SubclusterTypeLabel = Some PrimarySubclusterType
      then addImages stss (if sts_Image sts \<in> set imgs then imgs else imgs @ [sts_Image sts])
      else addImages stss imgs)"

definition cachePrimaryImages :: "'w env \<Rightarrow> 'w online_step" where
  "cachePrimaryImages E o' = do {
     r \<leftarrow> FindStatefulSets E (ou_Finder o') FindExisting;
     ret_op (case r of
       Inl e \<Rightarrow> (o', Fail e)
     | Inr stss \<Rightarrow> (o'\<lparr>ou_PrimaryImages := addImages stss (ou_PrimaryImages o')\<rparr>, Done))
   }"

definition loadSubclusterState :: "'w env \<Rightarrow> 'w online_step" where
  "loadSubclusterState E o' = do {
     err \<leftarrow> Collect E;
     case err of
       Some e \<Rightarrow> ret_op (o', Fail e)
     | None \<Rightarrow> do {
         v \<leftarrow> gets_st vdb;
         cachePrimaryImages E (o'\<lparr>ou_TransientSc := FindTransientSubcluster v\<rparr>)
       }
   }"

definition fetchOldImage :: "OnlineUpgradeReconciler \<Rightarrow> VerticaDB \<Rightarrow> string option" where
  "fetchOldImage o' v = List.find (\<lambda>img. img \<noteq> spec_Image (vdb_Spec v)) (ou_PrimaryImages o')"

definition secondaryMsgs :: "string \<Rightarrow> string list" where
  "secondaryMsgs scName =
     [''Draining secondary subcluster '' @ quoted scName, ''Recreating pods for secondary subcluster '' @ quoted scName,
      ''Restarting vertica in secondary subcluster '' @ quoted scName]"

definition precomputeStatusMsgs :: "'w env \<Rightarrow> 'w online_step" where
  "precomputeStatusMsgs E o' = do {
     (o', res) \<leftarrow> iterateSubclusterType E SecondarySubclusterType
       (\<lambda>sts o'. ret_op (o'\<lparr>ou_StatusMsgs := ou_StatusMsgs o' @ secondaryMsgs (subclusterNameOf sts)\<rparr>, Done))
       (o'\<lparr>ou_StatusMsgs :=
         [''Creating transient secondary subcluster'', ''Draining primary subclusters'',
          ''Recreating pods for primary subclusters'', ''Checking if new version is compatible'',
          ''Adding annotations to pods'', ''Running installer'',
          ''Waiting for secondary nodes to become read-only'', ''Restarting vertica in primary subclusters'']\<rparr>);
     if IsReconcileAborted res then ret_op (o', res)
     else ret_op (o'\<lparr>ou_StatusMsgs := ou_StatusMsgs o' @ [''Destroying transient secondary subcluster''], ou_MsgIndex := - 1\<rparr>, Done)
   }"

definition online_postNextStatusMsg :: "'w env \<Rightarrow> 'w online_step" where
  "online_postNextStatusMsg E o' = do {
     let o' = o'\<lparr>ou_MsgIndex := ou_MsgIndex o' + 1\<rparr>;
     err \<leftarrow> postNextStatusMsg E (ou_StatusMsgs o') (ou_MsgIndex o');
     ret_op (o', ofErr err)
   }"

section \<open>The transient subcluster\<close>

definition skipTransientSetup :: "'w env \<Rightarrow> OnlineUpgradeReconciler \<Rightarrow> ('w, bool) op" where
  "skipTransientSetup E o' = do {
     v \<leftarrow> gets_st vdb;
     if \<not> RequiresTransientSubcluster v \<or> ou_PrimaryImages o' = [spec_Image (vdb_Spec v)] then ret_op True
     else do { ps \<leftarrow> rangeDetail E; ret_op (findPodToRunVsql ps False [] = None) }
   }"

text \<open>One attempt to store the transient subcluster; the finder is remade when the resource changed.\<close>

definition storeTransient :: "'w env \<Rightarrow> Subcluster \<Rightarrow> ('w, goerr + Subcluster \<times> SubclusterFinder option) op" where
  "storeTransient E transientSc = do {
     cur \<leftarrow> gets_st vdb;
     r \<leftarrow> ask (e_GetVdb E (ExtractNamespacedName cur));
     case r of
       Inl e \<Rightarrow> ret_op (Inl e)
     | Inr v \<Rightarrow> do {
         setVdb v;
         case FindTransientSubcluster v of
           Some otherSc \<Rightarrow> ret_op (Inr (otherSc, None))
         | None \<Rightarrow> do {
             let v' = v\<lparr>vdb_Spec := (vdb_Spec v)\<lparr>spec_Subclusters := vdb_Subclusters v @ [transientSc]\<rparr>\<rparr>;
             setVdb v';
             emit (ObsUpdateVdb v');
             r \<leftarrow> ask (e_UpdateVdb E v');
             case r of
               Inl e \<Rightarrow> ret_op (Inl e)
             | Inr v'' \<Rightarrow> do { setVdb v''; Invalidate; ret_op (Inr (transientSc, Some (MakeSubclusterFinder v''))) }
           }
       }
   }"

definition addTransientToVdb :: "'w env \<Rightarrow> 'w online_step" where
  "addTransientToVdb E o' =
     (if ou_TransientSc o' \<noteq> None then ret_op (o', Done)
      else do {
        skip \<leftarrow> skipTransientSetup E o';
        if skip then ret_op (o', Done)
        else do {
          v \<leftarrow> gets_st vdb;
          case fetchOldImage o' v of
            None \<Rightarrow> ret_op (o', Fail (OtherErr (''could not determine the old image name.  Only available image is '' @ spec_Image (vdb_Spec v))))
          | Some oldImage \<Rightarrow> do {
              r \<leftarrow> RetryOnConflictV (e_Retries E) (storeTransient E (BuildTransientSubcluster v oldImage));
              ret_op (case r of
                Inl e \<Rightarrow> (o', Fail e)
              | Inr (sc, finder) \<Rightarrow>
                  (o'\<lparr>ou_TransientSc := Some sc, ou_Finder := (case finder of None \<Rightarrow> ou_Finder o' | Some f \<Rightarrow> f)\<rparr>, Done))
            }
        }
      })"

text \<open>
  The steps that set up the transient subcluster; one that reads the subcluster while there is none
  dereferences a nil pointer.
\<close>

definition withTransient :: "OnlineUpgradeReconciler \<Rightarrow> (Subcluster \<Rightarrow> ('w, ret) op) \<Rightarrow> ('w, ret) op" where
  "withTransient o' f =
     (case ou_TransientSc o' of None \<Rightarrow> ret_op (GoPanic ''nil pointer dereference'') | Some sc \<Rightarrow> f sc)"

definition transientSetup :: "'w env \<Rightarrow> (OnlineUpgradeReconciler \<Rightarrow> ('w, ret) op) \<Rightarrow> 'w online_step" where
  "transientSetup E f o' = do {
     skip \<leftarrow> skipTransientSetup E o';
     if skip then ret_op (o', Done) else plainStep (f o') o'
   }"

definition createTransientSts :: "'w env \<Rightarrow> DeploymentNames \<Rightarrow> 'w online_step" where
  "createTransientSts E dn = transientSetup E (\<lambda>o'. withTransient o' (reconcileSts E dn ObjReconcileModeAll False))"

definition installTransientNodes :: "'w env \<Rightarrow> 'c configparser \<Rightarrow> 'w online_step" where
  "installTransientNodes E C = transientSetup E (\<lambda>o'. Install_Reconcile E C)"

definition collectThen :: "'w env \<Rightarrow> ('w, ret) op \<Rightarrow> ('w, ret) op" where
  "collectThen E m = do { err \<leftarrow> Collect E; case err of Some e \<Rightarrow> ret_op (Fail e) | None \<Rightarrow> m }"

definition addTransientSubcluster :: "'w env \<Rightarrow> 'w online_step" where
  "addTransientSubcluster E = transientSetup E (\<lambda>o'. collectThen E (withTransient o' (\<lambda>sc. addMissingSubclusters E [sc])))"

definition addTransientNodes :: "'w env \<Rightarrow> 'w online_step" where
  "addTransientNodes E = transientSetup E (\<lambda>o'. collectThen E (withTransient o' (addNodes_reconcileSubcluster E)))"

definition rebalanceTransientNodes :: "'w env \<Rightarrow> 'w online_step" where
  "rebalanceTransientNodes E = transientSetup E (\<lambda>o'. withTransient o' (\<lambda>sc. RebalanceShards_Reconcile E (sc_Name sc)))"

definition addClientRoutingLabelToTransientNodes :: "'w env \<Rightarrow> 'w online_step" where
  "addClientRoutingLabelToTransientNodes E =
     transientSetup E (\<lambda>o'. withTransient o' (\<lambda>sc. ClientRoutingLabel_Reconcile E AddNodeApplyMethod (sc_Name sc)))"

section \<open>Routing the clients\<close>

definition pickDefaultSubclusterForTemporaryRouting :: "VerticaDB \<Rightarrow> Subcluster \<Rightarrow> Subcluster option" where
  "pickDefaultSubclusterForTemporaryRouting v offlineSc =
     (if sc_IsPrimary offlineSc
      then (case List.find (\<lambda>sc. \<not> sc_IsPrimary sc) (vdb_Subclusters v) of
              Some sc \<Rightarrow> Some sc
            | None \<Rightarrow> Some (hd (vdb_Subclusters v)))
      else List.find (\<lambda>sc. sc_Name sc \<noteq> sc_Name offlineSc) (vdb_Subclusters v))"

fun pickNamed :: "(string \<rightharpoonup> Subcluster) \<Rightarrow> Subcluster \<Rightarrow> string list \<Rightarrow> Subcluster option \<Rightarrow> Subcluster option" where
  "pickNamed scMap offlineSc [] routingSc = routingSc"
| "pickNamed scMap offlineSc (routeName # names) routingSc =
     (case scMap routeName of
        None \<Rightarrow> pickNamed scMap offlineSc names routingSc
      | Some sc \<Rightarrow> if routeName \<noteq> sc_Name offlineSc then Some sc else pickNamed scMap offlineSc names (Some sc))"

definition pickFromVdb :: "VerticaDB \<Rightarrow> Subcluster \<Rightarrow> Subcluster option" where
  "pickFromVdb v offlineSc =
     (let names = Vapi.slice (sel_Names (spec_TemporarySubclusterRouting (vdb_Spec v))) in
      if names = [] then pickDefaultSubclusterForTemporaryRouting v offlineSc
      else pickNamed (GenSubclusterMap v) offlineSc names None)"

definition getSubclusterForTemporaryRouting :: "'w env \<Rightarrow> OnlineUpgradeReconciler \<Rightarrow> Subcluster \<Rightarrow> ('w, Subcluster option) op" where
  "getSubclusterForTemporaryRouting E o' offlineSc = do {
     v \<leftarrow> gets_st vdb;
     case ou_TransientSc o' of
       Some transientSc \<Rightarrow> do {
         r \<leftarrow> ask (e_GetSts E (GenStsName v transientSc));
         ret_op (case r of Inl e \<Rightarrow> None | Inr _ \<Rightarrow> Some transientSc)
       }
     | None \<Rightarrow> ret_op (pickFromVdb v offlineSc)
   }"

definition routeClientTraffic :: "'w env \<Rightarrow> OnlineUpgradeReconciler \<Rightarrow> string \<Rightarrow> bool \<Rightarrow> ('w, ret) op" where
  "routeClientTraffic E o' scName setTemporaryRouting = do {
     v \<leftarrow> gets_st vdb;
     case GenSubclusterMap v scName of
       None \<Rightarrow> ret_op (Fail (OtherErr (''we are routing for a subcluster that isn'' @ [CHR 0x27] @ ''t in the vdb: '' @ scName)))
     | Some sc \<Rightarrow> do {
         r \<leftarrow> ask (e_GetSvc E (GenExtSvcName v sc));
         case r of
           Inl e \<Rightarrow> ret_op (if errors_IsNotFound e then Done else Fail e)
         | Inr svc \<Rightarrow> do {
             svc \<leftarrow> (if setTemporaryRouting then do {
                      routingSc \<leftarrow> getSubclusterForTemporaryRouting E o' sc;
                      ret_op (case routingSc of
                        None \<Rightarrow> svc
                      | Some rsc \<Rightarrow> svc\<lparr>svc_Selector := MakeSvcSelectorLabelsForSubclusterNameRouting v rsc\<rparr>)
                    } else ret_op (svc\<lparr>svc_Selector := MakeSvcSelectorLabelsForServiceNameRouting v sc\<rparr>));
             reconcileExtSvc E ObjReconcileModeAll svc sc
           }
       }
   }"

section \<open>Restarting a subcluster\<close>

definition idleSQL :: "string \<Rightarrow> string" where
  "idleSQL scName = ''select count(session_id) sessions'' @ '' from v_monitor.sessions join v_catalog.subclusters using (node_name)''
     @ '' where session_id not in (select session_id from current_session)'' @ ''       and subcluster_name = '' @ quoted scName @ '';''"

definition isSubclusterIdle :: "'w env \<Rightarrow> string \<Rightarrow> ('w, ret) op" where
  "isSubclusterIdle E scName = do {
     ps \<leftarrow> rangeDetail E;
     case findPodToRunVsql ps True scName of
       None \<Rightarrow> ret_op Done
     | Some pf \<Rightarrow> do {
         (stdout, stderr, err) \<leftarrow> ExecVSQL E (pf_name pf) [''-tAc'', idleSQL scName];
         case err of
           Some e \<Rightarrow> ret_op (Fail e)
         | None \<Rightarrow>
             if anyActiveConnections stdout then do { Eventf EventTypeWarning ''DrainSubclusterRetry''; ret_op RequeueNow }
             else ret_op Done
       }
   }"

definition drainSubcluster :: "'w env \<Rightarrow> StatefulSet \<Rightarrow> 'w online_step" where
  "drainSubcluster E sts o' = do {
     v \<leftarrow> gets_st vdb;
     if sts_Image sts \<noteq> spec_Image (vdb_Spec v) then do {
       res \<leftarrow> routeClientTraffic E o' (subclusterNameOf sts) True;
       if IsReconcileAborted res then ret_op (o', res)
       else do { res \<leftarrow> isSubclusterIdle E (subclusterNameOf sts); ret_op (o', res) }
     } else ret_op (o', Done)
   }"

definition recreateSubclusterWithNewImage :: "'w env \<Rightarrow> UpgradeManager \<Rightarrow> StatefulSet \<Rightarrow> 'w online_step" where
  "recreateSubclusterWithNewImage E m sts o' = do {
     r \<leftarrow> updateImageInStatefulSet E sts;
     case r of
       Inl e \<Rightarrow> ret_op (o', Fail e)
     | Inr stsChanged \<Rightarrow> do {
         invalidateIf stsChanged;
         (podsDeleted, err) \<leftarrow> deletePodsRunningOldImage E m (subclusterNameOf sts);
         case err of
           Some e \<Rightarrow> ret_op (o', Fail e)
         | None \<Rightarrow> do { invalidateIf (podsDeleted > 0); ret_op (o', Done) }
       }
   }"

definition runningPodOf :: "'w env \<Rightarrow> string \<Rightarrow> ('w, PodFact option) op" where
  "runningPodOf E scName = do { ps \<leftarrow> rangeDetail E; ret_op (List.find (\<lambda>pf. pf_isPodRunning pf \<and> pf_subcluster pf = scName) ps) }"

definition online_checkVersion :: "'w env \<Rightarrow> StatefulSet \<Rightarrow> 'w online_step" where
  "online_checkVersion E sts o' = do {
     v \<leftarrow> gets_st vdb;
     if spec_IgnoreUpgradePath (vdb_Spec v) then ret_op (o', Done)
     else do { res \<leftarrow> Version_Reconcile E True (runningPodOf E (subclusterNameOf sts)); ret_op (o', res) }
   }"

definition waitForReadOnly :: "'w env \<Rightarrow> StatefulSet \<Rightarrow> ('w, ret) op" where
  "waitForReadOnly E sts = do {
     ps \<leftarrow> rangeDetail E;
     if countUpPrimaryNodes ps \<noteq> 0 then ret_op Done
     else do {
       ps \<leftarrow> rangeDetail E;
       ret_op (if countNotReadOnlyWithOldImage ps (sts_Image sts) = 0 then Done else RequeueNow)
     }
   }"

definition bringSubclusterOnline :: "'w env \<Rightarrow> StatefulSet \<Rightarrow> 'w online_step" where
  "bringSubclusterOnline E sts o' = do {
     res \<leftarrow> Restart_Reconcile E False;
     if IsReconcileAborted res then ret_op (o', res)
     else do {
       res \<leftarrow> ClientRoutingLabel_Reconcile E PodRescheduleApplyMethod (subclusterNameOf sts);
       if IsReconcileAborted res then ret_op (o', res)
       else do { res \<leftarrow> routeClientTraffic E o' (subclusterNameOf sts) False; ret_op (o', res) }
     }
   }"

definition restartPrimaries :: "'w env \<Rightarrow> 'c configparser \<Rightarrow> UpgradeManager \<Rightarrow> 'w online_step" where
  "restartPrimaries E C m = runSteps (concat (map (\<lambda>fn. [online_postNextStatusMsg E, iterateSubclusterType E PrimarySubclusterType fn])
     [drainSubcluster E, recreateSubclusterWithNewImage E m, online_checkVersion E,
      \<lambda>sts. plainStep (AnnotateAndLabelPod_Reconcile E), \<lambda>sts. plainStep (Install_Reconcile E C),
      \<lambda>sts. plainStep (waitForReadOnly E sts), bringSubclusterOnline E]))"

definition processSecondary :: "'w env \<Rightarrow> 'c configparser \<Rightarrow> UpgradeManager \<Rightarrow> StatefulSet \<Rightarrow> 'w online_step" where
  "processSecondary E C m sts = runSteps
     [online_postNextStatusMsg E, drainSubcluster E sts, online_postNextStatusMsg E, recreateSubclusterWithNewImage E m sts,
      online_postNextStatusMsg E, plainStep (AnnotateAndLabelPod_Reconcile E), plainStep (Install_Reconcile E C),
      bringSubclusterOnline E sts]"

definition restartSecondaries :: "'w env \<Rightarrow> 'c configparser \<Rightarrow> UpgradeManager \<Rightarrow> 'w online_step" where
  "restartSecondaries E C m = iterateSubclusterType E SecondarySubclusterType (processSecondary E C m)"

section \<open>Removing the transient subcluster\<close>

fun dropTransients :: "nat \<Rightarrow> Subcluster list \<Rightarrow> bool \<Rightarrow> Subcluster list \<times> bool" where
  "dropTransients 0 scs removed = (scs, removed)"
| "dropTransients (Suc i) scs removed =
     (if sc_IsTransient (scs ! i) then dropTransients i (take i scs @ drop (Suc i) scs) True
      else dropTransients i scs removed)"

text \<open>One attempt; the value tells whether a transient subcluster was removed.\<close>

definition storeWithoutTransient :: "'w env \<Rightarrow> ('w, goerr + bool) op" where
  "storeWithoutTransient E = do {
     cur \<leftarrow> gets_st vdb;
     r \<leftarrow> ask (e_GetVdb E (ExtractNamespacedName cur));
     case r of
       Inl e \<Rightarrow> ret_op (Inl e)
     | Inr v \<Rightarrow>
         (case dropTransients (length (vdb_Subclusters v)) (vdb_Subclusters v) False of (scs, removedTransient) \<Rightarrow> do {
            let v' = v\<lparr>vdb_Spec := (vdb_Spec v)\<lparr>spec_Subclusters := scs\<rparr>\<rparr>;
            setVdb v';
            if \<not> removedTransient then ret_op (Inr False)
            else do {
              Invalidate;
              emit (ObsUpdateVdb v');
              r \<leftarrow> ask (e_UpdateVdb E v');
              case r of
                Inl e \<Rightarrow> ret_op (Inl e)
              | Inr v'' \<Rightarrow> do { setVdb v''; ret_op (Inr True) }
            }
          })
   }"

definition removeTransientFromVdb :: "'w env \<Rightarrow> 'w online_step" where
  "removeTransientFromVdb E o' = do {
     v \<leftarrow> gets_st vdb;
     if \<not> RequiresTransientSubcluster v then ret_op (o', Done)
     else do {
       r \<leftarrow> RetryOnConflictV (e_Retries E) (storeWithoutTransient E);
       ret_op (case r of
         Inl e \<Rightarrow> (o', Fail e)
       | Inr removedTransient \<Rightarrow> (if removedTransient then o'\<lparr>ou_TransientSc := None\<rparr> else o', Done))
     }
   }"

definition ifTransientRequired :: "('w, ret) op \<Rightarrow> 'w online_step" where
  "ifTransientRequired m o' = do {
     v \<leftarrow> gets_st vdb;
     if \<not> RequiresTransientSubcluster v then ret_op (o', Done) else do { res \<leftarrow> m; ret_op (o', res) }
   }"

definition removeClientRoutingLabelFromTransientNodes :: "'w env \<Rightarrow> 'w online_step" where
  "removeClientRoutingLabelFromTransientNodes E = ifTransientRequired (ClientRoutingLabel_Reconcile E DelNodeApplyMethod [])"

definition removeTransientSubclusters :: "'w env \<Rightarrow> 'w online_step" where
  "removeTransientSubclusters E = ifTransientRequired (DBRemoveSubcluster_Reconcile E)"

definition uninstallTransientNodes :: "'w env \<Rightarrow> 'c configparser \<Rightarrow> 'w online_step" where
  "uninstallTransientNodes E C = ifTransientRequired (Uninstall_Reconcile E C)"

definition deleteTransientSts :: "'w env \<Rightarrow> DeploymentNames \<Rightarrow> 'w online_step" where
  "deleteTransientSts E dn = ifTransientRequired (Obj_Reconcile E dn ObjReconcileModeAll False)"

section \<open>The reconciler\<close>

definition onlineSteps :: "'w env \<Rightarrow> 'c configparser \<Rightarrow> DeploymentNames \<Rightarrow> UpgradeManager \<Rightarrow> bool \<Rightarrow> 'w online_step list" where
  "onlineSteps E C dn m ContinuingUpgrade =
     [plainStep (startUpgrade E m ContinuingUpgrade),
      loadSubclusterState E,
      precomputeStatusMsgs E,
      online_postNextStatusMsg E,
      addTransientToVdb E,
      createTransientSts E dn,
      installTransientNodes E C,
      addTransientSubcluster E,
      addTransientNodes E,
      rebalanceTransientNodes E,
      addClientRoutingLabelToTransientNodes E,
      restartPrimaries E C m,
      restartSecondaries E C m,
      online_postNextStatusMsg E,
      removeTransientFromVdb E,
      removeClientRoutingLabelFromTransientNodes E,
      removeTransientSubclusters E,
      uninstallTransientNodes E C,
      deleteTransientSts E dn,
      plainStep (finishUpgrade E m)]"

definition OnlineUpgrade_Reconcile :: "'w env \<Rightarrow> 'c configparser \<Rightarrow> DeploymentNames \<Rightarrow> UpgradeManager \<Rightarrow> OnlineUpgradeReconciler \<Rightarrow> ('w, ret) op" where
  "OnlineUpgrade_Reconcile E C dn m o' = do {
     r \<leftarrow> IsUpgradeNeeded E m;
     case r of
       Inl e \<Rightarrow> ret_op (Fail e)
     | Inr (False, _) \<Rightarrow> ret_op Done
     | Inr (True, ContinuingUpgrade) \<Rightarrow> do {
         (o', res) \<leftarrow> runSteps (onlineSteps E C dn m ContinuingUpgrade) o';
         upgradeRequeue res
       }
   }"

section \<open>Routing avoids the subcluster that goes offline\<close>

text \<open>The subclusters that may take the traffic while another one is down.\<close>

definition routeNames :: "VerticaDB \<Rightarrow> string list" where
  "routeNames v = Vapi.slice (sel_Names (spec_TemporarySubclusterRouting (vdb_Spec v)))"

definition canTakeTraffic :: "VerticaDB \<Rightarrow> Subcluster \<Rightarrow> Subcluster \<Rightarrow> bool" where
  "canTakeTraffic v offlineSc sc \<longleftrightarrow> sc \<in> set (vdb_Subclusters v) \<and> sc_Name sc \<noteq> sc_Name offlineSc
     \<and> (if routeNames v = [] then sc_IsPrimary offlineSc \<longrightarrow> \<not> sc_IsPrimary sc else sc_Name sc \<in> set (routeNames v))"

lemma pickNamed_avoids:
  assumes "\<exists>nm \<in> set names. nm \<noteq> sc_Name offlineSc \<and> scMap nm \<noteq> None"
  shows "\<exists>nm sc. nm \<in> set names \<and> nm \<noteq> sc_Name offlineSc \<and> scMap nm = Some sc \<and> pickNamed scMap offlineSc names r = Some sc"
  using assms
proof (induction names arbitrary: r)
  case (Cons a names)
  show ?case
  proof (cases "a \<noteq> sc_Name offlineSc \<and> scMap a \<noteq> None")
    case True
    then show ?thesis by (intro exI [of _ a]) auto
  next
    case False
    with Cons.prems have "\<exists>nm \<in> set names. nm \<noteq> sc_Name offlineSc \<and> scMap nm \<noteq> None" by auto
    note IH = Cons.IH [OF this]
    have "pickNamed scMap offlineSc (a # names) r = pickNamed scMap offlineSc names (if scMap a = None then r else scMap a)"
      using False by (auto split: option.splits)
    with IH [of "if scMap a = None then r else scMap a"] show ?thesis by (metis list.set_intros(2))
  qed
qed simp

lemma pickDefault_avoids:
  assumes sc: "canTakeTraffic v offlineSc sc" and "routeNames v = []" and offl: "offlineSc \<in> set (vdb_Subclusters v)"
    and dist: "distinct (map sc_Name (vdb_Subclusters v))"
  shows "\<exists>rsc. pickDefaultSubclusterForTemporaryRouting v offlineSc = Some rsc \<and> canTakeTraffic v offlineSc rsc"
proof (cases "sc_IsPrimary offlineSc")
  case True
  with sc assms(2) have "sc \<in> set (vdb_Subclusters v)" "\<not> sc_IsPrimary sc" by (simp_all add: canTakeTraffic_def)
  then obtain r where r: "List.find (\<lambda>sc. \<not> sc_IsPrimary sc) (vdb_Subclusters v) = Some r"
    and "r \<in> set (vdb_Subclusters v)" "\<not> sc_IsPrimary r" by (rule find_exists)
  moreover from this have "sc_Name r \<noteq> sc_Name offlineSc"
    using inj_onD [OF dist [unfolded distinct_map, THEN conjunct2], of r offlineSc] offl True by blast
  ultimately show ?thesis
    using True r assms(2) by (simp add: pickDefaultSubclusterForTemporaryRouting_def canTakeTraffic_def)
next
  case False
  from sc have "sc \<in> set (vdb_Subclusters v)" "sc_Name sc \<noteq> sc_Name offlineSc" by (simp_all add: canTakeTraffic_def)
  then obtain r where r: "List.find (\<lambda>sc. sc_Name sc \<noteq> sc_Name offlineSc) (vdb_Subclusters v) = Some r"
    and "r \<in> set (vdb_Subclusters v)" "sc_Name r \<noteq> sc_Name offlineSc" by (rule find_exists)
  with False r assms(2) show ?thesis
    by (simp add: pickDefaultSubclusterForTemporaryRouting_def canTakeTraffic_def)
qed

lemma pickFromVdb_avoids:
  assumes sc: "canTakeTraffic v offlineSc sc" and offl: "offlineSc \<in> set (vdb_Subclusters v)"
    and dist: "distinct (map sc_Name (vdb_Subclusters v))"
  shows "\<exists>rsc. pickFromVdb v offlineSc = Some rsc \<and> canTakeTraffic v offlineSc rsc"
proof (cases "routeNames v = []")
  case True
  with pickDefault_avoids [OF sc True offl dist] show ?thesis by (simp add: pickFromVdb_def routeNames_def)
next
  case False
  with sc have "\<exists>nm \<in> set (routeNames v). nm \<noteq> sc_Name offlineSc \<and> GenSubclusterMap v nm \<noteq> None"
    by (intro bexI [of _ "sc_Name sc"]) (auto simp: canTakeTraffic_def GenSubclusterMap_None_iff)
  from pickNamed_avoids [OF this, of None] obtain nm rsc where
    r: "nm \<in> set (routeNames v)" "nm \<noteq> sc_Name offlineSc" "GenSubclusterMap v nm = Some rsc"
       "pickNamed (GenSubclusterMap v) offlineSc (routeNames v) None = Some rsc" by blast
  with False GenSubclusterMap_SomeD [OF r(3)] show ?thesis
    by (simp add: pickFromVdb_def Let_def canTakeTraffic_def flip: routeNames_def)
qed

definition writesSelector :: "label_map \<Rightarrow> obs \<Rightarrow> bool" where
  "writesSelector sel x \<longleftrightarrow> (\<exists>svc. (x = ObsUpdateSvc svc \<or> x = ObsCreateSvc svc) \<and> svc_Selector svc = sel)"

lemma reconcileExtSvcFields_selector:
  "reconcileExtSvcFields cur exp sc = Some (Some svc) \<Longrightarrow> svc_Selector svc = svc_Selector exp"
  by (auto simp: reconcileExtSvcFields_def Let_def split: option.splits if_splits)

lemma spec_reconcileExtSvc:
  "localPred P \<Longrightarrow> spec P (writesSelector (svc_Selector expSvc)) (reconcileExtSvc E mode expSvc sc) (\<lambda>_. P)"
  unfolding reconcileExtSvc_def reconcileSvc_def updateSvc_def createService_def
  by (intro spec_rules) (auto simp: writesSelector_def dest: reconcileExtSvcFields_selector)

text \<open>The subcluster the traffic goes to.\<close>

definition routesTo :: "OnlineUpgradeReconciler \<Rightarrow> VerticaDB \<Rightarrow> Subcluster \<Rightarrow> Subcluster \<Rightarrow> bool" where
  "routesTo o' v offlineSc rsc \<longleftrightarrow>
     (case ou_TransientSc o' of Some t \<Rightarrow> rsc = t | None \<Rightarrow> canTakeTraffic v offlineSc rsc)"

definition routingPossible :: "'w env \<Rightarrow> OnlineUpgradeReconciler \<Rightarrow> VerticaDB \<Rightarrow> Subcluster \<Rightarrow> bool" where
  "routingPossible E o' v offlineSc \<longleftrightarrow>
     (case ou_TransientSc o' of
        Some t \<Rightarrow> \<forall>w. \<exists>sts. fst (e_GetSts E (GenStsName v t) w) = Inr sts
      | None \<Rightarrow> \<exists>sc. canTakeTraffic v offlineSc sc)"

lemma spec_getSubcluster:
  assumes "routingPossible E o' v offlineSc" and "offlineSc \<in> set (vdb_Subclusters v)"
    and "distinct (map sc_Name (vdb_Subclusters v))"
  shows "spec (\<lambda>s. vdb s = v) \<Phi> (getSubclusterForTemporaryRouting E o' offlineSc)
     (\<lambda>r s. vdb s = v \<and> (\<exists>rsc. r = Some rsc \<and> routesTo o' v offlineSc rsc))"
proof (cases "ou_TransientSc o'")
  case None
  with assms(1) obtain sc where "canTakeTraffic v offlineSc sc" by (auto simp: routingPossible_def)
  from pickFromVdb_avoids [OF this assms(2,3)] None show ?thesis
    unfolding getSubclusterForTemporaryRouting_def
    by (intro spec_bind_gets [where x = v]) (auto simp: routesTo_def intro!: spec_ret)
next
  case (Some t)
  have "spec (\<lambda>s. vdb s = v) \<Phi> (ask (e_GetSts E (GenStsName v t))) (\<lambda>r s. vdb s = v \<and> (\<exists>sts. r = Inr sts))"
    using assms(1) Some by (auto simp: spec_def routingPossible_def split: prod.splits) (metis fst_conv)
  with Some show ?thesis
    unfolding getSubclusterForTemporaryRouting_def
    by (intro spec_bind_gets [where x = v]) (auto simp: routesTo_def intro!: spec_bind spec_ret)
qed


definition twoScVdb :: VerticaDB where
  "twoScVdb = MakeVDB\<lparr>vdb_Spec := (vdb_Spec MakeVDB)\<lparr>
     spec_Subclusters := vdb_Subclusters MakeVDB @ [zeroSubcluster\<lparr>sc_Name := ''sc2'', sc_Size := 1\<rparr>],
     spec_TemporarySubclusterRouting := \<lparr>sel_Names = None, sel_Template = zeroSubcluster\<lparr>sc_Name := ''transient'', sc_Size := 1\<rparr>\<rparr>\<rparr>\<rparr>"

definition svcEnv :: "VerticaDB env" where
  "svcEnv = storeEnv\<lparr>e_GetSvc := \<lambda>nm w. (Inr (zeroService\<lparr>svc_Namespace := nn_Namespace nm, svc_Name := nn_Name nm\<rparr>), w)\<rparr>"


section \<open>The transient subcluster comes and goes\<close>

lemma dropTransients_filter:
  "n \<le> length scs \<Longrightarrow> dropTransients n scs r
     = (filter (\<lambda>sc. \<not> sc_IsTransient sc) (take n scs) @ drop n scs, r \<or> list_ex sc_IsTransient (take n scs))"
proof (induction n arbitrary: scs r)
  case (Suc i)
  then have "take i (take i scs @ drop (Suc i) scs) = take i scs" "drop i (take i scs @ drop (Suc i) scs) = drop (Suc i) scs"
    "i \<le> length (take i scs @ drop (Suc i) scs)" "take (Suc i) scs = take i scs @ [scs ! i]"
    "drop i scs = scs ! i # drop (Suc i) scs"
    by (simp_all add: take_Suc_conv_app_nth Cons_nth_drop_Suc)
  with Suc show ?case by (auto simp: Let_def)
qed simp

definition permanent :: "VerticaDB \<Rightarrow> Subcluster list" where
  "permanent v = filter (\<lambda>sc. \<not> sc_IsTransient sc) (vdb_Subclusters v)"

definition transients :: "VerticaDB \<Rightarrow> nat" where
  "transients v = length (filter sc_IsTransient (vdb_Subclusters v))"

lemma vdbServer_Update:
  assumes "vdbServer E stored" and "e_UpdateVdb E v w = (r, w')"
  shows "(\<exists>e. r = Inl e) \<and> stored w' = stored w \<or> r = Inr (stored w') \<and> stored w' = v\<lparr>vdb_Status := vdb_Status (stored w)\<rparr>"
  using vdbServerD(4) [OF assms(1), of v w] assms(2) by (simp split: sum.splits)

lemma valid_RetryOnConflictV:
  assumes fn: "valid P fn (\<lambda>r s. case r of Inl e \<Rightarrow> P s | Inr a \<Rightarrow> Q a s)"
  shows "valid P (RetryOnConflictV n fn) (\<lambda>r s. case r of Inl e \<Rightarrow> P s | Inr a \<Rightarrow> Q a s)"
proof (induction n)
  case (Suc n)
  have "valid (\<lambda>s. case r of Inl e \<Rightarrow> P s | Inr a \<Rightarrow> Q a s)
     (case r of Inr a \<Rightarrow> ret_op (Inr a) | Inl e \<Rightarrow> if errors_IsConflict e then RetryOnConflictV n fn else ret_op (Inl e))
     (\<lambda>r s. case r of Inl e \<Rightarrow> P s | Inr a \<Rightarrow> Q a s)" for r
    by (cases r) (auto intro!: valid_ret_op Suc.IH)
  then show ?case unfolding RetryOnConflictV.simps by (rule valid_bind [OF fn])
qed (simp add: fn)

lemma storeTransient_world:
  assumes get: "e_GetVdb E (ExtractNamespacedName (vdb s)) (world s) = (g, w)"
  shows "world (snd (run_state (storeTransient E sc) s)) =
     (case g of Inl e \<Rightarrow> w
      | Inr v \<Rightarrow> (case FindTransientSubcluster v of
          Some t \<Rightarrow> w
        | None \<Rightarrow> snd (e_UpdateVdb E (v\<lparr>vdb_Spec := (vdb_Spec v)\<lparr>spec_Subclusters := vdb_Subclusters v @ [sc]\<rparr>\<rparr>) w)))"
  by (simp add: storeTransient_def get Let_def Invalidate_def setNeedCollection_def split: sum.split option.split prod.split)

lemma transient_added:
  assumes server: "vdbServer E stored" and sc: "sc_IsTransient sc" and none: "FindTransientSubcluster v = None"
    and upd: "e_UpdateVdb E (v\<lparr>vdb_Spec := (vdb_Spec v)\<lparr>spec_Subclusters := vdb_Subclusters v @ [sc]\<rparr>\<rparr>) w = (u, w2)"
  shows "stored w2 = stored w \<or> permanent (stored w2) = permanent v \<and> transients (stored w2) = 1"
proof -
  from none have "filter sc_IsTransient (vdb_Subclusters v) = []" by (simp add: FindTransientSubcluster_None filter_empty_conv)
  with vdbServer_Update [OF server upd] sc show ?thesis by (elim disjE) (simp_all add: permanent_def transients_def)
qed

lemma storeTransient_keeps:
  assumes server: "vdbServer E stored" and sc: "sc_IsTransient sc" and n: "n \<ge> 1"
  shows "valid (\<lambda>s. permanent (stored (world s)) = ps \<and> transients (stored (world s)) \<le> n) (storeTransient E sc)
     (\<lambda>r s. permanent (stored (world s)) = ps \<and> transients (stored (world s)) \<le> n)"
proof -
  let ?I = "\<lambda>v. permanent v = ps \<and> transients v \<le> n"
  have "?I (stored (world (snd (run_state (storeTransient E sc) s))))" if I: "?I (stored (world s))" for s
  proof -
    obtain g w where get: "e_GetVdb E (ExtractNamespacedName (vdb s)) (world s) = (g, w)" by (rule prod.exhaust)
    note g = vdbServer_Get [OF server get]
    have upd: "?I (stored (snd (e_UpdateVdb E (v\<lparr>vdb_Spec := (vdb_Spec v)\<lparr>spec_Subclusters := vdb_Subclusters v @ [sc]\<rparr>\<rparr>) w)))"
      if "FindTransientSubcluster v = None" "g = Inr v" for v
      using transient_added [OF server sc that(1) prod.collapse [symmetric], of w] that(2) g I n by (elim disjE) simp_all
    show ?thesis unfolding storeTransient_world [OF get] using g I upd by (cases g) (simp_all split: option.split)
  qed
  then show ?thesis unfolding valid_def by (simp add: case_prod_beta)
qed

lemma valid_skipTransientSetup:
  assumes "vdbServer E stored"
  shows "valid (\<lambda>s. I (stored (world s))) (skipTransientSetup E o') (\<lambda>_ s. I (stored (world s)))"
  using vdbServer_frame(2) [OF assms] unfolding skipTransientSetup_def rangeDetail_def
  by (auto simp: valid_def split: prod.splits) (metis snd_conv)

lemma addTransientToVdb_keeps:
  assumes server: "vdbServer E stored" and n: "n \<ge> 1"
  shows "valid (\<lambda>s. permanent (stored (world s)) = ps \<and> transients (stored (world s)) \<le> n) (addTransientToVdb E o')
     (\<lambda>_ s. permanent (stored (world s)) = ps \<and> transients (stored (world s)) \<le> n)"
proof -
  let ?I = "\<lambda>v. permanent v = ps \<and> transients v \<le> n"
  have "sc_IsTransient (BuildTransientSubcluster v img)" for v img by (simp add: BuildTransientSubcluster_def)
  from storeTransient_keeps [OF server this n]
  have "valid (\<lambda>s. ?I (stored (world s))) (storeTransient E (BuildTransientSubcluster v img))
     (\<lambda>r s. case r of Inl e \<Rightarrow> ?I (stored (world s)) | Inr a \<Rightarrow> ?I (stored (world s)))" for v img
    by (rule valid_post) (simp split: sum.splits)
  then have retry: "valid (\<lambda>s. ?I (stored (world s))) (RetryOnConflictV k (storeTransient E (BuildTransientSubcluster v img)))
     (\<lambda>r s. ?I (stored (world s)))" for k v img
    by (rule valid_post [OF valid_RetryOnConflictV]) (simp split: sum.splits)
  have gets: "valid (\<lambda>s. ?I (stored (world s))) (gets_st vdb) (\<lambda>_ s. ?I (stored (world s)))" by (rule valid_gets)
  have ret: "valid (\<lambda>s. ?I (stored (world s))) (ret_op x) (\<lambda>_ s. ?I (stored (world s)))" for x :: "OnlineUpgradeReconciler \<times> ret"
    by (rule valid_ret_op)
  have "valid (\<lambda>s. ?I (stored (world s)))
     (case fetchOldImage o' v of
        None \<Rightarrow> ret_op (o', Fail (OtherErr (''could not determine the old image name.  Only available image is '' @ spec_Image (vdb_Spec v))))
      | Some oldImage \<Rightarrow> do {
          r \<leftarrow> RetryOnConflictV (e_Retries E) (storeTransient E (BuildTransientSubcluster v oldImage));
          ret_op (f r)
        })
     (\<lambda>_ s. ?I (stored (world s)))" for v and f :: "_ \<Rightarrow> OnlineUpgradeReconciler \<times> ret"
    by (cases "fetchOldImage o' v") (auto intro!: valid_bind [OF retry] ret)
  note rest = valid_bind [OF valid_skipTransientSetup [OF server, of ?I] valid_if [OF ret valid_bind [OF gets this]]]
  show ?thesis unfolding addTransientToVdb_def by (intro valid_if ret rest)
qed

lemma storeWithoutTransient_drops:
  assumes server: "vdbServer E stored"
  shows "valid (\<lambda>s. permanent (stored (world s)) = ps) (storeWithoutTransient E)
     (\<lambda>r s. case r of Inl e \<Rightarrow> permanent (stored (world s)) = ps | Inr _ \<Rightarrow> vdb_Subclusters (stored (world s)) = ps)"
proof -
  have "case r of Inl e \<Rightarrow> permanent (stored (world s')) = ps | Inr _ \<Rightarrow> vdb_Subclusters (stored (world s')) = ps"
    if I: "permanent (stored (world s)) = ps" and run: "run_state (storeWithoutTransient E) s = (r, s')" for s r s'
  proof -
    obtain g w where get: "e_GetVdb E (ExtractNamespacedName (vdb s)) (world s) = (g, w)" by (rule prod.exhaust)
    note g = vdbServer_Get [OF server get]
    show ?thesis
    proof (cases g)
      case (Inl e)
      with run get g I show ?thesis by (auto simp: storeWithoutTransient_def)
    next
      case (Inr v)
      have drop: "dropTransients (length (vdb_Subclusters v)) (vdb_Subclusters v) False = (permanent v, list_ex sc_IsTransient (vdb_Subclusters v))"
        by (simp add: dropTransients_filter permanent_def)
      let ?v = "v\<lparr>vdb_Spec := (vdb_Spec v)\<lparr>spec_Subclusters := permanent v\<rparr>\<rparr>"
      obtain u w2 where upd: "e_UpdateVdb E ?v w = (u, w2)" by (rule prod.exhaust)
      have "\<not> list_ex sc_IsTransient (vdb_Subclusters v) \<Longrightarrow> permanent v = vdb_Subclusters v"
        by (simp add: permanent_def list_ex_iff)
      with vdbServer_Update [OF server upd] run get g I Inr drop upd show ?thesis
        by (auto simp: storeWithoutTransient_def Let_def Invalidate_def setNeedCollection_def permanent_def split: if_splits)
    qed
  qed
  then show ?thesis by (auto simp: valid_def split: prod.splits)
qed

text \<open>
  C23: adding the transient subcluster to the resource and removing it at the end of the upgrade leave
  the stored subclusters as they were. The addition keeps the other subclusters and never makes a
  second transient one, whether it succeeds, fails or is retried after conflicts. When the removal reports success, what is
  stored is exactly the list of the other subclusters, in their order; when it fails those are still
  stored.
\<close>

theorem transient_roundtrip:
  assumes server: "vdbServer E stored"
    and add: "run_state (addTransientToVdb E o1) s = ((o2, res1), s1)"
    and between: "vdb_Subclusters (stored (world t)) = vdb_Subclusters (stored (world s1))"
    and remove: "run_state (removeTransientFromVdb E o3) t = ((o4, res2), t')"
    and required: "RequiresTransientSubcluster (vdb t)"
  shows "transients (stored (world s1)) \<le> max 1 (transients (stored (world s)))
     \<and> (if res2 = Done then vdb_Subclusters (stored (world t')) = permanent (stored (world s))
         else permanent (stored (world t')) = permanent (stored (world s)))"
proof -
  from valid_run [OF addTransientToVdb_keeps [OF server, of "max 1 (transients (stored (world s)))" "permanent (stored (world s))"] _ add]
  have 1: "permanent (stored (world s1)) = permanent (stored (world s))"
    "transients (stored (world s1)) \<le> max 1 (transients (stored (world s)))" by auto
  obtain r u where retry: "run_state (RetryOnConflictV (e_Retries E) (storeWithoutTransient E)) t = (r, u)" by (rule prod.exhaust)
  have "permanent (stored (world t)) = permanent (stored (world s))" using between 1(1) by (simp add: permanent_def)
  from valid_run [OF valid_RetryOnConflictV [OF storeWithoutTransient_drops [OF server, of "permanent (stored (world s))"]] this retry]
  have r: "case r of Inl e \<Rightarrow> permanent (stored (world u)) = permanent (stored (world s))
     | Inr _ \<Rightarrow> vdb_Subclusters (stored (world u)) = permanent (stored (world s))" .
  moreover have "t' = u" "res2 = (case r of Inl e \<Rightarrow> Fail e | Inr _ \<Rightarrow> Done)"
    using remove required retry by (auto simp: removeTransientFromVdb_def split: sum.splits)
  ultimately show ?thesis using 1(2) by (auto simp: ret_defs split: sum.splits)
qed

lemma storeEnv_vdb:
  "e_GetVdb storeEnv nm w = (Inr w, w)" "e_UpdateVdb storeEnv v w = (Inr (v\<lparr>vdb_Status := vdb_Status w\<rparr>), v\<lparr>vdb_Status := vdb_Status w\<rparr>)"
  by (simp_all add: storeEnv_def emptyEnv_def Let_def)

lemma RetryOnConflictV_first: "run_state fn s = (Inr a, s') \<Longrightarrow> run_state (RetryOnConflictV n fn) s = (Inr a, s')"
  by (cases n) simp_all

theorem transient_roundtrip_witness:
  "\<exists>o2 s1 o4 t. run_state (addTransientToVdb storeEnv ((MakeOnlineUpgradeReconciler twoScVdb)\<lparr>ou_PrimaryImages := [''old'']\<rparr>))
        (examplePods\<lparr>world := twoScVdb, vdb := twoScVdb\<rparr>) = ((o2, Done), s1)
     \<and> transients (world s1) = 1
     \<and> run_state (removeTransientFromVdb storeEnv o2) s1 = ((o4, Done), t)
     \<and> vdb_Subclusters (world t) = vdb_Subclusters twoScVdb"
proof -
  let ?o = "(MakeOnlineUpgradeReconciler twoScVdb)\<lparr>ou_PrimaryImages := [''old'']\<rparr>"
  let ?s = "examplePods\<lparr>world := twoScVdb, vdb := twoScVdb\<rparr>"
  obtain o2 res1 s1 where add: "run_state (addTransientToVdb storeEnv ?o) ?s = ((o2, res1), s1)" by (metis prod.exhaust)
  have img: "spec_Image (vdb_Spec twoScVdb) \<noteq> ''old''" and req: "RequiresTransientSubcluster twoScVdb"
    and none: "FindTransientSubcluster twoScVdb = None"
    by (simp_all add: twoScVdb_def MakeVDB_def RequiresTransientSubcluster_def FindTransientSubcluster_def zeroSubcluster_def)
  have up: "pf_upNode (exampleFact 0)" "\<not> pf_readOnly (exampleFact 0)" by (simp_all add: exampleFact_def zeroPodFact_def)
  let ?t = "BuildTransientSubcluster twoScVdb ''old''"
  let ?v = "twoScVdb\<lparr>vdb_Spec := (vdb_Spec twoScVdb)\<lparr>spec_Subclusters := vdb_Subclusters twoScVdb @ [?t]\<rparr>\<rparr>"
  have skip: "run_state (skipTransientSetup storeEnv ?o) ?s = (False, ?s)"
    using img up by (simp add: skipTransientSetup_def req rangeDetail_def storeEnv_def emptyEnv_def findPodToRunVsql_def MakeOnlineUpgradeReconciler_def)
  have "ou_TransientSc ?o = None" "fetchOldImage ?o twoScVdb = Some ''old''"
    using img by (simp_all add: fetchOldImage_def MakeOnlineUpgradeReconciler_def)
  moreover obtain f s' where st: "run_state (storeTransient storeEnv ?t) ?s = (Inr (?t, Some f), s')" "world s' = ?v" "vdb s' = ?v"
    by (simp add: storeTransient_def storeEnv_vdb none Let_def Invalidate_def setNeedCollection_def)
  ultimately have s1: "res1 = Done \<and> world s1 = ?v \<and> vdb s1 = ?v"
    using add by (auto simp: addTransientToVdb_def skip RetryOnConflictV_first [OF st(1)])
  have tr: "transients ?v = 1"
    using none by (simp add: transients_def FindTransientSubcluster_None BuildTransientSubcluster_def filter_empty_conv)
  obtain o4 res2 t where rem: "run_state (removeTransientFromVdb storeEnv o2) s1 = ((o4, res2), t)" by (metis prod.exhaust)
  have reqv: "RequiresTransientSubcluster (vdb s1)" using req s1 by (simp add: RequiresTransientSubcluster_def)
  obtain b s2 where first: "run_state (storeWithoutTransient storeEnv) s1 = (Inr b, s2)"
    by (cases "dropTransients (length (vdb_Subclusters (world s1))) (vdb_Subclusters (world s1)) False";
        cases "snd (dropTransients (length (vdb_Subclusters (world s1))) (vdb_Subclusters (world s1)) False)")
      (simp_all add: storeWithoutTransient_def storeEnv_vdb Let_def Invalidate_def setNeedCollection_def)
  have "res2 = Done"
    using rem reqv by (auto simp: removeTransientFromVdb_def RetryOnConflictV_first [OF first])
  moreover have "permanent twoScVdb = vdb_Subclusters twoScVdb"
    using none by (simp add: permanent_def FindTransientSubcluster_None)
  ultimately show ?thesis
    using transient_roundtrip [OF storeEnv_laws(1) add refl rem reqv] add s1 rem tr by auto
qed

end
