(* ===== verification/InitDB.thy ===== *)
theory InitDB
  imports Scale ObjRecon
begin

text \<open>
  Setting up the database for the first time (files init_db.go, createdb_reconcile.go and
  revivedb_reconcile.go of pkg/controllers/vdb, with the packages cloud and license): the generic
  initializer, which collects the credentials of the communal storage, checks and cleans the pods and
  runs one admintools command; its two implementations, create_db and revive_db; and the order in which
  the pods are handed to the command.

  The Go interface \<open>DatabaseInitializer\<close> is a record of operations. The function that strips
  the indentation of a text (package dedent) is a parameter.
\<close>

section \<open>Packages cloud and license\<close>

definition CommunalAccessKeyName :: string where
  "CommunalAccessKeyName = ''accesskey''"
definition CommunalSecretKeyName :: string where
  "CommunalSecretKeyName = ''secretkey''"
definition AzureAccountName :: string where
  "AzureAccountName = ''accountName''"
definition AzureBlobEndpoint :: string where
  "AzureBlobEndpoint = ''blobEndpoint''"
definition AzureAccountKey :: string where
  "AzureAccountKey = ''accountKey''"
definition AzureSharedAccessSignature :: string where
  "AzureSharedAccessSignature = ''sharedAccessSignature''"
definition AzureDefaultProtocol :: string where
  "AzureDefaultProtocol = ''HTTPS''"

record AzureCredential =
  azc_AccountName :: string
  azc_BlobEndpoint :: string
  azc_AccountKey :: string
  azc_SharedAccessSignature :: string

record AzureEndpointConfig =
  aze_AccountName :: string
  aze_BlobEndpoint :: string
  aze_Protocol :: string
  aze_IsMultiAccountEndpoint :: bool

definition zeroAzureCredential :: AzureCredential where
  "zeroAzureCredential = \<lparr>azc_AccountName = [], azc_BlobEndpoint = [], azc_AccountKey = [], azc_SharedAccessSignature = []\<rparr>"

definition zeroAzureEndpointConfig :: AzureEndpointConfig where
  "zeroAzureEndpointConfig = \<lparr>aze_AccountName = [], aze_BlobEndpoint = [], aze_Protocol = [], aze_IsMultiAccountEndpoint = False\<rparr>"

definition IsEndpointBadError :: "string \<Rightarrow> bool" where
  "IsEndpointBadError op \<longleftrightarrow> strings_Contains op ''Unable to connect to endpoint''"

definition IsBucketNotExistError :: "string \<Rightarrow> bool" where
  "IsBucketNotExistError op \<longleftrightarrow> strings_Contains op ''The specified bucket does not exist''"

definition CELicensePath :: string where
  "CELicensePath = ''/home/dbadmin/licensing/ce/vertica_community_edition.license.key''"
definition AuthParmsFile :: string where
  "AuthParmsFile = ''/home/dbadmin/auth_parms.conf''"

text \<open>The license that comes first in alphabetical order.\<close>

definition license_GetPath :: "'w env \<Rightarrow> VerticaDB \<Rightarrow> ('w, goerr + string) op" where
  "license_GetPath E v =
     (if spec_LicenseSecret (vdb_Spec v) = [] then ret_op (Inr CELicensePath)
      else do {
        r \<leftarrow> ask (e_GetSecret E (GenNamespacedName v (spec_LicenseSecret (vdb_Spec v))));
        case r of
          Inl e \<Rightarrow> ret_op (Inl e)
        | Inr data \<Rightarrow>
            if data = [] then ret_op (Inr CELicensePath)
            else ret_op (Inr (MountedLicensePath @ ''/'' @ hd (sort (map fst data))))
      })"

section \<open>The parameters of the communal storage\<close>

definition AWSRegionParm :: string where
  "AWSRegionParm = ''awsregion''"
definition GCloudRegionParm :: string where
  "GCloudRegionParm = ''GCSRegion''"

abbreviation vdb_Communal :: "VerticaDB \<Rightarrow> CommunalStorage" where
  "vdb_Communal v \<equiv> spec_Communal (vdb_Spec v)"

definition getCommunalCredsSecret :: "'w env \<Rightarrow> ('w, (string \<times> string) list \<times> ret) op" where
  "getCommunalCredsSecret E = do { v \<leftarrow> gets_st vdb; getSecret E (GenCommunalCredSecretName v) }"

definition getCommunalAuth :: "'w env \<Rightarrow> ('w, string \<times> ret) op" where
  "getCommunalAuth E = do {
     (secret, res) \<leftarrow> getCommunalCredsSecret E;
     if IsReconcileAborted res then ret_op ([], res)
     else case map_of secret CommunalAccessKeyName of
       None \<Rightarrow> do { Eventf EventTypeWarning ''CommunalCredsWrongKey''; ret_op ([], RequeueNow) }
     | Some accessKey \<Rightarrow>
         (case map_of secret CommunalSecretKeyName of
            None \<Rightarrow> do { Eventf EventTypeWarning ''CommunalCredsWrongKey''; ret_op ([], RequeueNow) }
          | Some secretKey \<Rightarrow>
              ret_op (strings_TrimSuffix accessKey [newline] @ '':'' @ strings_TrimSuffix secretKey [newline], Done))
   }"

definition getCommunalEndpoint :: "VerticaDB \<Rightarrow> string" where
  "getCommunalEndpoint v =
     (let ep = com_Endpoint (vdb_Communal v) in
      case find (strings_HasPrefix ep) [''https://'', ''http://''] of
        Some pref \<Rightarrow> strings_TrimSuffix (drop (length pref) ep) ''/''
      | None \<Rightarrow> ep)"

definition getEnableHTTPS :: "VerticaDB \<Rightarrow> string" where
  "getEnableHTTPS v = (if strings_HasPrefix (com_Endpoint (vdb_Communal v)) ''https://'' then ''1'' else ''0'')"

definition getCAFile :: "VerticaDB \<Rightarrow> string" where
  "getCAFile v = (if com_CaFile (vdb_Communal v) = [] then [] else ''SystemCABundlePath = '' @ com_CaFile (vdb_Communal v))"

definition getRegion :: "VerticaDB \<Rightarrow> string \<Rightarrow> string" where
  "getRegion v parmName =
     (if com_Region (vdb_Communal v) = [] then parmName @ '' = '' @ DefaultS3Region
      else parmName @ '' = '' @ com_Region (vdb_Communal v))"

definition protocolRe :: re where
  "protocolRe = re_seq [Cap (Rep isLower 1 None), Lit ''://'']"
definition hostPortRe :: re where
  "hostPortRe = re_seq [Cap (Rep isLower 1 None), Lit ''://'', Cap (Rep isDot 0 None)]"

definition getEndpointProtocol :: "string \<Rightarrow> string" where
  "getEndpointProtocol blobEndpoint =
     (if blobEndpoint = [] then AzureDefaultProtocol
      else case re_find protocolRe blobEndpoint of
             Some (_, [protocol]) \<Rightarrow> strings_ToUpper protocol
           | _ \<Rightarrow> AzureDefaultProtocol)"

definition getEndpointHostPort :: "string \<Rightarrow> string" where
  "getEndpointHostPort blobEndpoint =
     (case re_find hostPortRe blobEndpoint of
        Some (_, [_, hostPort]) \<Rightarrow> strings_TrimSuffix hostPort ''/''
      | _ \<Rightarrow> blobEndpoint)"

definition getHadoopConfDir :: "VerticaDB \<Rightarrow> string" where
  "getHadoopConfDir v = (if com_HadoopConfig (vdb_Communal v) \<noteq> [] then ''HadoopConfDir = '' @ HadoopConfPath else [])"

text \<open>The value of a key that the secret does not have is the empty string.\<close>

definition dataValue :: "string option \<Rightarrow> string" where
  "dataValue x = (case x of None \<Rightarrow> [] | Some d \<Rightarrow> d)"

definition getAzureAuth :: "'w env \<Rightarrow> ('w, AzureCredential \<times> AzureEndpointConfig \<times> ret) op" where
  "getAzureAuth E = do {
     (secret, res) \<leftarrow> getCommunalCredsSecret E;
     if IsReconcileAborted res then ret_op (zeroAzureCredential, zeroAzureEndpointConfig, res)
     else
       let accountName = map_of secret AzureAccountName;
           blobEndpointRaw = map_of secret AzureBlobEndpoint;
           blobEndpoint = (case blobEndpointRaw of None \<Rightarrow> [] | Some b \<Rightarrow> getEndpointHostPort b);
           accountKey = map_of secret AzureAccountKey;
           sas = map_of secret AzureSharedAccessSignature
       in if accountName = None \<and> blobEndpointRaw = None
          then do {
            Eventf EventTypeWarning ''CommunalCredsWrongKey'';
            ret_op (zeroAzureCredential, zeroAzureEndpointConfig, RequeueNow)
          }
          else if accountKey = None \<and> sas = None \<or> accountKey \<noteq> None \<and> sas \<noteq> None
          then do {
            Eventf EventTypeWarning ''CommunalCredsWrongKey'';
            ret_op (zeroAzureCredential, zeroAzureEndpointConfig, RequeueNow)
          }
          else ret_op
            (\<lparr>azc_AccountName = dataValue accountName, azc_BlobEndpoint = blobEndpoint,
              azc_AccountKey = dataValue accountKey, azc_SharedAccessSignature = dataValue sas\<rparr>,
             \<lparr>aze_AccountName = dataValue accountName, aze_BlobEndpoint = blobEndpoint,
              aze_Protocol = getEndpointProtocol (dataValue blobEndpointRaw), aze_IsMultiAccountEndpoint = False\<rparr>,
             Done)
   }"

text \<open>A text block of the source: every line starts on a new line with the block's indentation.\<close>

definition indented :: "string \<Rightarrow> string list \<Rightarrow> string" where
  "indented indent ls = concat (map (\<lambda>l. newline # indent @ l) ls)"

definition tab :: char where
  "tab = CHR 0x09"

fun strings_TrimLeftSpace :: "string \<Rightarrow> string" where
  "strings_TrimLeftSpace [] = []"
| "strings_TrimLeftSpace (c # s) =
     (if c \<in> {CHR 0x09, CHR 0x0A, CHR 0x0B, CHR 0x0C, CHR 0x0D, CHR '' ''} then strings_TrimLeftSpace s else c # s)"

definition strings_TrimSpace :: "string \<Rightarrow> string" where
  "strings_TrimSpace s = rev (strings_TrimLeftSpace (rev (strings_TrimLeftSpace s)))"

definition getS3AuthParmsContent :: "'w env \<Rightarrow> (string \<Rightarrow> string) \<Rightarrow> ('w, string \<times> ret) op" where
  "getS3AuthParmsContent E dedent = do {
     (auth, res) \<leftarrow> getCommunalAuth E;
     if IsReconcileAborted res then ret_op ([], res)
     else do {
       v \<leftarrow> gets_st vdb;
       ret_op (dedent (indented [tab, tab, tab]
         [''awsauth = '' @ auth, ''awsendpoint = '' @ getCommunalEndpoint v, ''awsenablehttps = '' @ getEnableHTTPS v,
          getRegion v AWSRegionParm, getCAFile v] @ [newline, tab, tab]), Done)
     }
   }"

definition getHDFSAuthParmsContent :: "(string \<Rightarrow> string) \<Rightarrow> ('w, string \<times> ret) op" where
  "getHDFSAuthParmsContent dedent = do {
     v \<leftarrow> gets_st vdb;
     ret_op (strings_TrimSpace (dedent (indented [tab, tab, tab] [getHadoopConfDir v, getCAFile v] @ [newline, tab, tab])), Done)
   }"

definition getKerberosAuthParmsContent :: "(string \<Rightarrow> string) \<Rightarrow> VerticaDB \<Rightarrow> string" where
  "getKerberosAuthParmsContent dedent v =
     dedent (indented [tab, tab, tab]
       [''KerberosServiceName = '' @ com_KerberosServiceName (vdb_Communal v),
        ''KerberosRealm = '' @ com_KerberosRealm (vdb_Communal v),
        ''KerberosKeytabFile = '' @ Krb5Keytab,
        ''KerberosEnableKeytabPermissionCheck = 0''] @ [newline, tab])"

definition getGCloudAuthParmsContent :: "'w env \<Rightarrow> (string \<Rightarrow> string) \<Rightarrow> ('w, string \<times> ret) op" where
  "getGCloudAuthParmsContent E dedent = do {
     (auth, res) \<leftarrow> getCommunalAuth E;
     if IsReconcileAborted res then ret_op ([], res)
     else do {
       v \<leftarrow> gets_st vdb;
       ret_op (dedent (indented [tab, tab]
         [''GCSAuth = '' @ auth, ''GCSEndpoint = '' @ getCommunalEndpoint v, ''GCSEnableHttps = '' @ getEnableHTTPS v,
          getRegion v GCloudRegionParm, getCAFile v] @ [newline, tab]), Done)
     }
   }"

text \<open>The members with a value, with a comma before each but the first.\<close>

definition dquoted :: "string \<Rightarrow> string" where
  "dquoted s = [CHR 0x22] @ s @ [CHR 0x22]"

definition jsonMembers :: "(string \<times> string) list \<Rightarrow> string" where
  "jsonMembers kvs =
     ''[{'' @ strings_Join (map (\<lambda>(k, x). dquoted k @ '': '' @ dquoted x) (filter (\<lambda>(k, x). x \<noteq> []) kvs)) '','' @ ''}]''"

definition getAzureAuthParmsContent :: "'w env \<Rightarrow> (string \<Rightarrow> string) \<Rightarrow> ('w, string \<times> ret) op" where
  "getAzureAuthParmsContent E dedent = do {
     (azureCreds, azureConfig, res) \<leftarrow> getAzureAuth E;
     if IsReconcileAborted res then ret_op ([], res)
     else do {
       v \<leftarrow> gets_st vdb;
       let azureCredsJSON = jsonMembers [(''accountName'', azc_AccountName azureCreds), (''blobEndpoint'', azc_BlobEndpoint azureCreds),
             (''accountKey'', azc_AccountKey azureCreds), (''sharedAccessSignature'', azc_SharedAccessSignature azureCreds)];
           azureConfigJSON = jsonMembers [(''accountName'', aze_AccountName azureConfig), (''blobEndpoint'', aze_BlobEndpoint azureConfig),
             (''protocol'', aze_Protocol azureConfig)]
       in ret_op (dedent (indented (tab # ''  '')
            [''AzureStorageCredentials = '' @ azureCredsJSON, ''AzureStorageEndpointConfig = '' @ azureConfigJSON, getCAFile v]
            @ [newline, tab]), Done)
     }
   }"

definition copyAuthFile :: "'w env \<Rightarrow> NamespacedName \<Rightarrow> string \<Rightarrow> ('w, goerr option) op" where
  "copyAuthFile E atPod content = do {
     (_, _, err) \<leftarrow> ExecInPod E atPod [''bash'', ''-c'',
        ''cat > '' @ AuthParmsFile @ ''<<< '' @ quoted content];
     (case err of None \<Rightarrow> ret_op () | Some e \<Rightarrow> Eventf EventTypeWarning ''AuthParmsCopyFailed'');
     ret_op err
   }"

definition hasCompatibleVersionForKerberos :: "('w, ret) op" where
  "hasCompatibleVersionForKerberos = do {
     v \<leftarrow> gets_st vdb;
     case MakeInfoFromVdb v of
       None \<Rightarrow> ret_op Done
     | Some vinf \<Rightarrow>
         if IsEqualOrNewer vinf ''v11.0.2'' = Some True then ret_op Done
         else do { Eventf EventTypeWarning ''UnsupportedVerticaVersion''; ret_op RequeueNow }
   }"

definition ConstructAuthParms :: "'w env \<Rightarrow> (string \<Rightarrow> string) \<Rightarrow> NamespacedName \<Rightarrow> ('w, ret) op" where
  "ConstructAuthParms E dedent atPod = do {
     v \<leftarrow> gets_st vdb;
     (content, res) \<leftarrow>
       (if IsS3 v then getS3AuthParmsContent E dedent
        else if IsHDFS v then getHDFSAuthParmsContent dedent
        else if IsGCloud v then getGCloudAuthParmsContent E dedent
        else if IsAzure v then getAzureAuthParmsContent E dedent
        else ret_op ([], Fail (OtherErr (''unknown communal storage type: '' @ [CHR 0x27] @ com_Path (vdb_Communal v) @ [CHR 0x27]))));
     if IsReconcileAborted res then ret_op res
     else do {
       kres \<leftarrow> (if HasKerberosConfig v then hasCompatibleVersionForKerberos else ret_op Done);
       if IsReconcileAborted kres then ret_op kres
       else do {
         err \<leftarrow> copyAuthFile E atPod
           (if HasKerberosConfig v
            then dedent (indented [tab, tab, tab] [content, getKerberosAuthParmsContent dedent v])
            else content);
         ret_op (ofErr err)
       }
     }
   }"

definition DestroyAuthParms :: "'w env \<Rightarrow> NamespacedName \<Rightarrow> ('w, goerr option) op" where
  "DestroyAuthParms E atPod = do {
     (_, _, err) \<leftarrow> ExecInPod E atPod [''rm'', AuthParmsFile];
     ret_op err
   }"

section \<open>The generic initializer\<close>

text \<open>
  A pod list is missing when a pod has no facts, and building it may panic: the outer
  \<^const>\<open>None\<close>. The setup before the command may panic in the same way.
\<close>

record 'w DatabaseInitializer =
  in_getPodList :: "('w, PodFact list option option) op"
  in_genCmd :: "string list \<Rightarrow> ('w, goerr + string list) op"
  in_execCmd :: "NamespacedName \<Rightarrow> string list \<Rightarrow> ('w, ret) op"
  in_preCmdSetup :: "NamespacedName \<Rightarrow> ('w, goerr option option) op"
  in_postCmdCleanup :: "('w, ret) op"

definition getHostList :: "PodFact list \<Rightarrow> string list" where
  "getHostList podList = map pf_podIP podList"

definition checkPodList :: "PodFact list \<Rightarrow> bool" where
  "checkPodList podList \<longleftrightarrow> list_all (\<lambda>pod. pf_isPodRunning pod \<and> pf_hasDCTableAnnotations pod) podList"

definition cleanupLocalFilesInPods :: "'w env \<Rightarrow> PodFact list \<Rightarrow> ('w, goerr option) op" where
  "cleanupLocalFilesInPods E podList = do {
     v \<leftarrow> gets_st vdb;
     forErr podList (\<lambda>pod. cleanupLocalFiles E v (pf_name pod))
   }"

text \<open>From the command to the end of \<open>runInit\<close>.\<close>

definition execInit :: "'w env \<Rightarrow> 'w DatabaseInitializer \<Rightarrow> NamespacedName \<Rightarrow> PodFact list \<Rightarrow> ('w, ret) op" where
  "execInit E I atPod podList = do {
     cmd \<leftarrow> in_genCmd I (getHostList podList);
     case cmd of
       Inl e \<Rightarrow> ret_op (Fail e)
     | Inr cmd \<Rightarrow> do {
         res \<leftarrow> in_execCmd I atPod cmd;
         if IsReconcileAborted res then ret_op res
         else do {
           debugDumpAdmintoolsConf E atPod;
           err \<leftarrow> UpdateCondition E \<lparr>cond_Type = DBInitialized, cond_Status = ConditionTrue, cond_LastTransitionTime = zeroTime\<rparr>;
           case err of
             Some e \<Rightarrow> ret_op (Fail e)
           | None \<Rightarrow> do {
               _ \<leftarrow> DestroyAuthParms E atPod;
               Invalidate;
               in_postCmdCleanup I
             }
         }
       }
   }"

text \<open>From the check of the pods to the command.\<close>

definition prepareInit :: "'w env \<Rightarrow> 'w DatabaseInitializer \<Rightarrow> NamespacedName \<Rightarrow> PodFact list \<Rightarrow> ('w, ret) op" where
  "prepareInit E I atPod podList =
     (if \<not> checkPodList podList then ret_op RequeueNow
      else do {
        err \<leftarrow> cleanupLocalFilesInPods E podList;
        case err of
          Some e \<Rightarrow> ret_op (Fail e)
        | None \<Rightarrow> do {
            v \<leftarrow> gets_st vdb;
            err \<leftarrow> changeDepotPermissions E v podList;
            case err of
              Some e \<Rightarrow> ret_op (Fail e)
            | None \<Rightarrow> do {
                debugDumpAdmintoolsConf E atPod;
                execInit E I atPod podList
              }
          }
      })"

definition runInit :: "'w env \<Rightarrow> (string \<Rightarrow> string) \<Rightarrow> 'w DatabaseInitializer \<Rightarrow> ('w, ret) op" where
  "runInit E dedent I = do {
     ps \<leftarrow> rangeDetail E;
     case findPodToRunAdmintoolsOffline ps of
       None \<Rightarrow> ret_op RequeueNow
     | Some atPodFact \<Rightarrow> do {
         let atPod = pf_name atPodFact;
         res \<leftarrow> ConstructAuthParms E dedent atPod;
         if IsReconcileAborted res then ret_op res
         else do {
           err \<leftarrow> in_preCmdSetup I atPod;
           case err of
             None \<Rightarrow> ret_op (GoPanic ''index out of range'')
           | Some (Some e) \<Rightarrow> ret_op (Fail e)
           | Some None \<Rightarrow> do {
               pods \<leftarrow> in_getPodList I;
               case pods of
                 None \<Rightarrow> ret_op (GoPanic ''slice bounds out of range'')
               | Some None \<Rightarrow> ret_op RequeueNow
               | Some (Some podList) \<Rightarrow> prepareInit E I atPod podList
             }
         }
       }
   }"

definition checkAndRunInit :: "'w env \<Rightarrow> (string \<Rightarrow> string) \<Rightarrow> 'w DatabaseInitializer \<Rightarrow> ('w, ret) op" where
  "checkAndRunInit E dedent I = do {
     err \<leftarrow> Collect E;
     case err of
       Some e \<Rightarrow> ret_op (Fail e)
     | None \<Rightarrow> do {
         ps \<leftarrow> rangeDetail E;
         if \<not> doesDBExist ps
         then do {
           res \<leftarrow> runInit E dedent I;
           if IsReconcileAborted res then ret_op res else ret_op Done
         }
         else ret_op Done
       }
   }"

section \<open>Creating a database\<close>

definition PostDBCreateSQLFile :: string where
  "PostDBCreateSQLFile = ''/home/dbadmin/post-db-create.sql''"

definition getFirstPrimarySubcluster :: "VerticaDB \<Rightarrow> Subcluster option" where
  "getFirstPrimarySubcluster v =
     (case find sc_IsPrimary (vdb_Subclusters v) of
        Some sc \<Rightarrow> Some sc
      | None \<Rightarrow> (case vdb_Subclusters v of [] \<Rightarrow> None | sc # _ \<Rightarrow> Some sc))"

definition notEmptyRe :: re where
  "notEmptyRe = re_seq [Lit ''Communal location ['', Rep isDot 1 None, Lit ''] is not empty'']"

definition isCommunalPathNotEmpty :: "string \<Rightarrow> bool" where
  "isCommunalPathNotEmpty op \<longleftrightarrow> re_find notEmptyRe op \<noteq> None"

definition wrongRegionRes :: "re list" where
  "wrongRegionRes =
     [Lit ''You are trying to access your S3 bucket using the wrong region'',
      re_seq [Lit (''the region '' @ [CHR 0x27]), Rep isDot 1 None, Lit ([CHR 0x27] @ '' is wrong; expecting '' @ [CHR 0x27]),
              Rep isDot 1 None, Lit [CHR 0x27]]]"

definition isWrongRegion :: "string \<Rightarrow> bool" where
  "isWrongRegion op \<longleftrightarrow> list_ex (\<lambda>r. re_find r op \<noteq> None) wrongRegionRes"

definition isKerberosAuthError :: "string \<Rightarrow> bool" where
  "isKerberosAuthError op \<longleftrightarrow> re_find (Lit ''An error occurred during kerberos authentication'') op \<noteq> None"

definition CreateDB_execCmd :: "'w env \<Rightarrow> NamespacedName \<Rightarrow> string list \<Rightarrow> ('w, ret) op" where
  "CreateDB_execCmd E atPod cmd = do {
     Eventf EventTypeNormal ''CreateDBStart'';
     (stdout, _, err) \<leftarrow> ExecAdmintools E atPod cmd;
     case err of
       Some e \<Rightarrow>
         if IsEndpointBadError stdout then do { Eventf EventTypeWarning ''S3EndpointIssue''; ret_op RequeueNow }
         else if IsBucketNotExistError stdout then do { Eventf EventTypeWarning ''S3BucketDoesNotExist''; ret_op RequeueNow }
         else if isCommunalPathNotEmpty stdout then do { Eventf EventTypeWarning ''CommunalPathIsNotEmpty''; ret_op RequeueNow }
         else if isWrongRegion stdout then do { Eventf EventTypeWarning ''S3WrongRegion''; ret_op RequeueNow }
         else if isKerberosAuthError stdout then do { Eventf EventTypeWarning ''KerberosAuthError''; ret_op RequeueNow }
         else do { Eventf EventTypeWarning ''CreateDBFailed''; ret_op (Fail e) }
     | None \<Rightarrow> do {
         v \<leftarrow> gets_st vdb;
         case getFirstPrimarySubcluster v of
           None \<Rightarrow> ret_op (GoPanic ''index out of range'')
         | Some sc \<Rightarrow> do { Eventf EventTypeNormal ''CreateDBSucceeded''; ret_op Done }
       }
   }"

definition postDBCreateSQL :: "VerticaDB \<Rightarrow> Subcluster \<Rightarrow> string" where
  "postDBCreateSQL v sc =
     newline # ''     alter subcluster default_subcluster rename to '' @ [CHR 0x5C, CHR 0x22] @ sc_Name sc @ [CHR 0x5C, CHR 0x22]
       @ '';'' @ [newline, tab]
     @ (if spec_KSafety (vdb_Spec v) = KSafety0 then ''select set_preferred_ksafe(0);'' @ [newline] else [])
     @ (if spec_EncryptSpreadComm (vdb_Spec v) \<noteq> []
        then ''alter database default set parameter EncryptSpreadComm = '' @ quoted (spec_EncryptSpreadComm (vdb_Spec v))
             @ '';'' @ [newline, tab, tab]
        else [])"

definition CreateDB_preCmdSetup :: "'w env \<Rightarrow> NamespacedName \<Rightarrow> ('w, goerr option option) op" where
  "CreateDB_preCmdSetup E atPod = do {
     v \<leftarrow> gets_st vdb;
     case getFirstPrimarySubcluster v of
       None \<Rightarrow> ret_op None
     | Some sc \<Rightarrow> do {
         (_, _, err) \<leftarrow> ExecInPod E atPod [''bash'', ''-c'',
            ''cat > '' @ PostDBCreateSQLFile @ ''<<< '' @ dquoted (postDBCreateSQL v sc)];
         case err of
           Some e \<Rightarrow> ret_op (Some (Some e))
         | None \<Rightarrow>
             if spec_EncryptSpreadComm (vdb_Spec v) \<noteq> []
             then do {
               err \<leftarrow> UpdateCondition E \<lparr>cond_Type = VerticaRestartNeeded, cond_Status = ConditionTrue, cond_LastTransitionTime = zeroTime\<rparr>;
               ret_op (Some err)
             }
             else ret_op (Some None)
       }
   }"

definition CreateDB_postCmdCleanup :: "('w, ret) op" where
  "CreateDB_postCmdCleanup = do {
     v \<leftarrow> gets_st vdb;
     ret_op (ctrl_requeue (spec_EncryptSpreadComm (vdb_Spec v) \<noteq> []))
   }"

text \<open>The facts of the named pods, when every one of them has facts.\<close>

fun lookupPods :: "PodFactDetail \<Rightarrow> NamespacedName list \<Rightarrow> PodFact list option" where
  "lookupPods d [] = Some []"
| "lookupPods d (pn # pns) =
     (case map_of d pn of
        None \<Rightarrow> None
      | Some pf \<Rightarrow> map_option (Cons pf) (lookupPods d pns))"

definition subclusterPodNames :: "VerticaDB \<Rightarrow> Subcluster \<Rightarrow> NamespacedName list" where
  "subclusterPodNames v sc = map (GenPodName v sc) [0..sc_Size sc - 1]"

text \<open>
  The pods are sorted by their compat21 node name. The sort of the source keeps the order of pods
  with the same name up to a dozen pods; installed pods have different names.
\<close>

definition CreateDB_getPodList :: "('w, PodFact list option option) op" where
  "CreateDB_getPodList = do {
     v \<leftarrow> gets_st vdb;
     d \<leftarrow> gets_st (\<lambda>s. Detail (pfacts s));
     case getFirstPrimarySubcluster v of
       None \<Rightarrow> ret_op None
     | Some sc \<Rightarrow>
         if sc_Size sc < 0 then ret_op None
         else (case lookupPods d (subclusterPodNames v sc) of
           None \<Rightarrow> ret_op (Some None)
         | Some podList \<Rightarrow> do {
             let podList = sort_key pf_compat21NodeName podList;
             checkShardToNodeRatio v sc;
             if spec_KSafety (vdb_Spec v) = KSafety0
             then (case podList of [] \<Rightarrow> ret_op None | p # _ \<Rightarrow> ret_op (Some (Some [p])))
             else ret_op (Some (Some podList))
           })
   }"

definition createCmd :: "VerticaDB \<Rightarrow> string list \<Rightarrow> string \<Rightarrow> string list" where
  "createCmd v hostList licPath =
     [''-t'', ''create_db'',
      ''--skip-fs-checks'',
      ''--hosts='' @ strings_Join hostList '','',
      ''--communal-storage-location='' @ GetCommunalPath v,
      ''--communal-storage-params='' @ AuthParmsFile,
      ''--sql='' @ PostDBCreateSQLFile,
      ''--shard-count='' @ strconv_Itoa (spec_ShardCount (vdb_Spec v)),
      ''--depot-path='' @ loc_DepotPath (spec_Local (vdb_Spec v)),
      ''--database'', spec_DBName (vdb_Spec v),
      ''--force-cleanup-on-failure'',
      ''--noprompt'',
      ''--license'', licPath]"

definition CreateDB_genCmd :: "'w env \<Rightarrow> string list \<Rightarrow> ('w, goerr + string list) op" where
  "CreateDB_genCmd E hostList = do {
     v \<leftarrow> gets_st vdb;
     licPath \<leftarrow> license_GetPath E v;
     case licPath of
       Inl e \<Rightarrow> ret_op (Inl e)
     | Inr licPath \<Rightarrow> ret_op (Inr (createCmd v hostList licPath))
   }"

definition MakeCreateDBReconciler :: "'w env \<Rightarrow> 'w DatabaseInitializer" where
  "MakeCreateDBReconciler E = \<lparr>in_getPodList = CreateDB_getPodList, in_genCmd = CreateDB_genCmd E,
     in_execCmd = CreateDB_execCmd E, in_preCmdSetup = CreateDB_preCmdSetup E, in_postCmdCleanup = CreateDB_postCmdCleanup\<rparr>"

definition CreateDB_Reconcile :: "'w env \<Rightarrow> (string \<Rightarrow> string) \<Rightarrow> ('w, ret) op" where
  "CreateDB_Reconcile E dedent = do {
     v \<leftarrow> gets_st vdb;
     if spec_InitPolicy (vdb_Spec v) \<noteq> CommunalInitPolicyCreate then ret_op Done
     else checkAndRunInit E dedent (MakeCreateDBReconciler E)
   }"

section \<open>Reviving a database\<close>

definition anyByte :: "char \<Rightarrow> bool" where
  "anyByte c \<longleftrightarrow> True"

definition leaseRe :: re where
  "leaseRe = re_seq [Lit ''the communal storage location'', Rep anyByte 0 None, Lit ''might still be in use'',
     Rep anyByte 0 None, Lit ''cluster lease will expire'']"

definition isClusterLeaseNotExpired :: "string \<Rightarrow> bool" where
  "isClusterLeaseNotExpired op \<longleftrightarrow> re_find leaseRe op \<noteq> None"

definition databaseNotFoundRe :: re where
  "databaseNotFoundRe = re_seq [Lit ''Could not copy file'', Rep anyByte 1 None, Lit '': '',
     Cap (Alt (Lit ''No such file or directory'')
         (Alt (Seq (Rep anyByte 0 None) (Lit ''FileNotFoundException''))
         (Alt (Lit ''File not found'')
              (Seq (Rep anyByte 0 None) (Lit ''blob does not exist'')))))]"

definition isDatabaseNotFound :: "string \<Rightarrow> bool" where
  "isDatabaseNotFound op \<longleftrightarrow> re_find databaseNotFoundRe op \<noteq> None"

definition isPermissionDeniedError :: "string \<Rightarrow> bool" where
  "isPermissionDeniedError op \<longleftrightarrow> strings_Contains op ''Permission Denied''"

definition isNodeCountMismatch :: "string \<Rightarrow> bool" where
  "isNodeCountMismatch op \<longleftrightarrow>
     strings_Contains op ''Error: Node count mismatch'' \<or> strings_Contains op ''Error: Primary node count mismatch''"

definition ReviveDB_execCmd :: "'w env \<Rightarrow> NamespacedName \<Rightarrow> string list \<Rightarrow> ('w, ret) op" where
  "ReviveDB_execCmd E atPod cmd = do {
     Eventf EventTypeNormal ''ReviveDBStart'';
     (stdout, _, err) \<leftarrow> ExecAdmintools E atPod cmd;
     case err of
       Some e \<Rightarrow>
         if isClusterLeaseNotExpired stdout then do { Eventf EventTypeWarning ''ReviveDBClusterInUse''; ret_op RequeueNow }
         else if IsBucketNotExistError stdout then do { Eventf EventTypeWarning ''S3BucketDoesNotExist''; ret_op RequeueNow }
         else if IsEndpointBadError stdout then do { Eventf EventTypeWarning ''S3EndpointIssue''; ret_op RequeueNow }
         else if isDatabaseNotFound stdout then do { Eventf EventTypeWarning ''ReviveDBNotFound''; ret_op RequeueNow }
         else if isPermissionDeniedError stdout then do { Eventf EventTypeWarning ''ReviveDBPermissionDenied''; ret_op RequeueNow }
         else if isNodeCountMismatch stdout then do { Eventf EventTypeWarning ''ReviveDBNodeCountMismatch''; ret_op RequeueNow }
         else if isKerberosAuthError stdout then do { Eventf EventTypeWarning ''KerberosAuthError''; ret_op RequeueNow }
         else do { Eventf EventTypeWarning ''ReviveDBFailed''; ret_op (Fail e) }
     | None \<Rightarrow> do { Eventf EventTypeNormal ''ReviveDBSucceeded''; ret_op Done }
   }"

definition ReviveDB_preCmdSetup :: "NamespacedName \<Rightarrow> ('w, goerr option option) op" where
  "ReviveDB_preCmdSetup atPod = ret_op (Some None)"

definition ReviveDB_postCmdCleanup :: "('w, ret) op" where
  "ReviveDB_postCmdCleanup = ret_op Done"

text \<open>
  The counts of the pods that are left, by the index of the subcluster, and the pods listed so far.
  The first argument of the loop is the number of pods still to add.
\<close>

type_synonym revive_state = "(nat \<Rightarrow> int) \<times> PodFact list"

fun addPodsFromSubcluster :: "VerticaDB \<Rightarrow> PodFactDetail \<Rightarrow> nat \<Rightarrow> nat \<Rightarrow> revive_state \<Rightarrow> revive_state option" where
  "addPodsFromSubcluster v d scIndex 0 (scPodCounts, podList) = Some (scPodCounts, podList)"
| "addPodsFromSubcluster v d scIndex (Suc n) (scPodCounts, podList) =
     (let sc = vdb_Subclusters v ! scIndex;
          podsLeft = scPodCounts scIndex;
          podIndex = wrap32 (sc_Size sc - podsLeft)
      in case map_of d (GenPodName v sc podIndex) of
           None \<Rightarrow> None
         | Some pf \<Rightarrow> addPodsFromSubcluster v d scIndex n
             (scPodCounts(scIndex := wrap32 (podsLeft - 1)), podList @ [pf]))"

fun addByReviveOrder :: "VerticaDB \<Rightarrow> PodFactDetail \<Rightarrow> SubclusterPodCount list \<Rightarrow> revive_state \<Rightarrow> revive_state option" where
  "addByReviveOrder v d [] st = Some st"
| "addByReviveOrder v d (cur # rest) st =
     (if spc_SubclusterIndex cur < 0 \<or> spc_SubclusterIndex cur \<ge> int (length (vdb_Subclusters v)) then None
      else
        let scIndex = nat (spc_SubclusterIndex cur);
            podsLeft = fst st scIndex;
            podsToAdd = (let n = wrap32 (spc_PodCount cur) in if podsLeft < n \<or> n \<le> 0 then podsLeft else n)
        in case addPodsFromSubcluster v d scIndex (nat podsToAdd) st of
             None \<Rightarrow> None
           | Some st' \<Rightarrow> addByReviveOrder v d rest st')"

fun addRemaining :: "VerticaDB \<Rightarrow> PodFactDetail \<Rightarrow> nat list \<Rightarrow> revive_state \<Rightarrow> revive_state option" where
  "addRemaining v d [] st = Some st"
| "addRemaining v d (i # is) st =
     (case addPodsFromSubcluster v d i (nat (fst st i)) st of
        None \<Rightarrow> None
      | Some st' \<Rightarrow> addRemaining v d is st')"

definition initialPodCounts :: "VerticaDB \<Rightarrow> nat \<Rightarrow> int" where
  "initialPodCounts v i = (if i < length (vdb_Subclusters v) then sc_Size (vdb_Subclusters v ! i) else 0)"

definition revivePodList :: "VerticaDB \<Rightarrow> PodFactDetail \<Rightarrow> PodFact list option" where
  "revivePodList v d =
     (case addByReviveOrder v d (spec_ReviveOrder (vdb_Spec v)) (initialPodCounts v, []) of
        None \<Rightarrow> None
      | Some st \<Rightarrow> map_option snd (addRemaining v d [0..<length (vdb_Subclusters v)] st))"

definition ReviveDB_getPodList :: "('w, PodFact list option option) op" where
  "ReviveDB_getPodList = do {
     v \<leftarrow> gets_st vdb;
     d \<leftarrow> gets_st (\<lambda>s. Detail (pfacts s));
     case revivePodList v d of
       None \<Rightarrow> do { Eventf EventTypeWarning ''ReviveOrderBad''; ret_op (Some None) }
     | Some podList \<Rightarrow> ret_op (Some (Some podList))
   }"

definition ReviveDB_genCmd :: "string list \<Rightarrow> ('w, goerr + string list) op" where
  "ReviveDB_genCmd hostList = do {
     v \<leftarrow> gets_st vdb;
     ret_op (Inr
       ([''-t'', ''revive_db'',
         ''--hosts='' @ strings_Join hostList '','',
         ''--communal-storage-location='' @ GetCommunalPath v,
         ''--communal-storage-params='' @ AuthParmsFile,
         ''--database'', spec_DBName (vdb_Spec v)]
        @ (if spec_IgnoreClusterLease (vdb_Spec v) then [''--ignore-cluster-lease''] else [])))
   }"

definition MakeReviveDBReconciler :: "'w env \<Rightarrow> 'w DatabaseInitializer" where
  "MakeReviveDBReconciler E = \<lparr>in_getPodList = ReviveDB_getPodList, in_genCmd = ReviveDB_genCmd,
     in_execCmd = ReviveDB_execCmd E, in_preCmdSetup = ReviveDB_preCmdSetup, in_postCmdCleanup = ReviveDB_postCmdCleanup\<rparr>"

definition ReviveDB_Reconcile :: "'w env \<Rightarrow> (string \<Rightarrow> string) \<Rightarrow> ('w, ret) op" where
  "ReviveDB_Reconcile E dedent = do {
     v \<leftarrow> gets_st vdb;
     if spec_InitPolicy (vdb_Spec v) \<noteq> CommunalInitPolicyRevive then ret_op Done
     else checkAndRunInit E dedent (MakeReviveDBReconciler E)
   }"

section \<open>Lemmas\<close>

text \<open>
  The position of a pod: the index of its subcluster and its own index. The list that revive_db
  uses is described by the positions it goes through.
\<close>

definition podAt :: "VerticaDB \<Rightarrow> nat \<times> int \<Rightarrow> NamespacedName" where
  "podAt v p = GenPodName v (vdb_Subclusters v ! fst p) (snd p)"

definition sizesOk :: "VerticaDB \<Rightarrow> bool" where
  "sizesOk v \<longleftrightarrow> (\<forall>sc \<in> set (vdb_Subclusters v). 0 \<le> sc_Size sc \<and> int32 (sc_Size sc))"

definition orderValid :: "VerticaDB \<Rightarrow> bool" where
  "orderValid v \<longleftrightarrow> (\<forall>cur \<in> set (spec_ReviveOrder (vdb_Spec v)).
     0 \<le> spc_SubclusterIndex cur \<and> spc_SubclusterIndex cur < int (length (vdb_Subclusters v)))"

definition allPodNames :: "VerticaDB \<Rightarrow> NamespacedName list" where
  "allPodNames v = concat (map (subclusterPodNames v) (vdb_Subclusters v))"

lemma lookupPods_append:
  "lookupPods d (xs @ ys) = (case lookupPods d xs of None \<Rightarrow> None | Some l \<Rightarrow> map_option ((@) l) (lookupPods d ys))"
  by (induction xs) (cases "lookupPods d ys"; auto split: option.splits)+

lemma lookupPods_None: "lookupPods d pns = None \<longleftrightarrow> \<not> set pns \<subseteq> dom (map_of d)"
  by (induction pns) (auto split: option.splits)

lemma lookupPods_Some: "lookupPods d pns = Some l \<Longrightarrow> set l \<subseteq> snd ` set d \<and> length l = length pns"
proof (induction pns arbitrary: l)
  case (Cons pn pns)
  then obtain pf l' where "map_of d pn = Some pf" "lookupPods d pns = Some l'" "l = pf # l'"
    by (auto split: option.splits)
  with Cons.IH [of l'] map_of_SomeD [of d pn pf] show ?case by force
qed simp

lemma lookupPods_names:
  "lookupPods d pns = Some l \<Longrightarrow> \<forall>(pn, pf) \<in> set d. pf_name pf = pn \<Longrightarrow> map pf_name l = pns"
proof (induction pns arbitrary: l)
  case (Cons pn pns)
  then obtain pf l' where "map_of d pn = Some pf" "lookupPods d pns = Some l'" "l = pf # l'"
    by (auto split: option.splits)
  with Cons map_of_SomeD [of d pn pf] show ?case by force
qed simp

lemma addPods_lookup:
  assumes "0 \<le> c i" and "int n \<le> c i" and "c i \<le> sc_Size (vdb_Subclusters v ! i)" and "int32 (sc_Size (vdb_Subclusters v ! i))"
  shows "addPodsFromSubcluster v d i n (c, l) =
     map_option (\<lambda>ps. (c(i := c i - int n), l @ ps))
       (lookupPods d (map (\<lambda>k. podAt v (i, k)) [sc_Size (vdb_Subclusters v ! i) - c i..sc_Size (vdb_Subclusters v ! i) - c i + int n - 1]))"
  using assms
proof (induction n arbitrary: c l)
  case 0
  then show ?case by simp
next
  case (Suc n)
  let ?size = "sc_Size (vdb_Subclusters v ! i)"
  have idx: "wrap32 (?size - c i) = ?size - c i" "wrap32 (c i - 1) = c i - 1"
    using Suc.prems by (auto intro!: wrap32_id simp: int32_def)
  have upto: "[?size - c i..?size - c i + int (Suc n) - 1]
      = (?size - c i) # [?size - (c i - 1)..?size - (c i - 1) + int n - 1]"
    by (subst upto.simps) (simp add: algebra_simps)
  have IH: "addPodsFromSubcluster v d i n (c(i := c i - 1), l') =
     map_option (\<lambda>ps. (c(i := c i - int (Suc n)), l' @ ps))
       (lookupPods d (map (\<lambda>k. podAt v (i, k)) [?size - (c i - 1)..?size - (c i - 1) + int n - 1]))" for l'
  proof -
    define c1 where "c1 = c(i := c i - 1)"
    have c1: "c1 i = c i - 1" "c1(i := c i - 1 - int n) = c(i := c i - int (Suc n))" by (simp_all add: c1_def fun_eq_iff)
    have "0 \<le> c1 i" "int n \<le> c1 i" "c1 i \<le> ?size" using Suc.prems c1 by simp_all
    from Suc.IH [of c1 l', OF this Suc.prems(4), unfolded c1] show ?thesis by (simp only: c1_def [symmetric])
  qed
  show ?case
    unfolding upto
    by (cases "map_of d (podAt v (i, ?size - c i))";
        cases "lookupPods d (map (\<lambda>k. podAt v (i, k)) [?size - (c i - 1)..?size - (c i - 1) + int n - 1])")
       (simp_all add: Let_def idx IH [unfolded podAt_def] podAt_def fun_eq_iff)
qed

text \<open>
  What the counts and the list say about the positions visited so far: of every subcluster they are
  an initial segment, in order.
\<close>

definition visited :: "VerticaDB \<Rightarrow> PodFactDetail \<Rightarrow> (nat \<times> int) list \<Rightarrow> revive_state \<Rightarrow> bool" where
  "visited v d poss st \<longleftrightarrow>
     lookupPods d (map (podAt v) poss) = Some (snd st)
     \<and> (\<forall>i. 0 \<le> fst st i \<and> fst st i \<le> initialPodCounts v i
            \<and> filter (\<lambda>p. fst p = i) poss = map (Pair i) [0..initialPodCounts v i - fst st i - 1])"

lemma upto_append: "a \<le> b + 1 \<Longrightarrow> b \<le> c \<Longrightarrow> [a..b] @ [b + 1..c] = [a..c]" for a b c :: int
proof (induction "nat (b - a + 1)" arbitrary: a)
  case 0
  then have "b + 1 = a" by simp
  then show ?case by simp
next
  case (Suc n)
  then have "[a..b] = a # [a + 1..b]" "[a..c] = a # [a + 1..c]" by (simp_all add: upto.simps)
  with Suc show ?case by simp
qed

lemma addPods_visited:
  assumes "sizesOk v" and "visited v d poss st" and "i < length (vdb_Subclusters v)" and "int n \<le> fst st i"
  shows "case addPodsFromSubcluster v d i n st of
     None \<Rightarrow> \<exists>p. 0 \<le> p \<and> p < initialPodCounts v i \<and> podAt v (i, p) \<notin> dom (map_of d)
   | Some st' \<Rightarrow> visited v d (poss @ map (Pair i) [initialPodCounts v i - fst st i..initialPodCounts v i - fst st i + int n - 1]) st'
       \<and> fst st' = (fst st)(i := fst st i - int n)"
proof -
  obtain c l where st: "st = (c, l)" by (rule prod.exhaust)
  let ?size = "initialPodCounts v i"
  have size: "sc_Size (vdb_Subclusters v ! i) = ?size" "int32 ?size"
    using assms(1,3) by (auto simp: initialPodCounts_def sizesOk_def)
  have inv: "lookupPods d (map (podAt v) poss) = Some l" "\<And>j. 0 \<le> c j \<and> c j \<le> initialPodCounts v j"
    "\<And>j. filter (\<lambda>p. fst p = j) poss = map (Pair j) [0..initialPodCounts v j - c j - 1]"
    using assms(2) by (auto simp: visited_def st)
  let ?new = "map (Pair i) [?size - c i..?size - c i + int n - 1]"
  have add: "addPodsFromSubcluster v d i n st = map_option (\<lambda>ps. (c(i := c i - int n), l @ ps)) (lookupPods d (map (podAt v) ?new))"
    using addPods_lookup [of c i n v d l] inv(2) [of i] assms(4) size by (simp add: st o_def)
  show ?thesis
  proof (cases "lookupPods d (map (podAt v) ?new)")
    case None
    then obtain p where "?size - c i \<le> p" "p \<le> ?size - c i + int n - 1" "podAt v (i, p) \<notin> dom (map_of d)"
      unfolding lookupPods_None by fastforce
    then show ?thesis using None add assms(4) inv(2) [of i] by (auto simp: st intro!: exI [of _ p])
  next
    case (Some ps)
    have "filter (\<lambda>p. fst p = j) (poss @ ?new) = map (Pair j) [0..initialPodCounts v j - (c(i := c i - int n)) j - 1]" for j
    proof (cases "j = i")
      case True
      have "[0..?size - c i - 1] @ [?size - c i - 1 + 1..?size - c i + int n - 1] = [0..?size - c i + int n - 1]"
        by (rule upto_append) (use inv(2) [of i] in auto)
      then show ?thesis using True inv(3) [of i] by (simp add: filter_map o_def algebra_simps flip: map_append)
    qed (simp add: inv(3) filter_map o_def)
    moreover have "c i - int n \<le> ?size" using inv(2) [of i] by simp
    ultimately show ?thesis
      using Some add inv(1,2) assms(4) by (simp add: st visited_def lookupPods_append)
  qed
qed

lemma addByReviveOrder_visited:
  assumes "sizesOk v" and "visited v d poss st"
  shows "case addByReviveOrder v d order st of
     None \<Rightarrow> (\<exists>cur \<in> set order. spc_SubclusterIndex cur < 0 \<or> spc_SubclusterIndex cur \<ge> int (length (vdb_Subclusters v)))
        \<or> (\<exists>i p. i < length (vdb_Subclusters v) \<and> 0 \<le> p \<and> p < initialPodCounts v i \<and> podAt v (i, p) \<notin> dom (map_of d))
   | Some st' \<Rightarrow> (\<exists>more. visited v d (poss @ more) st')
        \<and> (\<forall>cur \<in> set order. 0 \<le> spc_SubclusterIndex cur \<and> spc_SubclusterIndex cur < int (length (vdb_Subclusters v)))"
  using assms(2)
proof (induction order arbitrary: poss st)
  case Nil
  then show ?case by (auto intro: exI [of _ "[]"])
next
  case (Cons cur order)
  let ?i = "nat (spc_SubclusterIndex cur)"
  show ?case
  proof (cases "spc_SubclusterIndex cur < 0 \<or> spc_SubclusterIndex cur \<ge> int (length (vdb_Subclusters v))")
    case False
    then have i: "?i < length (vdb_Subclusters v)" by auto
    define n where "n = (let n = wrap32 (spc_PodCount cur) in if fst st ?i < n \<or> n \<le> 0 then fst st ?i else n)"
    have "0 \<le> fst st ?i" using Cons.prems by (simp add: visited_def)
    then have "int (nat n) \<le> fst st ?i" by (auto simp: n_def Let_def)
    note add = addPods_visited [OF assms(1) Cons.prems i this]
    have eq: "addByReviveOrder v d (cur # order) st =
        (case addPodsFromSubcluster v d ?i (nat n) st of None \<Rightarrow> None | Some st' \<Rightarrow> addByReviveOrder v d order st')"
      using False by (simp add: n_def Let_def)
    show ?thesis
    proof (cases "addPodsFromSubcluster v d ?i (nat n) st")
      case None
      with add i show ?thesis unfolding eq by auto
    next
      case (Some st1)
      with add obtain new where "visited v d (poss @ new) st1" by auto
      from Cons.IH [OF this] False show ?thesis
        unfolding eq Some by (auto split: option.splits)
    qed
  qed auto
qed

lemma addRemaining_visited:
  assumes "sizesOk v" and "visited v d poss st" and "set is \<subseteq> {..<length (vdb_Subclusters v)}"
  shows "case addRemaining v d is st of
     None \<Rightarrow> \<exists>i p. i < length (vdb_Subclusters v) \<and> 0 \<le> p \<and> p < initialPodCounts v i \<and> podAt v (i, p) \<notin> dom (map_of d)
   | Some st' \<Rightarrow> (\<exists>more. visited v d (poss @ more) st') \<and> (\<forall>i. fst st' i = (if i \<in> set is then 0 else fst st i))"
  using assms(2,3)
proof (induction "is" arbitrary: poss st)
  case Nil
  then show ?case by (auto intro: exI [of _ "[]"])
next
  case (Cons i "is")
  have n: "int (nat (fst st i)) = fst st i" using Cons.prems(1) by (simp add: visited_def)
  have i: "i < length (vdb_Subclusters v)" using Cons.prems(2) by simp
  note add = addPods_visited [OF assms(1) Cons.prems(1) i, of "nat (fst st i)", unfolded n, simplified]
  show ?case
  proof (cases "addPodsFromSubcluster v d i (nat (fst st i)) st")
    case None
    with add i show ?thesis by auto
  next
    case (Some st1)
    with add obtain new where v1: "visited v d (poss @ new) st1" and c: "fst st1 = (fst st)(i := 0)" by auto
    from Cons.IH [OF v1] Cons.prems(2) Some show ?thesis by (auto simp: c split: option.splits)
  qed
qed

lemma visited_Nil: "sizesOk v \<Longrightarrow> visited v d [] (initialPodCounts v, [])"
  by (auto simp: visited_def initialPodCounts_def sizesOk_def)

text \<open>
  The list of revive_db goes through every pod of every subcluster, the pods of one subcluster in
  the order of their index.
\<close>

lemma revivePodList_positions:
  assumes "sizesOk v" and "revivePodList v d = Some l"
  obtains poss where "lookupPods d (map (podAt v) poss) = Some l"
    and "\<And>i. filter (\<lambda>p. fst p = i) poss = map (Pair i) [0..initialPodCounts v i - 1]"
proof -
  obtain st1 st2 where 1: "addByReviveOrder v d (spec_ReviveOrder (vdb_Spec v)) (initialPodCounts v, []) = Some st1"
    and 2: "addRemaining v d [0..<length (vdb_Subclusters v)] st1 = Some st2" and l: "l = snd st2"
    using assms(2) by (auto simp: revivePodList_def split: option.splits)
  from addByReviveOrder_visited [OF assms(1) visited_Nil [OF assms(1)], where d = d and order = "spec_ReviveOrder (vdb_Spec v)"] 1
  obtain more where v1: "visited v d more st1" by auto
  have "set [0..<length (vdb_Subclusters v)] \<subseteq> {..<length (vdb_Subclusters v)}" by auto
  from addRemaining_visited [OF assms(1) v1 this] 2
  obtain poss where v2: "visited v d poss st2" and c: "\<And>i. fst st2 i = (if i < length (vdb_Subclusters v) then 0 else fst st1 i)"
    by auto
  have "fst st2 i = 0" for i
    using v2 c [of i] by (cases "i < length (vdb_Subclusters v)") (auto simp: visited_def initialPodCounts_def dest: spec [of _ i])
  with v2 l that [of poss] show thesis by (simp add: visited_def)
qed

definition allPositions :: "VerticaDB \<Rightarrow> (nat \<times> int) list" where
  "allPositions v = concat (map (\<lambda>i. map (Pair i) [0..initialPodCounts v i - 1]) [0..<length (vdb_Subclusters v)])"

lemma allPodNames_positions: "allPodNames v = map (podAt v) (allPositions v)"
proof -
  have "map (subclusterPodNames v) (vdb_Subclusters v)
      = map (\<lambda>i. map (podAt v) (map (Pair i) [0..initialPodCounts v i - 1])) [0..<length (vdb_Subclusters v)]"
    by (rule nth_equalityI) (simp_all add: subclusterPodNames_def initialPodCounts_def podAt_def)
  then show ?thesis by (simp add: allPodNames_def allPositions_def map_concat o_def)
qed

lemma filter_allPositions:
  "filter (\<lambda>p. fst p = i) (allPositions v) = map (Pair i) [0..initialPodCounts v i - 1]"
proof -
  have "filter (\<lambda>p. fst p = i) (concat (map (\<lambda>i. map (Pair i) [0..initialPodCounts v i - 1]) [0..<n]))
      = (if i < n then map (Pair i) [0..initialPodCounts v i - 1] else [])" for n
    by (induction n) (auto simp: filter_map o_def less_Suc_eq)
  from this [of "length (vdb_Subclusters v)"] show ?thesis
    by (auto simp: allPositions_def initialPodCounts_def)
qed

lemma mset_eq_by_key:
  assumes "\<And>i. filter (\<lambda>p. f p = i) xs = filter (\<lambda>p. f p = i) ys"
  shows "mset xs = mset ys"
proof (rule multiset_eqI)
  fix x
  have "count (mset zs) x = count (mset (filter (\<lambda>p. f p = f x) zs)) x" for zs by simp
  then show "count (mset xs) x = count (mset ys) x" using assms [of "f x"] by metis
qed

lemma position_names:
  "(\<exists>i p. i < length (vdb_Subclusters v) \<and> 0 \<le> p \<and> p < initialPodCounts v i \<and> podAt v (i, p) \<notin> N)
     \<longleftrightarrow> \<not> set (allPodNames v) \<subseteq> N"
  by (force simp: allPodNames_positions allPositions_def)

lemma revivePodList_Some_iff:
  assumes "sizesOk v"
  shows "revivePodList v d \<noteq> None \<longleftrightarrow> orderValid v \<and> set (allPodNames v) \<subseteq> dom (map_of d)"
proof (cases "revivePodList v d")
  case (Some l)
  then obtain st1 where 1: "addByReviveOrder v d (spec_ReviveOrder (vdb_Spec v)) (initialPodCounts v, []) = Some st1"
    by (auto simp: revivePodList_def split: option.splits)
  have "orderValid v"
    using addByReviveOrder_visited [OF assms visited_Nil [OF assms], where d = d and order = "spec_ReviveOrder (vdb_Spec v)"] 1
    by (auto simp: orderValid_def)
  moreover obtain poss where poss: "lookupPods d (map (podAt v) poss) = Some l"
    "\<And>i. filter (\<lambda>p. fst p = i) poss = map (Pair i) [0..initialPodCounts v i - 1]"
    by (rule revivePodList_positions [OF assms Some]) blast
  have "mset poss = mset (allPositions v)"
    by (rule mset_eq_by_key [where f = fst]) (simp add: poss(2) filter_allPositions)
  then have "set (allPodNames v) = set (map (podAt v) poss)"
    by (metis allPodNames_positions mset_map set_mset_mset)
  ultimately show ?thesis using Some poss(1) lookupPods_None [of d "map (podAt v) poss"] by auto
next
  case None
  have "\<not> orderValid v \<or> \<not> set (allPodNames v) \<subseteq> dom (map_of d)"
  proof (cases "addByReviveOrder v d (spec_ReviveOrder (vdb_Spec v)) (initialPodCounts v, [])")
    case None
    with addByReviveOrder_visited [OF assms visited_Nil [OF assms], where d = d and order = "spec_ReviveOrder (vdb_Spec v)"]
    show ?thesis unfolding position_names [symmetric] orderValid_def by (auto simp: not_le not_less)
  next
    case (Some st1)
    with addByReviveOrder_visited [OF assms visited_Nil [OF assms], where d = d and order = "spec_ReviveOrder (vdb_Spec v)"]
    obtain poss where v1: "visited v d poss st1" by auto
    have "set [0..<length (vdb_Subclusters v)] \<subseteq> {..<length (vdb_Subclusters v)}" by auto
    from addRemaining_visited [OF assms v1 this] None Some
    show ?thesis unfolding position_names [symmetric] by (auto simp: revivePodList_def)
  qed
  then show ?thesis using None by auto
qed

text \<open>
  C6: The list of pods that revive_db is run with exists if and only if every entry of the revive order
  names a subcluster and every pod of every subcluster has facts. Whatever the revive order says (too
  few pods, too many, the same subcluster again and again), the list then has each pod of the resource
  exactly once, and the pods of one subcluster come in the order of their index.
\<close>

theorem revive_covers_all_pods:
  assumes "sizesOk v" and keyed: "\<forall>(pn, pf) \<in> set d. pf_name pf = pn"
  shows "(revivePodList v d \<noteq> None \<longleftrightarrow> orderValid v \<and> set (allPodNames v) \<subseteq> dom (map_of d))
     \<and> (\<forall>l. revivePodList v d = Some l \<longrightarrow>
          mset (map pf_name l) = mset (allPodNames v)
          \<and> (\<exists>poss. map pf_name l = map (podAt v) poss
               \<and> (\<forall>i. filter (\<lambda>p. fst p = i) poss = map (Pair i) [0..initialPodCounts v i - 1])))"
proof (intro conjI allI impI)
  show "revivePodList v d \<noteq> None \<longleftrightarrow> orderValid v \<and> set (allPodNames v) \<subseteq> dom (map_of d)"
    by (rule revivePodList_Some_iff [OF assms(1)])
next
  fix l assume l: "revivePodList v d = Some l"
  obtain poss where poss: "lookupPods d (map (podAt v) poss) = Some l"
    "\<And>i. filter (\<lambda>p. fst p = i) poss = map (Pair i) [0..initialPodCounts v i - 1]"
    by (rule revivePodList_positions [OF assms(1) l]) blast
  have names: "map pf_name l = map (podAt v) poss" by (rule lookupPods_names [OF poss(1) keyed])
  have "mset poss = mset (allPositions v)"
    by (rule mset_eq_by_key [where f = fst]) (simp add: poss(2) filter_allPositions)
  then show "mset (map pf_name l) = mset (allPodNames v)" by (simp add: names allPodNames_positions)
  show "\<exists>poss. map pf_name l = map (podAt v) poss
      \<and> (\<forall>i. filter (\<lambda>p. fst p = i) poss = map (Pair i) [0..initialPodCounts v i - 1])"
    using names poss(2) by blast
qed

text \<open>Two subclusters, revived starting with the second one; the first has fewer pods than the order asks for.\<close>

definition reviveVdb :: VerticaDB where
  "reviveVdb = MakeVDB\<lparr>vdb_Spec := (vdb_Spec MakeVDB)\<lparr>
     spec_InitPolicy := CommunalInitPolicyRevive,
     spec_Subclusters := [zeroSubcluster\<lparr>sc_Name := ''a'', sc_Size := 2, sc_IsPrimary := True\<rparr>, zeroSubcluster\<lparr>sc_Name := ''b'', sc_Size := 1\<rparr>],
     spec_ReviveOrder := [\<lparr>spc_SubclusterIndex = 1, spc_PodCount = 1\<rparr>, \<lparr>spc_SubclusterIndex = 0, spc_PodCount = 5\<rparr>]\<rparr>\<rparr>"

definition factsFor :: "NamespacedName list \<Rightarrow> PodFactDetail" where
  "factsFor pns = map (\<lambda>pn. (pn, zeroPodFact\<lparr>pf_name := pn\<rparr>)) pns"

lemma factsFor_simps [simp]: "dom (map_of (factsFor pns)) = set pns" "\<forall>(pn, pf) \<in> set (factsFor pns). pf_name pf = pn"
  by (auto simp: factsFor_def dom_map_of_conv_image_fst image_image)

theorem revive_covers_all_pods_witness:
  "\<exists>l. revivePodList reviveVdb (factsFor (allPodNames reviveVdb)) = Some l
     \<and> mset (map pf_name l) = mset (allPodNames reviveVdb) \<and> length l = 3"
proof -
  have ok: "sizesOk reviveVdb" "orderValid reviveVdb"
    by (simp_all add: sizesOk_def orderValid_def reviveVdb_def zeroSubcluster_def int32_def)
  have len: "length (allPodNames reviveVdb) = 3"
    by (simp add: allPodNames_def subclusterPodNames_def reviveVdb_def zeroSubcluster_def)
  note covers = revive_covers_all_pods [OF ok(1) factsFor_simps(2) [of "allPodNames reviveVdb"]]
  from covers ok(2) obtain l where l: "revivePodList reviveVdb (factsFor (allPodNames reviveVdb)) = Some l" by auto
  with covers have m: "mset (map pf_name l) = mset (allPodNames reviveVdb)" by blast
  then have "length l = 3" using len by (metis length_map mset_eq_length)
  with l m show ?thesis by blast
qed

section \<open>What the initializers do to the pods\<close>

text \<open>
  The contract of an initializer: its steps leave the facts alone and change nothing in a pod but the
  file with the SQL commands, except for the one admintools command; the command names the hosts it was
  generated for; the pods it lists are pods with facts.
\<close>

definition setupOnly :: "obs \<Rightarrow> bool" where
  "setupOnly x \<longleftrightarrow> (\<forall>nm cmd. x \<noteq> ObsExec AT nm cmd) \<and> (\<forall>k nm rest. x \<noteq> ObsExec k nm (''rm'' # ''-r'' # rest))"

definition hostsArg :: "string list \<Rightarrow> string" where
  "hostsArg hosts = ''--hosts='' @ strings_Join hosts '',''"

locale database_initializer =
  fixes I :: "'w DatabaseInitializer"
  assumes getPodList_spec: "spec (\<lambda>s. Detail (pfacts s) = D) setupOnly (in_getPodList I)
       (\<lambda>r s. Detail (pfacts s) = D \<and> (\<forall>l. r = Some (Some l) \<longrightarrow> set l \<subseteq> snd ` set D))"
    and genCmd_spec: "spec (\<lambda>s. Detail (pfacts s) = D) setupOnly (in_genCmd I hosts)
       (\<lambda>r s. Detail (pfacts s) = D \<and> (\<forall>cmd. r = Inr cmd \<longrightarrow> hostsArg hosts \<in> set cmd))"
    and execCmd_spec: "spec (\<lambda>s. Detail (pfacts s) = D) (\<lambda>x. x = ObsExec AT nm cmd \<or> setupOnly x) (in_execCmd I nm cmd)
       (\<lambda>_ s. Detail (pfacts s) = D)"
    and preCmdSetup_spec: "spec (\<lambda>s. Detail (pfacts s) = D) setupOnly (in_preCmdSetup I nm) (\<lambda>_ s. Detail (pfacts s) = D)"
    and postCmdCleanup_spec: "spec (\<lambda>s. Detail (pfacts s) = D) setupOnly (in_postCmdCleanup I) (\<lambda>_ s. Detail (pfacts s) = D)"

text \<open>
  What is allowed when the facts are \<^term>\<open>D\<close>: files are removed from, and admintools is run for,
  pods that are running and carry their annotations, and only while no pod has a database.
\<close>

definition initAllowed :: "PodFactDetail \<Rightarrow> obs \<Rightarrow> bool" where
  "initAllowed D x \<longleftrightarrow>
     setupOnly x
     \<or> \<not> doesDBExist (map snd D)
        \<and> (\<exists>l. set l \<subseteq> snd ` set D \<and> checkPodList l
             \<and> ((\<exists>nm cmd. x = ObsExec AT nm cmd \<and> hostsArg (getHostList l) \<in> set cmd)
                \<or> (\<exists>k nm rest. x = ObsExec k nm (''rm'' # ''-r'' # rest) \<and> nm \<in> pf_name ` set l)))"

lemma initAllowed_setup: "setupOnly x \<Longrightarrow> initAllowed D x"
  by (simp add: initAllowed_def)

lemma setupOnly_simps [simp]:
  "setupOnly (ObsEvent ty r)" "setupOnly (ObsUpdateStatus v)" "setupOnly (ObsExec VSQL nm (q # rest)) \<longleftrightarrow> q \<noteq> ''rm'' \<or> (\<forall>r. rest \<noteq> ''-r'' # r)"
  "setupOnly (ObsExec InPod nm (''bash'' # rest))" "setupOnly (ObsExec InPod nm [''rm'', AuthParmsFile])"
  "setupOnly (ObsExec InPod nm (''sudo'' # rest))"
  by (auto simp: setupOnly_def AuthParmsFile_def)

lemma statusWrite_setup: "statusWrite x \<Longrightarrow> setupOnly x"
  by (auto simp: statusWrite_def)

lemma probe_setup: "probe x \<Longrightarrow> setupOnly x"
  by (auto simp: probe_def setupOnly_def prefix_def)

lemma spec_detail:
  "(\<And>F. spec (\<lambda>s. pfacts s = F) \<Phi> m (\<lambda>_ s. pfacts s = F)) \<Longrightarrow>
   spec (\<lambda>s. Detail (pfacts s) = D) \<Phi> m (\<lambda>_ s. Detail (pfacts s) = D)"
  unfolding spec_def by (fastforce split: prod.splits)

lemma spec_UpdateCondition_setup:
  "spec (\<lambda>s. Detail (pfacts s) = D) setupOnly (UpdateCondition E c) (\<lambda>_ s. Detail (pfacts s) = D)"
  by (rule spec_weaken [OF spec_detail [OF spec_UpdateCondition]]) (auto simp: statusWrite_setup)

lemma spec_getSecret: "localPred P \<Longrightarrow> spec P setupOnly (getSecret E nm) (\<lambda>_. P)"
  unfolding getSecret_def getConfigMapOrSecret_def by (intro spec_rules) simp_all

lemma spec_auth:
  assumes "localPred P"
  shows "spec P setupOnly (getCommunalAuth E) (\<lambda>_. P)" "spec P setupOnly (getAzureAuth E) (\<lambda>_. P)"
  unfolding getCommunalAuth_def getAzureAuth_def getCommunalCredsSecret_def Let_def
  by (intro spec_rules spec_getSecret assms; simp)+

lemma spec_ConstructAuthParms:
  assumes "localPred P"
  shows "spec P setupOnly (ConstructAuthParms E dedent nm) (\<lambda>_. P)"
  unfolding ConstructAuthParms_def getS3AuthParmsContent_def getHDFSAuthParmsContent_def getGCloudAuthParmsContent_def
    getAzureAuthParmsContent_def copyAuthFile_def hasCompatibleVersionForKerberos_def Let_def
  by (intro spec_rules spec_auth assms; simp)

lemma spec_debugDump_setup: "localPred P \<Longrightarrow> spec P setupOnly (debugDumpAdmintoolsConf E nm) (\<lambda>_. P)"
  unfolding debugDumpAdmintoolsConf_def dumpCmd_def by (intro spec_rules) simp_all

lemma spec_changeDepot: "localPred P \<Longrightarrow> spec P setupOnly (changeDepotPermissions E v l) (\<lambda>_. P)"
  unfolding changeDepotPermissions_def by (intro spec_rules) simp_all

lemma spec_cleanup:
  assumes "localPred P"
  shows "spec P (\<lambda>x. setupOnly x \<or> (\<exists>nm rest. x = ObsExec InPod nm (''rm'' # ''-r'' # rest) \<and> nm \<in> pf_name ` set l))
      (cleanupLocalFilesInPods E l) (\<lambda>_. P)"
  unfolding cleanupLocalFilesInPods_def cleanupLocalFiles_def by (intro spec_rules assms; auto)

context database_initializer
begin

lemma execInit_spec:
  assumes "\<not> doesDBExist (map snd D)" and "set l \<subseteq> snd ` set D" and "checkPodList l"
  shows "spec (\<lambda>s. Detail (pfacts s) = D) (initAllowed D) (execInit E I nm l) (\<lambda>_ s. Detail (pfacts s) = D)"
  (is "spec ?P _ _ _")
proof -
  have gen: "spec ?P (initAllowed D) (in_genCmd I (getHostList l)) (\<lambda>r s. ?P s \<and> (\<forall>cmd. r = Inr cmd \<longrightarrow> hostsArg (getHostList l) \<in> set cmd))"
    by (rule spec_weaken [OF genCmd_spec]) (auto intro: initAllowed_setup)
  have exec: "spec ?P (initAllowed D) (in_execCmd I nm cmd) (\<lambda>_. ?P)" if "hostsArg (getHostList l) \<in> set cmd" for cmd
    by (rule spec_weaken [OF execCmd_spec]) (use that assms in \<open>auto simp: initAllowed_def\<close>)
  have dump: "spec ?P (initAllowed D) (debugDumpAdmintoolsConf E nm) (\<lambda>_. ?P)"
    by (rule spec_weaken [OF spec_debugDump_setup]) (auto intro: initAllowed_setup)
  have cond: "spec ?P (initAllowed D) (UpdateCondition E c) (\<lambda>_. ?P)" for c
    by (rule spec_weaken [OF spec_UpdateCondition_setup]) (auto intro: initAllowed_setup)
  have post: "spec ?P (initAllowed D) (in_postCmdCleanup I) (\<lambda>_. ?P)"
    by (rule spec_weaken [OF postCmdCleanup_spec]) (auto intro: initAllowed_setup)
  have inv: "spec ?P (initAllowed D) Invalidate (\<lambda>_. ?P)" by (rule spec_Invalidate) simp
  have del: "spec ?P (initAllowed D) (DestroyAuthParms E nm) (\<lambda>_. ?P)"
    unfolding DestroyAuthParms_def by (intro spec_rules; simp add: initAllowed_setup)
  have tail: "spec ?P (initAllowed D)
      (case r of Inl e \<Rightarrow> ret_op (Fail e) | Inr cmd \<Rightarrow> do {
         res \<leftarrow> in_execCmd I nm cmd;
         if IsReconcileAborted res then ret_op res
         else do {
           debugDumpAdmintoolsConf E nm;
           err \<leftarrow> UpdateCondition E \<lparr>cond_Type = DBInitialized, cond_Status = ConditionTrue, cond_LastTransitionTime = zeroTime\<rparr>;
           case err of
             Some e \<Rightarrow> ret_op (Fail e)
           | None \<Rightarrow> do { _ \<leftarrow> DestroyAuthParms E nm; Invalidate; in_postCmdCleanup I }
         }}) (\<lambda>_. ?P)"
    if "\<forall>cmd. r = Inr cmd \<longrightarrow> hostsArg (getHostList l) \<in> set cmd" for r
    using that by (intro spec_rules dump cond post inv del exec) auto
  show ?thesis
    unfolding execInit_def by (rule spec_bind [OF gen]) (rule spec_pre_pure, rule tail)
qed

lemma prepareInit_spec:
  assumes "\<not> doesDBExist (map snd D)" and "set l \<subseteq> snd ` set D"
  shows "spec (\<lambda>s. Detail (pfacts s) = D) (initAllowed D) (prepareInit E I nm l) (\<lambda>_ s. Detail (pfacts s) = D)"
  (is "spec ?P _ _ _")
proof -
  have dump: "spec ?P (initAllowed D) (debugDumpAdmintoolsConf E nm) (\<lambda>_. ?P)"
    by (rule spec_weaken [OF spec_debugDump_setup]) (auto intro: initAllowed_setup)
  have depot: "spec ?P (initAllowed D) (changeDepotPermissions E v l) (\<lambda>_. ?P)" for v
    by (rule spec_weaken [OF spec_changeDepot]) (auto intro: initAllowed_setup)
  have clean: "spec ?P (initAllowed D) (cleanupLocalFilesInPods E l) (\<lambda>_. ?P)" if "checkPodList l"
    by (rule spec_weaken [OF spec_cleanup]) (use that assms in \<open>auto simp: initAllowed_def\<close>)
  show ?thesis
    unfolding prepareInit_def by (intro spec_rules dump depot clean execInit_spec assms) auto
qed

lemma runInit_spec:
  assumes "\<not> doesDBExist (map snd D)"
  shows "spec (\<lambda>s. Detail (pfacts s) = D) (initAllowed D) (runInit E dedent I) (\<lambda>_ s. Detail (pfacts s) = D)"
  (is "spec ?P _ _ _")
proof -
  have auth: "spec ?P (initAllowed D) (ConstructAuthParms E dedent nm) (\<lambda>_. ?P)" for nm
    by (rule spec_weaken [OF spec_ConstructAuthParms]) (auto intro: initAllowed_setup)
  have pre: "spec ?P (initAllowed D) (in_preCmdSetup I nm) (\<lambda>_. ?P)" for nm
    by (rule spec_weaken [OF preCmdSetup_spec]) (auto intro: initAllowed_setup)
  have pods: "spec ?P (initAllowed D) (in_getPodList I) (\<lambda>r s. ?P s \<and> (\<forall>l. r = Some (Some l) \<longrightarrow> set l \<subseteq> snd ` set D))"
    by (rule spec_weaken [OF getPodList_spec]) (auto intro: initAllowed_setup)
  have tail: "spec ?P (initAllowed D)
      (case r of None \<Rightarrow> ret_op (GoPanic m) | Some None \<Rightarrow> ret_op RequeueNow | Some (Some l) \<Rightarrow> prepareInit E I nm l) (\<lambda>_. ?P)"
    if "\<forall>l. r = Some (Some l) \<longrightarrow> set l \<subseteq> snd ` set D" for r nm m
    using that by (intro spec_rules prepareInit_spec assms) auto
  have list: "spec ?P (initAllowed D) (in_getPodList I \<bind> (\<lambda>r. case r of None \<Rightarrow> ret_op (GoPanic m) | Some None \<Rightarrow> ret_op RequeueNow
        | Some (Some l) \<Rightarrow> prepareInit E I nm l)) (\<lambda>_. ?P)" for nm m
    by (rule spec_bind [OF pods]) (rule spec_pre_pure, rule tail)
  show ?thesis
    unfolding runInit_def Let_def by (intro list spec_rules auth pre) simp_all
qed

text \<open>A reconcile iteration of an initializer, judged by the facts it collected.\<close>

lemma checkAndRunInit_ends:
  assumes "rangeLaw E"
  shows "ends (\<lambda>s x. initAllowed (Detail (pfacts s)) x) (checkAndRunInit E dedent I)" (is "ends ?\<Phi> _")
proof -
  have run: "ends ?\<Phi> (do { ps \<leftarrow> rangeDetail E;
       if \<not> doesDBExist ps then do { res \<leftarrow> runInit E dedent I; if IsReconcileAborted res then ret_op res else ret_op Done }
       else ret_op Done })"
  proof (rule ends_spec)
    fix t :: "'w st"
    let ?D = "Detail (pfacts t)"
    have "spec (\<lambda>s. Detail (pfacts s) = ?D) (initAllowed ?D) (do { ps \<leftarrow> rangeDetail E;
       if \<not> doesDBExist ps then do { res \<leftarrow> runInit E dedent I; if IsReconcileAborted res then ret_op res else ret_op Done }
       else ret_op Done }) (\<lambda>_ s. Detail (pfacts s) = ?D)"
    proof (rule spec_bind_range [OF assms, where D = ?D])
      fix ps :: "PodFact list"
      assume "set ps = snd ` set ?D"
      then have "doesDBExist ps \<longleftrightarrow> doesDBExist (map snd ?D)" by (simp add: doesDBExist_def list_ex_iff)
      then show "spec (\<lambda>s. Detail (pfacts s) = ?D) (initAllowed ?D)
         (if \<not> doesDBExist ps then do { res \<leftarrow> runInit E dedent I; if IsReconcileAborted res then ret_op res else ret_op Done }
          else ret_op Done) (\<lambda>_ s. Detail (pfacts s) = ?D)"
        by (intro spec_rules runInit_spec) simp
    qed simp_all
    then show "spec (\<lambda>s. s = t) (initAllowed ?D) (do { ps \<leftarrow> rangeDetail E;
       if \<not> doesDBExist ps then do { res \<leftarrow> runInit E dedent I; if IsReconcileAborted res then ret_op res else ret_op Done }
       else ret_op Done }) (\<lambda>_ s'. \<forall>x. initAllowed ?D x \<longrightarrow> initAllowed (Detail (pfacts s')) x)"
      by (rule spec_weaken) auto
  qed
  show ?thesis
    unfolding checkAndRunInit_def
    by (rule ends_prefix [OF spec_Collect_any]) (auto intro: initAllowed_setup probe_setup intro!: ends_rules run split: option.split)
qed

end

text \<open>Both initializers keep the contract.\<close>

lemma checkShard_setup: "localPred P \<Longrightarrow> spec P setupOnly (checkShardToNodeRatio v sc) (\<lambda>_. P)"
  unfolding checkShardToNodeRatio_def by (intro spec_rules) simp_all

lemma addPods_sub:
  "addPodsFromSubcluster v d i n (c, l) = Some (c', l') \<Longrightarrow> set l \<subseteq> snd ` set d \<Longrightarrow> set l' \<subseteq> snd ` set d"
proof (induction n arbitrary: c l)
  case (Suc n)
  then obtain pf where pf: "map_of d (GenPodName v (vdb_Subclusters v ! i) (wrap32 (sc_Size (vdb_Subclusters v ! i) - c i))) = Some pf"
    "addPodsFromSubcluster v d i n (c(i := wrap32 (c i - 1)), l @ [pf]) = Some (c', l')"
    by (auto simp: Let_def split: option.splits)
  have "pf \<in> snd ` set d" using map_of_SomeD [OF pf(1)] by (force intro: rev_image_eqI)
  with Suc.IH [OF pf(2)] Suc.prems(2) show ?case by simp
qed simp

lemma addByReviveOrder_sub:
  "addByReviveOrder v d order st = Some st' \<Longrightarrow> set (snd st) \<subseteq> snd ` set d \<Longrightarrow> set (snd st') \<subseteq> snd ` set d"
proof (induction order arbitrary: st)
  case (Cons cur order)
  obtain n st1 where st1: "addPodsFromSubcluster v d (nat (spc_SubclusterIndex cur)) n st = Some st1"
    "addByReviveOrder v d order st1 = Some st'"
    using Cons.prems(1) by (auto simp: Let_def split: if_splits option.splits)
  have "set (snd st1) \<subseteq> snd ` set d"
    using addPods_sub [of v d _ n "fst st" "snd st" "fst st1" "snd st1"] st1(1) Cons.prems(2) by simp
  then show ?case by (rule Cons.IH [OF st1(2)])
qed simp

lemma addRemaining_sub:
  "addRemaining v d is st = Some st' \<Longrightarrow> set (snd st) \<subseteq> snd ` set d \<Longrightarrow> set (snd st') \<subseteq> snd ` set d"
proof (induction "is" arbitrary: st)
  case (Cons i "is")
  obtain st1 where st1: "addPodsFromSubcluster v d i (nat (fst st i)) st = Some st1" "addRemaining v d is st1 = Some st'"
    using Cons.prems(1) by (auto split: option.splits)
  have "set (snd st1) \<subseteq> snd ` set d"
    using addPods_sub [of v d i _ "fst st" "snd st" "fst st1" "snd st1"] st1(1) Cons.prems(2) by simp
  then show ?case by (rule Cons.IH [OF st1(2)])
qed simp

lemma revivePodList_sub: "revivePodList v d = Some l \<Longrightarrow> set l \<subseteq> snd ` set d"
  by (auto simp: revivePodList_def split: option.splits dest!: addByReviveOrder_sub addRemaining_sub)

lemma spec_pair:
  "spec P \<Phi> m (\<lambda>_. P) \<Longrightarrow> (\<And>s a s'. P s \<Longrightarrow> run_state m s = (a, s') \<Longrightarrow> Q a) \<Longrightarrow> spec P \<Phi> m (\<lambda>r s. P s \<and> Q r)"
  unfolding spec_def by (fastforce split: prod.splits)

lemma sort_key_hd: "sort_key f xs = y # ys \<Longrightarrow> y \<in> set xs"
  by (metis list.set_intros(1) set_sort)

lemma createPodList_sub:
  assumes "run_state CreateDB_getPodList s = (Some (Some l), s')"
  shows "set l \<subseteq> snd ` set (Detail (pfacts s))"
  using assms unfolding CreateDB_getPodList_def Let_def
  by (simp split: option.splits if_splits list.splits prod.splits)
     (auto dest!: lookupPods_Some sort_key_hd)

lemma createGenCmd_hosts:
  assumes "run_state (CreateDB_genCmd E hosts) s = (Inr cmd, s')"
  shows "hostsArg hosts \<in> set cmd"
proof -
  have mem: "h \<in> set (a # b # c # h # rest)" for h a b c :: string and rest by simp
  obtain r s1 where r: "run_state (license_GetPath E (vdb s)) s = (r, s1)" by (rule prod.exhaust)
  have "run_state (CreateDB_genCmd E hosts) s
      = run_state (case r of Inl e \<Rightarrow> ret_op (Inl e) | Inr licPath \<Rightarrow> ret_op (Inr (createCmd (vdb s) hosts licPath))) s1"
    unfolding CreateDB_genCmd_def by (simp add: r)
  with assms obtain licPath where cmd: "cmd = createCmd (vdb s) hosts licPath" by (cases r) (simp_all, blast)
  show ?thesis unfolding cmd createCmd_def hostsArg_def by (rule mem)
qed

lemma spec_license: "localPred P \<Longrightarrow> spec P setupOnly (license_GetPath E v) (\<lambda>_. P)"
  unfolding license_GetPath_def by (intro spec_if spec_ret_inv spec_bind_inv spec_ask spec_sum)

lemma spec_createGenCmd: "localPred P \<Longrightarrow> spec P setupOnly (CreateDB_genCmd E hosts) (\<lambda>_. P)"
  unfolding CreateDB_genCmd_def by (intro spec_bind_inv spec_gets_inv spec_license spec_sum spec_ret_inv)

interpretation createDB: database_initializer "MakeCreateDBReconciler E" for E :: "'w env"
proof
  fix D :: PodFactDetail and hosts cmd :: "string list" and nm :: NamespacedName
  let ?P = "\<lambda>s :: 'w st. Detail (pfacts s) = D"
  have "spec ?P setupOnly CreateDB_getPodList (\<lambda>_. ?P)"
    unfolding CreateDB_getPodList_def Let_def by (intro spec_rules checkShard_setup; simp)
  then show "spec ?P setupOnly (in_getPodList (MakeCreateDBReconciler E)) (\<lambda>r s. ?P s \<and> (\<forall>l. r = Some (Some l) \<longrightarrow> set l \<subseteq> snd ` set D))"
    unfolding MakeCreateDBReconciler_def DatabaseInitializer.simps
    by (rule spec_pair) (use createPodList_sub in blast)
  show "spec ?P setupOnly (in_genCmd (MakeCreateDBReconciler E) hosts) (\<lambda>r s. ?P s \<and> (\<forall>cmd. r = Inr cmd \<longrightarrow> hostsArg hosts \<in> set cmd))"
    unfolding MakeCreateDBReconciler_def DatabaseInitializer.simps
    by (rule spec_pair) (rule spec_createGenCmd, simp, use createGenCmd_hosts in blast)
  show "spec ?P (\<lambda>x. x = ObsExec AT nm cmd \<or> setupOnly x) (in_execCmd (MakeCreateDBReconciler E) nm cmd) (\<lambda>_. ?P)"
    unfolding MakeCreateDBReconciler_def DatabaseInitializer.simps CreateDB_execCmd_def by (intro spec_rules; simp)
  show "spec ?P setupOnly (in_preCmdSetup (MakeCreateDBReconciler E) nm) (\<lambda>_. ?P)"
    unfolding MakeCreateDBReconciler_def DatabaseInitializer.simps CreateDB_preCmdSetup_def
    by (intro spec_rules spec_UpdateCondition_setup; simp)
  show "spec ?P setupOnly (in_postCmdCleanup (MakeCreateDBReconciler E)) (\<lambda>_. ?P)"
    unfolding MakeCreateDBReconciler_def DatabaseInitializer.simps CreateDB_postCmdCleanup_def by (intro spec_rules)
qed

interpretation reviveDB: database_initializer "MakeReviveDBReconciler E" for E :: "'w env"
proof
  fix D :: PodFactDetail and hosts cmd :: "string list" and nm :: NamespacedName
  let ?P = "\<lambda>s :: 'w st. Detail (pfacts s) = D"
  have "spec ?P setupOnly ReviveDB_getPodList (\<lambda>_. ?P)"
    unfolding ReviveDB_getPodList_def by (intro spec_rules; simp)
  then show "spec ?P setupOnly (in_getPodList (MakeReviveDBReconciler E)) (\<lambda>r s. ?P s \<and> (\<forall>l. r = Some (Some l) \<longrightarrow> set l \<subseteq> snd ` set D))"
    unfolding MakeReviveDBReconciler_def DatabaseInitializer.simps
    by (rule spec_pair) (auto simp: ReviveDB_getPodList_def split: option.splits dest!: revivePodList_sub)
  show "spec ?P setupOnly (in_genCmd (MakeReviveDBReconciler E) hosts) (\<lambda>r s. ?P s \<and> (\<forall>cmd. r = Inr cmd \<longrightarrow> hostsArg hosts \<in> set cmd))"
    unfolding MakeReviveDBReconciler_def DatabaseInitializer.simps
    by (rule spec_pair) (unfold ReviveDB_genCmd_def, intro spec_rules, auto simp: hostsArg_def)
  show "spec ?P (\<lambda>x. x = ObsExec AT nm cmd \<or> setupOnly x) (in_execCmd (MakeReviveDBReconciler E) nm cmd) (\<lambda>_. ?P)"
    unfolding MakeReviveDBReconciler_def DatabaseInitializer.simps ReviveDB_execCmd_def by (intro spec_rules; simp)
  show "spec ?P setupOnly (in_preCmdSetup (MakeReviveDBReconciler E) nm) (\<lambda>_. ?P)"
    unfolding MakeReviveDBReconciler_def DatabaseInitializer.simps ReviveDB_preCmdSetup_def by (intro spec_rules)
  show "spec ?P setupOnly (in_postCmdCleanup (MakeReviveDBReconciler E)) (\<lambda>_. ?P)"
    unfolding MakeReviveDBReconciler_def DatabaseInitializer.simps ReviveDB_postCmdCleanup_def by (intro spec_rules)
qed

text \<open>
  C9: Creating and reviving a database never touch one that exists. By the facts the iteration
  collected, every removal of local files and every admintools command happens while no pod has a
  database, for a list of pods that are all running and carry the annotations of the data collector
  table; the admintools command names exactly the addresses of that list, and files are only removed
  from its pods.
\<close>

theorem init_only_without_db:
  assumes "rangeLaw E" and "R \<in> {CreateDB_Reconcile E dedent, ReviveDB_Reconcile E dedent}"
    and "run_state R s = (res, s')"
  shows "\<exists>os. trace s' = trace s @ os \<and> (\<forall>x \<in> set os. initAllowed (Detail (pfacts s')) x)"
proof -
  have "ends (\<lambda>s x. initAllowed (Detail (pfacts s)) x) (CreateDB_Reconcile E dedent)"
    unfolding CreateDB_Reconcile_def by (intro ends_rules createDB.checkAndRunInit_ends assms(1))
  moreover have "ends (\<lambda>s x. initAllowed (Detail (pfacts s)) x) (ReviveDB_Reconcile E dedent)"
    unfolding ReviveDB_Reconcile_def by (intro ends_rules reviveDB.checkAndRunInit_ends assms(1))
  ultimately show ?thesis using assms(2,3) by (auto dest: endsD)
qed

text \<open>Pods that are ready to be initialized, with the credentials in place.\<close>

definition readyFacts :: "VerticaDB \<Rightarrow> PodFactDetail" where
  "readyFacts v = map (\<lambda>pn. (pn, zeroPodFact\<lparr>pf_name := pn, pf_exists := True, pf_isPodRunning := True, pf_isInstalled := True,
     pf_hasDCTableAnnotations := True, pf_podIP := nn_Name pn\<rparr>)) (allPodNames v)"

definition secretEnv :: "VerticaDB env" where
  "secretEnv = storeEnv\<lparr>e_GetSecret := \<lambda>nm w. (Inr [(CommunalAccessKeyName, ''me''), (CommunalSecretKeyName, ''pw'')], w)\<rparr>"

lemma secretEnv_range: "rangeLaw secretEnv"
  using storeEnv_laws(2) by (simp add: rangeLaw_def secretEnv_def)

theorem init_only_without_db_witness:
  "\<exists>res s' os. run_state (ReviveDB_Reconcile secretEnv id)
       (exampleState\<lparr>vdb := reviveVdb, world := reviveVdb, pfacts := \<lparr>Detail = readyFacts reviveVdb, NeedCollection = False\<rparr>\<rparr>) = (res, s')
     \<and> trace s' = os \<and> (\<forall>x \<in> set os. initAllowed (Detail (pfacts s')) x)"
proof -
  let ?s = "exampleState\<lparr>vdb := reviveVdb, world := reviveVdb, pfacts := \<lparr>Detail = readyFacts reviveVdb, NeedCollection = False\<rparr>\<rparr>"
  obtain res s' where run: "run_state (ReviveDB_Reconcile secretEnv id) ?s = (res, s')" by (rule prod.exhaust)
  have "trace ?s = []" by (simp add: exampleState_def)
  with init_only_without_db [OF secretEnv_range _ run, of id] run show ?thesis by auto
qed
end
