(* ===== verification/Controller.thy ===== *)
theory Controller
  imports Online InitDB "HOL-Library.AList"
begin

text \<open>
  The VerticaDB controller (pkg/controllers/vdb/verticadb_controller.go): one pass fetches the
  resource and the superuser password, starts from facts that are still to be collected, and runs
  the reconcilers of all other theories in a fixed order until one of them aborts. Also the
  reconciler that publishes the metrics (metrics_reconcile.go). The request that a pass is run for
  is a parameter; the work queue that delivers it belongs to the controller runtime.
\<close>

section \<open>Metrics\<close>

record subclusterGaugeDetail =
  gd_podCount :: int
  gd_runningCount :: int
  gd_readyCount :: int

definition zeroGaugeDetail :: subclusterGaugeDetail where
  "zeroGaugeDetail = \<lparr>gd_podCount = 0, gd_runningCount = 0, gd_readyCount = 0\<rparr>"

text \<open>
  The summary is a map from subcluster names; it is kept in the order in which the subclusters are
  first met. The gauges of different subclusters are different series, so the order in which they
  are set does not matter.
\<close>

definition countPod :: "PodFact \<Rightarrow> subclusterGaugeDetail \<Rightarrow> subclusterGaugeDetail" where
  "countPod pf d = \<lparr>gd_podCount = gd_podCount d + 1,
     gd_runningCount = (if pf_isPodRunning pf then gd_runningCount d + 1 else gd_runningCount d),
     gd_readyCount = (if pf_upNode pf then gd_readyCount d + 1 else gd_readyCount d)\<rparr>"

fun captureRawMetrics :: "VerticaDB \<Rightarrow> PodFact list \<Rightarrow> (string \<times> subclusterGaugeDetail) list
    \<Rightarrow> (string \<times> subclusterGaugeDetail) list" where
  "captureRawMetrics v [] summary = summary"
| "captureRawMetrics v (pf # pfs) summary =
     (if GenSubclusterMap v (pf_subcluster pf) = None then captureRawMetrics v pfs summary
      else let d = (case map_of summary (pf_subcluster pf) of None \<Rightarrow> zeroGaugeDetail | Some d \<Rightarrow> d)
           in captureRawMetrics v pfs (AList.update (pf_subcluster pf) (countPod pf d) summary))"

fun setGauges :: "VerticaDB \<Rightarrow> (string \<times> subclusterGaugeDetail) list \<Rightarrow> ('w, unit) op" where
  "setGauges v [] = ret_op ()"
| "setGauges v ((scName, detail) # summary) = do {
     let scLabels = metrics_MakeSubclusterLabels v scName;
     metric_do TotalNodeCount (MetricSet (gd_podCount detail)) scLabels;
     metric_do UpNodeCount (MetricSet (gd_readyCount detail)) scLabels;
     metric_do RunningNodeCount (MetricSet (gd_runningCount detail)) scLabels;
     setGauges v summary
   }"

definition Metric_Reconcile :: "'w env \<Rightarrow> ('w, ret) op" where
  "Metric_Reconcile E = do {
     err \<leftarrow> Collect E;
     case err of
       Some e \<Rightarrow> ret_op (Fail e)
     | None \<Rightarrow> do {
         v \<leftarrow> gets_st vdb;
         HandleVDBInit v;
         ps \<leftarrow> rangeDetail E;
         let rawMetrics = captureRawMetrics v ps [];
         metric_do SubclusterCount (MetricSet (int (length rawMetrics))) (MakeVDBLabels v);
         setGauges v rawMetrics;
         ret_op Done
       }
   }"

section \<open>The superuser password\<close>

definition GetSuperuserPassword :: "'w env \<Rightarrow> VerticaDB \<Rightarrow> ('w, goerr + string) op" where
  "GetSuperuserPassword E v = do {
     let secretName = GenSUPasswdSecretName v;
     if nn_Name secretName = [] then ret_op (Inr [])
     else do {
       r \<leftarrow> ask (e_GetSecret E secretName);
       case r of
         Inl e \<Rightarrow> do {
           (if errors_IsNotFound e then Eventf EventTypeWarning ''SuperuserPasswordSecretNotFound'' else ret_op ());
           ret_op (Inl e)
         }
       | Inr data \<Rightarrow> ret_op (Inr (case map_of data SuperuserPasswordKey of Some pwd \<Rightarrow> pwd | None \<Rightarrow> []))
     }
   }"

section \<open>The pass\<close>

text \<open>
  All reconcilers are built with the same pointer to the resource. Where a reconciler copies
  something from it when it is built, the copy is the subcluster finder, which holds the same
  pointer; the upgrade reconcilers are therefore built from the resource as it is when they start.
\<close>

definition withVdb :: "(VerticaDB \<Rightarrow> ('w, 'a) op) \<Rightarrow> ('w, 'a) op" where
  "withVdb f = do { v \<leftarrow> gets_st vdb; f v }"

definition constructActors :: "'w env \<Rightarrow> 'c configparser \<Rightarrow> DeploymentNames \<Rightarrow> (string \<Rightarrow> string) \<Rightarrow> ('w, ret) op list" where
  "constructActors E C dn dedent =
     [Status_Reconcile E,
      Metric_Reconcile E,
      UpgradeOperator120_Reconcile E,
      withVdb (\<lambda>v. OfflineUpgrade_Reconcile E C (offlineManager v)),
      withVdb (\<lambda>v. OnlineUpgrade_Reconcile E C dn (onlineManager v) (MakeOnlineUpgradeReconciler v)),
      Obj_Reconcile E dn ObjReconcileModeIfNotFound False,
      AnnotateAndLabelPod_Reconcile E,
      StopDB_Reconcile E,
      Restart_Reconcile E True,
      Metric_Reconcile E,
      Status_Reconcile E,
      ClientRoutingLabel_Reconcile E PodRescheduleApplyMethod [],
      ClientRoutingLabel_Reconcile E DelNodeApplyMethod [],
      DrainNode_Reconcile E,
      DBRemoveSubcluster_Reconcile E,
      Status_Reconcile E,
      DBRemoveNode_Reconcile E,
      Metric_Reconcile E,
      Status_Reconcile E,
      Uninstall_Reconcile E C,
      Status_Reconcile E,
      Obj_Reconcile E dn ObjReconcileModeAll False,
      Version_Reconcile E False (runningPod E),
      Install_Reconcile E C,
      Status_Reconcile E,
      CreateDB_Reconcile E dedent,
      ReviveDB_Reconcile E dedent,
      Metric_Reconcile E,
      Status_Reconcile E,
      ClientRoutingLabel_Reconcile E AddNodeApplyMethod [],
      DBAddSubcluster_Reconcile E,
      Metric_Reconcile E,
      Status_Reconcile E,
      DBAddNode_Reconcile E,
      Status_Reconcile E,
      RebalanceShards_Reconcile E [],
      ClientRoutingLabel_Reconcile E AddNodeApplyMethod []]"

definition requeuePriority :: "VerticaDB \<Rightarrow> ret \<Rightarrow> ret" where
  "requeuePriority v res =
     (case res of
        GoPanic m \<Rightarrow> GoPanic m
      | Ret r err \<Rightarrow>
          if (Requeue r \<or> RequeueAfter r > 0) \<and> spec_RequeueTime (vdb_Spec v) > 0
          then Ret (r\<lparr>Requeue := False, RequeueAfter := spec_RequeueTime (vdb_Spec v)\<rparr>) err
          else Ret r err)"

fun runActors :: "('w, ret) op list \<Rightarrow> ret \<Rightarrow> ('w, ret) op" where
  "runActors [] res = ret_op res"
| "runActors (act # acts) res = do {
     res \<leftarrow> act;
     if IsReconcileAborted res then do { v \<leftarrow> gets_st vdb; ret_op (requeuePriority v res) }
     else runActors acts res
   }"

definition VerticaDB_Reconcile :: "'w env \<Rightarrow> 'c configparser \<Rightarrow> DeploymentNames \<Rightarrow> (string \<Rightarrow> string) \<Rightarrow> NamespacedName \<Rightarrow> ('w, ret) op" where
  "VerticaDB_Reconcile E C dn dedent req = do {
     r \<leftarrow> ask (e_GetVdb E req);
     case r of
       Inl e \<Rightarrow>
         if errors_IsNotFound e then do { HandleVDBDelete (nn_Namespace req) (nn_Name req); ret_op Done }
         else ret_op (Fail e)
     | Inr v \<Rightarrow> do {
         setVdb v;
         r \<leftarrow> GetSuperuserPassword E v;
         case r of
           Inl e \<Rightarrow> ret_op (Fail e)
         | Inr passwd \<Rightarrow> do {
             modify_st (\<lambda>s. s\<lparr>suPassword := passwd, pfacts := MakePodFacts\<rparr>);
             runActors (constructActors E C dn dedent) Done
           }
       }
   }"

section \<open>Lemmas\<close>

subsection \<open>The gauges\<close>

definition podsOf :: "PodFact list \<Rightarrow> string \<Rightarrow> PodFact list" where
  "podsOf ps sc = filter (\<lambda>pf. pf_subcluster pf = sc) ps"

definition gaugesOf :: "PodFact list \<Rightarrow> subclusterGaugeDetail" where
  "gaugesOf ps = \<lparr>gd_podCount = int (length ps), gd_runningCount = int (length (filter pf_isPodRunning ps)),
     gd_readyCount = int (length (filter pf_upNode ps))\<rparr>"

definition addGauges :: "subclusterGaugeDetail \<Rightarrow> subclusterGaugeDetail \<Rightarrow> subclusterGaugeDetail" where
  "addGauges d e = \<lparr>gd_podCount = gd_podCount d + gd_podCount e, gd_runningCount = gd_runningCount d + gd_runningCount e,
     gd_readyCount = gd_readyCount d + gd_readyCount e\<rparr>"

lemma addGauges_Cons: "addGauges d (gaugesOf (pf # ps)) = addGauges (countPod pf d) (gaugesOf ps)"
  by (simp add: addGauges_def gaugesOf_def countPod_def)

lemma addGauges_zero [simp]: "addGauges zeroGaugeDetail d = d" "addGauges d (gaugesOf []) = d"
  by (simp_all add: addGauges_def zeroGaugeDetail_def gaugesOf_def)

lemma podsOf_simps [simp]: "podsOf [] sc = []"
  "podsOf (pf # ps) sc = (if pf_subcluster pf = sc then pf # podsOf ps sc else podsOf ps sc)"
  by (simp_all add: podsOf_def)

lemma captureRawMetrics_acc:
  "map_of (captureRawMetrics v ps summary) sc =
     (if GenSubclusterMap v sc = None \<or> podsOf ps sc = [] then map_of summary sc
      else Some (addGauges (case map_of summary sc of None \<Rightarrow> zeroGaugeDetail | Some d \<Rightarrow> d) (gaugesOf (podsOf ps sc))))"
proof (induction ps arbitrary: summary)
  case (Cons pf ps)
  show ?case
  proof (cases "GenSubclusterMap v (pf_subcluster pf) = None")
    case True
    with Cons.IH [of summary] show ?thesis by auto
  next
    case False
    then show ?thesis
      by (simp add: Let_def Cons.IH AList.update_conv' addGauges_Cons)
  qed
qed simp

lemma captureRawMetrics_map:
  "map_of (captureRawMetrics v ps []) sc =
     (if GenSubclusterMap v sc = None \<or> podsOf ps sc = [] then None else Some (gaugesOf (podsOf ps sc)))"
  by (simp add: captureRawMetrics_acc)

lemma captureRawMetrics_distinct: "distinct (map fst summary) \<Longrightarrow> distinct (map fst (captureRawMetrics v ps summary))"
  by (induction v ps summary rule: captureRawMetrics.induct) (simp_all add: Let_def AList.distinct_update)

text \<open>What the pods say does not depend on the order in which the map of facts is walked.\<close>

lemma gaugesOf_perm: "mset ps = mset qs \<Longrightarrow> gaugesOf (podsOf ps sc) = gaugesOf (podsOf qs sc)"
  unfolding gaugesOf_def podsOf_def filter_filter
  by (metis (no_types, lifting) mset_filter size_mset)

definition gaugeWrites :: "VerticaDB \<Rightarrow> (string \<times> subclusterGaugeDetail) list \<Rightarrow> obs list" where
  "gaugeWrites v summary = concat (map (\<lambda>(sc, d).
     [ObsMetric TotalNodeCount (MetricSet (gd_podCount d)) (metrics_MakeSubclusterLabels v sc),
      ObsMetric UpNodeCount (MetricSet (gd_readyCount d)) (metrics_MakeSubclusterLabels v sc),
      ObsMetric RunningNodeCount (MetricSet (gd_runningCount d)) (metrics_MakeSubclusterLabels v sc)]) summary)"

lemma run_setGauges [simp]:
  "run_state (setGauges v summary) s = ((), s\<lparr>trace := trace s @ gaugeWrites v summary\<rparr>)"
  by (induction v summary arbitrary: s rule: setGauges.induct) (simp_all add: gaugeWrites_def Let_def)

definition gaugeOf :: "metric \<Rightarrow> subclusterGaugeDetail \<Rightarrow> int" where
  "gaugeOf m d = (case m of TotalNodeCount \<Rightarrow> gd_podCount d | RunningNodeCount \<Rightarrow> gd_runningCount d | _ \<Rightarrow> gd_readyCount d)"

lemma gaugeWrites_iff:
  assumes "m \<in> {TotalNodeCount, RunningNodeCount, UpNodeCount}"
  shows "ObsMetric m (MetricSet n) (metrics_MakeSubclusterLabels v sc) \<in> set (gaugeWrites v summary)
     \<longleftrightarrow> (\<exists>d. (sc, d) \<in> set summary \<and> n = gaugeOf m d)"
proof -
  have inj: "metrics_MakeSubclusterLabels v sc = metrics_MakeSubclusterLabels v sc' \<longleftrightarrow> sc = sc'" for sc'
    by (simp add: metrics_MakeSubclusterLabels_def)
  from assms show ?thesis
    unfolding gaugeWrites_def gaugeOf_def by (elim insertE emptyE) (auto simp: inj)
qed

subsection \<open>The pass\<close>

text \<open>Actors that run one after the other, none of them asking to stop.\<close>

inductive completed :: "('w, ret) op list \<Rightarrow> 'w st \<Rightarrow> 'w st \<Rightarrow> bool" where
  completed_Nil: "completed [] s s"
| completed_Cons: "run_state act s = (res, s1) \<Longrightarrow> \<not> IsReconcileAborted res \<Longrightarrow> completed acts s1 s2
    \<Longrightarrow> completed (act # acts) s s2"

inductive_cases completed_ConsE: "completed (act # acts) s s'"

lemma completed_append: "completed xs s s1 \<Longrightarrow> completed ys s1 s2 \<Longrightarrow> completed (xs @ ys) s s2"
  by (induction rule: completed.induct) (auto intro: completed.intros)

lemma runActors_cases:
  assumes "run_state (runActors acts r0) s = (res, s')" and "\<not> IsReconcileAborted r0"
  shows "(completed acts s s' \<and> \<not> IsReconcileAborted res)
     \<or> (\<exists>k s1 r. k < length acts \<and> completed (take k acts) s s1 \<and> run_state (acts ! k) s1 = (r, s')
           \<and> IsReconcileAborted r \<and> res = requeuePriority (vdb s') r)"
  using assms
proof (induction acts arbitrary: r0 s)
  case Nil
  then show ?case by (auto intro: completed.intros)
next
  case (Cons act acts)
  obtain r s1 where act: "run_state act s = (r, s1)" by (rule prod.exhaust)
  show ?case
  proof (cases "IsReconcileAborted r")
    case True
    with Cons.prems act have "res = requeuePriority (vdb s') r" "s1 = s'" by auto
    with True act show ?thesis by (intro disjI2 exI [of _ 0] exI [of _ s] exI [of _ r]) (simp add: completed_Nil)
  next
    case False
    with Cons.prems act have run: "run_state (runActors acts r) s1 = (res, s')" by simp
    from Cons.IH [OF run False] show ?thesis
    proof (elim disjE exE conjE)
      assume "completed acts s1 s'" "\<not> IsReconcileAborted res"
      with act False show ?thesis by (blast intro: completed_Cons)
    next
      fix k s2 r'
      assume "k < length acts" "completed (take k acts) s1 s2" "run_state (acts ! k) s2 = (r', s')"
        "IsReconcileAborted r'" "res = requeuePriority (vdb s') r'"
      with act False show ?thesis
        by (intro disjI2 exI [of _ "Suc k"] exI [of _ s2] exI [of _ r']) (simp add: completed_Cons)
    qed
  qed
qed

text \<open>Whether a pass stops does not depend on the requeue time.\<close>

lemma requeuePriority_aborted [simp]: "IsReconcileAborted (requeuePriority v r) = IsReconcileAborted r"
  by (cases r) (auto simp: requeuePriority_def)

lemma requeuePriority_err: "requeuePriority v (Ret r err) = Ret r' err' \<Longrightarrow> err' = err"
  by (auto simp: requeuePriority_def split: if_splits)

lemma requeuePriority_time:
  assumes "requeuePriority v r = Ret q err" and "spec_RequeueTime (vdb_Spec v) > 0" and "Requeue q \<or> RequeueAfter q > 0"
  shows "\<not> Requeue q \<and> RequeueAfter q = spec_RequeueTime (vdb_Spec v)"
  using assms by (cases r) (auto simp: requeuePriority_def split: if_splits)

text \<open>
  The requeue time of the resource is documented in seconds, and the delay of a result counts
  nanoseconds: a requeue time of one minute comes back after 60 nanoseconds.
\<close>

lemma requeue_time_in_nanoseconds:
  assumes "spec_RequeueTime (vdb_Spec v) = 60"
  shows "requeuePriority v RequeueNow = Ret \<lparr>Requeue = False, RequeueAfter = 60\<rparr> None \<and> 60 < time_Second"
  using assms by (simp add: requeuePriority_def ret_defs emptyResult_def time_Second_def)

lemma GetSuperuserPassword_trace:
  assumes "run_state (GetSuperuserPassword E v) s = (r, s')"
  shows "vdb s' = vdb s \<and> (trace s' = trace s
     \<or> trace s' = trace s @ [ObsEvent EventTypeWarning ''SuperuserPasswordSecretNotFound''] \<and> (\<exists>e. r = Inl e \<and> errors_IsNotFound e))"
proof (cases "nn_Name (GenSUPasswdSecretName v) = []")
  case True
  with assms show ?thesis by (simp add: GetSuperuserPassword_def Let_def)
next
  case False
  obtain x w where x: "e_GetSecret E (GenSUPasswdSecretName v) (world s) = (x, w)" by (rule prod.exhaust)
  from False assms show ?thesis
    by (cases x) (auto simp: GetSuperuserPassword_def Let_def x split: if_splits)
qed

lemma pass_actors:
  assumes "run_state (VerticaDB_Reconcile E C dn dedent req) s = (res, s')"
    and "e_GetVdb E req (world s) = (Inr v, w)"
    and "run_state (GetSuperuserPassword E v) (s\<lparr>world := w, vdb := v\<rparr>) = (Inr passwd, s0)"
  shows "run_state (runActors (constructActors E C dn dedent) Done) (s0\<lparr>suPassword := passwd, pfacts := MakePodFacts\<rparr>) = (res, s')"
  using assms by (simp add: VerticaDB_Reconcile_def)

lemma length_constructActors: "length (constructActors E C dn dedent) = 37"
  by (simp add: constructActors_def)

section \<open>Properties\<close>



text \<open>
  C35: The metrics reconciler publishes what the facts say. For every subcluster of the resource
  that has a pod it sets the three node gauges to the number of its pods, of those that run and of
  those that are up, whatever the order in which the facts are visited; it sets them for no other
  subcluster, so the gauges that were cleared for a subcluster being removed are not set again.
\<close>

theorem gauges_match_facts:
  assumes E: "rangeLaw E" and run: "run_state (Metric_Reconcile E) s = (Done, s')"
  shows "\<exists>probes writes. trace s' = trace s @ probes @ writes \<and> list_all probe probes
     \<and> (\<forall>sc m n. m \<in> {TotalNodeCount, RunningNodeCount, UpNodeCount} \<longrightarrow>
          (ObsMetric m (MetricSet n) (metrics_MakeSubclusterLabels (vdb s') sc) \<in> set writes \<longleftrightarrow>
             GenSubclusterMap (vdb s') sc \<noteq> None \<and>
             (let pods = podsOf (map snd (Detail (pfacts s'))) sc
              in pods \<noteq> [] \<and> n = (case m of TotalNodeCount \<Rightarrow> int (length pods)
                                     | RunningNodeCount \<Rightarrow> int (length (filter pf_isPodRunning pods))
                                     | _ \<Rightarrow> int (length (filter pf_upNode pods))))))"
proof -
  obtain err s1 where c: "run_state (Collect E) s = (err, s1)" by (rule prod.exhaust)
  from specD [OF spec_Collect refl c] obtain probes where pr: "trace s1 = trace s @ probes" "list_all probe probes" by blast
  obtain d w where d: "e_Range E (Detail (pfacts s1)) (world s1) = (d, w)" by (rule prod.exhaust)
  from run c have ok: "err = None" by (auto simp: Metric_Reconcile_def ret_defs split: option.splits)
  define raw where "raw = captureRawMetrics (vdb s1) (map snd d) []"
  from run c d ok have s': "vdb s' = vdb s1" "pfacts s' = pfacts s1" and
    tr: "trace s' = trace s @ probes @ map (\<lambda>m. ObsMetric m MetricInit (MakeVDBLabels (vdb s1))) [UpgradeCount, ClusterRestartAttempt,
        ClusterRestartFailure, ClusterRestartDuration, NodesRestartAttempt, NodesRestartFailed, NodesRestartDuration]
      @ [ObsMetric SubclusterCount (MetricSet (int (length raw))) (MakeVDBLabels (vdb s1))] @ gaugeWrites (vdb s1) raw"
    by (auto simp: Metric_Reconcile_def HandleVDBInit_def rangeDetail_def raw_def Let_def pr)
  have perm: "gaugesOf (podsOf (map snd d) sc) = gaugesOf (podsOf (map snd (Detail (pfacts s'))) sc)"
    "podsOf (map snd d) sc = [] \<longleftrightarrow> podsOf (map snd (Detail (pfacts s'))) sc = []" for sc
  proof -
    have m: "mset (map snd d) = mset (map snd (Detail (pfacts s')))"
      using arg_cong [OF rangeLawD(1) [OF E d], of "image_mset snd"] by (simp add: s')
    from gaugesOf_perm [OF m] show "gaugesOf (podsOf (map snd d) sc) = gaugesOf (podsOf (map snd (Detail (pfacts s'))) sc)" .
    from mset_eq_setD [OF m] show "podsOf (map snd d) sc = [] \<longleftrightarrow> podsOf (map snd (Detail (pfacts s'))) sc = []"
      by (auto simp: podsOf_def filter_empty_conv)
  qed
  have raw: "(sc, g) \<in> set raw \<longleftrightarrow> GenSubclusterMap (vdb s') sc \<noteq> None \<and> podsOf (map snd (Detail (pfacts s'))) sc \<noteq> []
      \<and> g = gaugesOf (podsOf (map snd (Detail (pfacts s'))) sc)" for sc g
  proof -
    have "distinct (map fst raw)" unfolding raw_def by (rule captureRawMetrics_distinct) simp
    then have "(sc, g) \<in> set raw \<longleftrightarrow> map_of raw sc = Some g" by simp
    then show ?thesis unfolding raw_def captureRawMetrics_map perm s'(1) by auto
  qed
  show ?thesis
    by (rule exI [of _ probes], rule exI, rule conjI [OF tr], rule conjI [OF pr(2)])
       (auto simp: gaugeWrites_iff raw gaugeOf_def gaugesOf_def Let_def s'(1) [symmetric])
qed

theorem gauges_match_facts_witness:
  "\<exists>s'. run_state (Metric_Reconcile storeEnv) examplePods = (Done, s')
     \<and> ObsMetric TotalNodeCount (MetricSet 2) (metrics_MakeSubclusterLabels MakeVDB ''defaultsubcluster'') \<in> set (trace s')
     \<and> ObsMetric UpNodeCount (MetricSet 1) (metrics_MakeSubclusterLabels MakeVDB ''defaultsubcluster'') \<in> set (trace s')"
proof -
  have pods: "podsOf (map snd (Detail (pfacts examplePods))) ''defaultsubcluster'' = [exampleFact 0, exampleFact 1]"
    by (simp add: exampleFact_def MakeVDB_def)
  have sc: "GenSubclusterMap MakeVDB ''defaultsubcluster'' \<noteq> None" by code_simp
  obtain s' where run: "run_state (Metric_Reconcile storeEnv) examplePods = (Done, s')" and s': "vdb s' = MakeVDB" "pfacts s' = pfacts examplePods"
    by (simp add: Metric_Reconcile_def Collect_def HandleVDBInit_def rangeDetail_def Let_def storeEnv_def emptyEnv_def)
  from gauges_match_facts [OF storeEnv_laws(2) run] obtain probes writes where
    tr: "trace s' = trace examplePods @ probes @ writes" and
    w: "\<forall>sc m n. m \<in> {TotalNodeCount, RunningNodeCount, UpNodeCount} \<longrightarrow>
          (ObsMetric m (MetricSet n) (metrics_MakeSubclusterLabels (vdb s') sc) \<in> set writes \<longleftrightarrow>
             GenSubclusterMap (vdb s') sc \<noteq> None \<and>
             (let pods = podsOf (map snd (Detail (pfacts s'))) sc
              in pods \<noteq> [] \<and> n = (case m of TotalNodeCount \<Rightarrow> int (length pods)
                                     | RunningNodeCount \<Rightarrow> int (length (filter pf_isPodRunning pods))
                                     | _ \<Rightarrow> int (length (filter pf_upNode pods)))))"
    by blast
  note w = w [rule_format, of _ _ "''defaultsubcluster''", unfolded s' pods]
  have "ObsMetric TotalNodeCount (MetricSet 2) (metrics_MakeSubclusterLabels MakeVDB ''defaultsubcluster'') \<in> set writes"
    "ObsMetric UpNodeCount (MetricSet 1) (metrics_MakeSubclusterLabels MakeVDB ''defaultsubcluster'') \<in> set writes"
    by (subst w; simp add: sc Let_def)+
  with run tr show ?thesis by auto
qed

end
