(* ===== verification/Footprint.thy ===== *)
theory Footprint
  imports Controller
begin

text \<open>
  Which reconciler may do what. The actions that change a database or its Kubernetes objects are
  the tools of admintools, a new admintools.conf, and the writes to the resource, the
  statefulsets, the services and the pods. Every operation of the VerticaDB controller is shown to
  perform only the actions of a given set, by rules that follow the control structures; together
  with the order of the reconcilers this says what has completed before an action of a pass.
\<close>

section \<open>Actions\<close>

datatype action = Tool string | Conf | WriteVdb | CreateSts | UpdateSts | DeleteSts | WriteSvc | DeleteSvc | WritePod | DeletePod

text \<open>
  The action that a step of the trace is. Commands in a shell and in vsql, events, metrics and
  writes of the status are none of them.
\<close>

fun action_of :: "obs \<Rightarrow> action option" where
  "action_of (ObsExec AT nm cmd) = Some (Tool (cmd ! 1))"
| "action_of (ObsExec k nm cmd) = None"
| "action_of (ObsUpdateVdb v) = Some WriteVdb"
| "action_of (ObsCreateSts sts) = Some CreateSts"
| "action_of (ObsUpdateSts sts) = Some UpdateSts"
| "action_of (ObsPatchSts cur sts) = Some UpdateSts"
| "action_of (ObsDeleteSts sts) = Some DeleteSts"
| "action_of (ObsCreateSvc svc) = Some WriteSvc"
| "action_of (ObsUpdateSvc svc) = Some WriteSvc"
| "action_of (ObsDeleteSvc svc) = Some DeleteSvc"
| "action_of (ObsUpdatePod pod) = Some WritePod"
| "action_of (ObsPatchPod pod) = Some WritePod"
| "action_of (ObsDeletePod pod) = Some DeletePod"
| "action_of (ObsCopy nm src dest) = Some Conf"
| "action_of x = None"

definition within :: "action set \<Rightarrow> obs \<Rightarrow> bool" where
  "within A x \<longleftrightarrow> (\<forall>a. action_of x = Some a \<longrightarrow> a \<in> A)"

lemma within_None [simp]: "action_of x = None \<Longrightarrow> within A x"
  by (simp add: within_def)

lemma within_Some [simp]: "action_of x = Some a \<Longrightarrow> within A x \<longleftrightarrow> a \<in> A"
  by (simp add: within_def)

text \<open>Whatever state it starts in, an operation performs only actions of the set.\<close>

definition performs :: "action set \<Rightarrow> ('w, 'a) op \<Rightarrow> bool" where
  "performs A m \<longleftrightarrow> spec (\<lambda>_. True) (within A) m (\<lambda>_ _. True)"

named_theorems performs_rules \<open>the actions of operations, as introduction rules\<close>

lemma performsD:
  assumes "performs A m" and "run_state m s = (a, s')"
  shows "\<exists>os. trace s' = trace s @ os \<and> list_all (within A) os"
  using specD [OF assms(1) [unfolded performs_def] TrueI assms(2)] by blast

section \<open>Control structures\<close>

lemma performs_basic [performs_rules]:
  "performs A (ret_op x)" "performs A (gets_st f)" "performs A (ask g)" "performs A (setVdb v)" "performs A (Eventf ty r)"
  "performs A (ExecInPod E nm cmd)" "performs A (ExecVSQL E nm cmd)" "performs A (metric_do me mop l)" "performs A (metrics_do mes mop l)"
proof -
  show "performs A (setVdb v)" unfolding performs_def by (rule spec_weaken [OF spec_setVdb [of "\<lambda>_. True"]]) simp_all
qed (unfold performs_def, (intro spec_rules localPred_facts; simp)+)

lemma performs_modify:
  "(\<And>s. trace (f s) = trace s) \<Longrightarrow> performs A (modify_st f)"
  by (simp add: performs_def spec_def)

lemma performs_emit [performs_rules]: "within A x \<Longrightarrow> performs A (emit x)"
  unfolding performs_def by (intro spec_rules localPred_facts)

lemma performs_ExecAdmintools [performs_rules]: "Tool (cmd ! 1) \<in> A \<Longrightarrow> performs A (ExecAdmintools E nm cmd)"
  unfolding performs_def by (intro spec_rules localPred_facts) simp

lemma performs_bind [performs_rules]: "performs A m \<Longrightarrow> (\<And>a. performs A (f a)) \<Longrightarrow> performs A (m \<bind> f)"
  unfolding performs_def by (rule spec_bind)

lemma performs_split [performs_rules]:
  "(b \<Longrightarrow> performs A m) \<Longrightarrow> (\<not> b \<Longrightarrow> performs A n) \<Longrightarrow> performs A (if b then m else n)"
  "(x = None \<Longrightarrow> performs A m) \<Longrightarrow> (\<And>y. x = Some y \<Longrightarrow> performs A (g y)) \<Longrightarrow> performs A (case x of None \<Rightarrow> m | Some y \<Rightarrow> g y)"
  "(\<And>e. z = Inl e \<Longrightarrow> performs A (h e)) \<Longrightarrow> (\<And>y. z = Inr y \<Longrightarrow> performs A (k y)) \<Longrightarrow> performs A (case z of Inl e \<Rightarrow> h e | Inr y \<Rightarrow> k y)"
  "(\<And>c d. p = (c, d) \<Longrightarrow> performs A (q c d)) \<Longrightarrow> performs A (case p of (c, d) \<Rightarrow> q c d)"
  "(xs = [] \<Longrightarrow> performs A m) \<Longrightarrow> (\<And>y ys. xs = y # ys \<Longrightarrow> performs A (r y ys)) \<Longrightarrow> performs A (case xs of [] \<Rightarrow> m | y # ys \<Rightarrow> r y ys)"
  "performs A m \<Longrightarrow> performs A n \<Longrightarrow> performs A (case b of True \<Rightarrow> m | False \<Rightarrow> n)"
  "performs A (u t) \<Longrightarrow> performs A (let y = t in u y)"
  by (simp_all split: option.split sum.split prod.split list.split bool.split)

lemma performs_loops [performs_rules]:
  "(\<And>x. x \<in> set xs \<Longrightarrow> performs A (f x)) \<Longrightarrow> performs A (forErr xs f)"
  "(\<And>x. x \<in> set xs \<Longrightarrow> performs A (g x)) \<Longrightarrow> performs A (forRet xs g)"
  "performs A m \<Longrightarrow> performs A (RetryOnConflict n m)"
  "performs A m' \<Longrightarrow> performs A (RetryOnConflictV n m')"
  unfolding performs_def by (rule spec_forErr, simp) (rule spec_forRet, simp, (rule spec_RetryOnConflict spec_RetryOnConflictV, simp)+)

text \<open>The tool that each generated admintools command names.\<close>

lemma command_tools [simp]:
  "genRestartNodeCmd v vnodes ips ! Suc 0 = ''restart_node''" "genReIPCommand v ! Suc 0 = ''re_ip''"
  "genStartDBCommand v pods ! Suc 0 = ''start_db''" "genCmdRemoveNode v pods ! Suc 0 = ''db_remove_node''"
  "genAddSubclusterCmd v sc ! Suc 0 = ''db_add_subcluster''" "genAddNodeCommand v pods ! Suc 0 = ''db_add_node''"
  "genStopDBCmd v ! Suc 0 = ''stop_db''" "createCmd v hosts licPath ! Suc 0 = ''create_db''"
  by (simp_all add: genRestartNodeCmd_def genReIPCommand_def genStartDBCommand_def genCmdRemoveNode_def genAddSubclusterCmd_def
      genAddNodeCommand_def genStopDBCmd_def createCmd_def)

text \<open>What a restart of nodes or of the whole cluster runs.\<close>

abbreviation restartTools :: "action set" where
  "restartTools \<equiv> {Tool ''list_allnodes'', Tool ''re_ip'', Tool ''restart_node'', Tool ''start_db''}"

section \<open>Metrics\<close>

lemma performs_HandleSubclusterDelete [performs_rules]:
  "performs B (HandleSubclusterDelete v scName)"
  "performs B (HandleVDBDelete namespaceName vdbName)"
  "performs B (HandleVDBInit v)"
  unfolding HandleSubclusterDelete_def HandleVDBDelete_def HandleVDBInit_def
  by (intro performs_rules; simp)+

section \<open>Finding objects\<close>

lemma performs_findObjs [performs_rules]:
  "performs B (findObjs lst m labelsOf nameOf flags)"
  unfolding findObjs_def
  by (intro performs_rules; simp)+

lemma performs_FindStatefulSets [performs_rules]:
  "performs B (FindStatefulSets E m flags)"
  "performs B (FindServices E m flags)"
  "performs B (FindPods E m flags)"
  unfolding FindStatefulSets_def FindServices_def FindPods_def
  by (intro performs_rules; simp)+

lemma performs_FindSubclusters [performs_rules]:
  "performs B (FindSubclusters E m flags)"
  unfolding FindSubclusters_def
  by (intro performs_rules; simp)+

section \<open>Status and conditions\<close>

lemma performs_Update_once [performs_rules]: "(\<And>v. performs B (f v)) \<Longrightarrow> performs B (Update_once E f)"
  unfolding Update_once_def by (intro performs_rules; simp)

lemma performs_vdbstatus_Update [performs_rules]: "(\<And>v. performs B (f v)) \<Longrightarrow> performs B (vdbstatus_Update E f)"
  unfolding vdbstatus_Update_def by (intro performs_rules; simp)

lemma performs_UpdateCondition [performs_rules]:
  "performs B (UpdateCondition E condition)"
  "performs B (UpdateUpgradeStatus E msg)"
  unfolding UpdateCondition_def UpdateUpgradeStatus_def
  by (intro performs_rules; simp)+

section \<open>Collecting the facts\<close>

lemma performs_checkIsInstalled [performs_rules]:
  "performs B (checkIsInstalled E v pf)"
  "performs B (checkIsDBCreated E v pf)"
  "performs B (checkIfNodeIsUp E pf)"
  "performs B (queryNodeStatus E pf)"
  unfolding checkIsInstalled_def checkIsDBCreated_def checkIfNodeIsUp_def queryNodeStatus_def
  by (intro performs_rules; simp)+

lemma performs_checkIfNodeIsUpAndReadOnly [performs_rules]:
  "performs B (checkIfNodeIsUpAndReadOnly E v pf)"
  "performs B (checkEulaAcceptance E v pf)"
  "performs B (checkLogrotateExists E v pf)"
  "performs B (checkIsLogrotateWritable E v pf)"
  "performs B (checkThatConfigShareExists E v pf)"
  "performs B (checkShardSubscriptions E v pf)"
  unfolding checkIfNodeIsUpAndReadOnly_def checkEulaAcceptance_def checkLogrotateExists_def checkIsLogrotateWritable_def checkThatConfigShareExists_def checkShardSubscriptions_def
  by (intro performs_rules; simp)+

lemma performs_runChecks [performs_rules]: "(\<And>fn pf. fn \<in> set fns \<Longrightarrow> performs B (fn pf)) \<Longrightarrow> performs B (runChecks fns pf)"
proof (induction fns arbitrary: pf)
  case (Cons fn fns)
  then have "performs B (fn pf)" "performs B (runChecks fns pf')" for pf' by simp_all
  then show ?case unfolding runChecks.simps by (intro performs_rules)
qed (simp add: performs_rules)

lemma performs_podChecks: "fn \<in> set (podChecks E v) \<Longrightarrow> performs B (fn pf)"
  by (auto simp: podChecks_def intro!: performs_rules)

lemma performs_facts [performs_rules]:
  "performs B (setDetail pf)" "performs B clearDetail" "performs B (setNeedCollection b)" "performs B Invalidate"
  unfolding setDetail_def clearDetail_def Invalidate_def setNeedCollection_def by (rule performs_modify, simp)+

lemma performs_collectPodByStsIndex [performs_rules]: "performs B (collectPodByStsIndex E v sc sts podIndex)"
  unfolding collectPodByStsIndex_def by (intro performs_rules; (erule performs_podChecks)?)

lemma performs_collectSubcluster [performs_rules]:
  "performs B (collectSubcluster E v sc)"
  unfolding collectSubcluster_def
  by (intro performs_rules; simp)+

lemma performs_Collect [performs_rules]:
  "performs B (Collect E)"
  "performs B (rangeDetail E)"
  unfolding Collect_def rangeDetail_def
  by (intro performs_rules; simp)+

section \<open>Copying admintools.conf\<close>

lemma performs_cleanupLocalFiles [performs_rules]:
  "performs B (cleanupLocalFiles E v podName)"
  "performs B (debugDumpAdmintoolsConf E atPod)"
  unfolding cleanupLocalFiles_def debugDumpAdmintoolsConf_def
  by (intro performs_rules; simp)+

lemma performs_debugDumpAdmintoolsConfForPods [performs_rules]: "performs B (debugDumpAdmintoolsConfForPods E pods)"
  by (induction pods) (auto intro!: performs_rules)

lemma performs_changeDepotPermissions [performs_rules]:
  "performs B (changeDepotPermissions E v podList)"
  unfolding changeDepotPermissions_def
  by (intro performs_rules; simp)+

lemma performs_CopyToPod [performs_rules]:
  "{Conf} \<subseteq> B \<Longrightarrow> performs B (CopyToPod E podName contents destFile)"
  unfolding CopyToPod_def
  by (intro performs_rules; simp)+

lemma performs_copyToOthers [performs_rules]: "{Conf} \<subseteq> B \<Longrightarrow> performs B (copyToOthers E basePod contents pods)"
  by (induction pods) (auto intro!: performs_rules)

lemma performs_distributeAdmintoolsConf [performs_rules]:
  "{Conf} \<subseteq> B \<Longrightarrow> performs B (distributeAdmintoolsConf E contents)"
  unfolding distributeAdmintoolsConf_def
  by (intro performs_rules; simp)+

section \<open>Restart\<close>

lemma performs_fetchClusterNodeStatus [performs_rules]:
  "{Tool ''list_allnodes''} \<subseteq> B \<Longrightarrow> performs B (fetchClusterNodeStatus E atPod)"
  unfolding fetchClusterNodeStatus_def
  by (intro performs_rules; simp)+

lemma performs_removePodsWithClusterUpState [performs_rules]:
  "{Tool ''list_allnodes''} \<subseteq> B \<Longrightarrow> performs B (removePodsWithClusterUpState E atPod pods)"
  unfolding removePodsWithClusterUpState_def
  by (intro performs_rules; simp)+

lemma performs_killLoop [performs_rules]: "performs B (killLoop E pods killed)"
proof (induction E pods killed rule: killLoop.induct)
qed (auto intro!: performs_rules)

lemma performs_killOldProcesses [performs_rules]:
  "performs B (killOldProcesses E pods)"
  unfolding killOldProcesses_def
  by (intro performs_rules; simp)+

lemma performs_execRestartPods [performs_rules]: "Tool (cmd ! 1) \<in> B \<Longrightarrow> performs B (execRestartPods E atPod downPods cmd)"
  unfolding execRestartPods_def by (intro performs_rules; simp)

lemma performs_restartPods [performs_rules]:
  "{Tool ''list_allnodes'', Tool ''restart_node''} \<subseteq> B \<Longrightarrow> performs B (restartPods E atPod pods)"
  unfolding restartPods_def
  by (intro performs_rules; simp)+

lemma performs_fetchOldIPsFromNode [performs_rules]:
  "performs B (fetchOldIPsFromNode E atPod)"
  unfolding fetchOldIPsFromNode_def
  by (intro performs_rules; simp)+

lemma performs_reipNodes [performs_rules]:
  "{Tool ''re_ip''} \<subseteq> B \<Longrightarrow> performs B (reipNodes E atPod pods)"
  "{Tool ''start_db''} \<subseteq> B \<Longrightarrow> performs B (restartCluster E atPod downPods)"
  unfolding reipNodes_def restartCluster_def
  by (intro performs_rules; simp)+

lemma performs_findAny [performs_rules]:
  "performs B (findAny E)"
  "performs B (findOffline E)"
  unfolding findAny_def findOffline_def
  by (intro performs_rules; simp)+

lemma performs_setATPod [performs_rules]: "performs B findFunc \<Longrightarrow> performs B (setATPod atPod findFunc)"
  unfolding setATPod_def by (intro performs_rules)

lemma performs_shouldRequeueIfPodsNotRunning [performs_rules]:
  "performs B (shouldRequeueIfPodsNotRunning E)"
  unfolding shouldRequeueIfPodsNotRunning_def
  by (intro performs_rules; simp)+

lemma performs_startCluster [performs_rules]:
  "{Tool ''re_ip'', Tool ''start_db''} \<subseteq> B \<Longrightarrow> performs B (startCluster E restartReadOnly atPod)"
  unfolding startCluster_def
  by (intro performs_rules; simp)+

lemma performs_reconcileCluster [performs_rules]:
  "{Tool ''re_ip'', Tool ''start_db''} \<subseteq> B \<Longrightarrow> performs B (reconcileCluster E restartReadOnly)"
  "{Tool ''list_allnodes'', Tool ''restart_node''} \<subseteq> B \<Longrightarrow> performs B (restartDownNodes E restartReadOnly)"
  "{Tool ''re_ip''} \<subseteq> B \<Longrightarrow> performs B (reipInstalledNodes E atPod)"
  unfolding reconcileCluster_def restartDownNodes_def reipInstalledNodes_def
  by (intro performs_rules; simp)+

lemma performs_reconcileNodes [performs_rules]:
  "{Tool ''list_allnodes'', Tool ''re_ip'', Tool ''restart_node''} \<subseteq> B \<Longrightarrow> performs B (reconcileNodes E restartReadOnly)"
  unfolding reconcileNodes_def
  by (intro performs_rules; simp)+

lemma performs_Restart_Reconcile [performs_rules]:
  "{Tool ''list_allnodes'', Tool ''re_ip'', Tool ''restart_node'', Tool ''start_db''} \<subseteq> B \<Longrightarrow> performs B (Restart_Reconcile E restartReadOnly)"
  unfolding Restart_Reconcile_def
  by (intro performs_rules; simp)+

section \<open>Editing admintools.conf\<close>

lemma performs_createAdmintoolsConfBase [performs_rules]:
  "performs B (createAdmintoolsConfBase E C sourcePod)"
  unfolding createAdmintoolsConfBase_def
  by (intro performs_rules; simp)+

lemma performs_AddHosts [performs_rules]:
  "performs B (AddHosts E C sourcePod ips)"
  "performs B (RemoveHosts E C sourcePod ips)"
  unfolding AddHosts_def RemoveHosts_def
  by (intro performs_rules; simp)+

section \<open>Scaling\<close>

lemma performs_checkShardToNodeRatio [performs_rules]:
  "performs B (checkShardToNodeRatio v sc)"
  unfolding checkShardToNodeRatio_def
  by (intro performs_rules; simp)+

lemma performs_scaledownSubcluster [performs_rules]:
  "(\<And>sc i j. performs B (scaleDownFunc sc i j)) \<Longrightarrow> performs B (scaledownSubcluster E sc scaleDownFunc)"
  unfolding scaledownSubcluster_def by (intro performs_rules; simp)

lemma performs_execRemoveNode [performs_rules]: "Tool (cmd ! 1) \<in> B \<Longrightarrow> performs B (execRemoveNode E atPod cmd)"
  unfolding execRemoveNode_def by (intro performs_rules; simp)

lemma performs_removeNodesInSubcluster [performs_rules]:
  "{Tool ''db_remove_node''} \<subseteq> B \<Longrightarrow> performs B (removeNodesInSubcluster E sc startPodIndex endPodIndex)"
  unfolding removeNodesInSubcluster_def
  by (intro performs_rules; simp)+

lemma performs_DBRemoveNode_Reconcile [performs_rules]:
  "{Tool ''db_remove_node''} \<subseteq> B \<Longrightarrow> performs B (DBRemoveNode_Reconcile E)"
  unfolding DBRemoveNode_Reconcile_def
  by (intro performs_rules; simp)+

lemma performs_getDefaultSubcluster [performs_rules]:
  "performs B (getDefaultSubcluster E atPod)"
  "performs B (changeDefaultSubcluster E atPod scName)"
  unfolding getDefaultSubcluster_def changeDefaultSubcluster_def
  by (intro performs_rules; simp)+

lemma performs_resetDefaultSubcluster [performs_rules]:
  "performs B (resetDefaultSubcluster E atPod)"
  unfolding resetDefaultSubcluster_def
  by (intro performs_rules; simp)+

lemma performs_removeSubcluster [performs_rules]:
  "{Tool ''db_remove_subcluster''} \<subseteq> B \<Longrightarrow> performs B (removeSubcluster E atPod scName)"
  unfolding removeSubcluster_def
  by (intro performs_rules; simp)+

lemma performs_removeExtraSubclusters [performs_rules]:
  "{Tool ''db_remove_subcluster''} \<subseteq> B \<Longrightarrow> performs B (removeExtraSubclusters E)"
  unfolding removeExtraSubclusters_def
  by (intro performs_rules; simp)+

lemma performs_DBRemoveSubcluster_Reconcile [performs_rules]:
  "{Tool ''db_remove_subcluster''} \<subseteq> B \<Longrightarrow> performs B (DBRemoveSubcluster_Reconcile E)"
  unfolding DBRemoveSubcluster_Reconcile_def
  by (intro performs_rules; simp)+

lemma performs_drainPod [performs_rules]:
  "performs B (drainPod E pf)"
  unfolding drainPod_def
  by (intro performs_rules; simp)+

lemma performs_DrainNode_Reconcile [performs_rules]:
  "performs B (DrainNode_Reconcile E)"
  "performs B (fetchSubclusters E atPod)"
  unfolding DrainNode_Reconcile_def fetchSubclusters_def
  by (intro performs_rules; simp)+

lemma performs_createSubcluster [performs_rules]:
  "{Tool ''db_add_subcluster''} \<subseteq> B \<Longrightarrow> performs B (createSubcluster E atPod sc)"
  unfolding createSubcluster_def
  by (intro performs_rules; simp)+

lemma performs_addMissingSubclusters [performs_rules]:
  "{Tool ''db_add_subcluster''} \<subseteq> B \<Longrightarrow> performs B (addMissingSubclusters E scs)"
  unfolding addMissingSubclusters_def
  by (intro performs_rules; simp)+

lemma performs_DBAddSubcluster_Reconcile [performs_rules]:
  "{Tool ''db_add_subcluster''} \<subseteq> B \<Longrightarrow> performs B (DBAddSubcluster_Reconcile E)"
  "{Tool ''db_add_node''} \<subseteq> B \<Longrightarrow> performs B (runAddNodeForPod E pods atPod)"
  unfolding DBAddSubcluster_Reconcile_def runAddNodeForPod_def
  by (intro performs_rules; simp)+

lemma performs_runAddNode [performs_rules]:
  "{Tool ''db_add_node''} \<subseteq> B \<Longrightarrow> performs B (runAddNode E pods)"
  unfolding runAddNode_def
  by (intro performs_rules; simp)+

lemma performs_addNodes_reconcileSubcluster [performs_rules]:
  "{Tool ''db_add_node''} \<subseteq> B \<Longrightarrow> performs B (addNodes_reconcileSubcluster E sc)"
  unfolding addNodes_reconcileSubcluster_def
  by (intro performs_rules; simp)+

lemma performs_DBAddNode_Reconcile [performs_rules]:
  "{Tool ''db_add_node''} \<subseteq> B \<Longrightarrow> performs B (DBAddNode_Reconcile E)"
  unfolding DBAddNode_Reconcile_def
  by (intro performs_rules; simp)+

lemma performs_rebalanceShards [performs_rules]:
  "performs B (rebalanceShards E atPod scName)"
  unfolding rebalanceShards_def
  by (intro performs_rules; simp)+

lemma performs_RebalanceShards_Reconcile [performs_rules]:
  "performs B (RebalanceShards_Reconcile E scName)"
  unfolding RebalanceShards_Reconcile_def
  by (intro performs_rules; simp)+

section \<open>Install and uninstall\<close>

lemma performs_uninstallPods [performs_rules]:
  "{Conf} \<subseteq> B \<Longrightarrow> performs B (uninstallPods E C podsToUninstall requeueNeeded)"
  unfolding uninstallPods_def
  by (intro performs_rules; simp)+

lemma performs_uninstallPodsInSubcluster [performs_rules]:
  "{Conf} \<subseteq> B \<Longrightarrow> performs B (uninstallPodsInSubcluster E C sc startPodIndex endPodIndex)"
  unfolding uninstallPodsInSubcluster_def
  by (intro performs_rules; simp)+

lemma performs_Uninstall_Reconcile [performs_rules]:
  "{Conf} \<subseteq> B \<Longrightarrow> performs B (Uninstall_Reconcile E C)"
  "{Conf} \<subseteq> B \<Longrightarrow> performs B (acceptEulaInPod E C pf)"
  unfolding Uninstall_Reconcile_def acceptEulaInPod_def
  by (intro performs_rules; simp)+

lemma performs_acceptEulaIfMissing [performs_rules]:
  "{Conf} \<subseteq> B \<Longrightarrow> performs B (acceptEulaIfMissing E C)"
  unfolding acceptEulaIfMissing_def
  by (intro performs_rules; simp)+

lemma performs_checkConfigDirInPod [performs_rules]:
  "performs B (checkConfigDirInPod E p)"
  unfolding checkConfigDirInPod_def
  by (intro performs_rules; simp)+

lemma performs_checkConfigDir [performs_rules]:
  "performs B (checkConfigDir E)"
  unfolding checkConfigDir_def
  by (intro performs_rules; simp)+

lemma performs_installScan [performs_rules]: "performs B (installScan E v d sc is podList)"
  by (induction "is" arbitrary: podList) (auto intro!: performs_rules split: option.split)

lemma performs_installScans [performs_rules]: "performs B (installScans E v d scs podList)"
  by (induction scs arbitrary: podList) (auto intro!: performs_rules split: option.split)

lemma performs_getInstallTargets [performs_rules]:
  "performs B (getInstallTargets E)"
  "performs B (fetchCompat21NodeNum E pf)"
  unfolding getInstallTargets_def fetchCompat21NodeNum_def
  by (intro performs_rules; simp)+

lemma performs_createInstallIndicators [performs_rules]:
  "performs B (createInstallIndicators E pods)"
  unfolding createInstallIndicators_def
  by (intro performs_rules; simp)+

lemma performs_installPods [performs_rules]:
  "{Conf} \<subseteq> B \<Longrightarrow> performs B (installPods E C pods installedPods installPod)"
  unfolding installPods_def
  by (intro performs_rules; simp)+

lemma performs_addHostsToATConf [performs_rules]:
  "{Conf} \<subseteq> B \<Longrightarrow> performs B (addHostsToATConf E C)"
  unfolding addHostsToATConf_def
  by (intro performs_rules; simp)+

lemma performs_analyzeFacts [performs_rules]: "{Conf} \<subseteq> B \<Longrightarrow> performs B (analyzeFacts E C)"
  unfolding analyzeFacts_def by (intro performs_rules; simp; elim disjE; hypsubst; intro performs_rules; simp)

lemma performs_Install_Reconcile [performs_rules]:
  "{Conf} \<subseteq> B \<Longrightarrow> performs B (Install_Reconcile E C)"
  unfolding Install_Reconcile_def
  by (intro performs_rules; simp)+

section \<open>Pods, versions and the status\<close>

lemma performs_routePod [performs_rules]:
  "{WritePod} \<subseteq> B \<Longrightarrow> performs B (routePod E applyMethod pn pf)"
  unfolding routePod_def
  by (intro performs_rules; simp)+

lemma performs_routePods [performs_rules]: "{WritePod} \<subseteq> B \<Longrightarrow> performs B (routePods E applyMethod scName pods savedRes)"
  by (induction pods arbitrary: savedRes) (auto intro!: performs_rules)

lemma performs_rangeEntries [performs_rules]:
  "performs B (rangeEntries E)"
  unfolding rangeEntries_def
  by (intro performs_rules; simp)+

lemma performs_ClientRoutingLabel_Reconcile [performs_rules]:
  "{WritePod} \<subseteq> B \<Longrightarrow> performs B (ClientRoutingLabel_Reconcile E applyMethod scName)"
  unfolding ClientRoutingLabel_Reconcile_def
  by (intro performs_rules; simp)+

lemma performs_generateAnnotations [performs_rules]:
  "performs B (generateAnnotations E)"
  unfolding generateAnnotations_def
  by (intro performs_rules; simp)+

lemma performs_setHasDCTableAnnotations [performs_rules]: "performs B (setHasDCTableAnnotations podName)"
  unfolding setHasDCTableAnnotations_def by (rule performs_modify) simp

lemma performs_applyAnnotationsAndLabels [performs_rules]:
  "{WritePod} \<subseteq> B \<Longrightarrow> performs B (applyAnnotationsAndLabels E podName anns labels)"
  unfolding applyAnnotationsAndLabels_def
  by (intro performs_rules; simp)+

lemma performs_AnnotateAndLabelPod_Reconcile [performs_rules]:
  "{WritePod} \<subseteq> B \<Longrightarrow> performs B (AnnotateAndLabelPod_Reconcile E)"
  "{Tool ''stop_db''} \<subseteq> B \<Longrightarrow> performs B (runStopDB E atPod)"
  unfolding AnnotateAndLabelPod_Reconcile_def runStopDB_def
  by (intro performs_rules; simp)+

lemma performs_stopVertica [performs_rules]:
  "{Tool ''stop_db''} \<subseteq> B \<Longrightarrow> performs B (stopVertica E)"
  unfolding stopVertica_def
  by (intro performs_rules; simp)+

lemma performs_clearRestartNeeded [performs_rules]:
  "performs B (clearRestartNeeded E)"
  unfolding clearRestartNeeded_def
  by (intro performs_rules; simp)+

lemma performs_StopDB_Reconcile [performs_rules]:
  "{Tool ''stop_db''} \<subseteq> B \<Longrightarrow> performs B (StopDB_Reconcile E)"
  "{DeleteSts} \<subseteq> B \<Longrightarrow> performs B (deleteOldSts E sts)"
  unfolding StopDB_Reconcile_def deleteOldSts_def
  by (intro performs_rules; simp)+

lemma performs_UpgradeOperator120_Reconcile [performs_rules]:
  "{DeleteSts} \<subseteq> B \<Longrightarrow> performs B (UpgradeOperator120_Reconcile E)"
  unfolding UpgradeOperator120_Reconcile_def
  by (intro performs_rules; simp)+

lemma performs_getVersion [performs_rules]:
  "performs B (getVersion E pod)"
  "performs B (rangeAnnotations E anns)"
  unfolding getVersion_def rangeAnnotations_def
  by (intro performs_rules; simp)+

lemma performs_storeVersionAnnotations [performs_rules]:
  "{WriteVdb} \<subseteq> B \<Longrightarrow> performs B (storeVersionAnnotations E versionAnnotations)"
  unfolding storeVersionAnnotations_def
  by (intro performs_rules; simp)+

lemma performs_updateVDBVersion [performs_rules]:
  "{WriteVdb} \<subseteq> B \<Longrightarrow> performs B (updateVDBVersion E enforceUpgradePath newVersion)"
  unfolding updateVDBVersion_def
  by (intro performs_rules; simp)+

lemma performs_reconcileVersion [performs_rules]:
  "{WriteVdb} \<subseteq> B \<Longrightarrow> performs B (reconcileVersion E enforceUpgradePath pod)"
  unfolding reconcileVersion_def
  by (intro performs_rules; simp)+

lemma performs_logWarningIfVersionDoesNotSupportsCGroupV2 [performs_rules]:
  "performs B (logWarningIfVersionDoesNotSupportsCGroupV2 E vinf pod)"
  unfolding logWarningIfVersionDoesNotSupportsCGroupV2_def
  by (intro performs_rules; simp)+

lemma performs_Version_Reconcile [performs_rules]:
  "performs B FindPodFunc \<Longrightarrow> {WriteVdb} \<subseteq> B \<Longrightarrow> performs B (Version_Reconcile E enforceUpgradePath FindPodFunc)"
  unfolding Version_Reconcile_def by (intro performs_rules; simp)

lemma performs_runningPod [performs_rules]:
  "performs B (runningPod E)"
  "performs B (getSubclusterSize E v sc)"
  unfolding runningPod_def getSubclusterSize_def
  by (intro performs_rules; simp)+

lemma performs_resizeSubclusterStatus [performs_rules]:
  "performs B (resizeSubclusterStatus E v sc curStat)"
  unfolding resizeSubclusterStatus_def
  by (intro performs_rules; simp)+

lemma performs_calculateSubclusterStatus [performs_rules]:
  "performs B (calculateSubclusterStatus E sc curStat)"
  unfolding calculateSubclusterStatus_def
  by (intro performs_rules; simp)+

lemma performs_calculateSubclusters [performs_rules]: "performs B (calculateSubclusters E scs acc)"
  by (induction E scs acc rule: calculateSubclusters.induct) (auto intro!: performs_rules)

lemma performs_refreshStatus [performs_rules]:
  "performs B (refreshStatus E subclusters vdbChg)"
  unfolding refreshStatus_def
  by (intro performs_rules; simp)+

lemma performs_Status_Reconcile [performs_rules]:
  "performs B (Status_Reconcile E)"
  unfolding Status_Reconcile_def
  by (intro performs_rules; simp)+

section \<open>Building objects\<close>

lemma performs_translateAnnotationsToEnvVars [performs_rules]:
  "performs B (translateAnnotationsToEnvVars E)"
  "performs B makeServerSecurityContext"
  unfolding translateAnnotationsToEnvVars_def makeServerSecurityContext_def
  by (intro performs_rules; simp)+

lemma performs_makeServerContainer [performs_rules]:
  "performs B (makeServerContainer E sc)"
  unfolding makeServerContainer_def
  by (intro performs_rules; simp)+

lemma performs_makeSidecars [performs_rules]: "performs B (makeSidecars E cs)"
  by (induction cs) (auto intro!: performs_rules)

lemma performs_makeContainers [performs_rules]:
  "performs B (makeContainers E sc)"
  unfolding makeContainers_def
  by (intro performs_rules; simp)+

lemma performs_buildPodSpec [performs_rules]:
  "performs B (buildPodSpec E sc dn sp)"
  unfolding buildPodSpec_def
  by (intro performs_rules; simp)+

lemma performs_BuildStsSpec [performs_rules]:
  "performs B (BuildStsSpec E nm sc dn)"
  unfolding BuildStsSpec_def
  by (intro performs_rules; simp)+

section \<open>Reconciling objects\<close>

lemma performs_getConfigMapOrSecret [performs_rules]:
  "performs B (getConfigMapOrSecret get nm)"
  unfolding getConfigMapOrSecret_def
  by (intro performs_rules; simp)+

lemma performs_getSecret [performs_rules]:
  "performs B (getSecret E nm)"
  "performs B (getConfigMap E nm)"
  unfolding getSecret_def getConfigMap_def
  by (intro performs_rules; simp)+

lemma performs_checkSecretHasKeys [performs_rules]:
  "performs B (checkSecretHasKeys E secretName keyNames)"
  unfolding checkSecretHasKeys_def
  by (intro performs_rules; simp)+

lemma performs_checks: "list_all (\<lambda>(configured, check). performs B check) cs
   \<Longrightarrow> performs B (forRet cs (\<lambda>(configured, check). if configured then check else ret_op Done))"
  by (rule performs_loops) (auto simp: list_all_iff performs_basic)

lemma performs_checkMountedObjs [performs_rules]: "performs B (checkMountedObjs E)"
  unfolding checkMountedObjs_def Let_def
  by (rule performs_bind, rule performs_basic, rule performs_checks) (simp; intro conjI performs_rules)

lemma performs_createService [performs_rules]:
  "{WriteSvc} \<subseteq> B \<Longrightarrow> performs B (createService E svc)"
  "{WriteSvc} \<subseteq> B \<Longrightarrow> performs B (updateSvc E mode newSvc)"
  unfolding createService_def updateSvc_def
  by (intro performs_rules; simp)+

lemma performs_reconcileSvc [performs_rules]:
  "{WriteSvc} \<subseteq> B \<Longrightarrow> performs B (reconcileSvc E mode expSvc svcName reconcileFieldsFunc)"
  unfolding reconcileSvc_def
  by (intro performs_rules; simp)+

lemma performs_reconcileExtSvc [performs_rules]:
  "{WriteSvc} \<subseteq> B \<Longrightarrow> performs B (reconcileExtSvc E mode expSvc sc)"
  "{WriteSvc} \<subseteq> B \<Longrightarrow> performs B (reconcileHlSvc E mode)"
  "{CreateSts} \<subseteq> B \<Longrightarrow> performs B (createSts E expSts)"
  "{UpdateSts} \<subseteq> B \<Longrightarrow> performs B (patchSts E patchImageAllowed curSts expSts)"
  unfolding reconcileExtSvc_def reconcileHlSvc_def createSts_def patchSts_def
  by (intro performs_rules; simp)+

lemma performs_updateSts [performs_rules]:
  "{UpdateSts} \<subseteq> B \<Longrightarrow> performs B (updateSts E mode patchImageAllowed sc curSts expSts)"
  unfolding updateSts_def
  by (intro performs_rules; simp)+

lemma performs_reconcileSts [performs_rules]:
  "{CreateSts, UpdateSts} \<subseteq> B \<Longrightarrow> performs B (reconcileSts E dn mode patchImageAllowed sc)"
  unfolding reconcileSts_def
  by (intro performs_rules; simp)+

lemma performs_checkForCreatedSubcluster [performs_rules]:
  "{CreateSts, UpdateSts, WriteSvc} \<subseteq> B \<Longrightarrow> performs B (checkForCreatedSubcluster E dn mode patchImageAllowed sc)"
  "{DeleteSts} \<subseteq> B \<Longrightarrow> performs B (deleteSts E sts)"
  "{DeleteSvc} \<subseteq> B \<Longrightarrow> performs B (deleteSvc E svc)"
  unfolding checkForCreatedSubcluster_def deleteSts_def deleteSvc_def
  by (intro performs_rules; simp)+

lemma performs_checkForDeletedSubcluster [performs_rules]:
  "{DeleteSts, DeleteSvc} \<subseteq> B \<Longrightarrow> performs B (checkForDeletedSubcluster E mode)"
  unfolding checkForDeletedSubcluster_def
  by (intro performs_rules; simp)+

lemma performs_reconcileObjs [performs_rules]:
  "{CreateSts, DeleteSts, DeleteSvc, UpdateSts, WriteSvc} \<subseteq> B \<Longrightarrow> performs B (reconcileObjs E dn mode patchImageAllowed)"
  unfolding reconcileObjs_def by (intro performs_rules; simp; elim disjE imageE; hypsubst; intro performs_rules; simp)

lemma performs_Obj_Reconcile [performs_rules]:
  "{CreateSts, DeleteSts, DeleteSvc, UpdateSts, WriteSvc} \<subseteq> B \<Longrightarrow> performs B (Obj_Reconcile E dn mode patchImageAllowed)"
  unfolding Obj_Reconcile_def
  by (intro performs_rules; simp)+

section \<open>Offline upgrade\<close>

lemma performs_isVDBImageDifferent [performs_rules]:
  "performs B (isVDBImageDifferent E m)"
  unfolding isVDBImageDifferent_def
  by (intro performs_rules; simp)+

lemma performs_IsUpgradeNeeded [performs_rules]:
  "performs B (IsUpgradeNeeded E m)"
  "performs B (toggleImageChangeInProgress E m newVal)"
  unfolding IsUpgradeNeeded_def toggleImageChangeInProgress_def
  by (intro performs_rules; simp)+

lemma performs_startUpgrade [performs_rules]:
  "performs B (startUpgrade E m ContinuingUpgrade)"
  "performs B (finishUpgrade E m)"
  unfolding startUpgrade_def finishUpgrade_def
  by (intro performs_rules; simp)+

lemma performs_updateImageInStatefulSet [performs_rules]:
  "{UpdateSts} \<subseteq> B \<Longrightarrow> performs B (updateImageInStatefulSet E sts)"
  unfolding updateImageInStatefulSet_def
  by (intro performs_rules; simp)+

lemma performs_updateImages [performs_rules]: "{UpdateSts} \<subseteq> B \<Longrightarrow> performs B (updateImages E stss n)"
  by (induction stss arbitrary: n) (auto intro!: performs_rules)

lemma performs_updateImageInStatefulSets [performs_rules]:
  "{UpdateSts} \<subseteq> B \<Longrightarrow> performs B (updateImageInStatefulSets E m)"
  unfolding updateImageInStatefulSets_def
  by (intro performs_rules; simp)+

lemma performs_deleteOldPods [performs_rules]: "{DeletePod} \<subseteq> B \<Longrightarrow> performs B (deleteOldPods E scName pods n)"
  by (induction pods arbitrary: n) (auto intro!: performs_rules)

lemma performs_deletePodsRunningOldImage [performs_rules]:
  "{DeletePod} \<subseteq> B \<Longrightarrow> performs B (deletePodsRunningOldImage E m scName)"
  unfolding deletePodsRunningOldImage_def
  by (intro performs_rules; simp)+

lemma performs_postNextStatusMsg [performs_rules]:
  "performs B (postNextStatusMsg E statusMsgs msgIndex)"
  "performs B (upgradeRequeue res)"
  "performs B (logEventIfOnlineUpgradeRequested ContinuingUpgrade)"
  unfolding postNextStatusMsg_def upgradeRequeue_def logEventIfOnlineUpgradeRequested_def
  by (intro performs_rules; simp)+

lemma performs_postOfflineMsg [performs_rules]:
  "performs B (postOfflineMsg E msgIndex)"
  unfolding postOfflineMsg_def
  by (intro performs_rules; simp)+

lemma performs_anyOldImage [performs_rules]: "performs B (anyOldImage E d)"
  by (induction E d rule: anyOldImage.induct) (auto intro!: performs_rules)

lemma performs_anyPodsRunningWithOldImage [performs_rules]:
  "performs B (anyPodsRunningWithOldImage E)"
  unfolding anyPodsRunningWithOldImage_def
  by (intro performs_rules; simp)+

lemma performs_shutdownDB [performs_rules]:
  "{Tool ''stop_db''} \<subseteq> B \<Longrightarrow> performs B (shutdownDB E atPod)"
  unfolding shutdownDB_def
  by (intro performs_rules; simp)+

lemma performs_stopCluster [performs_rules]:
  "{Tool ''stop_db''} \<subseteq> B \<Longrightarrow> performs B (stopCluster E)"
  unfolding stopCluster_def
  by (intro performs_rules; simp)+

lemma performs_invalidateIf [performs_rules]:
  "performs B (invalidateIf changed)"
  unfolding invalidateIf_def
  by (intro performs_rules; simp)+

lemma performs_offline_updateImageInStatefulSets [performs_rules]:
  "{UpdateSts} \<subseteq> B \<Longrightarrow> performs B (offline_updateImageInStatefulSets E m)"
  "{DeletePod} \<subseteq> B \<Longrightarrow> performs B (deletePods E m)"
  unfolding offline_updateImageInStatefulSets_def deletePods_def
  by (intro performs_rules; simp)+

lemma performs_checkForNewPods [performs_rules]:
  "performs B (checkForNewPods E m)"
  unfolding checkForNewPods_def
  by (intro performs_rules; simp)+

lemma performs_offline_checkVersion [performs_rules]:
  "{WriteVdb} \<subseteq> B \<Longrightarrow> performs B (offline_checkVersion E)"
  unfolding offline_checkVersion_def
  by (intro performs_rules; simp)+

lemma performs_offlineSteps:
  "restartTools \<union> {Conf, DeletePod, Tool ''stop_db'', UpdateSts, WritePod, WriteVdb} \<subseteq> B
   \<Longrightarrow> \<forall>fn \<in> set (offlineSteps E C m c). performs B fn"
  unfolding offlineSteps_def by (simp; intro conjI allI performs_rules; simp)

lemma performs_OfflineUpgrade_Reconcile [performs_rules]:
  "restartTools \<union> {Conf, DeletePod, Tool ''stop_db'', UpdateSts, WritePod, WriteVdb} \<subseteq> B \<Longrightarrow> performs B (OfflineUpgrade_Reconcile E C m)"
  unfolding OfflineUpgrade_Reconcile_def 
  by (intro performs_bind performs_split performs_basic performs_loops performs_Collect performs_IsUpgradeNeeded performs_postNextStatusMsg;
      erule performs_offlineSteps [THEN bspec, rotated])

section \<open>Online upgrade\<close>

lemma performs_plainStep [performs_rules]: "performs B m \<Longrightarrow> performs B (plainStep m o')"
  unfolding plainStep_def by (intro performs_rules)

lemma performs_runSteps [performs_rules]: "(\<And>fn o'. fn \<in> set fns \<Longrightarrow> performs B (fn o')) \<Longrightarrow> performs B (runSteps fns o')"
proof (induction fns arbitrary: o')
  case (Cons fn fns)
  then have "performs B (fn o'')" "performs B (runSteps fns o'')" for o'' by simp_all
  then show ?case unfolding runSteps.simps by (intro performs_rules)
qed (simp add: performs_rules)

lemma performs_iterateSubclusterType [performs_rules]:
  "(\<And>sts o'. performs B (processFunc sts o')) \<Longrightarrow> performs B (iterateSubclusterType E scType processFunc o')"
  unfolding iterateSubclusterType_def by (intro performs_rules; simp; elim imageE; hypsubst; intro performs_rules; simp)

lemma performs_cachePrimaryImages [performs_rules]:
  "performs B (cachePrimaryImages E o')"
  unfolding cachePrimaryImages_def
  by (intro performs_rules; simp)+

lemma performs_loadSubclusterState [performs_rules]:
  "performs B (loadSubclusterState E o')"
  "performs B (precomputeStatusMsgs E o')"
  "performs B (online_postNextStatusMsg E o')"
  "performs B (skipTransientSetup E o')"
  unfolding loadSubclusterState_def precomputeStatusMsgs_def online_postNextStatusMsg_def skipTransientSetup_def
  by (intro performs_rules; simp)+

lemma performs_storeTransient [performs_rules]:
  "{WriteVdb} \<subseteq> B \<Longrightarrow> performs B (storeTransient E transientSc)"
  unfolding storeTransient_def
  by (intro performs_rules; simp)+

lemma performs_addTransientToVdb [performs_rules]:
  "{WriteVdb} \<subseteq> B \<Longrightarrow> performs B (addTransientToVdb E o')"
  unfolding addTransientToVdb_def
  by (intro performs_rules; simp)+

lemma performs_transient [performs_rules]:
  "(\<And>sc. performs B (f sc)) \<Longrightarrow> performs B (withTransient o' f)"
  "performs B m \<Longrightarrow> performs B (collectThen E m)"
  "performs B m \<Longrightarrow> performs B (ifTransientRequired m o')"
  unfolding withTransient_def collectThen_def ifTransientRequired_def by (intro performs_rules; simp)+

lemma performs_transientSetup [performs_rules]:
  "(\<And>o'. performs B (g o')) \<Longrightarrow> performs B (transientSetup E g o')"
  unfolding transientSetup_def by (intro performs_rules)

lemma performs_createTransientSts [performs_rules]:
  "{CreateSts, UpdateSts} \<subseteq> B \<Longrightarrow> performs B (createTransientSts E dn o')"
  "{Conf} \<subseteq> B \<Longrightarrow> performs B (installTransientNodes E C o')"
  "{Tool ''db_add_subcluster''} \<subseteq> B \<Longrightarrow> performs B (addTransientSubcluster E o')"
  "{Tool ''db_add_node''} \<subseteq> B \<Longrightarrow> performs B (addTransientNodes E o')"
  unfolding createTransientSts_def installTransientNodes_def addTransientSubcluster_def addTransientNodes_def
  by (intro performs_rules; simp)+

lemma performs_rebalanceTransientNodes [performs_rules]:
  "performs B (rebalanceTransientNodes E o')"
  unfolding rebalanceTransientNodes_def
  by (intro performs_rules; simp)+

lemma performs_addClientRoutingLabelToTransientNodes [performs_rules]:
  "{WritePod} \<subseteq> B \<Longrightarrow> performs B (addClientRoutingLabelToTransientNodes E o')"
  unfolding addClientRoutingLabelToTransientNodes_def
  by (intro performs_rules; simp)+

lemma performs_getSubclusterForTemporaryRouting [performs_rules]:
  "performs B (getSubclusterForTemporaryRouting E o' offlineSc)"
  unfolding getSubclusterForTemporaryRouting_def
  by (intro performs_rules; simp)+

lemma performs_routeClientTraffic [performs_rules]:
  "{WriteSvc} \<subseteq> B \<Longrightarrow> performs B (routeClientTraffic E o' scName setTemporaryRouting)"
  unfolding routeClientTraffic_def
  by (intro performs_rules; simp)+

lemma performs_isSubclusterIdle [performs_rules]:
  "performs B (isSubclusterIdle E scName)"
  unfolding isSubclusterIdle_def
  by (intro performs_rules; simp)+

lemma performs_drainSubcluster [performs_rules]:
  "{WriteSvc} \<subseteq> B \<Longrightarrow> performs B (drainSubcluster E sts o')"
  "{DeletePod, UpdateSts} \<subseteq> B \<Longrightarrow> performs B (recreateSubclusterWithNewImage E m sts o')"
  unfolding drainSubcluster_def recreateSubclusterWithNewImage_def
  by (intro performs_rules; simp)+

lemma performs_runningPodOf [performs_rules]:
  "performs B (runningPodOf E scName)"
  unfolding runningPodOf_def
  by (intro performs_rules; simp)+

lemma performs_online_checkVersion [performs_rules]:
  "{WriteVdb} \<subseteq> B \<Longrightarrow> performs B (online_checkVersion E sts o')"
  unfolding online_checkVersion_def
  by (intro performs_rules; simp)+

lemma performs_waitForReadOnly [performs_rules]:
  "performs B (waitForReadOnly E sts)"
  unfolding waitForReadOnly_def
  by (intro performs_rules; simp)+

lemma performs_bringSubclusterOnline [performs_rules]:
  "{Tool ''list_allnodes'', Tool ''re_ip'', Tool ''restart_node'', Tool ''start_db'', WritePod, WriteSvc} \<subseteq> B \<Longrightarrow> performs B (bringSubclusterOnline E sts o')"
  unfolding bringSubclusterOnline_def
  by (intro performs_rules; simp)+

lemma performs_restartPrimaries [performs_rules]:
  "restartTools \<union> {Conf, DeletePod, UpdateSts, WritePod, WriteSvc, WriteVdb} \<subseteq> B \<Longrightarrow> performs B (restartPrimaries E C m o')"
  unfolding restartPrimaries_def by (intro performs_rules; simp; elim disjE; hypsubst; intro performs_rules; simp)

lemma performs_processSecondary [performs_rules]:
  "restartTools \<union> {Conf, DeletePod, UpdateSts, WritePod, WriteSvc} \<subseteq> B \<Longrightarrow> performs B (processSecondary E C m sts o')"
  unfolding processSecondary_def by (intro performs_rules; simp; elim disjE; hypsubst; intro performs_rules; simp)

lemma performs_restartSecondaries [performs_rules]:
  "{Conf, DeletePod, Tool ''list_allnodes'', Tool ''re_ip'', Tool ''restart_node'', Tool ''start_db'', UpdateSts, WritePod, WriteSvc} \<subseteq> B \<Longrightarrow> performs B (restartSecondaries E C m o')"
  "{WriteVdb} \<subseteq> B \<Longrightarrow> performs B (storeWithoutTransient E)"
  unfolding restartSecondaries_def storeWithoutTransient_def
  by (intro performs_rules; simp)+

lemma performs_removeTransientFromVdb [performs_rules]:
  "{WriteVdb} \<subseteq> B \<Longrightarrow> performs B (removeTransientFromVdb E o')"
  "{WritePod} \<subseteq> B \<Longrightarrow> performs B (removeClientRoutingLabelFromTransientNodes E o')"
  "{Tool ''db_remove_subcluster''} \<subseteq> B \<Longrightarrow> performs B (removeTransientSubclusters E o')"
  "{Conf} \<subseteq> B \<Longrightarrow> performs B (uninstallTransientNodes E C o')"
  "{CreateSts, DeleteSts, DeleteSvc, UpdateSts, WriteSvc} \<subseteq> B \<Longrightarrow> performs B (deleteTransientSts E dn o')"
  unfolding removeTransientFromVdb_def removeClientRoutingLabelFromTransientNodes_def removeTransientSubclusters_def uninstallTransientNodes_def deleteTransientSts_def
  by (intro performs_rules; simp)+

abbreviation onlineActions :: "action set" where
  "onlineActions \<equiv> restartTools \<union> {Conf, CreateSts, DeletePod, DeleteSts, DeleteSvc, Tool ''db_add_node'', Tool ''db_add_subcluster'',
     Tool ''db_remove_subcluster'', UpdateSts, WritePod, WriteSvc, WriteVdb}"

lemma performs_onlineSteps: "onlineActions \<subseteq> B \<Longrightarrow> \<forall>fn \<in> set (onlineSteps E C dn m c). \<forall>o'. performs B (fn o')"
  unfolding onlineSteps_def by (simp; intro conjI allI performs_rules; simp)

lemma performs_OnlineUpgrade_Reconcile [performs_rules]: "onlineActions \<subseteq> B \<Longrightarrow> performs B (OnlineUpgrade_Reconcile E C dn m o')"
  unfolding OnlineUpgrade_Reconcile_def by (intro performs_rules; erule performs_onlineSteps [rule_format, rotated])

section \<open>Initializing the database\<close>

lemma performs_license_GetPath [performs_rules]:
  "performs B (license_GetPath E v)"
  "performs B (getCommunalCredsSecret E)"
  unfolding license_GetPath_def getCommunalCredsSecret_def
  by (intro performs_rules; simp)+

lemma performs_getCommunalAuth [performs_rules]:
  "performs B (getCommunalAuth E)"
  "performs B (getAzureAuth E)"
  unfolding getCommunalAuth_def getAzureAuth_def
  by (intro performs_rules; simp)+

lemma performs_getS3AuthParmsContent [performs_rules]:
  "performs B (getS3AuthParmsContent E dedent)"
  "performs B (getHDFSAuthParmsContent dedent)"
  "performs B (getGCloudAuthParmsContent E dedent)"
  "performs B (getAzureAuthParmsContent E dedent)"
  "performs B (copyAuthFile E atPod content)"
  "performs B hasCompatibleVersionForKerberos"
  unfolding getS3AuthParmsContent_def getHDFSAuthParmsContent_def getGCloudAuthParmsContent_def getAzureAuthParmsContent_def copyAuthFile_def hasCompatibleVersionForKerberos_def
  by (intro performs_rules; simp)+

lemma performs_ConstructAuthParms [performs_rules]:
  "performs B (ConstructAuthParms E dedent atPod)"
  "performs B (DestroyAuthParms E atPod)"
  "performs B (cleanupLocalFilesInPods E podList)"
  unfolding ConstructAuthParms_def DestroyAuthParms_def cleanupLocalFilesInPods_def
  by (intro performs_rules; simp)+

text \<open>An initializer stays within a set when its own operations do and every command it generates does.\<close>

definition initializes :: "action set \<Rightarrow> 'w DatabaseInitializer \<Rightarrow> bool" where
  "initializes B I \<longleftrightarrow> performs B (in_getPodList I) \<and> (\<forall>atPod. performs B (in_preCmdSetup I atPod)) \<and> performs B (in_postCmdCleanup I)
     \<and> (\<forall>hosts. spec (\<lambda>_. True) (within B) (in_genCmd I hosts)
           (\<lambda>r _. \<forall>cmd. r = Inr cmd \<longrightarrow> (\<forall>atPod. performs B (in_execCmd I atPod cmd))))"

lemma performs_bind_post:
  assumes "spec (\<lambda>_. True) (within A) m (\<lambda>a _. C a)" and "\<And>a. C a \<Longrightarrow> performs A (f a)"
  shows "performs A (m \<bind> f)"
  unfolding performs_def
  by (rule spec_bind [OF assms(1)]) (use assms(2) in \<open>auto simp: performs_def spec_def\<close>)

lemma performs_execInit:
  assumes "initializes B I"
  shows "performs B (execInit E I atPod podList)"
  unfolding execInit_def
proof (rule performs_bind_post)
  show "spec (\<lambda>_. True) (within B) (in_genCmd I (getHostList podList))
     (\<lambda>r _. \<forall>cmd. r = Inr cmd \<longrightarrow> (\<forall>atPod. performs B (in_execCmd I atPod cmd)))"
    using assms by (simp add: initializes_def)
  have "performs B (in_postCmdCleanup I)" using assms by (simp add: initializes_def)
  then show "performs B (case r of Inl e \<Rightarrow> ret_op (Fail e)
      | Inr cmd \<Rightarrow> in_execCmd I atPod cmd \<bind> (\<lambda>res. if IsReconcileAborted res then ret_op res
          else debugDumpAdmintoolsConf E atPod \<bind> (\<lambda>_. UpdateCondition E \<lparr>cond_Type = DBInitialized, cond_Status = ConditionTrue,
            cond_LastTransitionTime = zeroTime\<rparr> \<bind> case_option (DestroyAuthParms E atPod \<bind> (\<lambda>_. Invalidate \<bind> (\<lambda>_. in_postCmdCleanup I)))
              (\<lambda>e. ret_op (Fail e)))))"
    if "\<forall>cmd. r = Inr cmd \<longrightarrow> (\<forall>atPod. performs B (in_execCmd I atPod cmd))" for r
    using that by (intro performs_rules; simp)
qed

lemma performs_runInit:
  assumes "initializes B I"
  shows "performs B (prepareInit E I atPod podList)" "performs B (runInit E dedent I)" "performs B (checkAndRunInit E dedent I)"
proof -
  have ops: "performs B (in_getPodList I)" "performs B (in_preCmdSetup I p)" for p using assms by (simp_all add: initializes_def)
  show pre: "performs B (prepareInit E I atPod podList)" for atPod podList
    unfolding prepareInit_def by (intro performs_rules performs_execInit assms)
  show run: "performs B (runInit E dedent I)"
    unfolding runInit_def by (intro performs_rules pre ops)
  show "performs B (checkAndRunInit E dedent I)"
    unfolding checkAndRunInit_def by (intro performs_rules run)
qed

lemma performs_CreateDB_preCmdSetup [performs_rules]:
  "performs B (CreateDB_preCmdSetup E atPod)"
  "performs B CreateDB_postCmdCleanup"
  "performs B CreateDB_getPodList"
  "performs B (ReviveDB_preCmdSetup atPod)"
  "performs B ReviveDB_postCmdCleanup"
  "performs B ReviveDB_getPodList"
  unfolding CreateDB_preCmdSetup_def CreateDB_postCmdCleanup_def CreateDB_getPodList_def ReviveDB_preCmdSetup_def ReviveDB_postCmdCleanup_def ReviveDB_getPodList_def
  by (intro performs_rules; simp)+

lemma performs_CreateDB_execCmd:
  "Tool (cmd ! 1) \<in> B \<Longrightarrow> performs B (CreateDB_execCmd E atPod cmd)"
  "Tool (cmd' ! 1) \<in> B \<Longrightarrow> performs B (ReviveDB_execCmd E atPod cmd')"
  unfolding CreateDB_execCmd_def ReviveDB_execCmd_def by (intro performs_rules; simp)+

lemma genCmd_tool:
  "spec (\<lambda>_. True) (within B) (CreateDB_genCmd E hosts) (\<lambda>r _. \<forall>cmd. r = Inr cmd \<longrightarrow> cmd ! 1 = ''create_db'')"
  "spec (\<lambda>_. True) (within B) (ReviveDB_genCmd hosts) (\<lambda>r _. \<forall>cmd. r = Inr cmd \<longrightarrow> cmd ! 1 = ''revive_db'')"
proof -
  have "performs B (license_GetPath E v)" for v by (rule performs_license_GetPath)
  then have "spec (\<lambda>_. True) (within B) (license_GetPath E v) (\<lambda>_ _. True)" for v by (simp add: performs_def)
  then show "spec (\<lambda>_. True) (within B) (CreateDB_genCmd E hosts) (\<lambda>r _. \<forall>cmd. r = Inr cmd \<longrightarrow> cmd ! 1 = ''create_db'')"
    unfolding CreateDB_genCmd_def by (intro spec_rules localPred_facts; simp add: spec_ret)
  show "spec (\<lambda>_. True) (within B) (ReviveDB_genCmd hosts) (\<lambda>r _. \<forall>cmd. r = Inr cmd \<longrightarrow> cmd ! 1 = ''revive_db'')"
    unfolding ReviveDB_genCmd_def by (intro spec_rules; simp add: spec_ret)
qed

lemma initializers:
  fixes E :: "'w env"
  shows
  "Tool ''create_db'' \<in> B \<Longrightarrow> initializes B (MakeCreateDBReconciler E)"
  "Tool ''revive_db'' \<in> B \<Longrightarrow> initializes B (MakeReviveDBReconciler E)"
proof -
  assume B: "Tool ''create_db'' \<in> B"
  have "spec (\<lambda>_. True) (within B) (CreateDB_genCmd E hosts)
     (\<lambda>r _. \<forall>cmd. r = Inr cmd \<longrightarrow> (\<forall>atPod. performs B (CreateDB_execCmd E atPod cmd)))" for hosts
    by (rule spec_weaken [OF genCmd_tool(1)]) (use B in \<open>auto intro: performs_CreateDB_execCmd\<close>)
  then show "initializes B (MakeCreateDBReconciler E)"
    by (simp add: initializes_def MakeCreateDBReconciler_def performs_CreateDB_preCmdSetup)
next
  assume B: "Tool ''revive_db'' \<in> B"
  have "spec (\<lambda>_. True) (within B) (ReviveDB_genCmd hosts :: ('w, goerr + string list) op)
     (\<lambda>r _. \<forall>cmd. r = Inr cmd \<longrightarrow> (\<forall>atPod. performs B (ReviveDB_execCmd E atPod cmd)))" for hosts
    by (rule spec_weaken [OF genCmd_tool(2)]) (use B in \<open>auto intro: performs_CreateDB_execCmd\<close>)
  then show "initializes B (MakeReviveDBReconciler E)"
    by (simp add: initializes_def MakeReviveDBReconciler_def performs_CreateDB_preCmdSetup)
qed

lemma performs_CreateDB_Reconcile [performs_rules]:
  "{Tool ''create_db''} \<subseteq> B \<Longrightarrow> performs B (CreateDB_Reconcile E dedent)"
  "{Tool ''revive_db''} \<subseteq> B \<Longrightarrow> performs B (ReviveDB_Reconcile E dedent)"
  unfolding CreateDB_Reconcile_def ReviveDB_Reconcile_def
  by (intro performs_rules performs_runInit initializers; simp)+

section \<open>The reconcilers of a pass\<close>

lemma performs_setGauges [performs_rules]: "performs B (setGauges v summary)"
  by (induction v summary rule: setGauges.induct) (auto intro!: performs_rules)

lemma performs_Metric_Reconcile [performs_rules]:
  "performs B (Metric_Reconcile E)"
  "performs B (GetSuperuserPassword E v)"
  unfolding Metric_Reconcile_def GetSuperuserPassword_def
  by (intro performs_rules; simp)+

lemma performs_withVdb [performs_rules]: "(\<And>v. performs B (f v)) \<Longrightarrow> performs B (withVdb f)"
  unfolding withVdb_def by (intro performs_rules)

section \<open>The first pass over the objects\<close>

text \<open>In the mode that only creates what is not found, nothing that exists is changed or deleted.\<close>

lemma ifNotFound_updates:
  "updateSvc E ObjReconcileModeIfNotFound newSvc = ret_op Done"
  "updateSts E ObjReconcileModeIfNotFound patchImageAllowed sc curSts expSts = ret_op Done"
  "checkForDeletedSubcluster E ObjReconcileModeIfNotFound = ret_op Done"
  by (simp_all add: updateSvc_def updateSts_def checkForDeletedSubcluster_def)

lemma performs_ifNotFound_created:
  assumes "{CreateSts, WriteSvc} \<subseteq> B"
  shows "performs B (checkForCreatedSubcluster E dn ObjReconcileModeIfNotFound patchImageAllowed sc)"
  unfolding checkForCreatedSubcluster_def reconcileExtSvc_def reconcileSvc_def reconcileSts_def ifNotFound_updates
  using assms by (intro performs_rules; simp)

lemma performs_Obj_ifNotFound:
  assumes "{CreateSts, WriteSvc} \<subseteq> B"
  shows "performs B (Obj_Reconcile E dn ObjReconcileModeIfNotFound patchImageAllowed)"
proof -
  have "performs B (reconcileHlSvc E ObjReconcileModeIfNotFound)"
    unfolding reconcileHlSvc_def reconcileSvc_def ifNotFound_updates using assms by (intro performs_rules; simp)
  then have "\<forall>step \<in> set ([checkMountedObjs E, reconcileHlSvc E ObjReconcileModeIfNotFound]
       @ map (checkForCreatedSubcluster E dn ObjReconcileModeIfNotFound patchImageAllowed) scs
       @ [checkForDeletedSubcluster E ObjReconcileModeIfNotFound]). performs B step" for scs
    by (auto simp: ifNotFound_updates intro: performs_ifNotFound_created [OF assms] performs_checkMountedObjs performs_basic)
  then have "performs B (reconcileObjs E dn ObjReconcileModeIfNotFound patchImageAllowed)"
    unfolding reconcileObjs_def by (intro performs_bind performs_basic performs_loops) blast
  then show ?thesis unfolding Obj_Reconcile_def by (intro performs_bind performs_split performs_Collect performs_basic)
qed

section \<open>The actions of a pass\<close>

text \<open>The actions that each reconciler of a pass may perform, in the order of the reconcilers.\<close>

definition footprints :: "action set list" where
  "footprints =
     [{}, {}, {DeleteSts},
      restartTools \<union> {Conf, DeletePod, Tool ''stop_db'', UpdateSts, WritePod, WriteVdb},
      onlineActions,
      {CreateSts, WriteSvc}, {WritePod}, {Tool ''stop_db''}, restartTools, {}, {}, {WritePod}, {WritePod},
      {}, {Tool ''db_remove_subcluster''}, {}, {Tool ''db_remove_node''}, {}, {}, {Conf}, {},
      {CreateSts, DeleteSts, DeleteSvc, UpdateSts, WriteSvc}, {WriteVdb}, {Conf}, {},
      {Tool ''create_db''}, {Tool ''revive_db''}, {}, {}, {WritePod}, {Tool ''db_add_subcluster''}, {}, {},
      {Tool ''db_add_node''}, {}, {}, {WritePod}]"

lemma length_footprints [simp]: "length footprints = 37"
  by (simp add: footprints_def)

lemma actors_footprints: "list_all2 performs footprints (constructActors E C dn dedent)"
  unfolding footprints_def constructActors_def list_all2_Cons list_all2_Nil
  by (intro conjI performs_Obj_ifNotFound TrueI; (intro performs_rules)?; simp)

lemma performs_mono: "performs A m \<Longrightarrow> A \<subseteq> B \<Longrightarrow> performs B m"
  unfolding performs_def by (erule spec_weaken) (auto simp: within_def)

lemma performs_runActors:
  "list_all (performs A) acts \<Longrightarrow> performs A (runActors acts r)"
proof (induction acts arbitrary: r)
  case (Cons act acts)
  then have "performs A act" "performs A (runActors acts r')" for r' by simp_all
  then show ?case unfolding runActors.simps by (intro performs_rules)
qed (simp add: performs_basic)

lemma list_all2_performs_UNIV: "list_all2 performs F acts \<Longrightarrow> list_all (performs UNIV) acts"
  by (induction rule: list_all2_induct) (auto intro: performs_mono)

lemma performs_nth:
  assumes "performs A m" and "run_state m s = (r, s')" and "length (trace s) \<le> n" and "n < length (trace s')"
    and "action_of (trace s' ! n) = Some a"
  shows "a \<in> A"
proof -
  from performsD [OF assms(1,2)] obtain os where os: "trace s' = trace s @ os" "list_all (within A) os" by blast
  with assms(3,4) have "trace s' ! n \<in> set os" by (simp add: nth_append)
  with os(2) assms(5) show ?thesis by (auto simp: list_all_iff within_def)
qed

lemma runActors_action:
  assumes "list_all2 performs F acts" and "run_state (runActors acts r0) s = (res, s')"
    and "length (trace s) \<le> n" and "n < length (trace s')" and "action_of (trace s' ! n) = Some a"
  shows "\<exists>k sk. k < length acts \<and> a \<in> F ! k \<and> completed (take k acts) s sk \<and> length (trace sk) \<le> n"
  using assms
proof (induction F acts arbitrary: r0 s rule: list_all2_induct)
  case Nil
  then show ?case by simp
next
  case (Cons A F act acts)
  obtain r s1 where act: "run_state act s = (r, s1)" by (rule prod.exhaust)
  show ?case
  proof (cases "n < length (trace s1)")
    case True
    have "\<exists>os. trace s' = trace s1 @ os"
    proof (cases "IsReconcileAborted r")
      case True
      with Cons.prems act show ?thesis by auto
    next
      case False
      with Cons.prems act have "run_state (runActors acts r) s1 = (res, s')" by simp
      from performsD [OF performs_runActors [OF list_all2_performs_UNIV [OF Cons.hyps(2)]] this] show ?thesis by blast
    qed
    with True have "trace s' ! n = trace s1 ! n" by (auto simp: nth_append)
    with performs_nth [OF Cons.hyps(1) act Cons.prems(2) True] Cons.prems(4) have "a \<in> A" by simp
    with Cons.prems(2) show ?thesis by (intro exI [of _ 0] exI [of _ s]) (simp add: completed_Nil)
  next
    case False
    then have "s' \<noteq> s1" using Cons.prems(3) by auto
    with Cons.prems(1) act have ok: "\<not> IsReconcileAborted r" by auto
    with Cons.prems(1) act have "run_state (runActors acts r) s1 = (res, s')" by simp
    from Cons.IH [OF this _ Cons.prems(3,4)] False obtain k sk where
      "k < length acts" "a \<in> F ! k" "completed (take k acts) s1 sk" "length (trace sk) \<le> n" by auto
    with act ok show ?thesis by (intro exI [of _ "Suc k"] exI [of _ sk]) (simp add: completed_Cons)
  qed
qed

text \<open>
  The state in which the first reconciler of a pass starts, if the pass gets that far: the resource
  has been fetched, the password has been read and the facts have still to be collected.
\<close>

definition passStart :: "'w env \<Rightarrow> NamespacedName \<Rightarrow> 'w st \<Rightarrow> 'w st option" where
  "passStart E req s =
     (case e_GetVdb E req (world s) of
        (Inl e, w) \<Rightarrow> None
      | (Inr v, w) \<Rightarrow>
          (case run_state (GetSuperuserPassword E v) (s\<lparr>world := w, vdb := v\<rparr>) of
             (Inl e, s0) \<Rightarrow> None
           | (Inr passwd, s0) \<Rightarrow> Some (s0\<lparr>suPassword := passwd, pfacts := MakePodFacts\<rparr>)))"

lemma passStart_run:
  assumes "run_state (VerticaDB_Reconcile E C dn dedent req) s = (res, s')" and "passStart E req s = Some start"
  shows "run_state (runActors (constructActors E C dn dedent) Done) start = (res, s')" and "trace start = trace s"
proof -
  obtain r w where r: "e_GetVdb E req (world s) = (r, w)" by (rule prod.exhaust)
  from assms(2) r obtain v where v: "r = Inr v" by (auto simp: passStart_def split: sum.splits)
  obtain p s0 where p: "run_state (GetSuperuserPassword E v) (s\<lparr>world := w, vdb := v\<rparr>) = (p, s0)" by (rule prod.exhaust)
  from assms(2) r v p obtain passwd where pw: "p = Inr passwd" "start = s0\<lparr>suPassword := passwd, pfacts := MakePodFacts\<rparr>"
    by (auto simp: passStart_def split: sum.splits)
  from pass_actors [OF assms(1) r [unfolded v] p [unfolded pw(1)]]
  show "run_state (runActors (constructActors E C dn dedent) Done) start = (res, s')" by (simp add: pw(2))
  from GetSuperuserPassword_trace [OF p] show "trace start = trace s" by (auto simp: pw)
qed

lemma passStart_None:
  fixes E :: "'w env"
  assumes "run_state (VerticaDB_Reconcile E C dn dedent req) s = (res, s')" and "passStart E req s = None"
  shows "\<exists>os. trace s' = trace s @ os \<and> list_all (within {}) os"
proof -
  obtain r w where r: "e_GetVdb E req (world s) = (r, w)" by (rule prod.exhaust)
  show ?thesis
  proof (cases r)
    case (Inl e)
    have "performs {} (HandleVDBDelete (nn_Namespace req) (nn_Name req) :: ('w, unit) op)" by (intro performs_rules)
    from performsD [OF this, where s = "s\<lparr>world := w\<rparr>"] assms(1) r Inl show ?thesis
      by (cases "errors_IsNotFound e") (auto simp: VerticaDB_Reconcile_def split: prod.splits)
  next
    case (Inr v)
    obtain p s0 where p: "run_state (GetSuperuserPassword E v) (s\<lparr>world := w, vdb := v\<rparr>) = (p, s0)" by (rule prod.exhaust)
    with assms(2) r Inr obtain e where e: "p = Inl e" by (auto simp: passStart_def split: sum.splits)
    have "performs {} (GetSuperuserPassword E v)" by (intro performs_rules)
    from performsD [OF this p] assms(1) r Inr p e show ?thesis by (auto simp: VerticaDB_Reconcile_def)
  qed
qed

lemma pass_action:
  assumes run: "run_state (VerticaDB_Reconcile E C dn dedent req) s = (res, s')"
    and n: "length (trace s) \<le> n" "n < length (trace s')" and a: "action_of (trace s' ! n) = Some a"
  shows "\<exists>start k sk. passStart E req s = Some start \<and> k < 37 \<and> a \<in> footprints ! k
     \<and> completed (take k (constructActors E C dn dedent)) start sk \<and> length (trace sk) \<le> n"
proof (cases "passStart E req s")
  case None
  from passStart_None [OF run None] obtain os where "trace s' = trace s @ os" "list_all (within {}) os" by blast
  with n a show ?thesis by (auto simp: nth_append list_all_iff within_def dest!: nth_mem)
next
  case (Some start)
  from runActors_action [OF actors_footprints passStart_run(1) [OF run Some], unfolded passStart_run(2) [OF run Some], OF n a] Some
  show ?thesis by (auto simp: length_constructActors)
qed

lemma runActors_prefix:
  assumes "completed (take k acts) s sk" and "run_state (runActors acts r0) s = (res, s')" and "list_all (performs UNIV) acts"
  shows "\<exists>os. trace s' = trace sk @ os"
  using assms
proof (induction k arbitrary: acts s r0)
  case 0
  then have "sk = s" by (auto elim: completed.cases)
  with performsD [OF performs_runActors [OF 0(3)] 0(2)] show ?case by blast
next
  case (Suc k)
  show ?case
  proof (cases acts)
    case Nil
    with Suc.prems show ?thesis by (auto elim: completed.cases)
  next
    case (Cons act acts')
    with Suc.prems(1) obtain r s1 where act: "run_state act s = (r, s1)" "\<not> IsReconcileAborted r" "completed (take k acts') s1 sk"
      by (auto elim: completed_ConsE)
    from Suc.IH [OF act(3)] act(1,2) Suc.prems(2,3) Cons show ?thesis by auto
  qed
qed

section \<open>Draining before nodes go\<close>

lemma forRet_each:
  assumes "\<And>x. performs UNIV (f x)" and "run_state (forRet xs f) s = (r, s')" and "\<not> IsReconcileAborted r" and "x \<in> set xs"
  shows "\<exists>s1 r1 s2 os os'. run_state (f x) s1 = (r1, s2) \<and> \<not> IsReconcileAborted r1 \<and> trace s1 = trace s @ os \<and> trace s' = trace s2 @ os'"
  using assms(2-4)
proof (induction xs arbitrary: s)
  case (Cons y ys)
  obtain ry sy where y: "run_state (f y) s = (ry, sy)" by (rule prod.exhaust)
  from performsD [OF assms(1) y] obtain oy where oy: "trace sy = trace s @ oy" by blast
  have ok: "\<not> IsReconcileAborted ry" using Cons.prems y by (auto split: if_splits)
  with Cons.prems y have rest: "run_state (forRet ys f) sy = (r, s')" by simp
  have "performs UNIV (forRet ys f)" by (intro performs_loops assms(1))
  from performsD [OF this rest] obtain os' where os': "trace s' = trace sy @ os'" by blast
  show ?case
  proof (cases "x = y")
    case True
    with y ok os' show ?thesis by (intro exI [of _ s] exI [of _ ry] exI [of _ sy]) auto
  next
    case False
    with Cons.IH [OF rest Cons.prems(2)] Cons.prems(3) oy show ?thesis by fastforce
  qed
qed simp

text \<open>Between the two states a node was asked for its sessions and had none.\<close>

definition drained :: "'w env \<Rightarrow> PodFact \<Rightarrow> 'w st \<Rightarrow> 'w st \<Rightarrow> bool" where
  "drained E pf s s' \<longleftrightarrow> (\<exists>t stdout stderr t' os os'.
     run_state (ExecVSQL E (pf_name pf) [''-tAc'', sessionsOfNodeSQL (pf_vnodeName pf)]) t = ((stdout, stderr, None), t')
     \<and> \<not> anyActiveConnections stdout \<and> trace t = trace s @ os \<and> trace s' = trace t' @ os')"

lemma drainPod_drained:
  assumes "run_state (drainPod E pf) s = (r, s')" and "\<not> IsReconcileAborted r"
  shows "drained E pf s s'"
proof -
  obtain stdout stderr err t where vsql: "run_state (ExecVSQL E (pf_name pf) [''-tAc'', sessionsOfNodeSQL (pf_vnodeName pf)]) s
      = ((stdout, stderr, err), t)" by (metis prod.exhaust)
  from assms vsql have ok: "err = None" "\<not> anyActiveConnections stdout"
    by (auto simp: drainPod_def ret_defs ctrl_requeue_def split: option.splits if_splits)
  with assms(1) vsql have "s' = t" by (simp add: drainPod_def)
  with vsql ok show ?thesis unfolding drained_def by (metis append_Nil2)
qed

lemma drainPod_pfacts: "spec (\<lambda>s. pfacts s = D) (\<lambda>_. True) (drainPod E pf) (\<lambda>_ s. pfacts s = D)"
  unfolding drainPod_def by (intro spec_rules localPred_facts) simp_all

lemma drain_complete:
  assumes E: "rangeLaw E" and run: "run_state (DrainNode_Reconcile E) s = (r, s')" and ok: "\<not> IsReconcileAborted r"
    and pf: "pf \<in> snd ` set (Detail (pfacts s'))" "pf_pendingDelete pf" "pf_upNode pf"
  shows "drained E pf s s'"
proof -
  let ?f = "\<lambda>pf. if pf_pendingDelete pf \<and> pf_upNode pf then drainPod E pf else ret_op Done"
  obtain err s1 where c: "run_state (Collect E) s = (err, s1)" by (rule prod.exhaust)
  from performsD [OF performs_Collect(1) c] obtain os where os: "trace s1 = trace s @ os" by blast
  obtain d w where d: "e_Range E (Detail (pfacts s1)) (world s1) = (d, w)" by (rule prod.exhaust)
  from run ok c have "err = None" by (auto simp: DrainNode_Reconcile_def ret_defs split: option.splits)
  with run c d have loop: "run_state (forRet (map snd d) ?f) (s1\<lparr>world := w\<rparr>) = (r, s')"
    by (simp add: DrainNode_Reconcile_def rangeDetail_def)
  have "spec (\<lambda>s. pfacts s = pfacts s1) (\<lambda>_. True) (forRet (map snd d) ?f) (\<lambda>_ s. pfacts s = pfacts s1)"
    by (intro spec_rules drainPod_pfacts)
  from specD [OF this _ loop] have "pfacts s' = pfacts s1" by simp
  with pf(1) mset_eq_setD [OF rangeLawD(1) [OF E d]] have mem: "pf \<in> set (map snd d)" by simp
  have "performs UNIV (?f x)" for x unfolding drainPod_def by (intro performs_rules)
  from forRet_each [OF this loop ok mem] pf(2,3) obtain s2 r2 s3 oa ob where
    "run_state (drainPod E pf) s2 = (r2, s3)" "\<not> IsReconcileAborted r2" "trace s2 = trace s1 @ oa" "trace s' = trace s3 @ ob"
    by auto
  with drainPod_drained [OF this(1,2)] os show ?thesis unfolding drained_def by fastforce
qed

lemma completed_nth:
  "completed xs s s' \<Longrightarrow> j < length xs \<Longrightarrow>
     \<exists>s1 r s2. completed (take j xs) s s1 \<and> run_state (xs ! j) s1 = (r, s2) \<and> \<not> IsReconcileAborted r \<and> completed (drop (Suc j) xs) s2 s'"
proof (induction arbitrary: j rule: completed.induct)
  case (completed_Cons act s res s1 acts s2)
  show ?case
  proof (cases j)
    case 0
    with completed_Cons.hyps show ?thesis by (auto intro!: exI [of _ s] completed.intros(1))
  next
    case (Suc i)
    with completed_Cons.IH [of i] completed_Cons.prems obtain t1 r t2 where
      "completed (take i acts) s1 t1" "run_state (acts ! i) t1 = (r, t2)" "\<not> IsReconcileAborted r" "completed (drop (Suc i) acts) t2 s2"
      by auto
    with completed_Cons.hyps(1,2) Suc show ?thesis
      by (intro exI [of _ t1] exI [of _ r] exI [of _ t2]) (auto intro: completed.intros(2))
  qed
qed simp

lemma completed_grows:
  "completed xs s s' \<Longrightarrow> list_all (performs UNIV) xs \<Longrightarrow> \<exists>os. trace s' = trace s @ os"
  by (induction rule: completed.induct) (auto dest!: performsD)

text \<open>
  A node is only removed from the database in a pass in which, before, the draining has returned:
  every node that the facts then had up and about to go was without sessions.
\<close>

lemma nodes_removed_after_drain:
  assumes E: "rangeLaw E" and run: "run_state (VerticaDB_Reconcile E C dn dedent req) s = (res, s')"
    and n: "length (trace s) \<le> n" "n < length (trace s')" "action_of (trace s' ! n) = Some (Tool ''db_remove_node'')"
  shows "\<exists>s1 r s2. run_state (DrainNode_Reconcile E) s1 = (r, s2) \<and> length (trace s2) \<le> n
     \<and> (\<forall>pf \<in> snd ` set (Detail (pfacts s2)). pf_pendingDelete pf \<and> pf_upNode pf \<longrightarrow> drained E pf s1 s2)"
proof -
  let ?acts = "constructActors E C dn dedent"
  from pass_action [OF run n] obtain start k sk where k: "k < 37" "Tool ''db_remove_node'' \<in> footprints ! k"
    "completed (take k ?acts) start sk" "length (trace sk) \<le> n" by blast
  from k(1,2) have "k = 16" by (auto simp: footprints_def less_Suc_eq numeral_eq_Suc nth_Cons split: nat.splits)
  then have "13 < length (take k ?acts)" by (simp add: length_constructActors)
  from completed_nth [OF k(3) this] obtain s1 r s2 where
    d: "run_state (DrainNode_Reconcile E) s1 = (r, s2)" "\<not> IsReconcileAborted r" "completed (drop 14 (take k ?acts)) s2 sk"
    using \<open>k = 16\<close> by (auto simp: constructActors_def)
  have "list_all (performs UNIV) (drop 14 (take k ?acts))"
    using list_all2_performs_UNIV [OF actors_footprints [of E C dn dedent]]
    by (auto simp: list_all_iff dest!: in_set_dropD in_set_takeD)
  from completed_grows [OF d(3) this] k(4) have "length (trace s2) \<le> n" by auto
  with d drain_complete [OF E d(1,2)] show ?thesis by blast
qed

section \<open>Properties\<close>


text \<open>A cluster whose statefulset was made by an operator that is to be upgraded.\<close>

definition oldSts :: StatefulSet where
  "oldSts = zeroStatefulSet\<lparr>sts_Name := ''vertica-sample-defaultsubcluster'',
     sts_Labels := [OperatorVersionLabel \<mapsto> OperatorVersion120, SubclusterNameLabel \<mapsto> ''defaultsubcluster'']\<rparr>"

definition oldEnv :: "VerticaDB env" where
  "oldEnv = storeEnv\<lparr>e_ListSts := \<lambda>ns l w. (Inr [oldSts], w), e_RangeMap := \<lambda>m w. ([], w)\<rparr>"

lemma oldEnv_code [code]:
  "oldEnv = \<lparr>
     e_GetVdb = \<lambda>nm w. (Inr w, w),
     e_UpdateVdb = \<lambda>v w. (let v' = v\<lparr>vdb_Status := vdb_Status w\<rparr> in (Inr v', v')),
     e_UpdateVdbStatus = \<lambda>v w. (let v' = w\<lparr>vdb_Status := vdb_Status v\<rparr> in (Inr v', v')),
     e_GetVas = \<lambda>nm w. (Inl NotFoundErr, w),
     e_UpdateVas = \<lambda>a w. (Inr a, w),
     e_UpdateVasStatus = \<lambda>a w. (Inr a, w),
     e_GetSts = \<lambda>nm w. (Inl NotFoundErr, w),
     e_ListSts = \<lambda>ns l w. (Inr [oldSts], w),
     e_UpdateSts = \<lambda>x w. (None, w),
     e_GetPod = \<lambda>nm w. (Inl NotFoundErr, w),
     e_ListPods = \<lambda>ns l w. (Inr [], w),
     e_UpdatePod = \<lambda>x w. (None, w),
     e_DeletePod = \<lambda>x w. (None, w),
     e_GetSvc = \<lambda>nm w. (Inl NotFoundErr, w),
     e_ListSvc = \<lambda>ns l w. (Inr [], w),
     e_UpdateSvc = \<lambda>x w. (None, w),
     e_CreateSts = \<lambda>x w. (None, w),
     e_DeleteSts = \<lambda>x w. (None, w),
     e_PatchSts = \<lambda>x y w. (Inr y, w),
     e_CreateSvc = \<lambda>x w. (None, w),
     e_DeleteSvc = \<lambda>x w. (None, w),
     e_PatchPod = \<lambda>x y w. (Inr y, w),
     e_GetSecret = \<lambda>nm w. (Inl NotFoundErr, w),
     e_GetConfigMap = \<lambda>nm w. (Inl NotFoundErr, w),
     e_SetControllerReference = \<lambda>nm w. (None, w),
     e_ServerVersion = \<lambda>w. (Inr (''v1.23.5'', ''c285e78'', ''2022-03-16''), w),
     e_Copy = \<lambda>nm contents dest w. (([], [], None), w),
     e_Exec = \<lambda>nm cmd w. (([], [], None), w),
     e_Now = \<lambda>w. (63800000000, w),
     e_Range = \<lambda>d w. (d, w),
     e_RangeKeys = \<lambda>ks w. (ks, w),
     e_RangeMap = \<lambda>m w. ([], w),
     e_Retries = 3\<rparr>"
  by (simp add: oldEnv_def storeEnv_def emptyEnv_def)



text \<open>One pod that is about to go; its node answers that there are no sessions.\<close>

definition drainEnv :: "VerticaDB env" where
  "drainEnv = storeEnv\<lparr>e_Exec := \<lambda>nm cmd w. ((''0'', [], None), w)\<rparr>"

definition leavingFact :: PodFact where
  "leavingFact = (exampleFact 0)\<lparr>pf_pendingDelete := True\<rparr>"

definition leavingPod :: "VerticaDB st" where
  "leavingPod = exampleState\<lparr>pfacts := \<lparr>Detail = [(pf_name leavingFact, leavingFact)], NeedCollection = False\<rparr>\<rparr>"


end
