(* ===== verification/Vas.thy ===== *)
theory Vas
  imports Trace
begin

text \<open>
  The controller of the VerticaAutoscaler (packages controllers/vas and vasstatus): it keeps the status
  of the autoscaler, initializes the target size, and changes the VerticaDB so that the pods behind a
  service name add up to the target size, by resizing subclusters or by adding and removing whole
  subclusters.

  The VerticaDB a reconciler works on is the copy in the state. The autoscaler is passed from one
  reconciler to the next, because they share a pointer to it. A loop of this component may not end:
  then the operation does not return.
\<close>

section \<open>Retrying with variables\<close>

text \<open>
  A function that is retried and assigns variables of its caller, whatever it returns. It may also
  panic or run forever.
\<close>

datatype 'a outcome = Returns 'a | Panics string | Diverges

fun RetryOnConflictS :: "nat \<Rightarrow> ('x \<Rightarrow> ('w, ('x \<times> goerr option) outcome) op) \<Rightarrow> 'x \<Rightarrow> ('w, ('x \<times> goerr option) outcome) op" where
  "RetryOnConflictS 0 fn x = fn x"
| "RetryOnConflictS (Suc n) fn x = do {
     r \<leftarrow> fn x;
     case r of
       Returns (x', Some e) \<Rightarrow> if errors_IsConflict e then RetryOnConflictS n fn x' else ret_op r
     | _ \<Rightarrow> ret_op r
   }"

section \<open>Status of the autoscaler\<close>

text \<open>
  The updater compares the copy of the whole object with the new status. Values of different types
  are never equal, so the status is always written.
\<close>

definition vasStatus_once :: "'w env \<Rightarrow> NamespacedName \<Rightarrow> (VerticaAutoscaler \<Rightarrow> VerticaAutoscaler) \<Rightarrow> ('w, goerr option) op" where
  "vasStatus_once E req statusUpdateFunc = do {
     r \<leftarrow> ask (e_GetVas E req);
     case r of
       Inl e \<Rightarrow> if errors_IsNotFound e then ret_op None else ret_op (Some e)
     | Inr a \<Rightarrow> do {
         let a' = statusUpdateFunc a;
         emit (ObsUpdateVasStatus a');
         r \<leftarrow> ask (e_UpdateVasStatus E a');
         case r of Inl e \<Rightarrow> ret_op (Some e) | Inr _ \<Rightarrow> ret_op None
       }
   }"

definition vasStatusUpdater :: "'w env \<Rightarrow> NamespacedName \<Rightarrow> (VerticaAutoscaler \<Rightarrow> VerticaAutoscaler) \<Rightarrow> ('w, goerr option) op" where
  "vasStatusUpdater E req statusUpdateFunc = RetryOnConflict (e_Retries E) (vasStatus_once E req statusUpdateFunc)"

definition updVasStatus :: "(VerticaAutoscalerStatus \<Rightarrow> VerticaAutoscalerStatus) \<Rightarrow> VerticaAutoscaler \<Rightarrow> VerticaAutoscaler" where
  "updVasStatus f a = a\<lparr>vas_Status := f (vas_Status a)\<rparr>"

definition vas_getLabelSelector :: "VerticaAutoscaler \<Rightarrow> string" where
  "vas_getLabelSelector a =
     SubclusterSvcNameLabel @ ''='' @ vas_ServiceName a @ '','' @ VDBInstanceLabel @ ''='' @ vsp_VerticaDBName (vas_Spec a)
     @ '','' @ ManagedByLabel @ ''='' @ OperatorName"

definition SetSelector :: "'w env \<Rightarrow> NamespacedName \<Rightarrow> ('w, goerr option) op" where
  "SetSelector E req = vasStatusUpdater E req (\<lambda>a. updVasStatus (\<lambda>st. st\<lparr>vst_Selector := vas_getLabelSelector a\<rparr>) a)"

definition ReportScalingOperation :: "'w env \<Rightarrow> NamespacedName \<Rightarrow> int \<Rightarrow> ('w, goerr option) op" where
  "ReportScalingOperation E req currentSize = vasStatusUpdater E req
     (updVasStatus (\<lambda>st. st\<lparr>vst_ScalingCount := wrap64 (vst_ScalingCount st + 1), vst_CurrentSize := currentSize\<rparr>))"

definition RefreshCurrentSize :: "'w env \<Rightarrow> NamespacedName \<Rightarrow> int \<Rightarrow> ('w, goerr option) op" where
  "RefreshCurrentSize E req currentSize = vasStatusUpdater E req (updVasStatus (\<lambda>st. st\<lparr>vst_CurrentSize := currentSize\<rparr>))"

definition vas_refreshConditionInPlace :: "VerticaAutoscalerCondition \<Rightarrow> VerticaAutoscalerStatus \<Rightarrow> VerticaAutoscalerStatus" where
  "vas_refreshConditionInPlace condition st =
     (let conds = (if vst_Conditions st = [] then [zeroVasCondition] else vst_Conditions st)
      in if vc_Status (conds ! TargetSizeInitializedIndex) \<noteq> vc_Status condition
         then st\<lparr>vst_Conditions := conds[TargetSizeInitializedIndex := condition]\<rparr>
         else st\<lparr>vst_Conditions := conds\<rparr>)"

definition vas_UpdateCondition :: "'w env \<Rightarrow> NamespacedName \<Rightarrow> VerticaAutoscalerCondition \<Rightarrow> ('w, goerr option) op" where
  "vas_UpdateCondition E req condition = do {
     condition \<leftarrow> (if vc_LastTransitionTime condition = zeroTime
       then do { now \<leftarrow> ask (e_Now E); ret_op (condition\<lparr>vc_LastTransitionTime := now\<rparr>) }
       else ret_op condition);
     vasStatusUpdater E req (updVasStatus (vas_refreshConditionInPlace condition))
   }"

section \<open>Fetching the VerticaDB\<close>

definition fetchVDB :: "'w env \<Rightarrow> VerticaAutoscaler \<Rightarrow> ('w, ret) op" where
  "fetchVDB E a = do {
     r \<leftarrow> ask (e_GetVdb E \<lparr>nn_Namespace = vas_Namespace a, nn_Name = vsp_VerticaDBName (vas_Spec a)\<rparr>);
     case r of
       Inl e \<Rightarrow> if errors_IsNotFound e then do { Eventf EventTypeWarning ''VerticaDBNotFound''; ret_op RequeueNow }
                else ret_op (Fail e)
     | Inr v \<Rightarrow> do { setVdb v; ret_op Done }
   }"

type_synonym 'w vas_actor = "VerticaAutoscaler \<Rightarrow> ('w, (VerticaAutoscaler \<times> ret) option) op"

definition VDBVerify_Reconcile :: "'w env \<Rightarrow> 'w vas_actor" where
  "VDBVerify_Reconcile E a = do { res \<leftarrow> fetchVDB E a; ret_op (Some (a, res)) }"

section \<open>Refreshing the status\<close>

definition RefreshCurrentSize_Reconcile :: "'w env \<Rightarrow> NamespacedName \<Rightarrow> 'w vas_actor" where
  "RefreshCurrentSize_Reconcile E req a = do {
     res \<leftarrow> fetchVDB E a;
     if IsReconcileAborted res then ret_op (Some (a, res))
     else do {
       v \<leftarrow> gets_st vdb;
       err \<leftarrow> RefreshCurrentSize E req (snd (FindSubclusterForServiceName v (vas_ServiceName a)));
       ret_op (Some (a, ofErr err))
     }
   }"

definition RefreshSelector_Reconcile :: "'w env \<Rightarrow> NamespacedName \<Rightarrow> 'w vas_actor" where
  "RefreshSelector_Reconcile E req a = do { err \<leftarrow> SetSelector E req; ret_op (Some (a, ofErr err)) }"

section \<open>Initializing the target size\<close>

text \<open>The result and the error of a call that returned.\<close>

definition ret_Result :: "ret \<Rightarrow> ctrl_result" where
  "ret_Result r = (case r of Ret res err \<Rightarrow> res | GoPanic m \<Rightarrow> emptyResult)"

definition ret_Err :: "ret \<Rightarrow> goerr option" where
  "ret_Err r = (case r of Ret res err \<Rightarrow> err | GoPanic m \<Rightarrow> None)"

text \<open>The autoscaler in memory is changed before it is written.\<close>

definition initTargetSize_once :: "'w env \<Rightarrow> VerticaAutoscaler \<times> ctrl_result
     \<Rightarrow> ('w, ((VerticaAutoscaler \<times> ctrl_result) \<times> goerr option) outcome) op" where
  "initTargetSize_once E x = do {
     let a = fst x;
     fr \<leftarrow> fetchVDB E a;
     if IsReconcileAborted fr then ret_op (Returns ((a, ret_Result fr), ret_Err fr))
     else do {
       v \<leftarrow> gets_st vdb;
       let totSize = snd (FindSubclusterForServiceName v (vas_ServiceName a));
       if vas_TargetSize a \<noteq> totSize
       then do {
         let a' = a\<lparr>vas_Spec := (vas_Spec a)\<lparr>vsp_TargetSize := totSize\<rparr>\<rparr>;
         emit (ObsUpdateVas a');
         r \<leftarrow> ask (e_UpdateVas E a');
         case r of
           Inl e \<Rightarrow> ret_op (Returns ((a', ret_Result fr), Some e))
         | Inr a'' \<Rightarrow> ret_op (Returns ((a'', ret_Result fr), None))
       }
       else ret_op (Returns ((a, ret_Result fr), None))
     }
   }"

definition initTargetSize :: "'w env \<Rightarrow> 'w vas_actor" where
  "initTargetSize E a = do {
     r \<leftarrow> RetryOnConflictS (e_Retries E) (initTargetSize_once E) (a, emptyResult);
     case r of
       Returns ((a', res), err) \<Rightarrow> ret_op (Some (a', Ret res err))
     | Panics m \<Rightarrow> ret_op (Some (a, GoPanic m))
     | Diverges \<Rightarrow> ret_op None
   }"

definition setTargetSizeInitializedCondition :: "'w env \<Rightarrow> NamespacedName \<Rightarrow> ('w, goerr option) op" where
  "setTargetSizeInitializedCondition E req =
     vas_UpdateCondition E req \<lparr>vc_Type = TargetSizeInitialized, vc_Status = ConditionTrue, vc_LastTransitionTime = zeroTime\<rparr>"

definition TargetSizeInitializer_Reconcile :: "'w env \<Rightarrow> NamespacedName \<Rightarrow> 'w vas_actor" where
  "TargetSizeInitializer_Reconcile E req a =
     (if length (vst_Conditions (vas_Status a)) > TargetSizeInitializedIndex
         \<and> vc_Status (vst_Conditions (vas_Status a) ! TargetSizeInitializedIndex) = ConditionTrue
      then ret_op (Some (a, Done))
      else do {
        r \<leftarrow> (if vas_TargetSize a = 0 then initTargetSize E a else ret_op (Some (a, Done)));
        case r of
          None \<Rightarrow> ret_op None
        | Some (a', res) \<Rightarrow>
            if IsReconcileAborted res then ret_op (Some (a', res))
            else do { err \<leftarrow> setTargetSizeInitializedCondition E req; ret_op (Some (a', ofErr err)) }
      })"

section \<open>Resizing subclusters\<close>

text \<open>From the last subcluster to the first; the list is in that order.\<close>

fun resizeLoop :: "string \<Rightarrow> int \<Rightarrow> Subcluster list \<Rightarrow> Subcluster list" where
  "resizeLoop svc delta [] = []"
| "resizeLoop svc delta (sc # scs) =
     (if GetServiceName sc \<noteq> svc \<or> delta = 0 then sc # resizeLoop svc delta scs
      else if delta > 0 then sc\<lparr>sc_Size := wrap32 (sc_Size sc + delta)\<rparr> # resizeLoop svc 0 scs
      else if wrap32 (- delta) > sc_Size sc then sc\<lparr>sc_Size := 0\<rparr> # resizeLoop svc (wrap32 (delta + sc_Size sc)) scs
      else sc\<lparr>sc_Size := wrap32 (sc_Size sc + delta)\<rparr> # resizeLoop svc 0 scs)"

definition updSubclusters :: "(Subcluster list \<Rightarrow> Subcluster list) \<Rightarrow> VerticaDB \<Rightarrow> VerticaDB" where
  "updSubclusters f v = v\<lparr>vdb_Spec := (vdb_Spec v)\<lparr>spec_Subclusters := f (vdb_Subclusters v)\<rparr>\<rparr>"

definition resizeVdb :: "string \<Rightarrow> int \<Rightarrow> VerticaDB \<Rightarrow> VerticaDB" where
  "resizeVdb svc delta = updSubclusters (\<lambda>scs. rev (resizeLoop svc delta (rev scs)))"

text \<open>Writing the VerticaDB, and what the closure returns then.\<close>

definition updateScaled :: "'w env \<Rightarrow> ctrl_result \<times> bool \<Rightarrow> ('w, ((ctrl_result \<times> bool) \<times> goerr option) outcome) op" where
  "updateScaled E x = do {
     v \<leftarrow> gets_st vdb;
     emit (ObsUpdateVdb v);
     r \<leftarrow> ask (e_UpdateVdb E v);
     case r of
       Inl e \<Rightarrow> ret_op (Returns (x, Some e))
     | Inr v' \<Rightarrow> do { setVdb v'; ret_op (Returns ((fst x, True), None)) }
   }"

definition resize_once :: "'w env \<Rightarrow> VerticaAutoscaler \<Rightarrow> ctrl_result \<times> bool \<Rightarrow> ('w, ((ctrl_result \<times> bool) \<times> goerr option) outcome) op" where
  "resize_once E a x = do {
     fr \<leftarrow> fetchVDB E a;
     if IsReconcileAborted fr then ret_op (Returns ((ret_Result fr, snd x), ret_Err fr))
     else do {
       v \<leftarrow> gets_st vdb;
       let found = FindSubclusterForServiceName v (vas_ServiceName a);
       if fst found = []
       then do {
         Eventf EventTypeWarning ''SubclusterServiceNameNotFound'';
         ret_op (Returns (((fst x)\<lparr>Requeue := True\<rparr>, snd x), None))
       }
       else do {
         let delta = wrap32 (vas_TargetSize a - snd found);
         if delta = 0 then ret_op (Returns (x, None))
         else do {
           setVdb (resizeVdb (vas_ServiceName a) delta v);
           updateScaled E x
         }
       }
     }
   }"

text \<open>What resizing and scaling do after the update.\<close>

definition finishScaling :: "'w env \<Rightarrow> NamespacedName \<Rightarrow> VerticaAutoscaler \<Rightarrow> ((ctrl_result \<times> bool) \<times> goerr option) outcome
     \<Rightarrow> ('w, (VerticaAutoscaler \<times> ret) option) op" where
  "finishScaling E req a r =
     (case r of
        Diverges \<Rightarrow> ret_op None
      | Panics m \<Rightarrow> ret_op (Some (a, GoPanic m))
      | Returns ((res, scalingDone), err) \<Rightarrow>
          if IsReconcileAborted (Ret res err) then ret_op (Some (a, Ret res err))
          else do {
            err \<leftarrow> (if scalingDone then do {
                       v \<leftarrow> gets_st vdb;
                       ReportScalingOperation E req (snd (FindSubclusterForServiceName v (vas_ServiceName a)))
                     } else ret_op err);
            ret_op (Some (a, Ret res err))
          })"

definition resizeSubcluster :: "'w env \<Rightarrow> NamespacedName \<Rightarrow> 'w vas_actor" where
  "resizeSubcluster E req a = do {
     r \<leftarrow> RetryOnConflictS (e_Retries E) (resize_once E a) (emptyResult, False);
     finishScaling E req a r
   }"

definition SubclusterResize_Reconcile :: "'w env \<Rightarrow> NamespacedName \<Rightarrow> 'w vas_actor" where
  "SubclusterResize_Reconcile E req a =
     (if vsp_ScalingGranularity (vas_Spec a) \<noteq> PodScalingGranularity then ret_op (Some (a, Done))
      else resizeSubcluster E req a)"

section \<open>Adding and removing subclusters\<close>

text \<open>From the last subcluster to the first; the list is in that order.\<close>

fun removeLoop :: "string \<Rightarrow> int \<Rightarrow> Subcluster list \<Rightarrow> Subcluster list" where
  "removeLoop svc podsToRemove [] = []"
| "removeLoop svc podsToRemove (sc # scs) =
     (if GetServiceName sc = svc
      then if podsToRemove > 0 \<and> sc_Size sc \<le> podsToRemove then removeLoop svc (wrap32 (podsToRemove - sc_Size sc)) scs
           else sc # scs
      else sc # removeLoop svc podsToRemove scs)"

definition considerRemovingSubclusters :: "string \<Rightarrow> int \<Rightarrow> VerticaDB \<Rightarrow> VerticaDB" where
  "considerRemovingSubclusters svc podsToRemove = updSubclusters (\<lambda>scs. rev (removeLoop svc podsToRemove (rev scs)))"

partial_function (option) genNextName_loop :: "(string \<rightharpoonup> Subcluster) \<Rightarrow> string \<Rightarrow> nat \<Rightarrow> string option" where
  "genNextName_loop scMap baseName i =
     (let name = baseName @ ''-'' @ strconv_Itoa (int i)
      in if scMap name = None then Some name else genNextName_loop scMap baseName (Suc i))"

definition genNextSubclusterName :: "VerticaAutoscaler \<Rightarrow> (string \<rightharpoonup> Subcluster) \<Rightarrow> string option" where
  "genNextSubclusterName a scMap =
     (let baseName = (if sc_Name (vsp_Template (vas_Spec a)) = [] then vas_Name a else sc_Name (vsp_Template (vas_Spec a)))
      in genNextName_loop scMap baseName 0)"

text \<open>The next subcluster, if there is something to build it from.\<close>

definition calcNextSubcluster :: "VerticaAutoscaler \<Rightarrow> VerticaDB \<Rightarrow> (string \<rightharpoonup> Subcluster) \<Rightarrow> Subcluster option option" where
  "calcNextSubcluster a v scMap =
     (if CanUseTemplate a
      then map_option (\<lambda>nm. Some ((vsp_Template (vas_Spec a))\<lparr>sc_Name := nm\<rparr>)) (genNextSubclusterName a scMap)
      else let scs = fst (FindSubclusterForServiceName v (vas_ServiceName a))
           in if scs = [] then Some None
              else map_option (\<lambda>nm. Some ((last scs)\<lparr>sc_ServiceName := vas_ServiceName a, sc_Name := nm\<rparr>))
                     (genNextSubclusterName a scMap))"

text \<open>The loop that adds subclusters; \<open>Some None\<close> is the dereference of a nil pointer.\<close>

partial_function (option) addSubclusters :: "VerticaAutoscaler \<Rightarrow> int \<Rightarrow> int \<Rightarrow> VerticaDB \<Rightarrow> (string \<rightharpoonup> Subcluster) \<Rightarrow> VerticaDB option option" where
  "addSubclusters a newScSize newPodsNeeded v scMap =
     (if newPodsNeeded \<ge> newScSize
      then (case calcNextSubcluster a v scMap of
              None \<Rightarrow> None
            | Some None \<Rightarrow> Some None
            | Some (Some newSc) \<Rightarrow>
                addSubclusters a newScSize (wrap32 (newPodsNeeded - sc_Size newSc))
                  (updSubclusters (\<lambda>scs. scs @ [newSc]) v) (scMap(sc_Name newSc \<mapsto> newSc)))
      else Some (Some v))"

definition considerAddingSubclusters :: "VerticaAutoscaler \<Rightarrow> int \<Rightarrow> ('w, bool outcome) op" where
  "considerAddingSubclusters a newPodsNeeded = do {
     v \<leftarrow> gets_st vdb;
     let scMap = GenSubclusterMap v;
     case calcNextSubcluster a v scMap of
       None \<Rightarrow> ret_op Diverges
     | Some None \<Rightarrow> do { Eventf EventTypeWarning ''NoSubclusterTemplate''; ret_op (Returns False) }
     | Some (Some next) \<Rightarrow>
         (case addSubclusters a (sc_Size next) newPodsNeeded v scMap of
            None \<Rightarrow> ret_op Diverges
          | Some None \<Rightarrow> ret_op (Panics ''nil pointer dereference'')
          | Some (Some v') \<Rightarrow> do {
              setVdb v';
              ret_op (Returns (length (vdb_Subclusters v) \<noteq> length (vdb_Subclusters v')))
            })
   }"

definition scale_once :: "'w env \<Rightarrow> VerticaAutoscaler \<Rightarrow> ctrl_result \<times> bool \<Rightarrow> ('w, ((ctrl_result \<times> bool) \<times> goerr option) outcome) op" where
  "scale_once E a x = do {
     fr \<leftarrow> fetchVDB E a;
     if IsReconcileAborted fr then ret_op (Returns ((ret_Result fr, snd x), ret_Err fr))
     else do {
       v \<leftarrow> gets_st vdb;
       let delta = wrap32 (vas_TargetSize a - snd (FindSubclusterForServiceName v (vas_ServiceName a)));
       changed \<leftarrow>
         (if delta < 0 then do {
            let v' = considerRemovingSubclusters (vas_ServiceName a) (wrap32 (- delta)) v;
            setVdb v';
            ret_op (Returns (length (vdb_Subclusters v) \<noteq> length (vdb_Subclusters v')))
          }
          else if delta > 0 then considerAddingSubclusters a delta
          else ret_op (Returns False));
       case changed of
         Diverges \<Rightarrow> ret_op Diverges
       | Panics m \<Rightarrow> ret_op (Panics m)
       | Returns c \<Rightarrow> if \<not> c then ret_op (Returns (x, None)) else updateScaled E x
     }
   }"

definition scaleSubcluster :: "'w env \<Rightarrow> NamespacedName \<Rightarrow> 'w vas_actor" where
  "scaleSubcluster E req a = do {
     r \<leftarrow> RetryOnConflictS (e_Retries E) (scale_once E a) (emptyResult, False);
     finishScaling E req a r
   }"

definition SubclusterScale_Reconcile :: "'w env \<Rightarrow> NamespacedName \<Rightarrow> 'w vas_actor" where
  "SubclusterScale_Reconcile E req a =
     (if vsp_ScalingGranularity (vas_Spec a) \<noteq> SubclusterScalingGranularity then ret_op (Some (a, Done))
      else scaleSubcluster E req a)"

section \<open>The controller\<close>

definition vas_actors :: "'w env \<Rightarrow> NamespacedName \<Rightarrow> 'w vas_actor list" where
  "vas_actors E req = [VDBVerify_Reconcile E, TargetSizeInitializer_Reconcile E req, RefreshCurrentSize_Reconcile E req,
     RefreshSelector_Reconcile E req, SubclusterResize_Reconcile E req, SubclusterScale_Reconcile E req]"

fun runVasActors :: "'w vas_actor list \<Rightarrow> VerticaAutoscaler \<Rightarrow> ret \<Rightarrow> ('w, ret option) op" where
  "runVasActors [] a res = ret_op (Some res)"
| "runVasActors (act # acts) a res = do {
     r \<leftarrow> act a;
     case r of
       None \<Rightarrow> ret_op None
     | Some (a', res') \<Rightarrow> if IsReconcileAborted res' then ret_op (Some res') else runVasActors acts a' res'
   }"

definition VAS_Reconcile :: "'w env \<Rightarrow> NamespacedName \<Rightarrow> ('w, ret option) op" where
  "VAS_Reconcile E req = do {
     r \<leftarrow> ask (e_GetVas E req);
     case r of
       Inl e \<Rightarrow> if errors_IsNotFound e then ret_op (Some Done) else ret_op (Some (Fail e))
     | Inr a \<Rightarrow> runVasActors (vas_actors E req) a Done
   }"

section \<open>Lemmas\<close>

subsection \<open>Names of new subclusters\<close>

text \<open>The loop that looks for a name ends: only finitely many names are taken.\<close>

lemma genNextName_loop_finite:
  assumes "finite (dom scMap)"
  shows "\<exists>i. genNextName_loop scMap base k = Some (base @ ''-'' @ strconv_Itoa (int i))
     \<and> scMap (base @ ''-'' @ strconv_Itoa (int i)) = None"
proof -
  let ?name = "\<lambda>i. base @ ''-'' @ strconv_Itoa (int i)"
  have "inj ?name" by (auto intro!: injI simp: Itoa_inj)
  then have "infinite (?name ` {k..})" by (simp add: finite_image_iff inj_on_subset infinite_Ici)
  then have "\<not> ?name ` {k..} \<subseteq> dom scMap" using assms finite_subset by blast
  then obtain i where i: "k \<le> i" "scMap (?name i) = None" by auto
  then show ?thesis
  proof (induction "i - k" arbitrary: k rule: less_induct)
    case less
    show ?case
    proof (cases "scMap (?name k) = None")
      case True
      then show ?thesis by (subst genNextName_loop.simps) (auto simp: Let_def)
    next
      case False
      with less.prems have "k < i" by (metis le_neq_implies_less)
      have "genNextName_loop scMap base k = genNextName_loop scMap base (Suc k)"
        using False by (subst genNextName_loop.simps) (auto simp: Let_def)
      with less.hyps [of "Suc k"] less.prems \<open>k < i\<close> show ?thesis by simp
    qed
  qed
qed

lemma genNext_fresh:
  assumes "finite (dom scMap)"
  obtains nm where "genNextSubclusterName a scMap = Some nm" "scMap nm = None" "nm \<noteq> []"
proof -
  obtain base where "genNextSubclusterName a scMap = genNextName_loop scMap base 0"
    by (simp add: genNextSubclusterName_def Let_def)
  with genNextName_loop_finite [OF assms, of base 0] that show thesis by auto
qed

subsection \<open>Adding subclusters\<close>

text \<open>What a new subcluster is made from.\<close>

definition nextBase :: "VerticaAutoscaler \<Rightarrow> VerticaDB \<Rightarrow> Subcluster option" where
  "nextBase a v =
     (if CanUseTemplate a then Some (vsp_Template (vas_Spec a))
      else let scs = filter (\<lambda>sc. GetServiceName sc = vas_ServiceName a) (vdb_Subclusters v)
           in if scs = [] then None else Some ((last scs)\<lparr>sc_ServiceName := vas_ServiceName a\<rparr>))"

lemma calcNext_base:
  "calcNextSubcluster a v scMap =
     (case nextBase a v of
        None \<Rightarrow> Some None
      | Some b \<Rightarrow> map_option (\<lambda>nm. Some (b\<lparr>sc_Name := nm\<rparr>)) (genNextSubclusterName a scMap))"
  by (simp add: calcNextSubcluster_def nextBase_def FindSubclusterForServiceName_scs Let_def)

lemma updSubclusters_simps [simp]:
  "vdb_Subclusters (updSubclusters f v) = f (vdb_Subclusters v)" "vdb_Status (updSubclusters f v) = vdb_Status v"
  "updSubclusters f (updSubclusters g v) = updSubclusters (f \<circ> g) v"
  by (simp_all add: updSubclusters_def)

text \<open>A subcluster that was just added is the next base, or leaves the base as it was; the size stays the same.\<close>

lemma nextBase_append:
  assumes "nextBase a v = Some b"
  shows "\<exists>b'. nextBase a (updSubclusters (\<lambda>scs. scs @ [b\<lparr>sc_Name := nm\<rparr>]) v) = Some b' \<and> sc_Size b' = sc_Size b"
  using assms by (auto simp: nextBase_def Let_def split: if_splits)

text \<open>
  With a size above zero the loop ends, after adding as many subclusters of that size as fit into the
  pods that are needed, all with new names.
\<close>

lemma addSubclusters_result:
  assumes "nextBase a v = Some b" and "0 < sc_Size b" and "finite (dom scMap)" and "0 \<le> needed" and "int32 needed"
    and "sc_Name ` set (vdb_Subclusters v) \<subseteq> dom scMap"
  shows "\<exists>new. addSubclusters a (sc_Size b) needed v scMap = Some (Some (updSubclusters (\<lambda>scs. scs @ new) v))
     \<and> int (length new) = needed div sc_Size b \<and> (\<forall>sc \<in> set new. sc_Size sc = sc_Size b)
     \<and> distinct (map sc_Name new) \<and> sc_Name ` set new \<inter> dom scMap = {}"
  using assms
proof (induction "nat needed" arbitrary: needed v scMap b rule: less_induct)
  case less
  show ?case
  proof (cases "needed \<ge> sc_Size b")
    case False
    then have "addSubclusters a (sc_Size b) needed v scMap = Some (Some (updSubclusters (\<lambda>scs. scs @ []) v))"
      by (subst addSubclusters.simps) (simp add: updSubclusters_def)
    moreover have "needed div sc_Size b = 0" using False less.prems(2,4) by simp
    ultimately show ?thesis by (intro exI [of _ "[]"]) simp
  next
    case True
    obtain nm where nm: "genNextSubclusterName a scMap = Some nm" "scMap nm = None"
      using genNext_fresh [OF less.prems(3), of a] by blast
    let ?sc = "b\<lparr>sc_Name := nm\<rparr>"
    let ?v = "updSubclusters (\<lambda>scs. scs @ [?sc]) v" and ?m = "scMap(nm \<mapsto> ?sc)" and ?n = "needed - sc_Size b"
    have w: "wrap32 ?n = ?n" "int32 ?n" using less.prems True by (auto simp: int32_def intro!: wrap32_id)
    have step: "addSubclusters a (sc_Size b) needed v scMap = addSubclusters a (sc_Size b) ?n ?v ?m"
      by (subst addSubclusters.simps) (simp add: calcNext_base True nm less.prems(1) w)
    obtain b' where b': "nextBase a ?v = Some b'" "sc_Size b' = sc_Size b"
      using nextBase_append [OF less.prems(1)] by blast
    obtain new where new: "addSubclusters a (sc_Size b) ?n ?v ?m = Some (Some (updSubclusters (\<lambda>scs. scs @ new) ?v))"
      "int (length new) = ?n div sc_Size b" "\<forall>sc \<in> set new. sc_Size sc = sc_Size b" "distinct (map sc_Name new)"
      "sc_Name ` set new \<inter> dom ?m = {}"
    proof -
      have "nat ?n < nat needed" "0 < sc_Size b'" "finite (dom ?m)" "0 \<le> ?n" using less.prems True b'(2) by simp_all
      moreover have "sc_Name ` set (vdb_Subclusters ?v) \<subseteq> dom ?m" using less.prems(6) by auto
      ultimately show thesis using less.hyps [of ?n ?v b' ?m] b' w(2) that by auto
    qed
    have "needed div sc_Size b = ?n div sc_Size b + 1"
      using less.prems(2) div_add_self2 [of "sc_Size b" ?n] by simp
    moreover have "updSubclusters (\<lambda>scs. scs @ new) ?v = updSubclusters (\<lambda>scs. scs @ ?sc # new) v"
      by (simp add: updSubclusters_def)
    moreover have "nm \<notin> sc_Name ` set new" "sc_Name ` set new \<inter> dom scMap = {}" using new(5) by auto
    ultimately show ?thesis
      using new(1-4) nm(2) by (intro exI [of _ "?sc # new"]) (simp add: step domIff)
  qed
qed

text \<open>With a size of zero the loop never ends.\<close>

lemma addSubclusters_zero:
  assumes "nextBase a v = Some b" and "sc_Size b = 0" and "0 \<le> needed" and "int32 needed"
  shows "addSubclusters a 0 needed v scMap = None"
proof (rule ccontr)
  assume "addSubclusters a 0 needed v scMap \<noteq> None"
  then obtain y where y: "addSubclusters a 0 needed v scMap = Some y" by auto
  let ?Z = "\<lambda>a (size :: int) needed v. (\<exists>b. nextBase a v = Some b \<and> sc_Size b = 0) \<and> size = 0 \<and> 0 \<le> needed \<and> int32 needed"
  have "\<not> ?Z a 0 needed v"
  proof (rule addSubclusters.raw_induct [where P = "\<lambda>a size needed v scMap y. \<not> ?Z a size needed v", OF _ y])
    fix f :: "VerticaAutoscaler \<Rightarrow> int \<Rightarrow> int \<Rightarrow> VerticaDB \<Rightarrow> (string \<rightharpoonup> Subcluster) \<Rightarrow> VerticaDB option option"
      and a size needed v scMap y
    assume IH: "\<And>a size needed v scMap y. f a size needed v scMap = Some y \<Longrightarrow> \<not> ?Z a size needed v"
      and body: "(if size \<le> needed then case calcNextSubcluster a v scMap of None \<Rightarrow> None | Some None \<Rightarrow> Some None
          | Some (Some newSc) \<Rightarrow> f a size (wrap32 (needed - sc_Size newSc)) (updSubclusters (\<lambda>scs. scs @ [newSc]) v)
               (scMap(sc_Name newSc \<mapsto> newSc)) else Some (Some v)) = Some y"
    show "\<not> ?Z a size needed v"
    proof
      assume H: "?Z a size needed v"
      then obtain b where b: "nextBase a v = Some b" "sc_Size b = 0" by blast
      from H b body obtain nm where
        "f a size needed (updSubclusters (\<lambda>scs. scs @ [b\<lparr>sc_Name := nm\<rparr>]) v) (scMap(nm \<mapsto> b\<lparr>sc_Name := nm\<rparr>)) = Some y"
        by (simp add: calcNext_base split: option.splits)
      from IH [OF this] nextBase_append [OF b(1), of nm] b(2) H show False by auto
    qed
  qed
  with assms show False by blast
qed

subsection \<open>Sizes\<close>

definition svcTotal :: "string \<Rightarrow> Subcluster list \<Rightarrow> int" where
  "svcTotal svc scs = sum_list (map sc_Size (filter (\<lambda>sc. GetServiceName sc = svc) scs))"

definition sizesNonneg :: "Subcluster list \<Rightarrow> bool" where
  "sizesNonneg scs \<longleftrightarrow> (\<forall>sc \<in> set scs. 0 \<le> sc_Size sc)"

definition otherSubclusters :: "string \<Rightarrow> Subcluster list \<Rightarrow> Subcluster list" where
  "otherSubclusters svc scs = filter (\<lambda>sc. GetServiceName sc \<noteq> svc) scs"

lemma svcTotal_simps [simp]:
  "svcTotal svc [] = 0" "svcTotal svc (sc # scs) = (if GetServiceName sc = svc then sc_Size sc else 0) + svcTotal svc scs"
  "svcTotal svc (scs @ scs') = svcTotal svc scs + svcTotal svc scs'"
  by (simp_all add: svcTotal_def)

lemma svcTotal_rev [simp]: "svcTotal svc (rev scs) = svcTotal svc scs"
  by (simp add: svcTotal_def rev_filter [symmetric] rev_map [symmetric] sum_list_rev)

lemma sizesNonneg_simps [simp]:
  "sizesNonneg []" "sizesNonneg (sc # scs) \<longleftrightarrow> 0 \<le> sc_Size sc \<and> sizesNonneg scs" "sizesNonneg (rev scs) \<longleftrightarrow> sizesNonneg scs"
  by (simp_all add: sizesNonneg_def)

lemma svcTotal_nonneg: "sizesNonneg scs \<Longrightarrow> 0 \<le> svcTotal svc scs"
  by (induction scs) auto

lemma otherSubclusters_rev [simp]: "otherSubclusters svc (rev scs) = rev (otherSubclusters svc scs)"
  by (simp add: otherSubclusters_def rev_filter)

lemma GetServiceName_upd [simp]: "GetServiceName (sc\<lparr>sc_Size := n\<rparr>) = GetServiceName sc"
  by (simp add: GetServiceName_def)

lemma FindSubcluster_total:
  "int32 (svcTotal svc (vdb_Subclusters v)) \<Longrightarrow> snd (FindSubclusterForServiceName v svc) = svcTotal svc (vdb_Subclusters v)"
  by (simp add: FindSubclusterForServiceName_size FindSubclusterForServiceName_scs svcTotal_def)

lemma resizeLoop_0 [simp]: "resizeLoop svc 0 scs = scs"
  by (induction scs) auto

lemma resizeLoop_others: "otherSubclusters svc (resizeLoop svc delta scs) = otherSubclusters svc scs"
  by (induction svc delta scs rule: resizeLoop.induct) (auto simp: otherSubclusters_def)

lemma resizeLoop_names: "map sc_Name (resizeLoop svc delta scs) = map sc_Name scs"
  by (induction svc delta scs rule: resizeLoop.induct) auto

text \<open>The sizes change by the difference, unless there is no subcluster to grow.\<close>

lemma resizeLoop_total:
  assumes "sizesNonneg scs" and "int32 (svcTotal svc scs)" and "int32 delta" and "int32 (svcTotal svc scs + delta)"
    and "0 \<le> svcTotal svc scs + delta" and "\<exists>sc \<in> set scs. GetServiceName sc = svc"
  shows "svcTotal svc (resizeLoop svc delta scs) = svcTotal svc scs + delta"
  using assms
proof (induction svc delta scs rule: resizeLoop.induct)
  case (2 svc delta sc scs)
  have nn: "0 \<le> svcTotal svc scs" "0 \<le> sc_Size sc" using "2.prems"(1) svcTotal_nonneg by auto
  consider "GetServiceName sc \<noteq> svc" | "GetServiceName sc = svc" "delta \<ge> 0 \<or> - delta \<le> sc_Size sc"
    | "GetServiceName sc = svc" "delta < 0" "- delta > sc_Size sc" by linarith
  then show ?case
  proof cases
    case 1
    then show ?thesis using 2 by (auto simp: int32_def)
  next
    case 2
    have "wrap32 (sc_Size sc + delta) = sc_Size sc + delta"
      using "2.prems"(4) nn 2 by (intro wrap32_id) (auto simp: int32_def)
    moreover have "wrap32 (- delta) = - delta" if "delta < 0"
      using that 2 nn "2.prems"(2) by (intro wrap32_id) (auto simp: int32_def)
    ultimately show ?thesis using 2 by auto
  next
    case 3
    have w: "wrap32 (delta + sc_Size sc) = delta + sc_Size sc" "int32 (delta + sc_Size sc)"
      using "2.prems"(3) 3 nn by (auto intro!: wrap32_id simp: int32_def)
    have neg: "wrap32 (- delta) = - delta"
      using "2.prems"(2,5) 3 nn by (intro wrap32_id) (auto simp: int32_def)
    have "\<exists>sc \<in> set scs. GetServiceName sc = svc"
    proof (rule ccontr)
      assume "\<not> ?thesis"
      then have "svcTotal svc scs = 0" by (simp add: svcTotal_def)
      with "2.prems"(5) 3 show False by simp
    qed
    moreover have "int32 (svcTotal svc scs)" "int32 (svcTotal svc scs + (delta + sc_Size sc))" "0 \<le> svcTotal svc scs + (delta + sc_Size sc)"
      using "2.prems"(2,4,5) 3 nn by (auto simp: int32_def)
    ultimately have "svcTotal svc (resizeLoop svc (delta + sc_Size sc) scs) = svcTotal svc scs + (delta + sc_Size sc)"
      using "2.IH"(3) 3 "2.prems"(1) w neg by simp
    then show ?thesis using 3 w neg by simp
  qed
qed simp

text \<open>Removing subclusters never takes more pods than asked for, and touches no other service.\<close>

lemma removeLoop_total:
  assumes "sizesNonneg scs" and "0 \<le> pods" and "int32 pods"
  shows "svcTotal svc scs - pods \<le> svcTotal svc (removeLoop svc pods scs) \<and> svcTotal svc (removeLoop svc pods scs) \<le> svcTotal svc scs
     \<and> otherSubclusters svc (removeLoop svc pods scs) = otherSubclusters svc scs"
  using assms
proof (induction svc pods scs rule: removeLoop.induct)
  case (2 svc pods sc scs)
  show ?case
  proof (cases "GetServiceName sc = svc \<and> pods > 0 \<and> sc_Size sc \<le> pods")
    case True
    then have w: "wrap32 (pods - sc_Size sc) = pods - sc_Size sc" "int32 (pods - sc_Size sc)"
      using "2.prems" by (auto intro!: wrap32_id simp: int32_def)
    with True "2.IH"(1) "2.prems" show ?thesis by (auto simp: otherSubclusters_def)
  next
    case False
    with 2 svcTotal_nonneg [of scs svc] show ?thesis by (auto simp: otherSubclusters_def)
  qed
qed simp

subsection \<open>Reconciling against a server\<close>

text \<open>
  A server that holds the VerticaDB, finds it and accepts updates, while nobody else changes it: a
  write of the object replaces everything but the status. Reading and writing the autoscaler does not
  touch the VerticaDB.
\<close>

definition scalingServer :: "'w env \<Rightarrow> ('w \<Rightarrow> VerticaDB) \<Rightarrow> bool" where
  "scalingServer E stored \<longleftrightarrow>
     (\<forall>nm w. fst (e_GetVdb E nm w) = Inr (stored w) \<and> stored (snd (e_GetVdb E nm w)) = stored w)
     \<and> (\<forall>v w. fst (e_UpdateVdb E v w) = Inr (v\<lparr>vdb_Status := vdb_Status (stored w)\<rparr>)
             \<and> stored (snd (e_UpdateVdb E v w)) = v\<lparr>vdb_Status := vdb_Status (stored w)\<rparr>)
     \<and> (\<forall>nm w. stored (snd (e_GetVas E nm w)) = stored w)
     \<and> (\<forall>a w. stored (snd (e_UpdateVasStatus E a w)) = stored w)"

lemma scalingServerD:
  assumes "scalingServer E stored"
  shows "fst (e_GetVdb E nm w) = Inr (stored w)" "stored (snd (e_GetVdb E nm w)) = stored w"
    "fst (e_UpdateVdb E v w) = Inr (v\<lparr>vdb_Status := vdb_Status (stored w)\<rparr>)"
    "stored (snd (e_UpdateVdb E v w)) = v\<lparr>vdb_Status := vdb_Status (stored w)\<rparr>"
    "stored (snd (e_GetVas E nm w)) = stored w" "stored (snd (e_UpdateVasStatus E a w)) = stored w"
  using assms unfolding scalingServer_def by (elim conjE; simp)+

lemma run_fetchVDB:
  assumes "scalingServer E stored"
  obtains w where "run_state (fetchVDB E a) s = (Done, s\<lparr>world := w, vdb := stored (world s)\<rparr>)" "stored w = stored (world s)"
proof -
  obtain r w where g: "e_GetVdb E \<lparr>nn_Namespace = vas_Namespace a, nn_Name = vsp_VerticaDBName (vas_Spec a)\<rparr> (world s) = (r, w)"
    by (rule prod.exhaust)
  from scalingServerD(1,2) [OF assms, of "\<lparr>nn_Namespace = vas_Namespace a, nn_Name = vsp_VerticaDBName (vas_Spec a)\<rparr>" "world s"] g
  have "r = Inr (stored (world s))" "stored w = stored (world s)" by simp_all
  with that [of w] g show thesis by (simp add: fetchVDB_def)
qed

lemma run_updateScaled:
  assumes "scalingServer E stored"
  obtains s' where "run_state (updateScaled E x) s = (Returns ((fst x, True), None), s')"
    "stored (world s') = (vdb s)\<lparr>vdb_Status := vdb_Status (stored (world s))\<rparr>"
proof -
  obtain r w where g: "e_UpdateVdb E (vdb s) (world s) = (r, w)" by (rule prod.exhaust)
  from scalingServerD(3,4) [OF assms, of "vdb s" "world s"] g
  have "r = Inr ((vdb s)\<lparr>vdb_Status := vdb_Status (stored (world s))\<rparr>)" "stored w = (vdb s)\<lparr>vdb_Status := vdb_Status (stored (world s))\<rparr>"
    by simp_all
  with that g show thesis by (simp add: updateScaled_def)
qed

lemma vasStatus_stored:
  assumes "scalingServer E stored"
  shows "valid (\<lambda>s. stored (world s) = v) (vasStatusUpdater E req f) (\<lambda>_ s. stored (world s) = v)"
proof -
  have "valid (\<lambda>s. stored (world s) = v) (vasStatus_once E req f)
     (\<lambda>err s. (err = None \<longrightarrow> stored (world s) = v) \<and> (err \<noteq> None \<longrightarrow> stored (world s) = v))"
    unfolding valid_def
  proof (intro allI impI)
    fix s :: "'a st" assume v: "stored (world s) = v"
    obtain r w where g: "e_GetVas E req (world s) = (r, w)" by (rule prod.exhaust)
    have w: "stored w = v" using scalingServerD(5) [OF assms, of req "world s"] g v by simp
    have u: "stored w' = v" if "e_UpdateVasStatus E a w = (r', w')" for a r' w'
      using scalingServerD(6) [OF assms, of a w] that w by simp
    show "case run_state (vasStatus_once E req f) s of
       (err, s) \<Rightarrow> (err = None \<longrightarrow> stored (world s) = v) \<and> (err \<noteq> None \<longrightarrow> stored (world s) = v)"
      using g w by (auto simp: vasStatus_once_def Let_def split: sum.splits prod.splits dest: u)
  qed
  from valid_RetryOnConflict [OF this, of "e_Retries E"] show ?thesis
    unfolding vasStatusUpdater_def by (rule valid_post) blast
qed

lemma finishScaling_stored:
  assumes "scalingServer E stored" and "run_state (finishScaling E req a (Returns ((emptyResult, d), None))) s = (r, s')"
  shows "stored (world s') = stored (world s) \<and> (\<exists>res. r = Some (a, res))"
proof (cases d)
  case True
  let ?m = "vasStatusUpdater E req (updVasStatus (\<lambda>st. st\<lparr>vst_ScalingCount := wrap64 (vst_ScalingCount st + 1),
     vst_CurrentSize := snd (FindSubclusterForServiceName (vdb s) (vas_ServiceName a))\<rparr>))"
  obtain err s1 where m: "run_state ?m s = (err, s1)" by (rule prod.exhaust)
  have "stored (world s1) = stored (world s)"
    using valid_run [OF vasStatus_stored [OF assms(1)] _ m] by simp
  with assms(2) True m show ?thesis
    by (auto simp: finishScaling_def ReportScalingOperation_def emptyResult_def)
next
  case False
  with assms(2) show ?thesis by (auto simp: finishScaling_def emptyResult_def)
qed

lemma RetryS_first:
  "run_state (fn x) s = (Returns (y, None), s') \<Longrightarrow> run_state (RetryOnConflictS n fn x) s = (Returns (y, None), s')"
  by (cases n) simp_all

text \<open>What one attempt to resize leaves on the server.\<close>

lemma run_resize_once:
  assumes "scalingServer E stored"
    and "\<exists>sc \<in> set (vdb_Subclusters (stored (world s))). GetServiceName sc = vas_ServiceName a"
    and "int32 (svcTotal (vas_ServiceName a) (vdb_Subclusters (stored (world s))))"
    and "int32 (vas_TargetSize a)" and "0 \<le> vas_TargetSize a" and "sizesNonneg (vdb_Subclusters (stored (world s)))"
  obtains d s' where "run_state (resize_once E a (emptyResult, False)) s = (Returns ((emptyResult, d), None), s')"
    "stored (world s') = resizeVdb (vas_ServiceName a)
       (vas_TargetSize a - svcTotal (vas_ServiceName a) (vdb_Subclusters (stored (world s)))) (stored (world s))"
proof -
  let ?v = "stored (world s)" and ?svc = "vas_ServiceName a"
  let ?delta = "vas_TargetSize a - svcTotal ?svc (vdb_Subclusters ?v)"
  obtain w where f: "run_state (fetchVDB E a) s = (Done, s\<lparr>world := w, vdb := ?v\<rparr>)" "stored w = ?v"
    by (rule run_fetchVDB [OF assms(1)])
  have found: "fst (FindSubclusterForServiceName ?v ?svc) \<noteq> []"
    using assms(2) by (auto simp: FindSubclusterForServiceName_scs filter_empty_conv)
  have delta: "wrap32 (vas_TargetSize a - snd (FindSubclusterForServiceName ?v ?svc)) = ?delta"
    using assms(3-6) svcTotal_nonneg [of "vdb_Subclusters ?v" ?svc]
    by (simp add: FindSubcluster_total) (auto intro!: wrap32_id simp: int32_def)
  show thesis
  proof (cases "?delta = 0")
    case True
    then have "resizeVdb ?svc ?delta ?v = ?v" by (simp add: resizeVdb_def updSubclusters_def)
    with True f found delta that [of False "s\<lparr>world := w, vdb := ?v\<rparr>"] show thesis by (simp add: resize_once_def Let_def)
  next
    case False
    obtain s' where u: "run_state (updateScaled E (emptyResult, False)) (s\<lparr>world := w, vdb := resizeVdb ?svc ?delta ?v\<rparr>)
        = (Returns ((emptyResult, True), None), s')" "stored (world s') = (resizeVdb ?svc ?delta ?v)\<lparr>vdb_Status := vdb_Status ?v\<rparr>"
      using run_updateScaled [OF assms(1), of "(emptyResult, False)" "s\<lparr>world := w, vdb := resizeVdb ?svc ?delta ?v\<rparr>"] f(2) by auto
    have "(resizeVdb ?svc ?delta ?v)\<lparr>vdb_Status := vdb_Status ?v\<rparr> = resizeVdb ?svc ?delta ?v"
      by (simp add: resizeVdb_def updSubclusters_def)
    with False f found delta u that [of True s'] show thesis by (simp add: resize_once_def Let_def)
  qed
qed


definition exampleVas :: VerticaAutoscaler where
  "exampleVas = MakeVAS\<lparr>vas_Spec := (vas_Spec MakeVAS)\<lparr>vsp_ServiceName := ''defaultsubcluster'', vsp_TargetSize := 5\<rparr>\<rparr>"

lemma storeEnv_scaling: "scalingServer storeEnv id"
  by (simp add: scalingServer_def storeEnv_def emptyEnv_def Let_def)

lemma exampleVas_facts:
  "vas_ServiceName exampleVas = ''defaultsubcluster''" "vas_TargetSize exampleVas = 5"
  "vsp_ScalingGranularity (vas_Spec exampleVas) = PodScalingGranularity" "\<not> CanUseTemplate exampleVas"
  "vdb_Subclusters MakeVDB = [hd (vdb_Subclusters MakeVDB)]" "GetServiceName (hd (vdb_Subclusters MakeVDB)) = ''defaultsubcluster''"
  "sc_Size (hd (vdb_Subclusters MakeVDB)) = 3" "sc_Name (hd (vdb_Subclusters MakeVDB)) = ''defaultsubcluster''"
  by (simp_all add: exampleVas_def MakeVAS_def MakeVDB_def CanUseTemplate_def zeroSubcluster_def GetServiceName_def)

lemma example_total: "svcTotal ''defaultsubcluster'' (vdb_Subclusters MakeVDB) = 3" "sizesNonneg (vdb_Subclusters MakeVDB)"
  by (subst exampleVas_facts(5), simp add: exampleVas_facts(6,7))+


subsection \<open>Adding subclusters ends\<close>

lemma GenSubclusterMap_finite: "finite (dom (GenSubclusterMap v))" "sc_Name ` set (vdb_Subclusters v) \<subseteq> dom (GenSubclusterMap v)"
  by (simp_all add: dom_GenSubclusterMap)

lemma run_considerAdding:
  assumes "nextBase a (vdb s) = Some b" and "0 < sc_Size b" and "0 \<le> needed" and "int32 needed"
  shows "\<exists>new. run_state (considerAddingSubclusters a needed) s
        = (Returns (new \<noteq> []), s\<lparr>vdb := updSubclusters (\<lambda>scs. scs @ new) (vdb s)\<rparr>)
     \<and> int (length new) = needed div sc_Size b \<and> (\<forall>sc \<in> set new. sc_Size sc = sc_Size b)
     \<and> distinct (map sc_Name new) \<and> sc_Name ` set new \<inter> sc_Name ` set (vdb_Subclusters (vdb s)) = {}
     \<and> addSubclusters a (sc_Size b) needed (vdb s) (GenSubclusterMap (vdb s)) = Some (Some (updSubclusters (\<lambda>scs. scs @ new) (vdb s)))"
proof -
  obtain nm where nm: "genNextSubclusterName a (GenSubclusterMap (vdb s)) = Some nm"
    using genNext_fresh [OF GenSubclusterMap_finite(1)] by metis
  obtain new where new: "addSubclusters a (sc_Size b) needed (vdb s) (GenSubclusterMap (vdb s))
        = Some (Some (updSubclusters (\<lambda>scs. scs @ new) (vdb s)))"
    "int (length new) = needed div sc_Size b" "\<forall>sc \<in> set new. sc_Size sc = sc_Size b" "distinct (map sc_Name new)"
    "sc_Name ` set new \<inter> dom (GenSubclusterMap (vdb s)) = {}"
    using addSubclusters_result [OF assms(1,2) GenSubclusterMap_finite(1) assms(3,4) GenSubclusterMap_finite(2)] by blast
  then show ?thesis
    using assms(1) nm by (intro exI [of _ new]) (simp add: considerAddingSubclusters_def calcNext_base Let_def dom_GenSubclusterMap)
qed

lemma run_considerAdding_zero:
  assumes "nextBase a (vdb s) = Some b" and "sc_Size b = 0" and "0 \<le> needed" and "int32 needed"
  shows "run_state (considerAddingSubclusters a needed) s = (Diverges, s)"
proof -
  obtain nm where nm: "genNextSubclusterName a (GenSubclusterMap (vdb s)) = Some nm"
    using genNext_fresh [OF GenSubclusterMap_finite(1)] by metis
  have "addSubclusters a 0 needed (vdb s) (GenSubclusterMap (vdb s)) = None" by (rule addSubclusters_zero [OF assms])
  then show ?thesis using assms(1,2) nm by (simp add: considerAddingSubclusters_def calcNext_base Let_def)
qed



subsection \<open>Scaling by subclusters\<close>

lemma removeLoop_length: "length (removeLoop svc pods scs) \<le> length scs"
  by (induction svc pods scs rule: removeLoop.induct) (auto intro: le_SucI)

lemma removeLoop_same: "length (removeLoop svc pods scs) = length scs \<Longrightarrow> removeLoop svc pods scs = scs"
proof (induction svc pods scs rule: removeLoop.induct)
  case (2 svc pods sc scs)
  then show ?case using removeLoop_length [of svc "wrap32 (pods - sc_Size sc)" scs] by (auto split: if_splits)
qed simp

text \<open>What scaling makes of the VerticaDB.\<close>

definition scaledVdb :: "VerticaAutoscaler \<Rightarrow> VerticaDB \<Rightarrow> VerticaDB \<Rightarrow> bool" where
  "scaledVdb a v v' \<longleftrightarrow>
     (let T = svcTotal (vas_ServiceName a) (vdb_Subclusters v); t = vas_TargetSize a in
        (t < T \<longrightarrow> v' = considerRemovingSubclusters (vas_ServiceName a) (T - t) v)
        \<and> (T < t \<longrightarrow> (case nextBase a v of
             None \<Rightarrow> v' = v
           | Some b \<Rightarrow> \<exists>new. addSubclusters a (sc_Size b) (t - T) v (GenSubclusterMap v) = Some (Some v')
               \<and> v' = updSubclusters (\<lambda>scs. scs @ new) v \<and> int (length new) = (t - T) div sc_Size b
               \<and> (\<forall>sc \<in> set new. sc_Size sc = sc_Size b)))
        \<and> (T = t \<longrightarrow> v' = v))"

lemma run_scale_once:
  assumes srv: "scalingServer E stored" and base: "\<And>b. nextBase a (stored (world s)) = Some b \<Longrightarrow> 0 < sc_Size b"
    and T: "int32 (svcTotal (vas_ServiceName a) (vdb_Subclusters (stored (world s))))"
    and t: "int32 (vas_TargetSize a)" "0 \<le> vas_TargetSize a" and nn: "sizesNonneg (vdb_Subclusters (stored (world s)))"
  obtains d s' where "run_state (scale_once E a (emptyResult, False)) s = (Returns ((emptyResult, d), None), s')"
    "scaledVdb a (stored (world s)) (stored (world s'))"
proof -
  let ?v = "stored (world s)" and ?svc = "vas_ServiceName a"
  let ?T = "svcTotal ?svc (vdb_Subclusters ?v)" and ?t = "vas_TargetSize a"
  obtain w where f: "run_state (fetchVDB E a) s = (Done, s\<lparr>world := w, vdb := ?v\<rparr>)" "stored w = ?v"
    by (rule run_fetchVDB [OF srv])
  have T0: "0 \<le> ?T" by (rule svcTotal_nonneg [OF nn])
  have delta: "wrap32 (?t - snd (FindSubclusterForServiceName ?v ?svc)) = ?t - ?T" "wrap32 (?T - ?t) = ?T - ?t"
    "int32 (?t - ?T)"
    using T t T0 by (auto simp: FindSubcluster_total int32_def intro!: wrap32_id)
  have upd: "\<exists>s'. run_state (updateScaled E (emptyResult, False)) (s\<lparr>world := w, vdb := updSubclusters g ?v\<rparr>)
        = (Returns ((emptyResult, True), None), s') \<and> stored (world s') = updSubclusters g ?v" for g
    using run_updateScaled [OF srv, of "(emptyResult, False)" "s\<lparr>world := w, vdb := updSubclusters g ?v\<rparr>"] f(2)
    by (auto simp: updSubclusters_def)
  consider "?t < ?T" | "?T < ?t" | "?T = ?t" by linarith
  then show thesis
  proof cases
    case 1
    let ?g = "\<lambda>scs. rev (removeLoop ?svc (?T - ?t) (rev scs))"
    let ?same = "length (removeLoop ?svc (?T - ?t) (rev (vdb_Subclusters ?v))) = length (rev (vdb_Subclusters ?v))"
    have sc: "scaledVdb a ?v (updSubclusters ?g ?v)" using 1 by (simp add: scaledVdb_def considerRemovingSubclusters_def)
    obtain s' where s': "run_state (updateScaled E (emptyResult, False)) (s\<lparr>world := w, vdb := updSubclusters ?g ?v\<rparr>)
        = (Returns ((emptyResult, True), None), s')" "stored (world s') = updSubclusters ?g ?v" using upd by blast
    have once: "run_state (scale_once E a (emptyResult, False)) s =
        (if ?same then (Returns ((emptyResult, False), None), s\<lparr>world := w, vdb := updSubclusters ?g ?v\<rparr>)
         else (Returns ((emptyResult, True), None), s'))"
      using 1 f delta s'(1) by (simp add: scale_once_def considerRemovingSubclusters_def Let_def)
    show thesis
    proof (cases ?same)
      case True
      then have "updSubclusters ?g ?v = ?v" using removeLoop_same [OF True] by (simp add: updSubclusters_def)
      then show thesis using that once True sc f(2) by auto
    next
      case False
      then show thesis using that once sc s'(2) by auto
    qed
  next
    case 2
    show thesis
    proof (cases "nextBase a ?v")
      case None
      have "run_state (scale_once E a (emptyResult, False)) s = (Returns ((emptyResult, False), None),
          s\<lparr>world := w, vdb := ?v, trace := trace s @ [ObsEvent EventTypeWarning ''NoSubclusterTemplate'']\<rparr>)"
        using None 2 f delta by (simp add: scale_once_def considerAddingSubclusters_def calcNext_base Let_def)
      then show thesis by (rule that) (use None 2 f(2) in \<open>simp add: scaledVdb_def Let_def\<close>)
    next
      case (Some b)
      obtain new where new: "run_state (considerAddingSubclusters a (?t - ?T)) (s\<lparr>world := w, vdb := ?v\<rparr>)
          = (Returns (new \<noteq> []), s\<lparr>world := w, vdb := updSubclusters (\<lambda>scs. scs @ new) ?v\<rparr>)"
        "int (length new) = (?t - ?T) div sc_Size b" "\<forall>sc \<in> set new. sc_Size sc = sc_Size b"
        "addSubclusters a (sc_Size b) (?t - ?T) ?v (GenSubclusterMap ?v) = Some (Some (updSubclusters (\<lambda>scs. scs @ new) ?v))"
        using run_considerAdding [of a "s\<lparr>world := w, vdb := ?v\<rparr>" b "?t - ?T"] Some base [OF Some] 2 delta(3) by auto
      have sc: "scaledVdb a ?v (updSubclusters (\<lambda>scs. scs @ new) ?v)" using 2 Some new by (auto simp: scaledVdb_def)
      obtain s' where s': "run_state (updateScaled E (emptyResult, False)) (s\<lparr>world := w, vdb := updSubclusters (\<lambda>scs. scs @ new) ?v\<rparr>)
          = (Returns ((emptyResult, True), None), s')" "stored (world s') = updSubclusters (\<lambda>scs. scs @ new) ?v" using upd by blast
      have "run_state (scale_once E a (emptyResult, False)) s =
        (if new = [] then (Returns ((emptyResult, False), None), s\<lparr>world := w, vdb := updSubclusters (\<lambda>scs. scs @ new) ?v\<rparr>)
         else (Returns ((emptyResult, True), None), s'))"
        using 2 f delta new(1) s'(1) by (simp add: scale_once_def Let_def)
      then show thesis using that sc s'(2) f(2) by (cases "new = []") (auto simp: updSubclusters_def)
    qed
  next
    case 3
    then show thesis using that [of False "s\<lparr>world := w, vdb := ?v\<rparr>"] f delta by (simp add: scale_once_def Let_def scaledVdb_def)
  qed
qed

text \<open>The service name of a new subcluster.\<close>

lemma addSubclusters_service:
  assumes "vasWellFormed a" and "vas_ServiceName a \<noteq> []"
    and "addSubclusters a n needed v scMap = Some (Some v')"
  shows "\<exists>new. v' = updSubclusters (\<lambda>scs. scs @ new) v \<and> (\<forall>sc \<in> set new. GetServiceName sc = vas_ServiceName a)"
proof -
  let ?P = "\<lambda>a (size :: int) (needed :: int) v (scMap :: string \<rightharpoonup> Subcluster) y. vasWellFormed a \<longrightarrow> vas_ServiceName a \<noteq> [] \<longrightarrow> (\<forall>v'. y = Some v' \<longrightarrow>
      (\<exists>new. v' = updSubclusters (\<lambda>scs. scs @ new) v \<and> (\<forall>sc \<in> set new. GetServiceName sc = vas_ServiceName a)))"
  have "?P a n needed v scMap (Some v')"
  proof (rule addSubclusters.raw_induct [where P = ?P, OF _ assms(3)], intro impI allI)
    fix f :: "VerticaAutoscaler \<Rightarrow> int \<Rightarrow> int \<Rightarrow> VerticaDB \<Rightarrow> (string \<rightharpoonup> Subcluster) \<Rightarrow> VerticaDB option option"
      and a size needed v scMap y v'
    assume IH: "\<And>a size needed v scMap y. f a size needed v scMap = Some y \<Longrightarrow> ?P a size needed v scMap y"
      and body: "(if size \<le> needed then case calcNextSubcluster a v scMap of None \<Rightarrow> None | Some None \<Rightarrow> Some None
          | Some (Some newSc) \<Rightarrow> f a size (wrap32 (needed - sc_Size newSc)) (updSubclusters (\<lambda>scs. scs @ [newSc]) v)
               (scMap(sc_Name newSc \<mapsto> newSc)) else Some (Some v)) = Some y"
      and wf: "vasWellFormed a" "vas_ServiceName a \<noteq> []" and y: "y = Some v'"
    show "\<exists>new. v' = updSubclusters (\<lambda>scs. scs @ new) v \<and> (\<forall>sc \<in> set new. GetServiceName sc = vas_ServiceName a)"
    proof (cases "size \<le> needed")
      case False
      with body y show ?thesis by (intro exI [of _ "[]"]) (simp add: updSubclusters_def)
    next
      case True
      with body y obtain sc where sc: "calcNextSubcluster a v scMap = Some (Some sc)"
        "f a size (wrap32 (needed - sc_Size sc)) (updSubclusters (\<lambda>scs. scs @ [sc]) v) (scMap(sc_Name sc \<mapsto> sc)) = Some (Some v')"
        by (auto split: option.splits)
      have "GetServiceName sc = vas_ServiceName a"
        using sc(1) wf by (auto simp: calcNextSubcluster_def GetServiceName_def vasWellFormed_def Let_def split: if_splits)
      with IH [OF sc(2)] wf obtain new where "v' = updSubclusters (\<lambda>scs. scs @ new) (updSubclusters (\<lambda>scs. scs @ [sc]) v)"
        "\<forall>sc \<in> set new. GetServiceName sc = vas_ServiceName a" by blast
      with \<open>GetServiceName sc = vas_ServiceName a\<close> show ?thesis
        by (intro exI [of _ "sc # new"]) (simp add: updSubclusters_def)
    qed
  qed
  with assms(1,2) show ?thesis by blast
qed

lemma sum_list_const: "(\<forall>sc \<in> set new. sc_Size sc = n \<and> GetServiceName sc = svc) \<Longrightarrow> svcTotal svc new = int (length new) * n"
  by (induction new) (auto simp: algebra_simps)

lemma scaledVdb_bounds:
  assumes "scaledVdb a v v'" and "vasWellFormed a" and "vas_ServiceName a \<noteq> []"
    and "\<And>b. nextBase a v = Some b \<Longrightarrow> 0 < sc_Size b"
    and "int32 (svcTotal (vas_ServiceName a) (vdb_Subclusters v))" and "int32 (vas_TargetSize a)" and "0 \<le> vas_TargetSize a"
    and "sizesNonneg (vdb_Subclusters v)"
  shows "let T = svcTotal (vas_ServiceName a) (vdb_Subclusters v); T' = svcTotal (vas_ServiceName a) (vdb_Subclusters v'); t = vas_TargetSize a in
     (t \<le> T \<longrightarrow> t \<le> T' \<and> T' \<le> T) \<and> (T \<le> t \<longrightarrow> T \<le> T' \<and> T' \<le> t \<and> (\<forall>b. nextBase a v = Some b \<longrightarrow> t - T' < sc_Size b))
     \<and> otherSubclusters (vas_ServiceName a) (vdb_Subclusters v') = otherSubclusters (vas_ServiceName a) (vdb_Subclusters v)"
proof -
  let ?svc = "vas_ServiceName a" and ?t = "vas_TargetSize a"
  let ?T = "svcTotal ?svc (vdb_Subclusters v)" and ?T' = "svcTotal ?svc (vdb_Subclusters v')"
  have T0: "0 \<le> ?T" by (rule svcTotal_nonneg [OF assms(8)])
  consider "?t < ?T" | "?T < ?t" | "?T = ?t" by linarith
  then show ?thesis
  proof cases
    case 1
    then have v': "v' = considerRemovingSubclusters ?svc (?T - ?t) v" using assms(1) by (simp add: scaledVdb_def Let_def)
    have "int32 (?T - ?t)" using assms(5-7) T0 1 by (auto simp: int32_def)
    with removeLoop_total [of "rev (vdb_Subclusters v)" "?T - ?t" ?svc] assms(8) 1
    show ?thesis by (simp add: v' considerRemovingSubclusters_def Let_def)
  next
    case 2
    show ?thesis
    proof (cases "nextBase a v")
      case None
      with 2 assms(1) show ?thesis by (simp add: scaledVdb_def Let_def)
    next
      case (Some b)
      with 2 assms(1) obtain new where new: "addSubclusters a (sc_Size b) (?t - ?T) v (GenSubclusterMap v) = Some (Some v')"
        "v' = updSubclusters (\<lambda>scs. scs @ new) v" "int (length new) = (?t - ?T) div sc_Size b" "\<forall>sc \<in> set new. sc_Size sc = sc_Size b"
        by (auto simp: scaledVdb_def Let_def)
      obtain new' where "v' = updSubclusters (\<lambda>scs. scs @ new') v" "\<forall>sc \<in> set new'. GetServiceName sc = ?svc"
        using addSubclusters_service [OF assms(2,3) new(1)] by blast
      moreover from this(1) new(2) have "vdb_Subclusters v @ new = vdb_Subclusters v @ new'"
        by (metis updSubclusters_simps(1))
      ultimately have svc: "\<forall>sc \<in> set new. GetServiceName sc = ?svc" by simp
      have T': "?T' = ?T + (?t - ?T) div sc_Size b * sc_Size b"
        using sum_list_const [of new "sc_Size b" ?svc] new(3,4) svc by (simp add: new(2))
      have pos: "0 < sc_Size b" by (rule assms(4) [OF Some])
      have "(?t - ?T) div sc_Size b * sc_Size b \<le> ?t - ?T" "?t - ?T < (?t - ?T) div sc_Size b * sc_Size b + sc_Size b"
        "0 \<le> (?t - ?T) div sc_Size b * sc_Size b"
        using pos 2 pos_mod_sign [OF pos, of "?t - ?T"] pos_mod_bound [OF pos, of "?t - ?T"] minus_mod_eq_div_mult [of "?t - ?T" "sc_Size b"]
        by (simp_all add: pos_imp_zdiv_nonneg_iff)
      moreover have "otherSubclusters ?svc new = []" using svc by (simp add: otherSubclusters_def)
      ultimately show ?thesis
        using 2 Some T' by (auto simp: Let_def new(2) otherSubclusters_def)
    qed
  next
    case 3
    with assms(1,4) show ?thesis by (auto simp: scaledVdb_def Let_def)
  qed
qed


definition exampleScale :: VerticaAutoscaler where
  "exampleScale = exampleVas\<lparr>vas_Spec := (vas_Spec exampleVas)\<lparr>vsp_ScalingGranularity := SubclusterScalingGranularity, vsp_TargetSize := 10\<rparr>\<rparr>"


subsection \<open>A conflict while the target size is initialized\<close>

text \<open>
  A server that also holds the autoscaler, where the first write of it meets a conflict. The retried
  function finds the target size it has just set in memory, so it writes nothing, and the condition says
  that the target size was initialized although the stored one is still zero.
\<close>

definition conflictEnv :: "(VerticaDB \<times> VerticaAutoscaler \<times> nat) env" where
  "conflictEnv = emptyEnv\<lparr>
     e_GetVdb := \<lambda>nm w. (Inr (fst w), w),
     e_GetVas := \<lambda>nm w. (Inr (fst (snd w)), w),
     e_UpdateVas := \<lambda>a (v, a0, n). (if n > 0 then (Inl ConflictErr, (v, a0, n - 1)) else (Inr a, (v, a\<lparr>vas_Status := vas_Status a0\<rparr>, 0))),
     e_UpdateVasStatus := \<lambda>a (v, a0, n). (Inr a, (v, a0\<lparr>vas_Status := vas_Status a\<rparr>, n))\<rparr>"

definition newVas :: VerticaAutoscaler where
  "newVas = exampleVas\<lparr>vas_Spec := (vas_Spec exampleVas)\<lparr>vsp_TargetSize := 0\<rparr>\<rparr>"

definition conflictState :: "(VerticaDB \<times> VerticaAutoscaler \<times> nat) st" where
  "conflictState = \<lparr>world = (MakeVDB, newVas, 1), vdb = MakeVDB, pfacts = \<lparr>Detail = [], NeedCollection = True\<rparr>, trace = [], suPassword = []\<rparr>"

end
