(* ===== verification/VdbGen.thy ===== *)
theory VdbGen
  imports InitDB
begin

text \<open>
  The generator of a resource from a live database (package vdbgen): the collectors that fill in a
  VerticaDB and its secrets from the options, the database and files, and the manifest that is
  written. What is outside (the database, the files, JSON and YAML) is a parameter, a record of
  functions; a query gives rows or fails, and the iteration over the rows may be cut short by an
  error that the rows report afterwards.
\<close>

section \<open>The outside\<close>

datatype sqlval = SqlNull | SqlText string | SqlInt int | SqlBool bool

record sqlRows =
  rows_list :: "sqlval list list"
  rows_endErr :: "goerr option"

record genEnv =
  g_Open :: "string \<Rightarrow> goerr option"
  g_Ping :: "goerr option"
  g_Query :: "string \<Rightarrow> string list \<Rightarrow> goerr + sqlRows"
  g_ReadFile :: "string \<Rightarrow> goerr + string"
  g_OpenDir :: "string \<Rightarrow> goerr + (goerr + string list)"
  g_UnmarshalCreds :: "string \<Rightarrow> goerr + AzureCredential list"
  g_UnmarshalConfigs :: "string \<Rightarrow> goerr + AzureEndpointConfig list"

text \<open>Assigning a column to a variable of a Go type, with the conversions of package sql.\<close>

definition scanErr :: goerr where
  "scanErr = OtherErr ''sql: Scan error''"

primrec scanString :: "sqlval \<Rightarrow> string option" where
  "scanString SqlNull = None"
| "scanString (SqlText s) = Some s"
| "scanString (SqlInt i) = Some (strconv_Itoa i)"
| "scanString (SqlBool b) = Some (strconv_FormatBool b)"

primrec scanInt :: "sqlval \<Rightarrow> int option" where
  "scanInt SqlNull = None"
| "scanInt (SqlText s) = strconv_Atoi s"
| "scanInt (SqlInt i) = Some i"
| "scanInt (SqlBool b) = None"

primrec scanBool :: "sqlval \<Rightarrow> bool option" where
  "scanBool SqlNull = None"
| "scanBool (SqlText s) = strconv_ParseBool s"
| "scanBool (SqlInt i) = (if i = 1 then Some True else if i = 0 then Some False else None)"
| "scanBool (SqlBool b) = Some b"

section \<open>The objects\<close>

record Options =
  opt_User :: string
  opt_Password :: string
  opt_TLSMode :: string
  opt_VdbName :: string
  opt_Host :: string
  opt_Port :: int
  opt_DBName :: string
  opt_IgnoreClusterLease :: bool
  opt_Image :: string
  opt_LicenseFile :: string
  opt_CAFile :: string
  opt_HadoopConfigDir :: string
  opt_AzureAccountName :: string
  opt_CACertName :: string
  opt_Krb5Conf :: string
  opt_Krb5Keytab :: string

text \<open>A secret or a config map.\<close>

record KData =
  kd_APIVersion :: string
  kd_Kind :: string
  kd_Name :: string
  kd_Data :: label_map

definition zeroKData :: KData where
  "zeroKData = \<lparr>kd_APIVersion = [], kd_Kind = [], kd_Name = [], kd_Data = Map.empty\<rparr>"

record KObjs =
  ko_Vdb :: VerticaDB
  ko_CredSecret :: KData
  ko_HasLicense :: bool
  ko_LicenseSecret :: KData
  ko_SuperuserPasswordSecret :: KData
  ko_HasPassword :: bool
  ko_HasCAFile :: bool
  ko_CAFile :: KData
  ko_HasHadoopConfig :: bool
  ko_HadoopConfig :: KData
  ko_HasKerberosSecret :: bool
  ko_KerberosSecret :: KData

record DBGenerator =
  gen_Opts :: Options
  gen_Objs :: KObjs
  gen_Connected :: bool
  gen_LicenseData :: string
  gen_DBCfg :: label_map
  gen_CAFileData :: string
  gen_HadoopConfData :: label_map
  gen_Krb5ConfData :: string
  gen_Krb5KeytabData :: string

definition zeroVerticaDB :: VerticaDB where
  "zeroVerticaDB = \<lparr>vdb_Name = [], vdb_Namespace = [], vdb_UID = [], vdb_Annotations = Map.empty,
     vdb_Spec = zeroVerticaDBSpec, vdb_Status = zeroVerticaDBStatus\<rparr>"

definition zeroKObjs :: KObjs where
  "zeroKObjs = \<lparr>ko_Vdb = zeroVerticaDB, ko_CredSecret = zeroKData, ko_HasLicense = False, ko_LicenseSecret = zeroKData,
     ko_SuperuserPasswordSecret = zeroKData, ko_HasPassword = False, ko_HasCAFile = False, ko_CAFile = zeroKData,
     ko_HasHadoopConfig = False, ko_HadoopConfig = zeroKData, ko_HasKerberosSecret = False, ko_KerberosSecret = zeroKData\<rparr>"

definition makeDBGenerator :: "Options \<Rightarrow> DBGenerator" where
  "makeDBGenerator opts = \<lparr>gen_Opts = opts, gen_Objs = zeroKObjs, gen_Connected = False, gen_LicenseData = [],
     gen_DBCfg = Map.empty, gen_CAFileData = [], gen_HadoopConfData = Map.empty, gen_Krb5ConfData = [], gen_Krb5KeytabData = []\<rparr>"

text \<open>A collector changes the generator, fails or panics.\<close>

datatype gen_fail = GenErr goerr | GenPanic string

type_synonym collector = "DBGenerator \<Rightarrow> gen_fail + DBGenerator"

abbreviation gen_Vdb :: "DBGenerator \<Rightarrow> VerticaDB" where
  "gen_Vdb d \<equiv> ko_Vdb (gen_Objs d)"

definition updObjs :: "(KObjs \<Rightarrow> KObjs) \<Rightarrow> DBGenerator \<Rightarrow> DBGenerator" where
  "updObjs f d = d\<lparr>gen_Objs := f (gen_Objs d)\<rparr>"

definition updGenSpec :: "(VerticaDBSpec \<Rightarrow> VerticaDBSpec) \<Rightarrow> DBGenerator \<Rightarrow> DBGenerator" where
  "updGenSpec f d = updObjs (\<lambda>ob. ob\<lparr>ko_Vdb := (ko_Vdb ob)\<lparr>vdb_Spec := f (vdb_Spec (ko_Vdb ob))\<rparr>\<rparr>) d"

definition updGenCommunal :: "(CommunalStorage \<Rightarrow> CommunalStorage) \<Rightarrow> DBGenerator \<Rightarrow> DBGenerator" where
  "updGenCommunal f d = updGenSpec (\<lambda>sp. sp\<lparr>spec_Communal := f (spec_Communal sp)\<rparr>) d"

section \<open>Queries\<close>

definition shardCountQuery :: string where
  "shardCountQuery = ''SELECT COUNT(*) FROM SHARDS WHERE SHARD_TYPE != '' @ quoted ''Replica''"
definition dbCfgQuery :: string where
  "dbCfgQuery = ''SHOW DATABASE DEFAULT ALL''"
definition storageLocationQuery :: string where
  "storageLocationQuery = ''SELECT NODE_NAME, LOCATION_PATH FROM STORAGE_LOCATIONS WHERE LOCATION_USAGE = ?''"
definition subclusterQuery :: string where
  "subclusterQuery = ''SELECT SUBCLUSTER_NAME, IS_PRIMARY FROM SUBCLUSTERS ORDER BY NODE_NAME''"

definition failedRunning :: "string \<Rightarrow> goerr \<Rightarrow> gen_fail" where
  "failedRunning q e = GenErr (WrapErr (''failed running '' @ quoted q) e)"

section \<open>Collectors\<close>

definition SecretAPIVersion :: string where
  "SecretAPIVersion = ''v1''"
definition SecretKindName :: string where
  "SecretKindName = ''Secret''"
definition ConfigAPIVersion :: string where
  "ConfigAPIVersion = ''v1''"
definition ConfigKindName :: string where
  "ConfigKindName = ''ConfigMap''"

definition setParmsFromOptions :: "DBGenerator \<Rightarrow> DBGenerator" where
  "setParmsFromOptions d =
     (let o' = gen_Opts d;
          d1 = updGenSpec (\<lambda>sp. sp\<lparr>spec_InitPolicy := CommunalInitPolicyRevive, spec_DBName := opt_DBName o',
                 spec_AutoRestartVertica := True, spec_Local := (spec_Local sp)\<lparr>loc_RequestSize := 104857600\<rparr>,
                 spec_IgnoreClusterLease := (opt_IgnoreClusterLease o' \<or> spec_IgnoreClusterLease sp),
                 spec_Image := (if opt_Image o' \<noteq> [] then opt_Image o' else spec_Image sp)\<rparr>) d;
          credName = opt_VdbName o' @ ''-credentials''
      in updGenCommunal (\<lambda>c. c\<lparr>com_CredentialSecret := credName\<rparr>)
         (updObjs (\<lambda>ob. ob\<lparr>ko_Vdb := (ko_Vdb ob)\<lparr>vdb_Name := opt_VdbName o'\<rparr>,
            ko_CredSecret := (ko_CredSecret ob)\<lparr>kd_APIVersion := SecretAPIVersion, kd_Kind := SecretKindName, kd_Name := credName\<rparr>\<rparr>) d1))"

definition connStr :: "Options \<Rightarrow> string" where
  "connStr o' = ''vertica://'' @ opt_User o' @ '':'' @ opt_Password o' @ ''@'' @ opt_Host o' @ '':'' @ strconv_Itoa (opt_Port o')
     @ ''/'' @ opt_DBName o' @ ''?tlsmode='' @ opt_TLSMode o'"

definition gen_connect :: "genEnv \<Rightarrow> collector" where
  "gen_connect G d =
     (case (if gen_Connected d then None else g_Open G (connStr (gen_Opts d))) of
        Some e \<Rightarrow> Inl (GenErr e)
      | None \<Rightarrow> (case g_Ping G of Some e \<Rightarrow> Inl (GenErr e) | None \<Rightarrow> Inr (d\<lparr>gen_Connected := True\<rparr>)))"

definition setShardCount :: "genEnv \<Rightarrow> collector" where
  "setShardCount G d =
     (case g_Query G shardCountQuery [] of
        Inl e \<Rightarrow> Inl (failedRunning shardCountQuery e)
      | Inr rows \<Rightarrow>
          (case rows_list rows of
             [] \<Rightarrow> Inl (GenErr (OtherErr ''did find any rows in SHARDS''))
           | [cell] # _ \<Rightarrow>
               (case scanInt cell of
                  None \<Rightarrow> Inl (failedRunning shardCountQuery scanErr)
                | Some n \<Rightarrow> Inr (updGenSpec (\<lambda>sp. sp\<lparr>spec_ShardCount := n\<rparr>) d))
           | _ # _ \<Rightarrow> Inl (failedRunning shardCountQuery scanErr)))"

fun readCfgRows :: "sqlval list list \<Rightarrow> label_map \<Rightarrow> gen_fail + label_map" where
  "readCfgRows [] cfg = Inr cfg"
| "readCfgRows ([k, x] # rows) cfg =
     (case scanString k of
        None \<Rightarrow> Inl (failedRunning dbCfgQuery scanErr)
      | Some key \<Rightarrow>
          (case scanString x of
             None \<Rightarrow> Inl (failedRunning dbCfgQuery scanErr)
           | Some val \<Rightarrow> readCfgRows rows (cfg(key \<mapsto> val))))"
| "readCfgRows (row # rows) cfg = Inl (failedRunning dbCfgQuery scanErr)"

definition fetchDatabaseConfig :: "genEnv \<Rightarrow> collector" where
  "fetchDatabaseConfig G d =
     (case g_Query G dbCfgQuery [] of
        Inl e \<Rightarrow> Inl (failedRunning dbCfgQuery e)
      | Inr rows \<Rightarrow>
          (case readCfgRows (rows_list rows) Map.empty of
             Inl e \<Rightarrow> Inl e
           | Inr cfg \<Rightarrow> Inr (d\<lparr>gen_DBCfg := cfg\<rparr>)))"

text \<open>Splitting at the first colon, in at most two parts.\<close>

definition splitAuth :: "string \<Rightarrow> string list" where
  "splitAuth s =
     (if CHR '':'' \<in> set s
      then [takeWhile (\<lambda>c. c \<noteq> CHR '':'') s, tl (dropWhile (\<lambda>c. c \<noteq> CHR '':'') s)]
      else [s])"

definition missingErr :: "string \<Rightarrow> gen_fail" where
  "missingErr key = GenErr (OtherErr (''missing '' @ quoted key @ '' in query '' @ quoted dbCfgQuery))"

definition setCommunalEndpointGeneric :: "string \<Rightarrow> string \<Rightarrow> string \<Rightarrow> string \<Rightarrow> collector" where
  "setCommunalEndpointGeneric httpsKey endpointKey authKey regionKey d =
     (case gen_DBCfg d httpsKey of
        None \<Rightarrow> Inr d
      | Some https \<Rightarrow>
          (case gen_DBCfg d endpointKey of
             None \<Rightarrow> Inl (missingErr endpointKey)
           | Some endpoint \<Rightarrow>
               (case gen_DBCfg d authKey of
                  None \<Rightarrow> Inl (missingErr authKey)
                | Some authVal \<Rightarrow>
                    let protocol = (if https = ''0'' then ''http'' else ''https'');
                        d1 = (case gen_DBCfg d regionKey of
                                None \<Rightarrow> d
                              | Some region \<Rightarrow> updGenCommunal (\<lambda>c. c\<lparr>com_Region := region\<rparr>) d);
                        d2 = updGenCommunal (\<lambda>c. c\<lparr>com_Endpoint := protocol @ ''://'' @ endpoint\<rparr>) d1
                    in case splitAuth authVal of
                         [access, secret] \<Rightarrow>
                           Inr (updObjs (\<lambda>ob. ob\<lparr>ko_CredSecret := (ko_CredSecret ob)\<lparr>kd_Data :=
                             [CommunalAccessKeyName \<mapsto> access, CommunalSecretKeyName \<mapsto> secret]\<rparr>\<rparr>) d2)
                       | _ \<Rightarrow> Inl (GenPanic ''index out of range''))))"

definition setCommunalEndpointAWS :: collector where
  "setCommunalEndpointAWS d =
     (if \<not> IsS3 (gen_Vdb d) then Inr d
      else setCommunalEndpointGeneric ''AWSEnableHttps'' ''AWSEndpoint'' ''AWSAuth'' ''AWSRegion'' d)"

definition setCommunalEndpointGCloud :: collector where
  "setCommunalEndpointGCloud d =
     (if \<not> IsGCloud (gen_Vdb d) then Inr d
      else setCommunalEndpointGeneric ''GCSEnableHttps'' ''GCSEndpoint'' ''GCSAuth'' ''GCSRegion'' d)"

definition getAzureCredential :: "string \<Rightarrow> AzureCredential list \<Rightarrow> AzureCredential option" where
  "getAzureCredential accountName creds = find (\<lambda>c. azc_AccountName c = accountName) creds"

definition getAzureConfig :: "string \<Rightarrow> AzureEndpointConfig list \<Rightarrow> AzureEndpointConfig option" where
  "getAzureConfig accountName cfgs = find (\<lambda>c. aze_AccountName c = accountName) cfgs"

text \<open>
  The account name of the options is filled in when there was none; \<^const>\<open>None\<close> says that there
  is nothing to set up.
\<close>

definition setAccountName :: "string \<Rightarrow> DBGenerator \<Rightarrow> DBGenerator" where
  "setAccountName nm d = d\<lparr>gen_Opts := (gen_Opts d)\<lparr>opt_AzureAccountName := nm\<rparr>\<rparr>"

definition extractAzureCredential :: "genEnv \<Rightarrow> string \<Rightarrow> DBGenerator \<Rightarrow> gen_fail + DBGenerator \<times> AzureCredential option" where
  "extractAzureCredential G credsStr d =
     (case g_UnmarshalCreds G credsStr of
        Inl e \<Rightarrow> Inl (GenErr (WrapErr ''unmarshal azure creds'' e))
      | Inr creds \<Rightarrow>
          if creds = [] then Inr (d, None)
          else if length creds > 1 \<and> opt_AzureAccountName (gen_Opts d) = []
          then Inl (GenErr (OtherErr (strconv_Itoa (int (length creds)) @ '' azure credentials exist -- must specify the azure account name to use'')))
          else
            let d1 = (if opt_AzureAccountName (gen_Opts d) = [] then setAccountName (azc_AccountName (hd creds)) d else d);
                nm = opt_AzureAccountName (gen_Opts d1)
            in case getAzureCredential nm creds of
                 None \<Rightarrow> Inl (GenErr (OtherErr (''could not find a azure credential with matching account name '' @ quoted nm)))
               | Some cred \<Rightarrow> Inr (d1, Some cred))"

definition extractAzureEndpointConfig :: "genEnv \<Rightarrow> string \<Rightarrow> DBGenerator \<Rightarrow> gen_fail + DBGenerator \<times> AzureEndpointConfig option" where
  "extractAzureEndpointConfig G configStr d =
     (case g_UnmarshalConfigs G configStr of
        Inl e \<Rightarrow> Inl (GenErr (WrapErr ''unmarshal azure endpoint config'' e))
      | Inr epCfgs \<Rightarrow>
          if epCfgs = [] then Inr (d, None)
          else if length epCfgs > 1 \<and> opt_AzureAccountName (gen_Opts d) = []
          then Inl (GenErr (OtherErr (strconv_Itoa (int (length epCfgs)) @ '' azure endpoint configs exist -- must specify the azure account name to use'')))
          else
            let d1 = (if opt_AzureAccountName (gen_Opts d) = [] then setAccountName (aze_AccountName (hd epCfgs)) d else d);
                nm = opt_AzureAccountName (gen_Opts d1)
            in case getAzureConfig nm epCfgs of
                 None \<Rightarrow> Inl (GenErr (OtherErr (''could not find a azure credential with matching account name '' @ quoted nm)))
               | Some cfg \<Rightarrow> Inr (d1, Some cfg))"

text \<open>An entry is only set for a value that is not empty.\<close>

definition entry :: "string \<Rightarrow> string \<Rightarrow> string \<Rightarrow> label_map \<Rightarrow> label_map" where
  "entry guard key val m = (if guard \<noteq> [] then m(key \<mapsto> val) else m)"

definition azureSecretData :: "AzureCredential \<Rightarrow> string \<Rightarrow> label_map" where
  "azureSecretData cred blobEndpoint =
     entry (azc_SharedAccessSignature cred) AzureSharedAccessSignature (azc_SharedAccessSignature cred)
       (entry (azc_BlobEndpoint cred) AzureBlobEndpoint blobEndpoint
         (entry (azc_AccountName cred) AzureAccountName (azc_AccountName cred)
           (entry (azc_AccountKey cred) AzureAccountKey (azc_AccountKey cred) Map.empty)))"

definition setCommunalEndpointAzure :: "genEnv \<Rightarrow> collector" where
  "setCommunalEndpointAzure G d =
     (if \<not> IsAzure (gen_Vdb d) then Inr d
      else case gen_DBCfg d ''AzureStorageCredentials'' of
        None \<Rightarrow> Inr d
      | Some credsStr \<Rightarrow>
          (case extractAzureCredential G credsStr d of
             Inl e \<Rightarrow> Inl e
           | Inr (d1, None) \<Rightarrow> Inr d1
           | Inr (d1, Some cred) \<Rightarrow>
               (case (case gen_DBCfg d1 ''AzureStorageEndpointConfig'' of
                        None \<Rightarrow> Inr (d1, None)
                      | Some configStr \<Rightarrow> extractAzureEndpointConfig G configStr d1) of
                  Inl e \<Rightarrow> Inl e
                | Inr (d2, epCfg) \<Rightarrow>
                    let blobEndpoint = (case epCfg of
                          None \<Rightarrow> azc_BlobEndpoint cred
                        | Some cfg \<Rightarrow> if aze_Protocol cfg \<noteq> [] then aze_Protocol cfg @ ''://'' @ azc_BlobEndpoint cred
                                      else azc_BlobEndpoint cred)
                    in Inr (updObjs (\<lambda>ob. ob\<lparr>ko_CredSecret := (ko_CredSecret ob)\<lparr>kd_Data := azureSecretData cred blobEndpoint\<rparr>\<rparr>) d2))))"

subsection \<open>Paths\<close>

text \<open>Package path: the shortest equivalent path, and the directory of a path.\<close>

definition cleanStep :: "bool \<Rightarrow> string list \<Rightarrow> string \<Rightarrow> string list" where
  "cleanStep rooted acc x =
     (if x = [] \<or> x = ''.'' then acc
      else if x = ''..'' then
        (if acc \<noteq> [] \<and> last acc \<noteq> ''..'' then butlast acc else if rooted then acc else acc @ [''..''])
      else acc @ [x])"

definition path_Clean :: "string \<Rightarrow> string" where
  "path_Clean p =
     (if p = [] then ''.''
      else
        let rooted = (hd p = CHR ''/'');
            out = (if rooted then ''/'' else []) @ strings_Join (foldl (cleanStep rooted) [] (strings_Split p (CHR ''/''))) ''/''
        in if out = [] then ''.'' else out)"

definition path_Dir :: "string \<Rightarrow> string" where
  "path_Dir p = path_Clean (rev (dropWhile (\<lambda>c. c \<noteq> CHR ''/'') (rev p)))"

text \<open>A column that may be NULL; as a string NULL is empty.\<close>

definition nullString :: "sqlval \<Rightarrow> string" where
  "nullString x = (case scanString x of None \<Rightarrow> [] | Some s \<Rightarrow> s)"

fun foldPaths :: "(string \<Rightarrow> sqlval \<Rightarrow> goerr + string) \<Rightarrow> sqlval list list \<Rightarrow> string \<Rightarrow> gen_fail + string" where
  "foldPaths extractFunc [] acc = Inr acc"
| "foldPaths extractFunc ([nodeName, nodePath] # rows) acc =
     (case extractFunc acc nodePath of
        Inl e \<Rightarrow> Inl (GenErr e)
      | Inr acc' \<Rightarrow> foldPaths extractFunc rows acc')"
| "foldPaths extractFunc (row # rows) acc = Inl (failedRunning storageLocationQuery scanErr)"

definition queryPathForUsage :: "genEnv \<Rightarrow> string \<Rightarrow> (string \<Rightarrow> sqlval \<Rightarrow> goerr + string) \<Rightarrow> gen_fail + string" where
  "queryPathForUsage G usage extractFunc =
     (case g_Query G storageLocationQuery [usage] of
        Inl e \<Rightarrow> Inl (GenErr e)
      | Inr rows \<Rightarrow> foldPaths extractFunc (rows_list rows) [])"

definition extractPath :: "string \<Rightarrow> sqlval \<Rightarrow> goerr + string" where
  "extractPath communalPath nodePath =
     (if nodePath = SqlNull then Inl (OtherErr ''node path is NULL'') else Inr (nullString nodePath))"

definition setCommunalPath :: "genEnv \<Rightarrow> collector" where
  "setCommunalPath G d =
     (case queryPathForUsage G ''DATA'' extractPath of
        Inl e \<Rightarrow> Inl e
      | Inr communalPath \<Rightarrow> Inr (updGenCommunal (\<lambda>c. c\<lparr>com_Path := communalPath\<rparr>) d))"

definition extractCommonPrefix :: "string \<Rightarrow> string \<Rightarrow> sqlval \<Rightarrow> goerr + string" where
  "extractCommonPrefix usage commonPrefix nodePath =
     (let curCommonPrefix = path_Dir (path_Dir (nullString nodePath))
      in if commonPrefix \<noteq> [] \<and> commonPrefix \<noteq> curCommonPrefix
         then Inl (OtherErr (''location path for usage '' @ quoted usage @ '' must be the same across all nodes -- path ''
                @ quoted (nullString nodePath) @ '' does not share the common prefix from other nodes '' @ quoted commonPrefix))
         else Inr curCommonPrefix)"

definition queryLocalPath :: "genEnv \<Rightarrow> string \<Rightarrow> gen_fail + string" where
  "queryLocalPath G usage =
     (case queryPathForUsage G usage (extractCommonPrefix usage) of
        Inl e \<Rightarrow> Inl e
      | Inr commonPrefix \<Rightarrow>
          if commonPrefix = [] then Inl (GenErr (OtherErr (''failed to find any location path for usage '' @ quoted usage)))
          else Inr commonPrefix)"

definition setLocalPaths :: "genEnv \<Rightarrow> collector" where
  "setLocalPaths G d =
     (case queryLocalPath G ''DATA,TEMP'' of
        Inl e \<Rightarrow> Inl e
      | Inr dataPath \<Rightarrow>
          (case queryLocalPath G ''DEPOT'' of
             Inl e \<Rightarrow> Inl e
           | Inr depotPath \<Rightarrow>
               Inr (updGenSpec (\<lambda>sp. sp\<lparr>spec_Local := (spec_Local sp)\<lparr>loc_DataPath := dataPath, loc_DepotPath := depotPath\<rparr>\<rparr>) d)))"

subsection \<open>Subclusters\<close>

text \<open>
  The loop over the nodes in the order of their names: the subclusters found so far, the index of
  each, and the revive order, whose last entry grows while the nodes are of the same subcluster.
\<close>

type_synonym scState = "Subcluster list \<times> (string \<times> nat) list \<times> SubclusterPodCount list"

definition bumpReviveOrder :: "nat \<Rightarrow> SubclusterPodCount list \<Rightarrow> SubclusterPodCount list" where
  "bumpReviveOrder inx order =
     (if order = [] \<or> spc_SubclusterIndex (last order) \<noteq> int inx
      then order @ [\<lparr>spc_SubclusterIndex = int inx, spc_PodCount = 1\<rparr>]
      else order[length order - 1 := (last order)\<lparr>spc_PodCount := spc_PodCount (last order) + 1\<rparr>])"

definition addNode :: "string \<Rightarrow> bool \<Rightarrow> scState \<Rightarrow> scState" where
  "addNode name isPrimary st =
     (case st of (scs, inxMap, order) \<Rightarrow>
        let inx = (case map_of inxMap name of Some i \<Rightarrow> i | None \<Rightarrow> length scs);
            scs1 = (case map_of inxMap name of
                      Some i \<Rightarrow> scs
                    | None \<Rightarrow> scs @ [zeroSubcluster\<lparr>sc_Name := name, sc_Size := 0, sc_IsPrimary := isPrimary\<rparr>]);
            scs2 = scs1[inx := (scs1 ! inx)\<lparr>sc_Size := wrap32 (sc_Size (scs1 ! inx) + 1)\<rparr>];
            inxMap1 = (case map_of inxMap name of Some i \<Rightarrow> inxMap | None \<Rightarrow> (name, inx) # inxMap)
        in (scs2, inxMap1, bumpReviveOrder inx order))"

definition badNameErr :: "string \<Rightarrow> gen_fail" where
  "badNameErr name = GenErr (OtherErr (''subcluster names are included in the name of statefulsets, but the name ''
     @ quoted name @ '' cannot be used as it will violate Kubernetes naming.  Please rename the subcluster and ''
     @ ''retry this command again''))"

fun readNodes :: "sqlval list list \<Rightarrow> scState \<Rightarrow> gen_fail + scState" where
  "readNodes [] st = Inr st"
| "readNodes ([n, p] # rows) st =
     (case scanString n of
        None \<Rightarrow> Inl (failedRunning subclusterQuery scanErr)
      | Some name \<Rightarrow>
          (case scanBool p of
             None \<Rightarrow> Inl (failedRunning subclusterQuery scanErr)
           | Some isPrimary \<Rightarrow>
               if \<not> IsValidSubclusterName name then Inl (badNameErr name)
               else readNodes rows (addNode name isPrimary st)))"
| "readNodes (row # rows) st = Inl (failedRunning subclusterQuery scanErr)"

definition setSubclusterDetail :: "genEnv \<Rightarrow> collector" where
  "setSubclusterDetail G d =
     (case g_Query G subclusterQuery [] of
        Inl e \<Rightarrow> Inl (failedRunning subclusterQuery e)
      | Inr rows \<Rightarrow>
          (case readNodes (rows_list rows) (vdb_Subclusters (gen_Vdb d), [], spec_ReviveOrder (vdb_Spec (gen_Vdb d))) of
             Inl e \<Rightarrow> Inl e
           | Inr (scs, inxMap, order) \<Rightarrow>
               if inxMap = [] then Inl (GenErr (OtherErr ''not subclusters found''))
               else Inr (updGenSpec (\<lambda>sp. sp\<lparr>spec_Subclusters := scs, spec_ReviveOrder := order\<rparr>) d)))"

subsection \<open>Secrets and files\<close>

definition setLicense :: collector where
  "setLicense d =
     (if gen_LicenseData d = [] then Inr d
      else let nm = opt_VdbName (gen_Opts d) @ ''-license''
           in Inr (updGenSpec (\<lambda>sp. sp\<lparr>spec_LicenseSecret := nm\<rparr>)
                (updObjs (\<lambda>ob. ob\<lparr>ko_HasLicense := True, ko_LicenseSecret := \<lparr>kd_APIVersion = SecretAPIVersion, kd_Kind = SecretKindName,
                   kd_Name = nm, kd_Data = [''license.dat'' \<mapsto> gen_LicenseData d]\<rparr>\<rparr>) d)))"

definition readFileInto :: "genEnv \<Rightarrow> string \<Rightarrow> (string \<Rightarrow> DBGenerator) \<Rightarrow> DBGenerator \<Rightarrow> gen_fail + DBGenerator" where
  "readFileInto G file store d =
     (if file = [] then Inr d
      else case g_ReadFile G file of Inl e \<Rightarrow> Inl (GenErr e) | Inr data \<Rightarrow> Inr (store data))"

definition readLicense :: "genEnv \<Rightarrow> collector" where
  "readLicense G d = readFileInto G (opt_LicenseFile (gen_Opts d)) (\<lambda>x. d\<lparr>gen_LicenseData := x\<rparr>) d"

definition setPasswordSecret :: collector where
  "setPasswordSecret d =
     (if opt_Password (gen_Opts d) = [] then Inr d
      else let nm = opt_VdbName (gen_Opts d) @ ''-su-passwd''
           in Inr (updGenSpec (\<lambda>sp. sp\<lparr>spec_SuperuserPasswordSecret := nm\<rparr>)
                (updObjs (\<lambda>ob. ob\<lparr>ko_HasPassword := True, ko_SuperuserPasswordSecret := \<lparr>kd_APIVersion = SecretAPIVersion,
                   kd_Kind = SecretKindName, kd_Name = nm, kd_Data = [SuperuserPasswordKey \<mapsto> opt_Password (gen_Opts d)]\<rparr>\<rparr>) d)))"

definition readCAFile :: "genEnv \<Rightarrow> collector" where
  "readCAFile G d = readFileInto G (opt_CAFile (gen_Opts d)) (\<lambda>x. d\<lparr>gen_CAFileData := x\<rparr>) d"

definition setCAFile :: collector where
  "setCAFile d =
     (if gen_DBCfg d ''AWSCAFile'' = None \<and> gen_DBCfg d ''SystemCABundlePath'' = None then Inr d
      else if opt_CAFile (gen_Opts d) = []
      then Inl (GenErr (OtherErr ''communal endpoint authenticates with a CA file but -cafile not provided''))
      else
        let nm = (if opt_CACertName (gen_Opts d) = [] then opt_VdbName (gen_Opts d) @ ''-ca-cert'' else opt_CACertName (gen_Opts d))
        in Inr (updGenCommunal (\<lambda>c. c\<lparr>com_CaFile := CertsRoot @ ''/'' @ nm @ ''/'' @ ''ca.crt''\<rparr>)
             (updGenSpec (\<lambda>sp. sp\<lparr>spec_CertSecrets := spec_CertSecrets sp @ [nm]\<rparr>)
             (updObjs (\<lambda>ob. ob\<lparr>ko_HasCAFile := True, ko_CAFile := \<lparr>kd_APIVersion = SecretAPIVersion, kd_Kind = SecretKindName,
                kd_Name = nm, kd_Data = [''ca.crt'' \<mapsto> gen_CAFileData d]\<rparr>\<rparr>) d))))"

fun readXmlFiles :: "genEnv \<Rightarrow> string \<Rightarrow> string list \<Rightarrow> label_map \<Rightarrow> gen_fail + label_map" where
  "readXmlFiles G dir [] m = Inr m"
| "readXmlFiles G dir (fn # fns) m =
     (if \<not> strings_HasSuffix fn ''.xml'' then readXmlFiles G dir fns m
      else case g_ReadFile G (dir @ ''/'' @ fn) of
             Inl e \<Rightarrow> Inl (GenErr e)
           | Inr cnt \<Rightarrow> readXmlFiles G dir fns (m(fn \<mapsto> cnt)))"

definition readHadoopConfig :: "genEnv \<Rightarrow> collector" where
  "readHadoopConfig G d =
     (let dir = opt_HadoopConfigDir (gen_Opts d)
      in if dir = [] then Inr d
         else case g_OpenDir G dir of
                Inl e \<Rightarrow> Inl (GenErr e)
              | Inr (Inl e) \<Rightarrow> Inl (GenErr e)
              | Inr (Inr fileNames) \<Rightarrow>
                  (case readXmlFiles G dir fileNames Map.empty of
                     Inl e \<Rightarrow> Inl e
                   | Inr data \<Rightarrow> Inr (d\<lparr>gen_HadoopConfData := data\<rparr>)))"

definition setHadoopConfig :: collector where
  "setHadoopConfig d =
     (if gen_DBCfg d ''HadoopConfDir'' = None then Inr d
      else let nm = opt_VdbName (gen_Opts d) @ ''-hadoop-conf''
           in Inr (updGenCommunal (\<lambda>c. c\<lparr>com_HadoopConfig := nm\<rparr>)
                (updObjs (\<lambda>ob. ob\<lparr>ko_HasHadoopConfig := True, ko_HadoopConfig := \<lparr>kd_APIVersion = ConfigAPIVersion,
                   kd_Kind = ConfigKindName, kd_Name = nm, kd_Data = gen_HadoopConfData d\<rparr>\<rparr>) d)))"

definition readKrb5ConfFile :: "genEnv \<Rightarrow> collector" where
  "readKrb5ConfFile G d = readFileInto G (opt_Krb5Conf (gen_Opts d)) (\<lambda>x. d\<lparr>gen_Krb5ConfData := x\<rparr>) d"

definition readKrb5KeytabFile :: "genEnv \<Rightarrow> collector" where
  "readKrb5KeytabFile G d = readFileInto G (opt_Krb5Keytab (gen_Opts d)) (\<lambda>x. d\<lparr>gen_Krb5KeytabData := x\<rparr>) d"

definition setKrb5Secret :: collector where
  "setKrb5Secret d =
     (case (gen_DBCfg d ''KerberosRealm'', gen_DBCfg d ''KerberosServiceName'') of
        (Some realm, Some svcName) \<Rightarrow>
          if gen_Krb5ConfData d = []
          then Inl (GenErr (OtherErr ''no krb5.conf data.  Need to specify path to this file with the -krb5conf option''))
          else if gen_Krb5KeytabData d = []
          then Inl (GenErr (OtherErr ''no krb5.keytab data.  Need to specify path to this file with the -krb5keytab option''))
          else
            let nm = opt_VdbName (gen_Opts d) @ ''-krb5''
            in Inr (updGenSpec (\<lambda>sp. sp\<lparr>spec_KerberosSecret := nm\<rparr>)
                 (updGenCommunal (\<lambda>c. c\<lparr>com_KerberosRealm := realm, com_KerberosServiceName := svcName\<rparr>)
                 (updObjs (\<lambda>ob. ob\<lparr>ko_HasKerberosSecret := True, ko_KerberosSecret := \<lparr>kd_APIVersion = SecretAPIVersion,
                    kd_Kind = SecretKindName, kd_Name = nm,
                    kd_Data = [filepath_Base Krb5Conf \<mapsto> gen_Krb5ConfData d, filepath_Base Krb5Keytab \<mapsto> gen_Krb5KeytabData d]\<rparr>\<rparr>) d)))
      | _ \<Rightarrow> Inr d)"

section \<open>Creating and writing the manifest\<close>

fun runCollectors :: "collector list \<Rightarrow> collector" where
  "runCollectors [] d = Inr d"
| "runCollectors (c # cs) d = (case c d of Inl e \<Rightarrow> Inl e | Inr d' \<Rightarrow> runCollectors cs d')"

definition collectors :: "genEnv \<Rightarrow> collector list" where
  "collectors G = [readLicense G, gen_connect G, setShardCount G, setCommunalPath G, fetchDatabaseConfig G,
     setCommunalEndpointAWS, setCommunalEndpointGCloud, setCommunalEndpointAzure G, setLocalPaths G, setSubclusterDetail G,
     setLicense, setPasswordSecret, readCAFile G, setCAFile, readHadoopConfig G, setHadoopConfig,
     readKrb5ConfFile G, readKrb5KeytabFile G, setKrb5Secret]"

definition Create :: "genEnv \<Rightarrow> DBGenerator \<Rightarrow> gen_fail + KObjs" where
  "Create G d =
     (case runCollectors (collectors G) (setParmsFromOptions d) of
        Inl e \<Rightarrow> Inl e
      | Inr d' \<Rightarrow> Inr (gen_Objs d'))"

text \<open>
  The documents of the manifest, in order, separated by a line of dashes. Turning an object into
  YAML is a parameter; it may fail, and what was written before stays written.
\<close>

datatype manifest_obj = MSecret KData | MConfigMap KData | MVdb VerticaDB

definition manifestObjs :: "KObjs \<Rightarrow> manifest_obj list" where
  "manifestObjs objs =
     [MSecret (ko_CredSecret objs)]
     @ (if ko_HasPassword objs then [MSecret (ko_SuperuserPasswordSecret objs)] else [])
     @ (if ko_HasLicense objs then [MSecret (ko_LicenseSecret objs)] else [])
     @ (if ko_HasCAFile objs then [MSecret (ko_CAFile objs)] else [])
     @ (if ko_HasHadoopConfig objs then [MConfigMap (ko_HadoopConfig objs)] else [])
     @ (if ko_HasKerberosSecret objs then [MSecret (ko_KerberosSecret objs)] else [])
     @ [MVdb (ko_Vdb objs)]"

fun writeDocs :: "(manifest_obj \<Rightarrow> goerr + string) \<Rightarrow> manifest_obj list \<Rightarrow> string \<Rightarrow> string \<Rightarrow> goerr option \<times> string" where
  "writeDocs marshal [] sep out = (None, out)"
| "writeDocs marshal (ob # obs) sep out =
     (case marshal ob of
        Inl e \<Rightarrow> (Some e, out)
      | Inr y \<Rightarrow> writeDocs marshal obs (''---'' @ [newline]) (out @ sep @ y))"

definition writeManifest :: "(manifest_obj \<Rightarrow> goerr + string) \<Rightarrow> KObjs \<Rightarrow> goerr option \<times> string" where
  "writeManifest marshal objs = writeDocs marshal (manifestObjs objs) [] []"

definition Generate :: "(manifest_obj \<Rightarrow> goerr + string) \<Rightarrow> genEnv \<Rightarrow> DBGenerator \<Rightarrow> (gen_fail option) \<times> string" where
  "Generate marshal G d =
     (case Create G d of
        Inl e \<Rightarrow> (Some e, [])
      | Inr objs \<Rightarrow> (case writeManifest marshal objs of (err, out) \<Rightarrow> (map_option GenErr err, out)))"

section \<open>Lemmas\<close>

text \<open>
  The index of the subcluster of every node, in the order of the nodes, is what the revive order
  stands for.
\<close>

definition expandOrder :: "SubclusterPodCount list \<Rightarrow> nat list" where
  "expandOrder order = concat (map (\<lambda>cur. replicate (nat (spc_PodCount cur)) (nat (spc_SubclusterIndex cur))) order)"

definition ordered :: "nat \<Rightarrow> SubclusterPodCount list \<Rightarrow> bool" where
  "ordered n order \<longleftrightarrow> (\<forall>cur \<in> set order. 0 < spc_PodCount cur \<and> 0 \<le> spc_SubclusterIndex cur \<and> spc_SubclusterIndex cur < int n)"

lemma expandOrder_append [simp]: "expandOrder (xs @ ys) = expandOrder xs @ expandOrder ys"
  by (simp add: expandOrder_def)

lemma ordered_mono: "ordered n order \<Longrightarrow> n \<le> m \<Longrightarrow> ordered m order"
  by (force simp: ordered_def)

lemma expandOrder_less: "ordered n order \<Longrightarrow> i \<in> set (expandOrder order) \<Longrightarrow> i < n"
  by (auto simp: expandOrder_def ordered_def)

lemma bump_expand:
  assumes "ordered n order" and "inx < n"
  shows "expandOrder (bumpReviveOrder inx order) = expandOrder order @ [inx] \<and> ordered n (bumpReviveOrder inx order)"
proof (cases "order = [] \<or> spc_SubclusterIndex (last order) \<noteq> int inx")
  case True
  with assms show ?thesis by (auto simp: bumpReviveOrder_def expandOrder_def ordered_def)
next
  case False
  then obtain os cur where order: "order = os @ [cur]" "spc_SubclusterIndex cur = int inx" by (metis append_butlast_last_id)
  with assms have pos: "0 < spc_PodCount cur" by (simp add: ordered_def)
  then have "nat (spc_PodCount cur + 1) = Suc (nat (spc_PodCount cur))" by simp
  with False order pos assms show ?thesis
    by (auto simp: bumpReviveOrder_def expandOrder_def ordered_def replicate_append_same)
qed

text \<open>The subclusters, sizes and revive order agree with the nodes seen so far.\<close>

definition describes :: "string list \<Rightarrow> scState \<Rightarrow> bool" where
  "describes names st \<longleftrightarrow>
     (case st of (scs, inxMap, order) \<Rightarrow>
        ordered (length scs) order
        \<and> map (\<lambda>i. sc_Name (scs ! i)) (expandOrder order) = names
        \<and> (\<forall>i < length scs. sc_Size (scs ! i) = int (count_list (expandOrder order) i))
        \<and> distinct (map sc_Name scs)
        \<and> (\<forall>name i. map_of inxMap name = Some i \<longleftrightarrow> i < length scs \<and> sc_Name (scs ! i) = name))"

lemma describes_addNode:
  assumes "describes names (scs, inxMap, order)" and "length names < 2 ^ 31 - 1"
  shows "describes (names @ [name]) (addNode name isPrimary (scs, inxMap, order))"
proof -
  have D: "ordered (length scs) order" "map (\<lambda>i. sc_Name (scs ! i)) (expandOrder order) = names"
    "\<And>i. i < length scs \<Longrightarrow> sc_Size (scs ! i) = int (count_list (expandOrder order) i)"
    "distinct (map sc_Name scs)" "\<And>n i. map_of inxMap n = Some i \<longleftrightarrow> i < length scs \<and> sc_Name (scs ! i) = n"
    using assms(1) by (auto simp: describes_def)
  have w: "wrap32 (int (count_list (expandOrder order) i) + 1) = int (count_list (expandOrder order) i) + 1" for i
  proof (rule wrap32_id)
    have "count_list (expandOrder order) i \<le> length names"
      using count_le_length [of "expandOrder order" i] arg_cong [OF D(2), of length] by simp
    then have "count_list (expandOrder order) i < 2 ^ 31 - 1" using assms(2) by linarith
    then show "int32 (int (count_list (expandOrder order) i) + 1)" by (simp add: int32_def)
  qed
  show ?thesis
  proof (cases "map_of inxMap name")
    case (Some i)
    then have i: "i < length scs" "sc_Name (scs ! i) = name" using D(5) by auto
    let ?scs = "scs[i := (scs ! i)\<lparr>sc_Size := wrap32 (sc_Size (scs ! i) + 1)\<rparr>]"
    have nm: "sc_Name (scs[i := (scs ! i)\<lparr>sc_Size := z\<rparr>] ! j) = sc_Name (scs ! j)" for j z using i(1) by (cases "j = i") auto
    have nms: "map sc_Name (scs[i := (scs ! i)\<lparr>sc_Size := z\<rparr>]) = map sc_Name scs" for z
      by (rule nth_equalityI) (simp_all add: nm)
    have "addNode name isPrimary (scs, inxMap, order) = (?scs, inxMap, bumpReviveOrder i order)"
      by (simp add: addNode_def Some Let_def)
    then show ?thesis
      using D bump_expand [OF D(1) i(1)] i
      by (simp add: describes_def nm nms) (auto simp: nth_list_update w)
  next
    case None
    let ?n = "length scs"
    let ?sc = "zeroSubcluster\<lparr>sc_Name := name, sc_Size := 0, sc_IsPrimary := isPrimary\<rparr>"
    let ?scs = "scs @ [?sc\<lparr>sc_Size := 1\<rparr>]"
    have new: "sc_Name (scs ! j) \<noteq> name" if "j < ?n" for j using D(5) [of name j] None that by simp
    have fresh: "name \<notin> sc_Name ` set scs" using new by (metis image_iff in_set_conv_nth)
    have "count_list (expandOrder order) ?n = 0"
      using expandOrder_less [OF D(1)] by (auto simp: count_list_0_iff)
    moreover have "addNode name isPrimary (scs, inxMap, order) = (?scs, (name, ?n) # inxMap, bumpReviveOrder ?n order)"
      by (simp add: addNode_def None Let_def wrap32_def zeroSubcluster_def)
    moreover have "ordered (Suc ?n) order" by (rule ordered_mono [OF D(1)]) simp
    moreover have "map (\<lambda>i. sc_Name (?scs ! i)) (expandOrder order) = names"
      using D(2) expandOrder_less [OF D(1)] by (auto simp: nth_append)
    ultimately show ?thesis
      using D(3,4,5) bump_expand [of "Suc ?n" order ?n] new None fresh
      by (simp add: describes_def zeroSubcluster_def nth_append)
         (auto simp: less_Suc_eq)
  qed
qed

text \<open>The names of the nodes' subclusters, where the rows are well formed.\<close>

fun nodeNames :: "sqlval list list \<Rightarrow> string list" where
  "nodeNames [] = []"
| "nodeNames (row # rows) = (case row of n # _ \<Rightarrow> nullString n # nodeNames rows | [] \<Rightarrow> nodeNames rows)"

lemma readNodes_describes:
  assumes "readNodes rows st = Inr st'" and "describes names st" and "length names + length rows < 2 ^ 31 - 1"
  shows "describes (names @ nodeNames rows) st' \<and> length (nodeNames rows) = length rows"
  using assms
proof (induction rows st arbitrary: names rule: readNodes.induct)
  case (2 n p rows st)
  then obtain name isPrimary where n: "scanString n = Some name" "scanBool p = Some isPrimary" "IsValidSubclusterName name"
    "readNodes rows (addNode name isPrimary st) = Inr st'"
    by (auto split: option.splits if_splits)
  obtain scs inxMap order where st: "st = (scs, inxMap, order)" by (metis prod.exhaust)
  have "describes (names @ [name]) (addNode name isPrimary st)"
    unfolding st by (rule describes_addNode) (use "2.prems" st in auto)
  from "2.IH" [OF n(1,2) _ n(4) this] n "2.prems"(3) show ?case by (simp add: nullString_def)
qed auto

lemma count_list_replicate: "count_list (replicate n x) y = (if y = x then n else 0)"
  by (induction n) auto

text \<open>
  With a revive order that asks for no more than there is, revive_db goes through the subclusters in
  exactly that order.
\<close>

lemma addByReviveOrder_exact:
  assumes "sizesOk v" and "set (allPodNames v) \<subseteq> dom (map_of d)" and "visited v d poss st"
    and "ordered (length (vdb_Subclusters v)) order" and "\<forall>cur \<in> set order. int32 (spc_PodCount cur)"
    and "\<And>i. int (count_list (expandOrder order) i) \<le> fst st i"
  shows "\<exists>more st'. addByReviveOrder v d order st = Some st' \<and> visited v d (poss @ more) st' \<and> map fst more = expandOrder order
     \<and> (\<forall>i. fst st' i = fst st i - int (count_list (expandOrder order) i))"
  using assms(3-6)
proof (induction order arbitrary: poss st)
  case Nil
  then show ?case by (auto simp: expandOrder_def intro: exI [of _ "[]"])
next
  case (Cons cur order)
  let ?i = "nat (spc_SubclusterIndex cur)" and ?k = "nat (spc_PodCount cur)"
  have cur: "0 < spc_PodCount cur" "0 \<le> spc_SubclusterIndex cur" "spc_SubclusterIndex cur < int (length (vdb_Subclusters v))"
    "ordered (length (vdb_Subclusters v)) order" using Cons.prems(2) by (auto simp: ordered_def)
  then have i: "?i < length (vdb_Subclusters v)" by simp
  have exp: "expandOrder (cur # order) = replicate ?k ?i @ expandOrder order" by (simp add: expandOrder_def)
  have cnt: "int (count_list (replicate ?k ?i) j) = (if j = ?i then spc_PodCount cur else 0)" for j
    using cur(1) by (simp add: count_list_replicate)
  have le: "int ?k \<le> fst st ?i" using Cons.prems(4) [of ?i] cnt [of ?i] cur(1) by (simp add: exp)
  note add = addPods_visited [OF assms(1) Cons.prems(1) i le]
  have "addPodsFromSubcluster v d ?i ?k st \<noteq> None"
  proof
    assume "addPodsFromSubcluster v d ?i ?k st = None"
    with add i have "\<exists>i p. i < length (vdb_Subclusters v) \<and> 0 \<le> p \<and> p < initialPodCounts v i \<and> podAt v (i, p) \<notin> dom (map_of d)"
      by auto
    then show False using assms(2) unfolding position_names by blast
  qed
  then obtain st1 where st1: "addPodsFromSubcluster v d ?i ?k st = Some st1" by auto
  let ?new = "map (Pair ?i) [initialPodCounts v ?i - fst st ?i..initialPodCounts v ?i - fst st ?i + int ?k - 1]"
  from add st1 have v1: "visited v d (poss @ ?new) st1" and c1: "fst st1 = (fst st)(?i := fst st ?i - int ?k)" by simp_all
  have new: "map fst ?new = replicate ?k ?i" using cur(1) by (simp add: o_def map_replicate_const)
  have "int (count_list (expandOrder order) j) \<le> fst st1 j" for j
    using Cons.prems(4) [of j] cnt [of j] cur(1) by (simp add: exp c1 split: if_splits)
  from Cons.IH [OF v1 cur(4) _ this] Cons.prems(3) obtain more st' where
    IH: "addByReviveOrder v d order st1 = Some st'" "visited v d ((poss @ ?new) @ more) st'" "map fst more = expandOrder order"
      "\<And>i. fst st' i = fst st1 i - int (count_list (expandOrder order) i)" by auto
  have "wrap32 (spc_PodCount cur) = spc_PodCount cur" using Cons.prems(3) by simp
  then have "addByReviveOrder v d (cur # order) st = Some st'"
    using cur i le st1 IH(1) by (simp add: Let_def not_le)
  moreover have "fst st' j = fst st j - int (count_list (expandOrder (cur # order)) j)" for j
    using IH(4) [of j] cnt [of j] cur(1) by (auto simp: c1 exp)
  ultimately show ?case
    using IH(2,3) new by (intro exI [of _ "?new @ more"] exI [of _ st']) (simp add: exp)
qed

text \<open>Positions are determined by their subclusters: the next pod of a subcluster is the next in order.\<close>

lemma positions_by_subcluster:
  assumes "\<And>i. filter (\<lambda>p. fst p = i) poss = map (Pair i) [0..c i - 1]"
  shows "poss = map (\<lambda>k. (fst (poss ! k), int (count_list (take k (map fst poss)) (fst (poss ! k))))) [0..<length poss]"
proof (rule nth_equalityI)
  fix k assume k: "k < length poss"
  let ?i = "fst (poss ! k)"
  have cnt: "count_list (map fst xs) i = length (filter (\<lambda>p. fst p = i) xs)" for xs :: "('a \<times> int) list" and i
    by (induction xs) auto
  define m where "m = length (filter (\<lambda>p. fst p = ?i) (take k poss))"
  have split: "filter (\<lambda>p. fst p = ?i) poss = filter (\<lambda>p. fst p = ?i) (take k poss) @ poss ! k # filter (\<lambda>p. fst p = ?i) (drop (Suc k) poss)"
    using id_take_nth_drop [OF k] by (metis (mono_tags, lifting) filter.simps(2) filter_append)
  then have "filter (\<lambda>p. fst p = ?i) poss ! m = poss ! k" by (simp add: m_def)
  moreover have "m < length (filter (\<lambda>p. fst p = ?i) poss)" by (simp add: split m_def)
  ultimately have "poss ! k = (?i, int m)" using assms [of ?i] by simp
  then show "poss ! k = map (\<lambda>k. (fst (poss ! k), int (count_list (take k (map fst poss)) (fst (poss ! k))))) [0..<length poss] ! k"
    using k by (simp add: take_map cnt m_def)
qed simp

lemma addRemaining_zero: "(\<And>i. fst st i = 0) \<Longrightarrow> addRemaining v d is st = Some st"
proof (induction "is")
  case (Cons i "is")
  then show ?case by (cases st) simp
qed simp

lemma count_list_map_inj:
  "inj_on f (insert x (set xs)) \<Longrightarrow> count_list (map f xs) (f x) = count_list xs x"
  by (induction xs) (auto simp: inj_on_def)

text \<open>
  The generated subclusters and revive order, in a resource that may differ in everything else,
  assign every node of the database to the next pod of its subcluster.
\<close>

lemma generated_revive:
  assumes desc: "describes names (scs, inxMap, order)" and len: "length names < 2 ^ 31 - 1"
    and v: "vdb_Subclusters v = scs" "spec_ReviveOrder (vdb_Spec v) = order"
    and facts: "set (allPodNames v) \<subseteq> dom (map_of d)" and keyed: "\<forall>(pn, pf) \<in> set d. pf_name pf = pn"
  shows "\<exists>l. revivePodList v d = Some l \<and> length l = length names
     \<and> (\<forall>k < length names. \<exists>sc \<in> set scs. sc_Name sc = names ! k
          \<and> pf_name (l ! k) = GenPodName v sc (int (count_list (take k names) (names ! k))))"
proof -
  have D: "ordered (length scs) order" "map (\<lambda>i. sc_Name (scs ! i)) (expandOrder order) = names"
    "\<And>i. i < length scs \<Longrightarrow> sc_Size (scs ! i) = int (count_list (expandOrder order) i)" "distinct (map sc_Name scs)"
    using desc by (auto simp: describes_def)
  have n: "length (expandOrder order) = length names" using arg_cong [OF D(2), of length] by simp
  have cnt: "count_list (expandOrder order) i \<le> length names" for i using count_le_length [of _ i] n by metis
  have small: "int32 (int m)" if "m \<le> length names" for m
    using that len by (simp add: int32_def)
  have size: "sizesOk v" using D(3) cnt small by (auto simp: sizesOk_def v in_set_conv_nth)
  have pc: "int32 (spc_PodCount cur)" if "cur \<in> set order" for cur
  proof -
    have "replicate (nat (spc_PodCount cur)) (nat (spc_SubclusterIndex cur)) \<in> set (map (\<lambda>cur. replicate (nat (spc_PodCount cur)) (nat (spc_SubclusterIndex cur))) order)"
      using that by auto
    then have "nat (spc_PodCount cur) \<le> length names"
      using n member_le_sum_list [of "nat (spc_PodCount cur)" "map (\<lambda>cur. nat (spc_PodCount cur)) order"] that
      by (simp add: expandOrder_def length_concat o_def)
    moreover have "0 < spc_PodCount cur" using D(1) that by (simp add: ordered_def)
    ultimately show ?thesis using small [of "nat (spc_PodCount cur)"] by simp
  qed
  have initial: "initialPodCounts v i = int (count_list (expandOrder order) i)" for i
    using D(3) expandOrder_less [OF D(1), of i] by (auto simp: initialPodCounts_def v count_list_0_iff)
  obtain more st where st: "addByReviveOrder v d order (initialPodCounts v, []) = Some st" "visited v d more st"
    "map fst more = expandOrder order" "\<And>i. fst st i = 0"
    using addByReviveOrder_exact [OF size facts visited_Nil [OF size], of order] D(1) pc initial v by auto
  have l: "revivePodList v d = Some (snd st)"
    by (simp add: revivePodList_def v st(1) addRemaining_zero [OF st(4)])
  have look: "lookupPods d (map (podAt v) more) = Some (snd st)"
    and fil: "\<And>i. filter (\<lambda>p. fst p = i) more = map (Pair i) [0..initialPodCounts v i - 1]"
    using st(2,4) by (auto simp: visited_def)
  have names: "map pf_name (snd st) = map (podAt v) more" by (rule lookupPods_names [OF look keyed])
  have len_more: "length more = length names" using arg_cong [OF st(3), of length] n by simp
  have "\<exists>sc \<in> set scs. sc_Name sc = names ! k \<and> pf_name (snd st ! k) = GenPodName v sc (int (count_list (take k names) (names ! k)))"
    if k: "k < length names" for k
  proof -
    let ?i = "fst (more ! k)"
    have ik: "?i = expandOrder order ! k" using st(3) k len_more by (metis nth_map)
    then have i: "?i < length scs" using expandOrder_less [OF D(1)] k n by simp
    have nk: "names ! k = sc_Name (scs ! ?i)" using D(2) k n ik by (metis nth_map)
    have inj: "inj_on (\<lambda>i. sc_Name (scs ! i)) {..<length scs}"
      using D(4) by (auto simp: inj_on_def distinct_conv_nth)
    have "count_list (map (\<lambda>i. sc_Name (scs ! i)) (take k (expandOrder order))) (sc_Name (scs ! ?i))
        = count_list (take k (expandOrder order)) ?i"
      by (rule count_list_map_inj, rule inj_on_subset [OF inj])
         (use i expandOrder_less [OF D(1)] in \<open>auto dest: in_set_takeD\<close>)
    moreover have "take k names = map (\<lambda>i. sc_Name (scs ! i)) (take k (expandOrder order))"
      by (simp add: D(2) [symmetric] take_map)
    ultimately have "count_list (take k names) (names ! k) = count_list (take k (expandOrder order)) ?i"
      by (simp only: nk)
    moreover have "more ! k = (?i, int (count_list (take k (map fst more)) ?i))"
      using arg_cong [OF positions_by_subcluster [OF fil], of "\<lambda>xs. xs ! k"] k len_more by simp
    ultimately have "podAt v (more ! k) = GenPodName v (scs ! ?i) (int (count_list (take k names) (names ! k)))"
      by (simp add: podAt_def v st(3)) (metis snd_conv)
    moreover have "pf_name (snd st ! k) = podAt v (more ! k)"
      using arg_cong [OF names, of "\<lambda>xs. xs ! k"] k len_more lookupPods_Some [OF look] by simp
    ultimately show ?thesis using nk i by (intro bexI [of _ "scs ! ?i"]) simp_all
  qed
  then show ?thesis using l len_more lookupPods_Some [OF look] by (intro exI [of _ "snd st"]) simp
qed

text \<open>
  An error that cuts the iteration over the rows short is not looked at, so the nodes that were not
  read are missing from the resource without a word.
\<close>

lemma subcluster_rows_error_lost:
  assumes "g_Query G subclusterQuery [] = Inr \<lparr>rows_list = rs, rows_endErr = Some e\<rparr>"
    and "g_Query H subclusterQuery [] = Inr \<lparr>rows_list = rs, rows_endErr = None\<rparr>"
  shows "setSubclusterDetail G d = setSubclusterDetail H d"
  by (simp add: setSubclusterDetail_def assms)

text \<open>
  The operator stores the protocol of an Azure endpoint in upper case, and the generator copies it in
  front of the endpoint; read again, neither the protocol nor the host is recognised.
\<close>

lemma azure_endpoint_not_recovered:
  defines "p \<equiv> getEndpointProtocol ''http://minio:9000''" and "hp \<equiv> getEndpointHostPort ''http://minio:9000''"
  shows "p = ''HTTP'' \<and> hp = ''minio:9000''
     \<and> getEndpointProtocol (p @ ''://'' @ hp) = ''HTTPS'' \<and> getEndpointHostPort (p @ ''://'' @ hp) = ''HTTP://minio:9000''"
  unfolding p_def hp_def by code_simp

text \<open>The part of the spec that a later collector leaves alone.\<close>

lemma readFileInto_Inr:
  "readFileInto G file store d = Inr d' \<Longrightarrow> d' = d \<or> (\<exists>x. d' = store x)"
  by (auto simp: readFileInto_def split: if_splits sum.splits)

definition sameSubclusters :: "DBGenerator \<Rightarrow> DBGenerator \<Rightarrow> bool" where
  "sameSubclusters d d' \<longleftrightarrow> vdb_Subclusters (gen_Vdb d') = vdb_Subclusters (gen_Vdb d)
     \<and> spec_ReviveOrder (vdb_Spec (gen_Vdb d')) = spec_ReviveOrder (vdb_Spec (gen_Vdb d))"

lemmas gen_upd_defs = updGenCommunal_def updGenSpec_def updObjs_def

lemma sameSubclusters_refl [simp]: "sameSubclusters d d"
  by (simp add: sameSubclusters_def)

lemma sameSubclusters_trans: "sameSubclusters a b \<Longrightarrow> sameSubclusters b c \<Longrightarrow> sameSubclusters a c"
  by (simp add: sameSubclusters_def)

lemma sameSubclusters_upd [simp]:
  "sameSubclusters a (updGenCommunal f d) \<longleftrightarrow> sameSubclusters a d"
  "sameSubclusters a (d\<lparr>gen_Opts := ops\<rparr>) \<longleftrightarrow> sameSubclusters a d"
  "sameSubclusters a (d\<lparr>gen_DBCfg := m\<rparr>) \<longleftrightarrow> sameSubclusters a d"
  "sameSubclusters a (d\<lparr>gen_Connected := b\<rparr>) \<longleftrightarrow> sameSubclusters a d"
  "(\<And>sp. spec_Subclusters (g sp) = spec_Subclusters sp) \<Longrightarrow> (\<And>sp. spec_ReviveOrder (g sp) = spec_ReviveOrder sp) \<Longrightarrow>
     sameSubclusters a (updGenSpec g d) \<longleftrightarrow> sameSubclusters a d"
  "(\<And>ob. vdb_Spec (ko_Vdb (h ob)) = vdb_Spec (ko_Vdb ob)) \<Longrightarrow> sameSubclusters a (updObjs h d) \<longleftrightarrow> sameSubclusters a d"
  by (simp_all add: sameSubclusters_def gen_upd_defs)

text \<open>Every collector but the one for the subclusters keeps them.\<close>

definition otherCollectors :: "genEnv \<Rightarrow> collector list \<times> collector list" where
  "otherCollectors G =
     ([readLicense G, gen_connect G, setShardCount G, setCommunalPath G, fetchDatabaseConfig G,
       setCommunalEndpointAWS, setCommunalEndpointGCloud, setCommunalEndpointAzure G, setLocalPaths G],
      [setLicense, setPasswordSecret, readCAFile G, setCAFile, readHadoopConfig G, setHadoopConfig,
       readKrb5ConfFile G, readKrb5KeytabFile G, setKrb5Secret])"

lemma collectors_split: "collectors G = fst (otherCollectors G) @ setSubclusterDetail G # snd (otherCollectors G)"
  by (simp add: collectors_def otherCollectors_def)

lemma collectors_keep:
  assumes "c \<in> set (fst (otherCollectors G) @ snd (otherCollectors G))" and "c d = Inr d'"
  shows "sameSubclusters d d'"
proof -
  have files: "sameSubclusters d d'" if "c \<in> {readLicense G, readCAFile G, readKrb5ConfFile G, readKrb5KeytabFile G}"
    using that assms(2)
    by (auto simp: readLicense_def readCAFile_def readKrb5ConfFile_def readKrb5KeytabFile_def sameSubclusters_def dest!: readFileInto_Inr)
  have generic: "sameSubclusters d d'" if "setCommunalEndpointGeneric a b e f d = Inr d'" for a b e f
    using that by (auto simp: setCommunalEndpointGeneric_def Let_def split: option.splits list.splits)
  have endpoints: "sameSubclusters d d'" if "c \<in> {setCommunalEndpointAWS, setCommunalEndpointGCloud}"
    using that assms(2) by (auto simp: setCommunalEndpointAWS_def setCommunalEndpointGCloud_def split: if_splits dest: generic)
  have cred: "sameSubclusters d d1" if "extractAzureCredential G x d = Inr (d1, r)" for x d1 r
    using that by (auto simp: extractAzureCredential_def Let_def setAccountName_def split: sum.splits if_splits option.splits)
  have cfg: "sameSubclusters a d1" if "extractAzureEndpointConfig G x a = Inr (d1, r)" for x a d1 r
    using that by (auto simp: extractAzureEndpointConfig_def Let_def setAccountName_def split: sum.splits if_splits option.splits)
  have azure: "sameSubclusters d d'" if "c = setCommunalEndpointAzure G"
    using that assms(2)
    by (auto simp: setCommunalEndpointAzure_def Let_def split: sum.splits if_splits option.splits prod.splits
        dest!: cred cfg intro: sameSubclusters_trans)
  have queries: "sameSubclusters d d'"
    if "c \<in> {gen_connect G, setShardCount G, setCommunalPath G, fetchDatabaseConfig G, setLocalPaths G}"
    using that assms(2)
    by (auto simp: gen_connect_def setShardCount_def setCommunalPath_def fetchDatabaseConfig_def setLocalPaths_def
        split: sum.splits if_splits option.splits list.splits)
  have secrets: "sameSubclusters d d'"
    if "c \<in> {setLicense, setPasswordSecret, setCAFile, readHadoopConfig G, setHadoopConfig, setKrb5Secret}"
    using that assms(2)
    by (auto simp: setLicense_def setPasswordSecret_def setCAFile_def readHadoopConfig_def setHadoopConfig_def setKrb5Secret_def
        Let_def sameSubclusters_def gen_upd_defs split: sum.splits if_splits option.splits)
  from assms(1) show ?thesis
    using files endpoints azure queries secrets by (auto simp: otherCollectors_def)
qed

lemma runCollectors_append:
  "runCollectors (cs @ cs') d = (case runCollectors cs d of Inl e \<Rightarrow> Inl e | Inr d' \<Rightarrow> runCollectors cs' d')"
  by (induction cs arbitrary: d) (auto split: sum.splits)

lemma runCollectors_keep:
  assumes "\<forall>c \<in> set cs. \<forall>d d'. c d = Inr d' \<longrightarrow> sameSubclusters d d'" and "runCollectors cs d = Inr d'"
  shows "sameSubclusters d d'"
  using assms
proof (induction cs arbitrary: d)
  case (Cons c cs)
  then obtain d1 where d1: "c d = Inr d1" "runCollectors cs d1 = Inr d'" by (auto split: sum.splits)
  have "sameSubclusters d1 d'" by (rule Cons.IH [OF _ d1(2)]) (use Cons.prems(1) in simp)
  moreover have "sameSubclusters d d1" using Cons.prems(1) d1(1) by simp
  ultimately show ?case by (simp add: sameSubclusters_def)
qed simp

text \<open>The subclusters and the revive order of a created resource describe the nodes of the database.\<close>

lemma Create_describes:
  assumes "Create G (makeDBGenerator opts) = Inr objs" and "g_Query G subclusterQuery [] = Inr rows"
    and "length (rows_list rows) < 2 ^ 31 - 1"
  shows "\<exists>inxMap. describes (nodeNames (rows_list rows)) (vdb_Subclusters (ko_Vdb objs), inxMap, spec_ReviveOrder (vdb_Spec (ko_Vdb objs)))
     \<and> length (nodeNames (rows_list rows)) = length (rows_list rows)"
proof -
  let ?d0 = "setParmsFromOptions (makeDBGenerator opts)"
  obtain d1 d2 d3 where d: "runCollectors (fst (otherCollectors G)) ?d0 = Inr d1" "setSubclusterDetail G d1 = Inr d2"
    "runCollectors (snd (otherCollectors G)) d2 = Inr d3" "objs = gen_Objs d3"
    using assms(1) unfolding Create_def collectors_split runCollectors_append
    by (auto split: sum.splits)
  have keep: "\<forall>c \<in> set (fst (otherCollectors G)) \<union> set (snd (otherCollectors G)). \<forall>d d'. c d = Inr d' \<longrightarrow> sameSubclusters d d'"
    using collectors_keep by simp
  have s1: "sameSubclusters ?d0 d1" by (rule runCollectors_keep [OF _ d(1)]) (use keep in blast)
  have s3: "sameSubclusters d2 d3" by (rule runCollectors_keep [OF _ d(3)]) (use keep in blast)
  have "vdb_Subclusters (gen_Vdb ?d0) = []" "spec_ReviveOrder (vdb_Spec (gen_Vdb ?d0)) = []"
    by (simp_all add: setParmsFromOptions_def makeDBGenerator_def zeroKObjs_def zeroVerticaDB_def zeroVerticaDBSpec_def gen_upd_defs Let_def)
  with s1 have start: "vdb_Subclusters (gen_Vdb d1) = []" "spec_ReviveOrder (vdb_Spec (gen_Vdb d1)) = []"
    by (simp_all add: sameSubclusters_def)
  with d(2) assms(2) obtain scs inxMap order where rd: "readNodes (rows_list rows) ([], [], []) = Inr (scs, inxMap, order)"
    and d2: "vdb_Subclusters (gen_Vdb d2) = scs" "spec_ReviveOrder (vdb_Spec (gen_Vdb d2)) = order"
    by (auto simp: setSubclusterDetail_def gen_upd_defs split: sum.splits if_splits)
  have "describes [] ([], [], [])" by (simp add: describes_def ordered_def expandOrder_def)
  from readNodes_describes [OF rd this] assms(3) d2 s3 d(4) show ?thesis
    by (auto simp: sameSubclusters_def)
qed
subsection \<open>The communal endpoint of a created resource\<close>

text \<open>
  The collectors after the one for S3 leave the communal path alone, and for S3 storage the
  endpoint, the region and the credentials as well.
\<close>

definition sameEndpoint :: "DBGenerator \<Rightarrow> DBGenerator \<Rightarrow> bool" where
  "sameEndpoint d d' \<longleftrightarrow> com_Path (vdb_Communal (gen_Vdb d')) = com_Path (vdb_Communal (gen_Vdb d))
     \<and> (IsS3 (gen_Vdb d) \<longrightarrow> com_Endpoint (vdb_Communal (gen_Vdb d')) = com_Endpoint (vdb_Communal (gen_Vdb d))
          \<and> com_Region (vdb_Communal (gen_Vdb d')) = com_Region (vdb_Communal (gen_Vdb d))
          \<and> kd_Data (ko_CredSecret (gen_Objs d')) = kd_Data (ko_CredSecret (gen_Objs d)))"

lemma sameEndpoint_trans: "sameEndpoint a b \<Longrightarrow> sameEndpoint b c \<Longrightarrow> sameEndpoint a c"
  by (simp add: sameEndpoint_def IsS3_def)

lemma sameEndpoint_refl [simp]: "sameEndpoint d d"
  by (simp add: sameEndpoint_def)

lemma IsS3_only: "IsS3 v \<Longrightarrow> \<not> IsGCloud v \<and> \<not> IsAzure v"
  by (cases "com_Path (vdb_Communal v)")
     (auto simp: IsS3_def IsGCloud_def IsAzure_def strings_HasPrefix_def S3Prefix_def GCloudPrefix_def AzurePrefix_def)

definition laterCollectors :: "genEnv \<Rightarrow> collector list" where
  "laterCollectors G = [setCommunalEndpointGCloud, setCommunalEndpointAzure G, setLocalPaths G, setSubclusterDetail G,
     setLicense, setPasswordSecret, readCAFile G, setCAFile, readHadoopConfig G, setHadoopConfig,
     readKrb5ConfFile G, readKrb5KeytabFile G, setKrb5Secret]"

lemma laterCollectors_keep:
  assumes "c \<in> set (laterCollectors G)" and "c d = Inr d'"
  shows "sameEndpoint d d'"
proof -
  have files: "sameEndpoint d d'" if "c \<in> {readCAFile G, readKrb5ConfFile G, readKrb5KeytabFile G}"
    using that assms(2)
    by (auto simp: readCAFile_def readKrb5ConfFile_def readKrb5KeytabFile_def sameEndpoint_def dest!: readFileInto_Inr)
  have gcloud: "sameEndpoint d d'" if "c = setCommunalEndpointGCloud"
    using that assms(2) IsS3_only [of "gen_Vdb d"]
    by (auto simp: setCommunalEndpointGCloud_def setCommunalEndpointGeneric_def sameEndpoint_def gen_upd_defs Let_def
        split: if_splits option.splits list.splits)
  have cred: "gen_Objs d1 = gen_Objs d" if "extractAzureCredential G x d = Inr (d1, r)" for x d1 r
    using that by (auto simp: extractAzureCredential_def Let_def setAccountName_def split: sum.splits if_splits option.splits)
  have cfg: "gen_Objs d1 = gen_Objs a" if "extractAzureEndpointConfig G x a = Inr (d1, r)" for x a d1 r
    using that by (auto simp: extractAzureEndpointConfig_def Let_def setAccountName_def split: sum.splits if_splits option.splits)
  have azure: "sameEndpoint d d'" if "c = setCommunalEndpointAzure G"
    using that assms(2) IsS3_only [of "gen_Vdb d"]
    by (auto simp: setCommunalEndpointAzure_def Let_def sameEndpoint_def gen_upd_defs
        split: sum.splits if_splits option.splits prod.splits dest!: cred cfg)
  have rest: "sameEndpoint d d'"
    if "c \<in> {setLocalPaths G, setSubclusterDetail G, setLicense, setPasswordSecret, setCAFile, readHadoopConfig G, setHadoopConfig, setKrb5Secret}"
    using that assms(2)
    by (auto simp: setLocalPaths_def setSubclusterDetail_def setLicense_def setPasswordSecret_def setCAFile_def readHadoopConfig_def
        setHadoopConfig_def setKrb5Secret_def Let_def sameEndpoint_def gen_upd_defs split: sum.splits if_splits option.splits prod.splits)
  from assms(1) show ?thesis
    using files gcloud azure rest by (auto simp: laterCollectors_def)
qed

lemma runCollectors_sameEndpoint:
  assumes "runCollectors cs d = Inr d'" and "set cs \<subseteq> set (laterCollectors G)"
  shows "sameEndpoint d d'"
  using assms
proof (induction cs arbitrary: d)
  case (Cons c cs)
  then obtain d1 where d1: "c d = Inr d1" "runCollectors cs d1 = Inr d'" by (auto split: sum.splits)
  have "sameEndpoint d d1" by (rule laterCollectors_keep [where c = c and G = G]) (use Cons.prems(2) d1(1) in simp_all)
  moreover have "sameEndpoint d1 d'" by (rule Cons.IH [OF d1(2)]) (use Cons.prems(2) in simp)
  ultimately show ?case by (rule sameEndpoint_trans)
qed simp

text \<open>What a created resource for S3 storage says about the endpoint is what the database is configured with.\<close>

lemma Create_s3:
  assumes "Create G (makeDBGenerator opts) = Inr objs" and s3: "IsS3 (ko_Vdb objs)"
    and cfg: "g_Query G dbCfgQuery [] = Inr rows" "readCfgRows (rows_list rows) Map.empty = Inr cfg"
    and https: "cfg ''AWSEnableHttps'' = Some https"
  shows "\<exists>ep auth access secret. cfg ''AWSEndpoint'' = Some ep \<and> cfg ''AWSAuth'' = Some auth \<and> splitAuth auth = [access, secret]
     \<and> com_Endpoint (vdb_Communal (ko_Vdb objs)) = (if https = ''0'' then ''http'' else ''https'') @ ''://'' @ ep
     \<and> (\<forall>region. cfg ''AWSRegion'' = Some region \<longrightarrow> com_Region (vdb_Communal (ko_Vdb objs)) = region)
     \<and> kd_Data (ko_CredSecret objs) = [CommunalAccessKeyName \<mapsto> access, CommunalSecretKeyName \<mapsto> secret]"
proof -
  have split: "collectors G = [readLicense G, gen_connect G, setShardCount G, setCommunalPath G] @
      fetchDatabaseConfig G # setCommunalEndpointAWS # laterCollectors G"
    by (simp add: collectors_def laterCollectors_def)
  obtain d1 d2 d3 d4 where d: "fetchDatabaseConfig G d1 = Inr d2" "setCommunalEndpointAWS d2 = Inr d3"
    "runCollectors (laterCollectors G) d3 = Inr d4" "objs = gen_Objs d4"
    using assms(1) unfolding Create_def split runCollectors_append by (auto split: sum.splits)
  have d2: "gen_DBCfg d2 = cfg" using d(1) cfg by (simp add: fetchDatabaseConfig_def) auto
  have same: "sameEndpoint d3 d4" by (rule runCollectors_sameEndpoint [OF d(3) subset_refl])
  then have s3': "IsS3 (gen_Vdb d3)" using s3 d(4) by (simp add: sameEndpoint_def IsS3_def)
  have "com_Path (vdb_Communal (gen_Vdb d3)) = com_Path (vdb_Communal (gen_Vdb d2))"
    using d(2) by (auto simp: setCommunalEndpointAWS_def setCommunalEndpointGeneric_def gen_upd_defs Let_def
        split: if_splits option.splits list.splits)
  with s3' have "setCommunalEndpointGeneric ''AWSEnableHttps'' ''AWSEndpoint'' ''AWSAuth'' ''AWSRegion'' d2 = Inr d3"
    using d(2) by (simp add: setCommunalEndpointAWS_def IsS3_def)
  then show ?thesis
    using same s3' https d2 d(4)
    by (auto simp: setCommunalEndpointGeneric_def sameEndpoint_def gen_upd_defs Let_def split: option.splits list.splits)
qed

lemma splitAuth_join: "splitAuth auth = [access, secret] \<Longrightarrow> auth = access @ '':'' @ secret"
proof -
  assume split: "splitAuth auth = [access, secret]"
  then have parts: "CHR '':'' \<in> set auth" "access = takeWhile (\<lambda>c. c \<noteq> CHR '':'') auth" "secret = tl (dropWhile (\<lambda>c. c \<noteq> CHR '':'') auth)"
    by (auto simp: splitAuth_def split: if_splits)
  then have "dropWhile (\<lambda>c. c \<noteq> CHR '':'') auth \<noteq> []" by (auto simp: dropWhile_eq_Nil_conv)
  moreover from hd_dropWhile [OF this] have "hd (dropWhile (\<lambda>c. c \<noteq> CHR '':'') auth) = CHR '':''" by simp
  ultimately have "dropWhile (\<lambda>c. c \<noteq> CHR '':'') auth = CHR '':'' # secret" using parts(3) by (metis list.collapse)
  with takeWhile_dropWhile_id [of "\<lambda>c. c \<noteq> CHR '':''" auth] show "auth = access @ '':'' @ secret" using parts(2) by simp
qed

lemma TrimSuffix_newline: "newline \<notin> set s \<Longrightarrow> strings_TrimSuffix s [newline] = s"
proof -
  assume "newline \<notin> set s"
  then have "\<not> strings_HasSuffix s [newline]"
    by (cases s rule: rev_cases) (auto simp: strings_HasSuffix_def strings_HasPrefix_def)
  then show ?thesis by (simp add: strings_TrimSuffix_def)
qed

text \<open>The protocol and the address come out of an endpoint the way they were put in.\<close>

lemma endpoint_parts:
  assumes "com_Endpoint (vdb_Communal v) = (if https = ''0'' then ''http'' else ''https'') @ ''://'' @ ep"
    and "https \<in> {''0'', ''1''}" and "\<not> strings_HasSuffix ep ''/''"
  shows "getCommunalEndpoint v = ep \<and> getEnableHTTPS v = https"
  using assms by (auto simp: getCommunalEndpoint_def getEnableHTTPS_def strings_HasPrefix_def strings_TrimSuffix_def Let_def)

text \<open>A database with three nodes in two subclusters on S3 storage.\<close>

definition exampleRows :: "string list \<Rightarrow> sqlval list list \<Rightarrow> goerr + sqlRows" where
  "exampleRows args l = Inr \<lparr>rows_list = l, rows_endErr = None\<rparr>"

definition exampleGen :: genEnv where
  "exampleGen = \<lparr>g_Open = \<lambda>c. None, g_Ping = None,
     g_Query = \<lambda>q args.
       exampleRows args
        (if q = shardCountQuery then [[SqlInt 12]]
         else if q = dbCfgQuery then [[SqlText ''AWSEnableHttps'', SqlText ''0''], [SqlText ''AWSEndpoint'', SqlText ''minio:9000''],
           [SqlText ''AWSAuth'', SqlText ''me:pw''], [SqlText ''AWSRegion'', SqlText ''us-east-2'']]
         else if q = subclusterQuery then [[SqlText ''a'', SqlBool True], [SqlText ''b'', SqlBool False], [SqlText ''a'', SqlBool True]]
         else if args = [''DATA''] then [[SqlText [], SqlText ''s3://nimbusdb/db'']]
         else [[SqlText ''v_vertdb_node0001'', SqlText ''/data/vertdb/v_vertdb_node0001'']]),
     g_ReadFile = \<lambda>f. Inr [], g_OpenDir = \<lambda>d. Inr (Inr []),
     g_UnmarshalCreds = \<lambda>x. Inr [], g_UnmarshalConfigs = \<lambda>x. Inr []\<rparr>"

definition exampleOptions :: Options where
  "exampleOptions = \<lparr>opt_User = ''dbadmin'', opt_Password = [], opt_TLSMode = ''none'', opt_VdbName = ''sample'', opt_Host = ''10.20.30.40'',
     opt_Port = 5433, opt_DBName = ''vertdb'', opt_IgnoreClusterLease = False, opt_Image = [], opt_LicenseFile = [], opt_CAFile = [],
     opt_HadoopConfigDir = [], opt_AzureAccountName = [], opt_CACertName = [], opt_Krb5Conf = [], opt_Krb5Keytab = []\<rparr>"

definition createdObjs :: KObjs where
  "createdObjs = (case Create exampleGen (makeDBGenerator exampleOptions) of Inl e \<Rightarrow> zeroKObjs | Inr objs \<Rightarrow> objs)"

lemma Create_example: "Create exampleGen (makeDBGenerator exampleOptions) = Inr createdObjs"
proof -
  have "\<not> isl (Create exampleGen (makeDBGenerator exampleOptions))" by code_simp
  then show ?thesis by (cases "Create exampleGen (makeDBGenerator exampleOptions)") (simp_all add: createdObjs_def)
qed

lemma createdObjs_communal: "vdb_Communal (ko_Vdb createdObjs) = \<lparr>com_Path = ''s3://nimbusdb/db'', com_IncludeUIDInPath = False,
     com_Endpoint = ''http://minio:9000'', com_CredentialSecret = ''sample-credentials'', com_CaFile = [], com_Region = ''us-east-2'',
     com_HadoopConfig = [], com_KerberosServiceName = [], com_KerberosRealm = []\<rparr>"
  by code_simp

end
