(* ===== verification/Spec2Isabelle.thy ===== *)
theory Spec2Isabelle
  imports Footprint Vas VdbGen
begin

text \<open>
  A verification development for the VerticaDB operator (vertica-kubernetes), a Kubernetes operator
  written in Go that creates, scales, upgrades and repairs databases of the Vertica server, and for
  the tool vdb-gen, which describes a running database as a resource of the operator.

  \<^bold>\<open>The program.\<close> A VerticaDB resource (api/v1beta1) describes a database: its subclusters, the
  communal storage, the image. An admission webhook fills in defaults and rejects resources that
  are not consistent. The VerticaDB controller (pkg/controllers/vdb) runs a fixed list of
  reconcilers over a resource; each compares the facts about the pods with the resource and acts on
  Kubernetes objects or runs commands (a shell, vsql, admintools) in the pods. A VerticaAutoscaler
  resource with its own webhook and controller (pkg/controllers/vas) changes the subclusters of a
  VerticaDB to reach a number of pods. vdb-gen (pkg/vdbgen) reads the catalog of a database and
  writes the manifest from which the operator can revive it.

  \<^bold>\<open>The outside.\<close> The Kubernetes API server, the commands run in pods, the clock and the order in
  which Go walks a map are the fields of the record \<^typ>\<open>'w env\<close> of theory Effects; each takes and
  returns a world of any type \<open>'w\<close>, so nothing is assumed about it. What a theorem needs is a named
  hypothesis about such a record: \<^const>\<open>vdbServer\<close> (a stored resource is what was last written, an
  update of the spec keeps the status and the other way round, an update may fail), \<^const>\<open>rangeLaw\<close>
  (walking a map visits every entry once), \<^const>\<open>scalingServer\<close> (a server that accepts the writes of the
  autoscaler). \<^const>\<open>storeEnv\<close> is a concrete record that has these laws. An operation is a state monad
  over the record \<^typ>\<open>'w st\<close>: the world, the operator's copy of the resource, the pod facts, the
  password and a trace of everything the operator asked of the outside. An error is a value of
  \<^typ>\<open>goerr\<close>, the pair of result and error of a reconciler a value of \<^typ>\<open>ret\<close>, which also has a value
  for a Go panic. The library of the ini file parser, the dedent function, the SQL driver, the file
  system and the YAML and JSON encoders are parameters of the definitions that use them.

  \<^bold>\<open>The theories.\<close>

  \<^item> Prelude, Regex: the functions of Go's packages strings, strconv, sort and regexp in use, and the
    wrap-around of int32 and int64.

  \<^item> Vapi, Webhook: the VerticaDB resource and its methods (verticadb_types.go) and its webhook
    (verticadb_webhook.go). \<open>ValidateCreate_accepts_iff\<close> and \<open>ValidateUpdate_accepts_iff\<close> show that the chain
    of checks decides a declarative well-formedness and the set of changes that are allowed;
    \<open>admitted_history\<close> that every history of admitted writes keeps both.

  \<^item> VasApi: the VerticaAutoscaler resource and its webhook.

  \<^item> Version: versions and upgrade paths (pkg/version).

  \<^item> Effects, Trace: the world, the monad, its Hoare triples, and judgements about the trace, with
    one rule per control structure in \<open>spec_rules\<close>.

  \<^item> Metrics: the Prometheus series (pkg/metrics).

  \<^item> Names, Finder, VdbStatus: names and labels of objects (pkg/names, pkg/builder), the search for the
    objects of a database (pkg/iter), writing the status (pkg/vdbstatus). The array of conditions
    refines a map of flags (locale \<open>condition_store\<close>).

  \<^item> PodFacts: collecting the facts about every pod and the queries on them (podfacts.go).

  \<^item> AtOps, AtConf: distributing admintools.conf (at.go) and editing it (pkg/atconf).

  \<^item> Restart, Scale, Install, PodRecon: restart; removing and adding nodes and subclusters, draining,
    rebalancing; install and uninstall; routing labels, annotations, stop, version and status
    reconcilers. What removing nodes and uninstalling share is the locale \<open>scaledown_step\<close>.

  \<^item> Builder, ObjRecon: building the services and statefulsets (builder.go) and applying them
    (obj_reconcile.go).

  \<^item> Upgrade, Online: the upgrade manager, the offline and the online upgrade.

  \<^item> InitDB: create_db and revive_db (init_db.go, createdb_reconcile.go, revivedb_reconcile.go), which
    share the locale \<open>database_initializer\<close>, the parameters file of every kind of communal storage,
    and the license path.

  \<^item> Controller: the metrics reconciler and the pass of the VerticaDB controller.

  \<^item> Footprint: for every operation of the VerticaDB controller the actions it may perform, and for a
    pass which reconcilers have completed before an action.

  \<^item> Vas: the VerticaAutoscaler controller (pkg/controllers/vas, pkg/vasstatus).

  \<^item> VdbGen: the generator (pkg/vdbgen).

  \<^bold>\<open>What the lemmas show.\<close> Safety of what disturbs a database, as predicates over the trace: nodes are
  killed and restarted, databases created, local files removed, statefulsets shrunk, nodes and
  installs removed only when the facts say that it is safe. Functional results of the computations:
  which pods take part in an admintools command and in what order, the edited configuration file,
  the status and the gauges that are published, the images that are replaced. Round trips: versions,
  node lines, the transient subcluster, and, across components in this theory, from the catalog of
  a database through the generated resource back to the pods and the parameters it is revived with.
  The pass of the controller: it stops at the first reconciler that aborts, and by the actions that
  each reconciler may perform, what changes a database or its objects happens in a fixed order:
  draining, removal from the database, uninstall, deletion of objects; install before the database
  is created or revived. The autoscaler: it reaches
  its target, stays within it, and exactly when it does not return. Error behaviour that is not what
  the code means to do is stated as a theorem about the code as it is.

  \<^bold>\<open>Loops and bounds.\<close> Loops over lists are structural recursions. The search for a free subcluster
  name and the loop that adds subclusters may run forever and are partial functions whose value None
  means that the code does not return; a theorem says when they return. A retry on conflict runs as
  often as the back-off allows, which is the field \<^const>\<open>e_Retries\<close>, an arbitrary number. int32 sizes are
  integers with the wrap-around written out; the theorems that need no overflow say so.

  \<^bold>\<open>Not modelled.\<close> The start of the two programs (cmd/operator/main.go, cmd/vdb-gen/main.go: flags,
  logging, registration with libraries), SetupWithManager of the controllers and webhooks, the work
  queue of the controller runtime, log lines, the texts of events (an event is recorded with its
  type and reason), the durations that events and histograms report, generated deep copies, and the
  helpers of the tests. None of them takes a decision about a database. Two passes over the same
  resource do not run at the same time; another writer of the resources is part of the world.
\<close>

section \<open>From a running database to a revived one\<close>

text \<open>
  C5: The resource that vdb-gen writes for a running database revives it with its nodes where they
  were. Whenever the tool succeeds, the operator builds from the subclusters and the revive order
  of the resource a list of pods with exactly one pod for each node of the database; the pod at a
  position belongs to the subcluster of the node at that position, in the order of the node names,
  and its index counts the earlier nodes of the same subcluster.
\<close>

theorem generated_vdb_revives:
  assumes created: "Create G (makeDBGenerator opts) = Inr objs"
    and rows: "g_Query G subclusterQuery [] = Inr rows" "length (rows_list rows) < 2 ^ 31 - 1"
    and stored: "vdb_Subclusters v = vdb_Subclusters (ko_Vdb objs)"
      "spec_ReviveOrder (vdb_Spec v) = spec_ReviveOrder (vdb_Spec (ko_Vdb objs))"
    and facts: "set (allPodNames v) \<subseteq> dom (map_of d)" "\<forall>(pn, pf) \<in> set d. pf_name pf = pn"
  shows "\<exists>l. revivePodList v d = Some l \<and> length l = length (rows_list rows)
     \<and> (\<forall>k < length (rows_list rows).
          let names = nodeNames (rows_list rows) in
          \<exists>sc \<in> set (vdb_Subclusters v). sc_Name sc = names ! k
            \<and> pf_name (l ! k) = GenPodName v sc (int (count_list (take k names) (names ! k))))"
proof -
  from Create_describes [OF created rows] obtain inxMap where
    desc: "describes (nodeNames (rows_list rows))
       (vdb_Subclusters (ko_Vdb objs), inxMap, spec_ReviveOrder (vdb_Spec (ko_Vdb objs)))"
    and len: "length (nodeNames (rows_list rows)) = length (rows_list rows)" by blast
  from generated_revive [OF desc _ stored facts] len rows(2) show ?thesis by (simp add: stored(1) Let_def)
qed

theorem generated_vdb_revives_witness:
  "\<exists>l. revivePodList (ko_Vdb createdObjs) (factsFor (allPodNames (ko_Vdb createdObjs))) = Some l \<and> length l = 3
     \<and> (\<exists>sc \<in> set (vdb_Subclusters (ko_Vdb createdObjs)). sc_Name sc = ''a'' \<and> pf_name (l ! 2) = GenPodName (ko_Vdb createdObjs) sc 1)"
proof -
  let ?nodes = "[[SqlText ''a'', SqlBool True], [SqlText ''b'', SqlBool False], [SqlText ''a'', SqlBool True]]"
  have q: "g_Query exampleGen subclusterQuery [] = Inr \<lparr>rows_list = ?nodes, rows_endErr = None\<rparr>"
    by (simp add: exampleGen_def exampleRows_def subclusterQuery_def shardCountQuery_def dbCfgQuery_def)
  have "length (rows_list \<lparr>rows_list = ?nodes, rows_endErr = None\<rparr>) < 2 ^ 31 - 1" by simp
  from generated_vdb_revives [OF Create_example q this refl refl, of "factsFor (allPodNames (ko_Vdb createdObjs))"]
  obtain l where l: "revivePodList (ko_Vdb createdObjs) (factsFor (allPodNames (ko_Vdb createdObjs))) = Some l" "length l = 3"
    and k: "\<forall>k < length ?nodes. let names = nodeNames ?nodes in
          \<exists>sc \<in> set (vdb_Subclusters (ko_Vdb createdObjs)). sc_Name sc = names ! k
            \<and> pf_name (l ! k) = GenPodName (ko_Vdb createdObjs) sc (int (count_list (take k names) (names ! k)))"
    by auto
  from k [rule_format, of 2] have "\<exists>sc \<in> set (vdb_Subclusters (ko_Vdb createdObjs)). sc_Name sc = ''a''
      \<and> pf_name (l ! 2) = GenPodName (ko_Vdb createdObjs) sc 1" by (simp add: nullString_def)
  with l show ?thesis by blast
qed

text \<open>
  C21: The communal parameters make the round trip. For a database on S3 storage, the parameters
  file that the operator writes for reviving from the generated resource and its credential secret
  has the authentication, the endpoint, the protocol flag and the region that the database was
  configured with.
\<close>

theorem s3_parameters_roundtrip:
  assumes created: "Create G (makeDBGenerator opts) = Inr objs" "IsS3 (ko_Vdb objs)"
    and rows: "g_Query G dbCfgQuery [] = Inr rows" "readCfgRows (rows_list rows) Map.empty = Inr cfg"
    and cfg: "cfg ''AWSEnableHttps'' = Some https" "https \<in> {''0'', ''1''}" "cfg ''AWSEndpoint'' = Some ep" "\<not> strings_HasSuffix ep ''/''"
      "cfg ''AWSAuth'' = Some auth" "newline \<notin> set auth" "cfg ''AWSRegion'' = Some region" "region \<noteq> []"
    and stored: "vdb_Communal (vdb s) = vdb_Communal (ko_Vdb objs)"
      "e_GetSecret E (GenCommunalCredSecretName (vdb s)) (world s) = (Inr secret, w)"
      "map_of secret = kd_Data (ko_CredSecret objs)"
  shows "run_state (getS3AuthParmsContent E dedent) s =
     ((dedent (indented [tab, tab, tab]
         [''awsauth = '' @ auth, ''awsendpoint = '' @ ep, ''awsenablehttps = '' @ https, ''awsregion = '' @ region, getCAFile (vdb s)]
         @ [newline, tab, tab]), Done), s\<lparr>world := w\<rparr>)"
proof -
  from Create_s3 [OF created rows cfg(1)] cfg(3,5,7) obtain access secretKey where
    split: "splitAuth auth = [access, secretKey]"
    and c: "com_Endpoint (vdb_Communal (ko_Vdb objs)) = (if https = ''0'' then ''http'' else ''https'') @ ''://'' @ ep"
      "com_Region (vdb_Communal (ko_Vdb objs)) = region"
      "kd_Data (ko_CredSecret objs) = [CommunalAccessKeyName \<mapsto> access, CommunalSecretKeyName \<mapsto> secretKey]" by auto
  have auth: "auth = access @ '':'' @ secretKey" by (rule splitAuth_join [OF split])
  with cfg(6) have nl: "strings_TrimSuffix access [newline] = access" "strings_TrimSuffix secretKey [newline] = secretKey"
    by (auto intro: TrimSuffix_newline)
  have "run_state (getCommunalAuth E) s = ((auth, Done), s\<lparr>world := w\<rparr>)"
    by (simp add: getCommunalAuth_def getCommunalCredsSecret_def getSecret_def getConfigMapOrSecret_def stored c(3) nl auth
        emptyResult_def CommunalAccessKeyName_def CommunalSecretKeyName_def)
  moreover have "getCommunalEndpoint (vdb s) = ep" "getEnableHTTPS (vdb s) = https"
    using endpoint_parts [of "vdb s", OF _ cfg(2,4)] by (simp_all add: stored(1) c(1))
  moreover have "getRegion (vdb s) AWSRegionParm = ''awsregion = '' @ region"
    using cfg(8) by (simp add: getRegion_def AWSRegionParm_def stored(1) c(2))
  ultimately show ?thesis by (simp add: getS3AuthParmsContent_def emptyResult_def)
qed

theorem s3_parameters_roundtrip_witness:
  "\<exists>v. ko_Vdb createdObjs = v \<and> run_state (getS3AuthParmsContent secretEnv id) (exampleState\<lparr>vdb := v\<rparr>) =
     ((indented [tab, tab, tab] [''awsauth = me:pw'', ''awsendpoint = minio:9000'', ''awsenablehttps = 0'', ''awsregion = us-east-2'', []]
         @ [newline, tab, tab], Done), exampleState\<lparr>vdb := v\<rparr>)"
proof -
  let ?cfg = "[''AWSEnableHttps'' \<mapsto> ''0'', ''AWSEndpoint'' \<mapsto> ''minio:9000'', ''AWSAuth'' \<mapsto> ''me:pw'', ''AWSRegion'' \<mapsto> ''us-east-2'']"
  let ?rows = "[[SqlText ''AWSEnableHttps'', SqlText ''0''], [SqlText ''AWSEndpoint'', SqlText ''minio:9000''],
           [SqlText ''AWSAuth'', SqlText ''me:pw''], [SqlText ''AWSRegion'', SqlText ''us-east-2'']]"
  have s3: "IsS3 (ko_Vdb createdObjs)" by (simp add: IsS3_def createdObjs_communal strings_HasPrefix_def S3Prefix_def)
  have q: "g_Query exampleGen dbCfgQuery [] = Inr \<lparr>rows_list = ?rows, rows_endErr = None\<rparr>"
    by (simp add: exampleGen_def exampleRows_def subclusterQuery_def shardCountQuery_def dbCfgQuery_def)
  have r: "readCfgRows (rows_list \<lparr>rows_list = ?rows, rows_endErr = None\<rparr>) Map.empty = Inr ?cfg" by simp
  have get: "e_GetSecret secretEnv (GenCommunalCredSecretName (vdb (exampleState\<lparr>vdb := ko_Vdb createdObjs\<rparr>))) (world (exampleState\<lparr>vdb := ko_Vdb createdObjs\<rparr>))
      = (Inr [(CommunalAccessKeyName, ''me''), (CommunalSecretKeyName, ''pw'')], world exampleState)"
    by (simp add: secretEnv_def)
  have data: "map_of [(CommunalAccessKeyName, ''me''), (CommunalSecretKeyName, ''pw'')] = kd_Data (ko_CredSecret createdObjs)"
    using Create_s3 [OF Create_example s3 q r, of "''0''"]
    by (auto simp: splitAuth_def CommunalAccessKeyName_def CommunalSecretKeyName_def)
  have "run_state (getS3AuthParmsContent secretEnv id) (exampleState\<lparr>vdb := ko_Vdb createdObjs\<rparr>) =
     ((id (indented [tab, tab, tab] [''awsauth = '' @ ''me:pw'', ''awsendpoint = '' @ ''minio:9000'', ''awsenablehttps = '' @ ''0'',
         ''awsregion = '' @ ''us-east-2'', getCAFile (vdb (exampleState\<lparr>vdb := ko_Vdb createdObjs\<rparr>))]
         @ [newline, tab, tab]), Done), exampleState\<lparr>vdb := ko_Vdb createdObjs, world := world exampleState\<rparr>)"
    by (rule s3_parameters_roundtrip [OF Create_example s3 q r _ _ _ _ _ _ _ _ _ get data])
       (simp_all add: strings_HasSuffix_def strings_HasPrefix_def newline_def)
  then show ?thesis by (simp add: getCAFile_def createdObjs_communal)
qed

end
